(* ===== verification/Prelude.thy ===== *)
theory Prelude
  imports Main "HOL-Library.Word"
begin

text \<open>
  What every component of the model shares: Go's errors as values, the results
  that carry them, operations that read and write a state, instants and
  durations, and the automation the component theories build on.

  An operation of the program that can fail has a result of type
  \<^typ>\<open>'e + 'a\<close>, with \<^const>\<open>Inl\<close> for the error. An operation that also changes a
  state is a function from the state to a pair of such a result and the new
  state. The combinators \<open>bindR\<close> and \<open>bindE\<close> are Go's
  \<^verbatim>\<open>x, err := f(); if err != nil { return err }\<close>.
\<close>

named_theorems res_simps \<open>how a composed result can be a success or an error\<close>
named_theorems pres_intros \<open>state predicates kept by composed operations\<close>

section \<open>Errors\<close>

text \<open>The sentinel errors, one datatype per package that declares them.\<close>

datatype pkcs11_sentinel =
    ErrEmptyPIN
  | ErrSessionClosed
  | ErrSessionExpired
  | ErrAdapterClosed
  | ErrUnsupportedCurve
  | ErrUnsupportedKeySize
  | ErrTokenAlreadyLoggedIn

datatype findkey_sentinel = Pk11_ErrKeyNotFound | ErrAmbiguousLabel

datatype role_sentinel = ErrUnknownRole | ErrUnknownAdapter

datatype ca_sentinel =
    Ca_ErrKeyNotFound
  | ErrRootCertificateRejected
  | ErrNotAnIntermediate
  | ErrIssuerNotValid
  | ErrValidityExceedsIssuer
  | ErrKeyCertMismatch
  | ErrInvalidCSRSignature
  | ErrEmptySubject
  | ErrDisallowedKeyType
  | ErrNoDistributionPoints
  | ErrNameNotAllowed
  | ErrSubjectNotAllowed
  | ErrValidityExceedsPolicy
  | ErrNotAServiceCertificate

datatype store_sentinel = ErrCertNotFound | ErrDuplicateSerial | ErrInvalidRevocationReason

datatype signingkey_sentinel = ErrLabelTaken | ErrDuplicateKey | ErrCAHierarchyKeyPresent

datatype inventory_sentinel = ErrInvalid | ErrExpired

datatype sentinel =
    Pkcs11 pkcs11_sentinel
  | FindKey findkey_sentinel
  | RoleErr role_sentinel
  | CaErr ca_sentinel
  | StoreErr store_sentinel
  | ProfileErrUnknown
  | ErrNotEntitled
  | SigningKey signingkey_sentinel
  | InventoryErr inventory_sentinel
  | ErrKeylessBundle

text \<open>
  A Go error is a sentinel, a return code of the PKCS#11 module, a message, or
  a message wrapped around another error with the verb \<^verbatim>\<open>%w\<close>. The text is
  abbreviated to the words that tell one return from another. \<open>Hang\<close> stands for
  a call that never returns: what follows it in the model over-approximates the
  code, and the calls that loop are shown to return where they do.
\<close>

datatype go_error =
    Sentinel sentinel
  | Ckr nat
  | Errorf string
  | Hang
  | Wrap string go_error

fun errors_is :: "go_error \<Rightarrow> sentinel \<Rightarrow> bool" where
  "errors_is (Sentinel s) t = (s = t)"
| "errors_is (Ckr _) t = False"
| "errors_is (Errorf _) t = False"
| "errors_is Hang t = False"
| "errors_is (Wrap _ e) t = errors_is e t"

fun errors_as_ckr :: "go_error \<Rightarrow> nat option" where
  "errors_as_ckr (Sentinel _) = None"
| "errors_as_ckr (Ckr n) = Some n"
| "errors_as_ckr (Errorf _) = None"
| "errors_as_ckr Hang = None"
| "errors_as_ckr (Wrap _ e) = errors_as_ckr e"

section \<open>Results\<close>

type_synonym 'a res = "go_error + 'a"

definition bindR :: "'e + 'a \<Rightarrow> ('a \<Rightarrow> 'e + 'b) \<Rightarrow> 'e + 'b" where
  "bindR r f = (case r of Inl e \<Rightarrow> Inl e | Inr x \<Rightarrow> f x)"

definition require :: "bool \<Rightarrow> 'e \<Rightarrow> 'e + unit" where
  "require b e = (if b then Inr () else Inl e)"

definition wrapR :: "string \<Rightarrow> 'a res \<Rightarrow> 'a res" where
  "wrapR msg r = (case r of Inl e \<Rightarrow> Inl (Wrap msg e) | Inr x \<Rightarrow> Inr x)"

definition is_ok :: "'e + 'a \<Rightarrow> bool" where
  "is_ok r \<longleftrightarrow> (case r of Inl _ \<Rightarrow> False | Inr _ \<Rightarrow> True)"

lemma bindR_simps [simp]:
  "bindR (Inl e) f = Inl e"
  "bindR (Inr x) f = f x"
  by (simp_all add: bindR_def)

lemma bindR_eq_Inr [res_simps]: "bindR r f = Inr y \<longleftrightarrow> (\<exists>x. r = Inr x \<and> f x = Inr y)"
  by (cases r) simp_all

lemma bindR_eq_Inl [res_simps]:
  "bindR r f = Inl e \<longleftrightarrow> r = Inl e \<or> (\<exists>x. r = Inr x \<and> f x = Inl e)"
  by (cases r) simp_all

lemma require_eq_Inr [res_simps]: "require b e = Inr u \<longleftrightarrow> b"
  by (simp add: require_def)

lemma require_eq_Inl [res_simps]: "require b e = Inl e' \<longleftrightarrow> \<not> b \<and> e' = e"
  by (auto simp: require_def)

lemma require_simps [simp]: "require True e = Inr ()" "require False e = Inl e"
  by (simp_all add: require_def)

lemma wrapR_simps [simp]: "wrapR m (Inl e) = Inl (Wrap m e)" "wrapR m (Inr x) = Inr x"
  by (simp_all add: wrapR_def)

lemma wrapR_eq_Inr [res_simps]: "wrapR m r = Inr x \<longleftrightarrow> r = Inr x"
  by (cases r) simp_all

lemma wrapR_eq_Inl [res_simps]: "wrapR m r = Inl e \<longleftrightarrow> (\<exists>e'. r = Inl e' \<and> e = Wrap m e')"
  by (cases r) auto

lemma is_ok_simps [simp]: "is_ok (Inl e) = False" "is_ok (Inr x) = True"
  by (simp_all add: is_ok_def)

lemma is_ok_iff [res_simps]: "is_ok r \<longleftrightarrow> (\<exists>x. r = Inr x)"
  by (cases r) simp_all

lemma is_ok_fstE: "is_ok (fst x) \<Longrightarrow> (\<And>y. x = (Inr y, snd x) \<Longrightarrow> P) \<Longrightarrow> P"
  by (cases x) (auto simp: is_ok_iff)

lemma is_ok_fst_unit: "is_ok (fst x) \<Longrightarrow> x = (Inr (), snd x)"
  by (cases x) (auto simp: is_ok_iff)

text \<open>A loop over a list that stops at the first error, and one that collects results.\<close>

fun forR :: "('a \<Rightarrow> 'e + unit) \<Rightarrow> 'a list \<Rightarrow> 'e + unit" where
  "forR f [] = Inr ()"
| "forR f (x # xs) = bindR (f x) (\<lambda>_. forR f xs)"

fun mapR :: "('a \<Rightarrow> 'e + 'b) \<Rightarrow> 'a list \<Rightarrow> 'e + 'b list" where
  "mapR f [] = Inr []"
| "mapR f (x # xs) = bindR (f x) (\<lambda>y. bindR (mapR f xs) (\<lambda>ys. Inr (y # ys)))"

lemma forR_eq_Inr [res_simps]: "forR f xs = Inr u \<longleftrightarrow> (\<forall>x \<in> set xs. f x = Inr ())"
  by (induction xs) (auto simp: res_simps)

lemma forR_Inl_split:
  "forR f xs = Inl e \<Longrightarrow> \<exists>ys x zs. xs = ys @ x # zs \<and> (\<forall>y \<in> set ys. f y = Inr ()) \<and> f x = Inl e"
proof (induction xs)
  case Nil
  then show ?case by simp
next
  case (Cons x xs)
  then consider "f x = Inl e" | u where "f x = Inr u" "forR f xs = Inl e"
    by (auto simp: res_simps)
  then show ?case
  proof cases
    case 1
    then show ?thesis by (intro exI [of _ "[]"]) auto
  next
    case 2
    with Cons.IH obtain ys x' zs
      where "xs = ys @ x' # zs" "\<forall>y \<in> set ys. f y = Inr ()" "f x' = Inl e" by blast
    with 2 show ?thesis by (intro exI [of _ "x # ys"]) auto
  qed
qed

lemma mapR_eq_Inr [res_simps]: "mapR f xs = Inr ys \<longleftrightarrow> map f xs = map Inr ys"
  by (induction xs arbitrary: ys) (auto simp: res_simps Cons_eq_map_conv map_eq_Cons_conv)

lemma mapR_mem: "mapR f xs = Inr ys \<Longrightarrow> y \<in> set ys \<longleftrightarrow> (\<exists>x \<in> set xs. f x = Inr y)"
  by (induction xs arbitrary: ys) (auto simp: bindR_eq_Inr)

section \<open>Operations on a state\<close>

type_synonym ('s, 'a) eff = "'s \<Rightarrow> 'a res \<times> 's"

definition returnE :: "'a \<Rightarrow> ('s, 'a) eff" where
  "returnE x s = (Inr x, s)"

definition throwE :: "go_error \<Rightarrow> ('s, 'a) eff" where
  "throwE e s = (Inl e, s)"

definition bindE :: "('s, 'a) eff \<Rightarrow> ('a \<Rightarrow> ('s, 'b) eff) \<Rightarrow> ('s, 'b) eff" where
  "bindE f g s = (case f s of (Inl e, s') \<Rightarrow> (Inl e, s') | (Inr x, s') \<Rightarrow> g x s')"

definition getsE :: "('s \<Rightarrow> 'a) \<Rightarrow> ('s, 'a) eff" where
  "getsE f s = (Inr (f s), s)"

definition modifyE :: "('s \<Rightarrow> 's) \<Rightarrow> ('s, unit) eff" where
  "modifyE g s = (Inr (), g s)"

text \<open>\<open>tryE\<close> hands the whole result on, for code that inspects the error.\<close>

definition tryE :: "('s, 'a) eff \<Rightarrow> ('a res \<Rightarrow> ('s, 'b) eff) \<Rightarrow> ('s, 'b) eff" where
  "tryE f g s = (case f s of (r, s') \<Rightarrow> g r s')"

definition liftE :: "'a res \<Rightarrow> ('s, 'a) eff" where
  "liftE r s = (r, s)"

definition wrapE :: "string \<Rightarrow> ('s, 'a) eff \<Rightarrow> ('s, 'a) eff" where
  "wrapE msg f s = (case f s of (r, s') \<Rightarrow> (wrapR msg r, s'))"

text \<open>
  Go's \<^verbatim>\<open>defer\<close> with a named error result: the deferred call runs on every path,
  and its own error is reported only where there was none.
\<close>

definition deferE :: "('s, unit) eff \<Rightarrow> string \<Rightarrow> ('s, 'a) eff \<Rightarrow> ('s, 'a \<times> go_error option) eff" where
  "deferE cleanup msg f s =
     (case f s of (r, s1) \<Rightarrow> (case cleanup s1 of (c, s2) \<Rightarrow>
        (case r of Inl e \<Rightarrow> (Inl e, s2)
         | Inr x \<Rightarrow> (case c of Inl e \<Rightarrow> (Inr (x, Some (Wrap msg e)), s2)
                     | Inr _ \<Rightarrow> (Inr (x, None), s2)))))"

text \<open>\<^verbatim>\<open>defer f()\<close> with the deferred result ignored.\<close>

definition finallyE :: "('s, 'c) eff \<Rightarrow> ('s, 'a) eff \<Rightarrow> ('s, 'a) eff" where
  "finallyE cleanup f s = (case f s of (r, s1) \<Rightarrow> (r, snd (cleanup s1)))"

fun forE :: "('a \<Rightarrow> ('s, unit) eff) \<Rightarrow> 'a list \<Rightarrow> ('s, unit) eff" where
  "forE f [] = returnE ()"
| "forE f (x # xs) = bindE (f x) (\<lambda>_. forE f xs)"

fun mapE :: "('a \<Rightarrow> ('s, 'b) eff) \<Rightarrow> 'a list \<Rightarrow> ('s, 'b list) eff" where
  "mapE f [] = returnE []"
| "mapE f (x # xs) = bindE (f x) (\<lambda>y. bindE (mapE f xs) (\<lambda>ys. returnE (y # ys)))"

lemma returnE_apply [simp]: "returnE x s = (Inr x, s)"
  by (simp add: returnE_def)

lemma throwE_apply [simp]: "throwE e s = (Inl e, s)"
  by (simp add: throwE_def)

lemma liftE_apply [simp]: "liftE r s = (r, s)"
  by (simp add: liftE_def)

lemma getsE_apply [simp]: "getsE f s = (Inr (f s), s)"
  by (simp add: getsE_def)

lemma modifyE_apply [simp]: "modifyE g s = (Inr (), g s)"
  by (simp add: modifyE_def)

lemma bindE_eq_Inr [res_simps]:
  "bindE f g s = (Inr y, s') \<longleftrightarrow> (\<exists>x s1. f s = (Inr x, s1) \<and> g x s1 = (Inr y, s'))"
  by (auto simp: bindE_def split: prod.splits sum.splits)

lemma bindE_eq_Inl [res_simps]:
  "bindE f g s = (Inl e, s') \<longleftrightarrow>
     f s = (Inl e, s') \<or> (\<exists>x s1. f s = (Inr x, s1) \<and> g x s1 = (Inl e, s'))"
  by (auto simp: bindE_def split: prod.splits sum.splits)

lemma bindE_step [simp]:
  "f s = (Inl e, s') \<Longrightarrow> bindE f g s = (Inl e, s')"
  "f s = (Inr x, s') \<Longrightarrow> bindE f g s = g x s'"
  by (simp_all add: bindE_def)

lemma tryE_step [simp]: "f s = (r, s') \<Longrightarrow> tryE f g s = g r s'"
  by (simp add: tryE_def)

lemma tryE_eq [res_simps]: "tryE f g s = y \<longleftrightarrow> (\<exists>r s1. f s = (r, s1) \<and> g r s1 = y)"
  by (auto simp: tryE_def split: prod.splits)

lemma wrapE_step [simp]: "f s = (r, s') \<Longrightarrow> wrapE m f s = (wrapR m r, s')"
  by (simp add: wrapE_def)

lemma wrapE_eq_Inr [res_simps]: "wrapE m f s = (Inr x, s') \<longleftrightarrow> f s = (Inr x, s')"
  by (auto simp: wrapE_def res_simps split: prod.splits)

lemma wrapE_eq_Inl [res_simps]:
  "wrapE m f s = (Inl e, s') \<longleftrightarrow> (\<exists>e'. f s = (Inl e', s') \<and> e = Wrap m e')"
  by (auto simp: wrapE_def res_simps split: prod.splits)

lemma finallyE_eq [res_simps]:
  "finallyE c f s = (r, s') \<longleftrightarrow> (\<exists>s1. f s = (r, s1) \<and> s' = snd (c s1))"
  by (auto simp: finallyE_def split: prod.splits)

subsection \<open>Predicates an operation keeps\<close>

definition preserves :: "('s \<Rightarrow> bool) \<Rightarrow> ('s \<Rightarrow> 'r \<times> 's) \<Rightarrow> bool" where
  "preserves P f \<longleftrightarrow> (\<forall>s. P s \<longrightarrow> P (snd (f s)))"

text \<open>
  The partial-correctness triple of a stateful operation: from a state where
  \<open>P\<close> holds, the result and the new state satisfy \<open>Q\<close>, errors included.
\<close>

definition triple :: "('s \<Rightarrow> bool) \<Rightarrow> ('s \<Rightarrow> 'r \<times> 's) \<Rightarrow> ('r \<Rightarrow> 's \<Rightarrow> bool) \<Rightarrow> bool" where
  "triple P f Q \<longleftrightarrow> (\<forall>s. P s \<longrightarrow> Q (fst (f s)) (snd (f s)))"

lemma preservesI: "(\<And>s. P s \<Longrightarrow> P (snd (f s))) \<Longrightarrow> preserves P f"
  by (simp add: preserves_def)

lemma preservesD: "preserves P f \<Longrightarrow> P s \<Longrightarrow> f s = (r, s') \<Longrightarrow> P s'"
  by (metis preserves_def snd_conv)

lemma preserves_snd: "preserves P f \<Longrightarrow> P s \<Longrightarrow> P (snd (f s))"
  by (simp add: preserves_def)

lemma preserves_returnE [pres_intros]: "preserves P (returnE x)"
  by (simp add: preserves_def)

lemma preserves_throwE [pres_intros]: "preserves P (throwE e)"
  by (simp add: preserves_def)

lemma preserves_liftE [pres_intros]: "preserves P (liftE r)"
  by (simp add: preserves_def)

lemma preserves_getsE [pres_intros]: "preserves P (getsE f)"
  by (simp add: preserves_def)

lemma preserves_modifyE [pres_intros]: "(\<And>s. P s \<Longrightarrow> P (g s)) \<Longrightarrow> preserves P (modifyE g)"
  by (simp add: preserves_def)

lemma preserves_bindE [pres_intros]:
  "preserves P f \<Longrightarrow> (\<And>x. preserves P (g x)) \<Longrightarrow> preserves P (bindE f g)"
  by (auto simp: preserves_def bindE_def split: prod.splits sum.splits)

lemma preserves_tryE [pres_intros]:
  "preserves P f \<Longrightarrow> (\<And>r. preserves P (g r)) \<Longrightarrow> preserves P (tryE f g)"
  by (auto simp: preserves_def tryE_def split: prod.splits)

lemma preserves_wrapE [pres_intros]: "preserves P f \<Longrightarrow> preserves P (wrapE m f)"
  by (auto simp: preserves_def wrapE_def split: prod.splits)

lemma preserves_finallyE [pres_intros]:
  "preserves P f \<Longrightarrow> preserves P c \<Longrightarrow> preserves P (finallyE c f)"
  by (auto simp: preserves_def finallyE_def split: prod.splits)

lemma preserves_deferE [pres_intros]:
  "preserves P f \<Longrightarrow> preserves P c \<Longrightarrow> preserves P (deferE c m f)"
  by (auto simp: preserves_def deferE_def split: prod.splits sum.splits)

lemma preserves_if [pres_intros]:
  "(b \<Longrightarrow> preserves P f) \<Longrightarrow> (\<not> b \<Longrightarrow> preserves P g) \<Longrightarrow> preserves P (if b then f else g)"
  by simp

lemma preserves_sum [pres_intros]:
  "(\<And>x. preserves P (f x)) \<Longrightarrow> (\<And>y. preserves P (g y)) \<Longrightarrow>
    preserves P (case r of Inl x \<Rightarrow> f x | Inr y \<Rightarrow> g y)"
  by (cases r) simp_all

lemma preserves_option [pres_intros]:
  "preserves P f \<Longrightarrow> (\<And>y. preserves P (g y)) \<Longrightarrow>
    preserves P (case r of None \<Rightarrow> f | Some y \<Rightarrow> g y)"
  by (cases r) simp_all

lemma preserves_prod [pres_intros]:
  "(\<And>x y. preserves P (f x y)) \<Longrightarrow> preserves P (case r of (x, y) \<Rightarrow> f x y)"
  by (cases r) simp

lemma preserves_list [pres_intros]:
  "preserves P f \<Longrightarrow> (\<And>x xs. preserves P (g x xs)) \<Longrightarrow>
    preserves P (case r of [] \<Rightarrow> f | x # xs \<Rightarrow> g x xs)"
  by (cases r) simp_all

lemma preserves_forE [pres_intros]: "(\<And>x. preserves P (f x)) \<Longrightarrow> preserves P (forE f xs)"
  by (induction xs) (auto intro: pres_intros)

lemma preserves_mapE [pres_intros]: "(\<And>x. preserves P (f x)) \<Longrightarrow> preserves P (mapE f xs)"
  by (induction xs) (auto intro!: pres_intros)

lemma tripleD: "triple P f Q \<Longrightarrow> P s \<Longrightarrow> f s = (r, s') \<Longrightarrow> Q r s'"
  by (metis triple_def fst_conv snd_conv)

section \<open>Instants and durations\<close>

text \<open>
  An instant is the number of nanoseconds since Go's zero \<^verbatim>\<open>time.Time\<close>, so
  \<^verbatim>\<open>IsZero\<close> is equality with 0. Comparisons and \<^verbatim>\<open>Add\<close> are exact over the
  whole range the program uses. A duration is an int64 count of nanoseconds:
  arithmetic on durations wraps (\<open>int64\<close>), and \<^verbatim>\<open>Sub\<close> saturates.
\<close>

type_synonym time = int
type_synonym duration = int

definition int64 :: "int \<Rightarrow> int" where
  "int64 x = signed_take_bit 63 x"

definition second :: duration where "second = 1000000000"
definition minute :: duration where "minute = 60 * second"
definition hour :: duration where "hour = 60 * minute"

definition time_sub :: "time \<Rightarrow> time \<Rightarrow> duration" where
  "time_sub a b = max (- (2 ^ 63)) (min (2 ^ 63 - 1) (a - b))"

text \<open>\<^verbatim>\<open>t.Truncate(time.Second)\<close> rounds down to a multiple since the zero time.\<close>

definition truncate_second :: "time \<Rightarrow> time" where
  "truncate_second t = t - t mod second"

text \<open>Seconds between the zero time and the Unix epoch.\<close>

definition unix_epoch :: int where "unix_epoch = 62135596800"

definition unix_of :: "time \<Rightarrow> int" where
  "unix_of t = t div second - unix_epoch"

definition of_unix :: "int \<Rightarrow> time" where
  "of_unix s = (s + unix_epoch) * second"

definition unix_milli :: "time \<Rightarrow> int" where
  "unix_milli t = t div 1000000 - unix_epoch * 1000"

lemma int64_range: "- (2 ^ 63) \<le> int64 x \<and> int64 x < 2 ^ 63"
  using signed_take_bit_int_less_exp [of 63 x] signed_take_bit_int_greater_eq_minus_exp [of 63 x]
  by (simp add: int64_def)

lemma int64_id: "- (2 ^ 63) \<le> x \<Longrightarrow> x < 2 ^ 63 \<Longrightarrow> int64 x = x"
  by (simp add: int64_def signed_take_bit_int_eq_self)

lemma truncate_second_le: "truncate_second t \<le> t"
  by (simp add: truncate_second_def second_def)

lemma truncate_second_idem [simp]: "truncate_second (truncate_second t) = truncate_second t"
  by (simp add: truncate_second_def second_def)

lemma of_unix_unix_of: "of_unix (unix_of t) = truncate_second t"
  by (simp add: of_unix_def unix_of_def truncate_second_def second_def
      minus_mod_eq_div_mult [symmetric])

lemma unix_of_truncate [simp]: "unix_of (truncate_second t) = unix_of t"
  by (simp add: unix_of_def truncate_second_def second_def minus_mod_eq_div_mult)

end
