(* ===== verification/X509.thy ===== *)
theory X509
  imports Prelude
begin

unbundle bit_operations_syntax

text \<open>
  What the program uses of Go's \<^verbatim>\<open>crypto/x509\<close>, \<^verbatim>\<open>crypto/x509/pkix\<close> and the key types:
  names and their RDN sequences, public keys, certificate requests, certificates
  and templates (one Go struct, so one record), the key-usage bits and the
  library's \<^verbatim>\<open>CheckSignatureFrom\<close>. Byte strings are \<^typ>\<open>string\<close>s, one character per
  byte. Encodings and signature checks are fields of \<open>x509_lib\<close>, a
  parameter of every definition that uses them.
\<close>

type_synonym bytes = string
type_synonym oid = "nat list"

section \<open>Names\<close>

record atv =
  at_Type :: oid
  at_Value :: string

record pkix_name =
  n_Country :: "string list"
  n_Organization :: "string list"
  n_OrganizationalUnit :: "string list"
  n_Locality :: "string list"
  n_Province :: "string list"
  n_StreetAddress :: "string list"
  n_PostalCode :: "string list"
  n_SerialNumber :: string
  n_CommonName :: string
  n_Names :: "atv list"

definition empty_name :: pkix_name where
  "empty_name = \<lparr>n_Country = [], n_Organization = [], n_OrganizationalUnit = [], n_Locality = [],
     n_Province = [], n_StreetAddress = [], n_PostalCode = [], n_SerialNumber = [],
     n_CommonName = [], n_Names = []\<rparr>"

definition fill_atv :: "pkix_name \<Rightarrow> atv \<Rightarrow> pkix_name" where
  "fill_atv n a =
     (let n' = n\<lparr>n_Names := n_Names n @ [a]\<rparr>; v = at_Value a in
      if at_Type a = [2, 5, 4, 3] then n'\<lparr>n_CommonName := v\<rparr>
      else if at_Type a = [2, 5, 4, 5] then n'\<lparr>n_SerialNumber := v\<rparr>
      else if at_Type a = [2, 5, 4, 6] then n'\<lparr>n_Country := n_Country n @ [v]\<rparr>
      else if at_Type a = [2, 5, 4, 7] then n'\<lparr>n_Locality := n_Locality n @ [v]\<rparr>
      else if at_Type a = [2, 5, 4, 8] then n'\<lparr>n_Province := n_Province n @ [v]\<rparr>
      else if at_Type a = [2, 5, 4, 9] then n'\<lparr>n_StreetAddress := n_StreetAddress n @ [v]\<rparr>
      else if at_Type a = [2, 5, 4, 10] then n'\<lparr>n_Organization := n_Organization n @ [v]\<rparr>
      else if at_Type a = [2, 5, 4, 11] then n'\<lparr>n_OrganizationalUnit := n_OrganizationalUnit n @ [v]\<rparr>
      else if at_Type a = [2, 5, 4, 17] then n'\<lparr>n_PostalCode := n_PostalCode n @ [v]\<rparr>
      else n')"

text \<open>\<^verbatim>\<open>Name.FillFromRDNSequence\<close>, starting from the name given.\<close>

definition fill_from_rdn :: "pkix_name \<Rightarrow> atv list list \<Rightarrow> pkix_name" where
  "fill_from_rdn n rdns = foldl fill_atv n (concat rdns)"

text \<open>\<^verbatim>\<open>Name.ToRDNSequence\<close>; \<^verbatim>\<open>ExtraNames\<close> is never set by this program.\<close>

definition append_rdns :: "string list \<Rightarrow> oid \<Rightarrow> atv list list" where
  "append_rdns vs t = (if vs = [] then [] else [map (\<lambda>v. \<lparr>at_Type = t, at_Value = v\<rparr>) vs])"

definition to_rdn :: "pkix_name \<Rightarrow> atv list list" where
  "to_rdn n =
     append_rdns (n_Country n) [2, 5, 4, 6] @ append_rdns (n_Organization n) [2, 5, 4, 10] @
     append_rdns (n_OrganizationalUnit n) [2, 5, 4, 11] @ append_rdns (n_Locality n) [2, 5, 4, 7] @
     append_rdns (n_Province n) [2, 5, 4, 8] @ append_rdns (n_StreetAddress n) [2, 5, 4, 9] @
     append_rdns (n_PostalCode n) [2, 5, 4, 17] @
     append_rdns (if n_CommonName n = [] then [] else [n_CommonName n]) [2, 5, 4, 3] @
     append_rdns (if n_SerialNumber n = [] then [] else [n_SerialNumber n]) [2, 5, 4, 5]"

definition common_name :: "string \<Rightarrow> pkix_name" where
  "common_name cn = empty_name\<lparr>n_CommonName := cn\<rparr>"

lemma n_Names_fill_atv [simp]: "n_Names (fill_atv n a) = n_Names n @ [a]"
  by (simp add: fill_atv_def Let_def)

lemma n_Names_foldl_fill: "n_Names (foldl fill_atv n as) = n_Names n @ as"
  by (induction as arbitrary: n) simp_all

lemma n_Names_fill_from_rdn [simp]: "n_Names (fill_from_rdn n rdns) = n_Names n @ concat rdns"
  by (simp add: fill_from_rdn_def n_Names_foldl_fill)

section \<open>Keys\<close>

datatype elliptic = EC_P224 | EC_P256 | EC_P384 | EC_P521 | EC_other string

fun curve_params_name :: "elliptic \<Rightarrow> string" where
  "curve_params_name EC_P224 = ''P-224''"
| "curve_params_name EC_P256 = ''P-256''"
| "curve_params_name EC_P384 = ''P-384''"
| "curve_params_name EC_P521 = ''P-521''"
| "curve_params_name (EC_other s) = s"

datatype public_key =
    EcdsaKey elliptic int int
  | RsaKey nat nat
  | OtherKey string

fun bit_len :: "nat \<Rightarrow> nat" where
  "bit_len n = (if n = 0 then 0 else Suc (bit_len (n div 2)))"

declare bit_len.simps [simp del]

fun is_ecdsa :: "public_key \<Rightarrow> bool" where
  "is_ecdsa (EcdsaKey _ _ _) = True"
| "is_ecdsa _ = False"

datatype crypto_hash = SHA1 | SHA256 | SHA384 | SHA512 | OtherHash nat

fun hash_size :: "crypto_hash \<Rightarrow> nat" where
  "hash_size SHA1 = 20"
| "hash_size SHA256 = 32"
| "hash_size SHA384 = 48"
| "hash_size SHA512 = 64"
| "hash_size (OtherHash n) = n"

section \<open>Requests, certificates and templates\<close>

type_synonym key_usage = "64 word"

definition KU_DigitalSignature :: key_usage where "KU_DigitalSignature = 1"
definition KU_ContentCommitment :: key_usage where "KU_ContentCommitment = 2"
definition KU_KeyEncipherment :: key_usage where "KU_KeyEncipherment = 4"
definition KU_KeyAgreement :: key_usage where "KU_KeyAgreement = 16"
definition KU_CertSign :: key_usage where "KU_CertSign = 32"
definition KU_CRLSign :: key_usage where "KU_CRLSign = 64"

lemmas KU_defs = KU_DigitalSignature_def KU_ContentCommitment_def KU_KeyEncipherment_def
  KU_KeyAgreement_def KU_CertSign_def KU_CRLSign_def

datatype ext_key_usage =
    EKU_ServerAuth | EKU_ClientAuth | EKU_CodeSigning | EKU_EmailProtection | EKU_TimeStamping
  | EKU_OCSPSigning | EKU_other nat

record extension =
  ext_Id :: oid
  ext_Value :: bytes

record csr =
  csr_PublicKey :: public_key
  csr_Subject :: pkix_name
  csr_DNSNames :: "string list"
  csr_IPAddresses :: "string list"
  csr_URIs :: "string list"
  csr_EmailAddresses :: "string list"

record certificate =
  c_Raw :: bytes
  c_RawSubject :: bytes
  c_RawSubjectPublicKeyInfo :: bytes
  c_Version :: nat
  c_SerialNumber :: int
  c_Subject :: pkix_name
  c_NotBefore :: time
  c_NotAfter :: time
  c_PublicKey :: public_key
  c_KeyUsage :: key_usage
  c_ExtKeyUsage :: "ext_key_usage list"
  c_BasicConstraintsValid :: bool
  c_IsCA :: bool
  c_MaxPathLen :: int
  c_MaxPathLenZero :: bool
  c_SubjectKeyId :: bytes
  c_AuthorityKeyId :: bytes
  c_DNSNames :: "string list"
  c_IPAddresses :: "string list"
  c_EmailAddresses :: "string list"
  c_URIs :: "string list"
  c_CRLDistributionPoints :: "string list"
  c_IssuingCertificateURL :: "string list"
  c_OCSPServer :: "string list"
  c_ExtraExtensions :: "extension list"

text \<open>The zero value of the struct, which a template literal starts from.\<close>

definition zero_cert :: certificate where
  "zero_cert = \<lparr>c_Raw = [], c_RawSubject = [], c_RawSubjectPublicKeyInfo = [], c_Version = 0, c_SerialNumber = 0, c_Subject = empty_name,
     c_NotBefore = 0, c_NotAfter = 0, c_PublicKey = OtherKey [], c_KeyUsage = 0, c_ExtKeyUsage = [],
     c_BasicConstraintsValid = False, c_IsCA = False, c_MaxPathLen = 0, c_MaxPathLenZero = False,
     c_SubjectKeyId = [], c_AuthorityKeyId = [], c_DNSNames = [], c_IPAddresses = [],
     c_EmailAddresses = [], c_URIs = [], c_CRLDistributionPoints = [], c_IssuingCertificateURL = [],
     c_OCSPServer = [], c_ExtraExtensions = []\<rparr>"

record revoked_entry =
  re_SerialNumber :: int
  re_RevocationTime :: time
  re_ReasonCode :: int

record revocation_list =
  rl_Number :: int
  rl_ThisUpdate :: time
  rl_NextUpdate :: time
  rl_Entries :: "revoked_entry list"

text \<open>
  The library as a parameter. \<^verbatim>\<open>CreateCertificate\<close> and \<^verbatim>\<open>CreateRevocationList\<close>
  encode what is to be signed, ask the signer for one signature over its hash and
  assemble the result; \<^verbatim>\<open>ParseCertificate\<close> reads a DER certificate back.
\<close>

record x509_lib =
  lib_csr_signature_ok :: "csr \<Rightarrow> bool"
  lib_signature_ok :: "certificate \<Rightarrow> public_key \<Rightarrow> bool"
  lib_marshal_public_key :: "public_key \<Rightarrow> bytes res"
  lib_sha1 :: "bytes \<Rightarrow> bytes"
  lib_sha256 :: "bytes \<Rightarrow> bytes"
  lib_hash_for :: "public_key \<Rightarrow> crypto_hash"
  lib_tbs_certificate :: "certificate \<Rightarrow> certificate \<Rightarrow> public_key \<Rightarrow> bytes res"
  lib_tbs_crl :: "revocation_list \<Rightarrow> certificate \<Rightarrow> bytes res"
  lib_digest :: "crypto_hash \<Rightarrow> bytes \<Rightarrow> bytes"
  lib_verify :: "public_key \<Rightarrow> bytes \<Rightarrow> bytes \<Rightarrow> bool"
  lib_assemble :: "bytes \<Rightarrow> bytes \<Rightarrow> bytes"
  lib_parse_certificate :: "bytes \<Rightarrow> certificate res"
  lib_url_parse :: "string \<Rightarrow> (string \<times> string) res"
  lib_pem_decode :: "bytes \<Rightarrow> (bytes \<times> bytes) option"

text \<open>
  A \<^verbatim>\<open>crypto.Signer\<close>: a public key and an operation that signs a digest. The
  operation may change the state behind it (an HSM session is opened and closed).
\<close>

record 's crypto_signer =
  sg_Public :: public_key
  sg_Sign :: "bytes \<Rightarrow> crypto_hash \<Rightarrow> ('s, bytes) eff"

text \<open>The library checks the signature it was given before it returns it.\<close>

definition sign_tbs :: "x509_lib \<Rightarrow> 's crypto_signer \<Rightarrow> bytes \<Rightarrow> ('s, bytes) eff" where
  "sign_tbs lib signer tbs =
     (let h = lib_hash_for lib (sg_Public signer) in
      bindE (sg_Sign signer (lib_digest lib h tbs) h) (\<lambda>sig.
        if lib_verify lib (sg_Public signer) tbs sig then returnE (lib_assemble lib tbs sig)
        else throwE (Errorf ''x509: signature returned by signer is invalid'')))"

definition create_certificate ::
    "x509_lib \<Rightarrow> certificate \<Rightarrow> certificate \<Rightarrow> public_key \<Rightarrow> 's crypto_signer \<Rightarrow> ('s, bytes) eff" where
  "create_certificate lib template parent pub signer =
     bindE (liftE (lib_tbs_certificate lib template parent pub)) (sign_tbs lib signer)"

definition create_revocation_list ::
    "x509_lib \<Rightarrow> revocation_list \<Rightarrow> certificate \<Rightarrow> 's crypto_signer \<Rightarrow> ('s, bytes) eff" where
  "create_revocation_list lib template issuer signer =
     bindE (liftE (lib_tbs_crl lib template issuer)) (sign_tbs lib signer)"

text \<open>\<^verbatim>\<open>c.CheckSignatureFrom(parent)\<close>: whether it returns no error.\<close>

definition check_signature_from :: "x509_lib \<Rightarrow> certificate \<Rightarrow> certificate \<Rightarrow> bool" where
  "check_signature_from lib c parent \<longleftrightarrow>
     \<not> (c_Version parent = 3 \<and> \<not> c_BasicConstraintsValid parent
        \<or> c_BasicConstraintsValid parent \<and> \<not> c_IsCA parent) \<and>
     \<not> (c_KeyUsage parent \<noteq> 0 \<and> c_KeyUsage parent AND KU_CertSign = 0) \<and>
     (case c_PublicKey parent of OtherKey t \<Rightarrow> t = ''Ed25519'' | _ \<Rightarrow> True) \<and>
     lib_signature_ok lib c (c_PublicKey parent)"

lemma preserves_create_certificate [pres_intros]:
  "(\<And>d h. preserves P (sg_Sign signer d h)) \<Longrightarrow>
    preserves P (create_certificate lib template parent pub signer)"
  by (auto simp: create_certificate_def sign_tbs_def Let_def intro!: pres_intros)

lemma preserves_create_revocation_list [pres_intros]:
  "(\<And>d h. preserves P (sg_Sign signer d h)) \<Longrightarrow>
    preserves P (create_revocation_list lib template issuer signer)"
  by (auto simp: create_revocation_list_def sign_tbs_def Let_def intro!: pres_intros)

lemma create_certificate_Inr:
  "create_certificate lib t parent pub signer s = (Inr der, s') \<Longrightarrow>
    \<exists>tbs sig. lib_tbs_certificate lib t parent pub = Inr tbs \<and>
      lib_verify lib (sg_Public signer) tbs sig \<and> der = lib_assemble lib tbs sig"
  by (auto simp: create_certificate_def sign_tbs_def Let_def res_simps split: if_splits)

lemma create_revocation_list_Inr:
  "create_revocation_list lib t issuer signer s = (Inr der, s') \<Longrightarrow>
    \<exists>tbs sig. lib_tbs_crl lib t issuer = Inr tbs \<and>
      lib_verify lib (sg_Public signer) tbs sig \<and> der = lib_assemble lib tbs sig"
  by (auto simp: create_revocation_list_def sign_tbs_def Let_def res_simps split: if_splits)

end
