(* ===== verification/Regex.thy ===== *)
theory Regex
  imports Prelude
begin

text \<open>
  The part of Go's \<^verbatim>\<open>regexp\<close> the program uses: literal characters, ranges, the dot
  (any character but a newline), alternation, concatenation and repetition, over
  the bytes of a string. \<open>matches\<close> says which strings a pattern
  describes; \<open>rmatch\<close> decides it by derivatives, so patterns can be evaluated.
  \<open>find_all\<close> lists the leftmost, longest, non-overlapping occurrences.
\<close>

section \<open>Patterns and the strings they describe\<close>

datatype cset = Lit char | LitFold char | Range char char | Dot | AnyByte

definition ascii_lower :: "char \<Rightarrow> char" where
  "ascii_lower c = (if 65 \<le> (of_char c :: nat) \<and> (of_char c :: nat) \<le> 90
                    then char_of ((of_char c :: nat) + 32) else c)"

fun in_cset :: "cset \<Rightarrow> char \<Rightarrow> bool" where
  "in_cset (Lit c) d = (d = c)"
| "in_cset (LitFold c) d = (ascii_lower d = ascii_lower c)"
| "in_cset (Range a b) d = ((of_char a :: nat) \<le> of_char d \<and> (of_char d :: nat) \<le> of_char b)"
| "in_cset Dot d = (d \<noteq> CHR 0x0A)"
| "in_cset AnyByte d = True"

datatype regex =
    Never
  | Eps
  | Sym cset
  | Alt regex regex
  | Seq regex regex
  | Star regex

inductive matches :: "regex \<Rightarrow> string \<Rightarrow> bool" where
  matches_Eps: "matches Eps []"
| matches_Sym: "in_cset cs c \<Longrightarrow> matches (Sym cs) [c]"
| matches_AltL: "matches r s \<Longrightarrow> matches (Alt r q) s"
| matches_AltR: "matches q s \<Longrightarrow> matches (Alt r q) s"
| matches_Seq: "matches r s \<Longrightarrow> matches q t \<Longrightarrow> matches (Seq r q) (s @ t)"
| matches_StarNil: "matches (Star r) []"
| matches_StarStep: "matches r s \<Longrightarrow> s \<noteq> [] \<Longrightarrow> matches (Star r) t \<Longrightarrow> matches (Star r) (s @ t)"

inductive_simps matches_Never_iff [simp]: "matches Never s"
inductive_simps matches_Eps_iff [simp]: "matches Eps s"
inductive_simps matches_Sym_iff: "matches (Sym cs) s"
inductive_simps matches_Alt_iff [simp]: "matches (Alt r q) s"
inductive_simps matches_Seq_iff: "matches (Seq r q) s"
inductive_simps matches_Star_iff: "matches (Star r) s"

definition Plus :: "regex \<Rightarrow> regex" where
  "Plus r = Seq r (Star r)"

fun lits :: "string \<Rightarrow> regex" where
  "lits [] = Eps"
| "lits (c # cs) = Seq (Sym (Lit c)) (lits cs)"

fun alts :: "regex list \<Rightarrow> regex" where
  "alts [] = Never"
| "alts [r] = r"
| "alts (r # rs) = Alt r (alts rs)"

fun seqs :: "regex list \<Rightarrow> regex" where
  "seqs [] = Eps"
| "seqs [r] = r"
| "seqs (r # rs) = Seq r (seqs rs)"

definition digit :: cset where "digit = Range (CHR ''0'') (CHR ''9'')"

section \<open>Deciding a match\<close>

fun nullable :: "regex \<Rightarrow> bool" where
  "nullable Never = False"
| "nullable Eps = True"
| "nullable (Sym _) = False"
| "nullable (Alt r q) = (nullable r \<or> nullable q)"
| "nullable (Seq r q) = (nullable r \<and> nullable q)"
| "nullable (Star _) = True"

text \<open>Smart constructors keep the derivatives of a closed pattern small.\<close>

fun seq :: "regex \<Rightarrow> regex \<Rightarrow> regex" where
  "seq Never q = Never"
| "seq Eps q = q"
| "seq r q = (if q = Never then Never else Seq r q)"

fun alt :: "regex \<Rightarrow> regex \<Rightarrow> regex" where
  "alt Never q = q"
| "alt r q = (if q = Never \<or> q = r then r else Alt r q)"

fun deriv :: "char \<Rightarrow> regex \<Rightarrow> regex" where
  "deriv c Never = Never"
| "deriv c Eps = Never"
| "deriv c (Sym cs) = (if in_cset cs c then Eps else Never)"
| "deriv c (Alt r q) = alt (deriv c r) (deriv c q)"
| "deriv c (Seq r q) =
     (if nullable r then alt (seq (deriv c r) q) (deriv c q) else seq (deriv c r) q)"
| "deriv c (Star r) = seq (deriv c r) (Star r)"

fun rmatch :: "regex \<Rightarrow> string \<Rightarrow> bool" where
  "rmatch r [] = nullable r"
| "rmatch r (c # s) = rmatch (deriv c r) s"

lemma nullable_iff: "nullable r \<longleftrightarrow> matches r []"
  by (induction r) (auto simp: matches_Sym_iff matches_Seq_iff intro: matches_StarNil)

lemma matches_seq: "matches (seq r q) s \<longleftrightarrow> matches (Seq r q) s"
  by (cases "(r, q)" rule: seq.cases) (auto simp: matches_Seq_iff)

lemma matches_alt: "matches (alt r q) s \<longleftrightarrow> matches (Alt r q) s"
  by (cases "(r, q)" rule: alt.cases) auto

lemma matches_Seq_Cons:
  "matches (Seq r q) (c # s) \<longleftrightarrow>
     (\<exists>u v. s = u @ v \<and> matches r (c # u) \<and> matches q v) \<or>
     matches r [] \<and> matches q (c # s)"
  by (auto simp: matches_Seq_iff Cons_eq_append_conv append_eq_Cons_conv)

lemma matches_Star_Cons:
  "matches (Star r) (c # s) \<longleftrightarrow>
     (\<exists>u v. s = u @ v \<and> matches r (c # u) \<and> matches (Star r) v)"
proof
  assume "matches (Star r) (c # s)"
  then obtain a b where ab: "c # s = a @ b" "matches r a" "a \<noteq> []" "matches (Star r) b"
    by (auto simp: matches_Star_iff [of r "c # s"])
  then obtain u where "a = c # u" "s = u @ b" by (cases a) auto
  with ab show "\<exists>u v. s = u @ v \<and> matches r (c # u) \<and> matches (Star r) v" by blast
next
  assume "\<exists>u v. s = u @ v \<and> matches r (c # u) \<and> matches (Star r) v"
  then obtain u v where "s = u @ v" "matches r (c # u)" "matches (Star r) v" by blast
  then show "matches (Star r) (c # s)" using matches_StarStep [of r "c # u" v] by simp
qed

lemma deriv_correct: "matches (deriv c r) s \<longleftrightarrow> matches r (c # s)"
proof (induction r arbitrary: s)
  case (Seq r q)
  have "matches (Seq (deriv c r) q) s \<longleftrightarrow> (\<exists>u v. s = u @ v \<and> matches r (c # u) \<and> matches q v)"
    by (auto simp: matches_Seq_iff Seq.IH)
  then show ?case
    by (simp add: matches_Seq_Cons matches_alt matches_seq nullable_iff Seq.IH)
next
  case (Star r)
  then show ?case by (auto simp: matches_Star_Cons matches_seq matches_Seq_iff)
qed (auto simp: matches_Sym_iff matches_alt)

lemma rmatch_correct: "rmatch r s \<longleftrightarrow> matches r s"
  by (induction s arbitrary: r) (simp_all add: nullable_iff deriv_correct)

section \<open>Lemmas on the usual shapes\<close>

lemma matches_lits [simp]: "matches (lits w) s \<longleftrightarrow> s = w"
  by (induction w arbitrary: s) (auto simp: matches_Seq_iff matches_Sym_iff)

lemma matches_Star_Sym: "matches (Star (Sym cs)) s \<longleftrightarrow> (\<forall>c \<in> set s. in_cset cs c)"
proof (induction s)
  case Nil
  show ?case by (simp add: matches_StarNil)
next
  case (Cons c s)
  then show ?case by (auto simp: matches_Star_Cons matches_Sym_iff)
qed

lemma matches_Plus_Sym:
  "matches (Plus (Sym cs)) s \<longleftrightarrow> s \<noteq> [] \<and> (\<forall>c \<in> set s. in_cset cs c)"
  by (cases s) (simp_all add: Plus_def matches_Seq_Cons matches_Sym_iff matches_Star_Sym
      matches_Seq_iff [of _ _ "[]"])

lemma matches_alts: "matches (alts rs) s \<longleftrightarrow> (\<exists>r \<in> set rs. matches r s)"
  by (induction rs rule: alts.induct) auto

section \<open>Searching\<close>

text \<open>\<^verbatim>\<open>re.MatchString\<close> without anchors: an occurrence anywhere.\<close>

definition search :: "regex \<Rightarrow> string \<Rightarrow> bool" where
  "search r s = rmatch (Seq (Star (Sym AnyByte)) (Seq r (Star (Sym AnyByte)))) s"

lemma search_iff: "search r s \<longleftrightarrow> (\<exists>a m b. s = a @ m @ b \<and> matches r m)"
proof -
  have any: "matches (Star (Sym AnyByte)) t" for t by (simp add: matches_Star_Sym)
  show ?thesis by (auto simp: search_def rmatch_correct matches_Seq_iff any)
qed

text \<open>The longest prefix of a string that a pattern describes.\<close>

fun longest_prefix :: "regex \<Rightarrow> string \<Rightarrow> string option" where
  "longest_prefix r [] = (if nullable r then Some [] else None)"
| "longest_prefix r (c # s) =
     (case longest_prefix (deriv c r) s of
        Some p \<Rightarrow> Some (c # p)
      | None \<Rightarrow> if nullable r then Some [] else None)"

lemma longest_prefix_Some:
  "longest_prefix r s = Some p \<Longrightarrow> matches r p \<and> (\<exists>t. s = p @ t)"
  by (induction r s arbitrary: p rule: longest_prefix.induct)
    (auto simp: nullable_iff deriv_correct split: option.splits if_splits)

lemma longest_prefix_max:
  "matches r p \<Longrightarrow> \<exists>q. longest_prefix r (p @ t) = Some q \<and> length p \<le> length q"
proof (induction p arbitrary: r)
  case Nil
  then show ?case by (cases t) (auto simp: nullable_iff split: option.splits)
next
  case (Cons c p)
  then have "matches (deriv c r) p" by (simp add: deriv_correct)
  with Cons.IH obtain q where "longest_prefix (deriv c r) (p @ t) = Some q" "length p \<le> length q"
    by blast
  then show ?case by simp
qed

lemma longest_prefix_None: "longest_prefix r s = None \<longleftrightarrow> (\<forall>p t. s = p @ t \<longrightarrow> \<not> matches r p)"
  using longest_prefix_Some longest_prefix_max by (metis not_Some_eq)

declare longest_prefix.simps(2) [simp del]

text \<open>\<^verbatim>\<open>re.FindAllString(s, -1)\<close> for a pattern that never matches the empty string.\<close>

function find_all :: "regex \<Rightarrow> string \<Rightarrow> string list" where
  "find_all r [] = []"
| "find_all r (c # s) =
     (case longest_prefix r (c # s) of
        Some p \<Rightarrow> if p = [] then find_all r s else p # find_all r (drop (length p) (c # s))
      | None \<Rightarrow> find_all r s)"
  by pat_completeness auto
termination
  by (relation "measure (\<lambda>(r, s). length s)") auto

lemma find_all_sound:
  "m \<in> set (find_all r s) \<Longrightarrow> matches r m \<and> (\<exists>a b. s = a @ m @ b)"
proof (induction r s rule: find_all.induct)
  case (1 r)
  then show ?case by simp
next
  case (2 r c s)
  show ?case
  proof (cases "longest_prefix r (c # s)")
    case None
    with 2 obtain a b where "matches r m" "s = a @ m @ b" by auto
    then show ?thesis by (metis append_Cons)
  next
    case (Some p)
    show ?thesis
    proof (cases "p = []")
      case True
      with 2 Some obtain a b where "matches r m" "s = a @ m @ b" by auto
      then show ?thesis by (metis append_Cons)
    next
      case False
      from longest_prefix_Some [OF Some] obtain t where t: "matches r p" "c # s = p @ t" by blast
      from "2.prems" Some False consider "m = p" | "m \<in> set (find_all r (drop (length p) (c # s)))"
        by auto
      then show ?thesis
      proof cases
        case 1
        with t show ?thesis by (metis append_Nil)
      next
        case 2
        with "2.IH"(3) [OF Some False] obtain a b where
          "matches r m" "drop (length p) (c # s) = a @ m @ b" by blast
        with t have "c # s = (p @ a) @ m @ b" by simp
        with \<open>matches r m\<close> show ?thesis by blast
      qed
    qed
  qed
qed

lemma find_all_Nil_iff:
  assumes "\<not> matches r []"
  shows "find_all r s = [] \<longleftrightarrow> \<not> search r s"
proof (induction s)
  case Nil
  from assms show ?case by (auto simp: search_iff)
next
  case (Cons c s)
  have sub: "search r (c # s) \<longleftrightarrow> search r s \<or> (\<exists>p t. c # s = p @ t \<and> matches r p)"
    by (auto simp: search_iff Cons_eq_append_conv) (metis append_Cons append_Nil)+
  show ?case
  proof (cases "longest_prefix r (c # s)")
    case None
    then have "\<not> (\<exists>p t. c # s = p @ t \<and> matches r p)" by (auto simp: longest_prefix_None)
    with Cons sub None show ?thesis by simp
  next
    case (Some p)
    with longest_prefix_Some [OF Some] assms sub show ?thesis by auto
  qed
qed

end
