(* ===== verification/Store.thy ===== *)
theory Store
  imports X509 Regex Decimal "HOL-Library.AList"
begin

text \<open>
  \<^verbatim>\<open>internal/store\<close>: the record of what the CA issued and revoked, and the CRL
  number counter. \<open>store_ifc\<close> is the Go interface \<^verbatim>\<open>Store\<close>; the locale
  \<open>cert_store\<close> is what its documentation promises, and the clients
  (the HTTP service, the OCSP responder) rest on that locale only. It is
  interpreted on both implementations, \<^verbatim>\<open>Memory\<close> and \<^verbatim>\<open>SQLite\<close>.
\<close>

section \<open>Records\<close>

type_synonym status = string
definition StatusValid :: status where "StatusValid = ''valid''"
definition StatusRevoked :: status where "StatusRevoked = ''revoked''"

lemma status_neq [simp]: "StatusValid \<noteq> StatusRevoked" "StatusRevoked \<noteq> StatusValid"
  by (simp_all add: StatusValid_def StatusRevoked_def)

type_synonym revocation_reason = int

definition reason_valid :: "revocation_reason \<Rightarrow> bool" where
  "reason_valid r \<longleftrightarrow> r \<in> set [0, 1, 2, 3, 4, 5, 6, 9, 10]"

record cert_record =
  cr_Serial :: int
  cr_Subject :: pkix_name
  cr_NotAfter :: time
  cr_Status :: status
  cr_RevokedAt :: time
  cr_RevocationReason :: revocation_reason

definition normalize_time :: "time \<Rightarrow> time" where
  "normalize_time t = truncate_second t"

lemma normalize_time_idem [simp]: "normalize_time (normalize_time t) = normalize_time t"
  by (simp add: normalize_time_def)

lemma normalize_time_0 [simp]: "normalize_time 0 = 0"
  by (simp add: normalize_time_def truncate_second_def)

text \<open>The first CRL number a fresh store hands out.\<close>

definition seed_crl_number :: "time \<Rightarrow> int" where
  "seed_crl_number now = (let ms = unix_milli now in if ms < 1 then 1 else ms)"

lemma seed_crl_number_pos: "0 < seed_crl_number now"
  by (simp add: seed_crl_number_def Let_def)

section \<open>The interface and its contract\<close>

record 's store_ifc =
  st_Record :: "cert_record \<Rightarrow> ('s, unit) eff"
  st_Get :: "int \<Rightarrow> ('s, cert_record option) eff"
  st_Revoke :: "int \<Rightarrow> revocation_reason \<Rightarrow> time \<Rightarrow> ('s, unit) eff"
  st_Revoked :: "('s, cert_record list) eff"
  st_NextCRLNumber :: "time \<Rightarrow> ('s, int) eff"

text \<open>What a revocation makes of the record it finds.\<close>

definition revoke_record :: "revocation_reason \<Rightarrow> time \<Rightarrow> cert_record \<Rightarrow> cert_record" where
  "revoke_record reason at r =
     (if cr_Status r = StatusRevoked then r
      else r\<lparr>cr_Status := StatusRevoked, cr_RevokedAt := normalize_time at,
             cr_RevocationReason := reason\<rparr>)"

text \<open>
  The contract is stated over what a store shows: \<open>view\<close> is the record under each
  serial, \<open>counter\<close> the last CRL number handed out, and \<open>stored\<close> the form in which an
  implementation keeps a record. Every law holds whatever faults the
  implementation meets: an operation that fails changes neither.
\<close>

locale cert_store =
  fixes ops :: "'s store_ifc"
    and view :: "'s \<Rightarrow> int \<Rightarrow> cert_record option"
    and counter :: "'s \<Rightarrow> int option"
    and stored :: "cert_record \<Rightarrow> cert_record"
    and inv :: "'s \<Rightarrow> bool"
  assumes inv_Record: "preserves inv (st_Record ops r)"
    and inv_Get: "preserves inv (st_Get ops k)"
    and inv_Revoke: "preserves inv (st_Revoke ops k reason at)"
    and inv_Revoked: "preserves inv (st_Revoked ops)"
    and inv_Next: "preserves inv (st_NextCRLNumber ops now)"
    and Record_ok: "inv s \<Longrightarrow> st_Record ops r s = (Inr u, s') \<Longrightarrow>
      view s (cr_Serial r) = None \<and> view s' = (view s)(cr_Serial r \<mapsto> stored r)
      \<and> counter s' = counter s"
    and Record_err: "inv s \<Longrightarrow> st_Record ops r s = (Inl e, s') \<Longrightarrow>
      view s' = view s \<and> counter s' = counter s"
    and Get_any: "inv s \<Longrightarrow> st_Get ops k s = (res, s') \<Longrightarrow>
      view s' = view s \<and> counter s' = counter s \<and> (\<forall>rec. res = Inr rec \<longrightarrow> rec = view s k)"
    and Revoke_ok: "inv s \<Longrightarrow> st_Revoke ops k reason at s = (Inr u, s') \<Longrightarrow>
      reason_valid reason \<and> counter s' = counter s \<and>
      (\<exists>r. view s k = Some r \<and> view s' = (view s)(k \<mapsto> revoke_record reason at r))"
    and Revoke_err: "inv s \<Longrightarrow> st_Revoke ops k reason at s = (Inl e, s') \<Longrightarrow>
      view s' = view s \<and> counter s' = counter s"
    and Revoked_any: "inv s \<Longrightarrow> st_Revoked ops s = (lres, s') \<Longrightarrow>
      view s' = view s \<and> counter s' = counter s \<and>
      (\<forall>rs. lres = Inr rs \<longrightarrow>
         set rs = {r. cr_Status r = StatusRevoked \<and> (\<exists>k. view s k = Some r)})"
    and Next_ok: "inv s \<Longrightarrow> st_NextCRLNumber ops now s = (Inr n, s') \<Longrightarrow>
      view s' = view s \<and> counter s' = Some n \<and> 0 < n \<and>
      (\<forall>c. counter s = Some c \<longrightarrow> n = c + 1)"
    and Next_err: "inv s \<Longrightarrow> st_NextCRLNumber ops now s = (Inl e, s') \<Longrightarrow>
      view s' = view s \<and> counter s' = counter s"
    and view_serial: "inv s \<Longrightarrow> view s k = Some r \<Longrightarrow> cr_Serial r = k"
    and stored_fields: "cr_Serial (stored r) = cr_Serial r"
      "cr_Status (stored r) = cr_Status r" "cr_NotAfter (stored r) = normalize_time (cr_NotAfter r)"

text \<open>A client's history: the operations of the interface in any order.\<close>

datatype store_op =
    DoRecord cert_record
  | DoGet int
  | DoRevoke int revocation_reason time
  | DoRevoked
  | DoNext time

text \<open>One operation; a CRL number handed out is returned.\<close>

fun store_step :: "'s store_ifc \<Rightarrow> store_op \<Rightarrow> 's \<Rightarrow> int option \<times> 's" where
  "store_step ops (DoRecord r) s = (None, snd (st_Record ops r s))"
| "store_step ops (DoGet k) s = (None, snd (st_Get ops k s))"
| "store_step ops (DoRevoke k reason at) s = (None, snd (st_Revoke ops k reason at s))"
| "store_step ops DoRevoked s = (None, snd (st_Revoked ops s))"
| "store_step ops (DoNext now) s =
     (case st_NextCRLNumber ops now s of (Inl _, s') \<Rightarrow> (None, s') | (Inr n, s') \<Rightarrow> (Some n, s'))"

lemma store_step_snd:
  "snd (store_step ops (DoRecord r) s) = snd (st_Record ops r s)"
  "snd (store_step ops (DoGet k) s) = snd (st_Get ops k s)"
  "snd (store_step ops (DoRevoke k reason at) s) = snd (st_Revoke ops k reason at s)"
  "snd (store_step ops DoRevoked s) = snd (st_Revoked ops s)"
  "snd (store_step ops (DoNext now) s) = snd (st_NextCRLNumber ops now s)"
  by (simp_all split: prod.split sum.split)

fun store_run :: "'s store_ifc \<Rightarrow> store_op list \<Rightarrow> 's \<Rightarrow> int list \<times> 's" where
  "store_run ops [] s = ([], s)"
| "store_run ops (x # xs) s =
     (case store_step ops x s of (n, s1) \<Rightarrow>
        (case store_run ops xs s1 of (ns, s2) \<Rightarrow> (case n of None \<Rightarrow> ns | Some m \<Rightarrow> m # ns, s2)))"

lemma store_run_Cons:
  "store_run ops (x # xs) s = (ns, s') \<Longrightarrow>
     \<exists>n s1 ns1. store_step ops x s = (n, s1) \<and> store_run ops xs s1 = (ns1, s') \<and>
       ns = (case n of None \<Rightarrow> ns1 | Some m \<Rightarrow> m # ns1)"
  by (simp split: prod.splits)

text \<open>
  How a record may change over a history: it stays, its serial, subject and
  expiry stay, and once it is revoked nothing about it changes again.
\<close>

definition record_evolves :: "cert_record \<Rightarrow> cert_record \<Rightarrow> bool" where
  "record_evolves r r' \<longleftrightarrow>
     cr_Serial r' = cr_Serial r \<and> cr_Subject r' = cr_Subject r \<and> cr_NotAfter r' = cr_NotAfter r \<and>
     (r' = r \<or> cr_Status r \<noteq> StatusRevoked \<and> cr_Status r' = StatusRevoked)"

lemma record_evolves_refl [simp]: "record_evolves r r"
  by (simp add: record_evolves_def)

lemma record_evolves_trans: "record_evolves a b \<Longrightarrow> record_evolves b c \<Longrightarrow> record_evolves a c"
  by (auto simp: record_evolves_def)

lemma record_evolves_revoke: "record_evolves r (revoke_record reason at r)"
  by (simp add: record_evolves_def revoke_record_def)

lemma revoke_record_status [simp]: "cr_Status (revoke_record reason at r) = StatusRevoked"
  by (simp add: revoke_record_def)

context cert_store
begin

lemma step_inv:
  assumes "inv s" "store_step ops x s = (n, s')"
  shows "inv s'"
proof -
  from assms(2) have "s' = snd (store_step ops x s)" by simp
  then show ?thesis
    using preserves_snd [OF inv_Record assms(1)] preserves_snd [OF inv_Get assms(1)]
      preserves_snd [OF inv_Revoke assms(1)] preserves_snd [OF inv_Revoked assms(1)]
      preserves_snd [OF inv_Next assms(1)]
    by (cases x) (simp_all only: store_step_snd)
qed

lemma run_inv: "inv s \<Longrightarrow> store_run ops xs s = (ns, s') \<Longrightarrow> inv s'"
proof (induction xs arbitrary: s ns)
  case Nil
  then show ?case by simp
next
  case (Cons x xs)
  from store_run_Cons [OF Cons.prems(2)] obtain n s1 ns1
    where "store_step ops x s = (n, s1)" "store_run ops xs s1 = (ns1, s')" by blast
  with Cons step_inv show ?case by blast
qed

lemma step_record:
  assumes "inv s" "store_step ops x s = (n, s')" "view s k = Some r"
  shows "\<exists>r'. view s' k = Some r' \<and> record_evolves r r'"
proof (cases x)
  case (DoRecord q)
  obtain res t where t: "st_Record ops q s = (res, t)" by fastforce
  with DoRecord assms(2) have "t = s'" by simp
  show ?thesis
  proof (cases res)
    case (Inl e)
    with t Record_err [OF assms(1)] assms(3) \<open>t = s'\<close> show ?thesis by simp
  next
    case (Inr u)
    with t Record_ok [OF assms(1)] have
      "view s (cr_Serial q) = None" "view t = (view s)(cr_Serial q \<mapsto> stored q)" by simp_all
    with assms(3) \<open>t = s'\<close> show ?thesis by (intro exI [of _ r]) auto
  qed
next
  case (DoGet q)
  obtain res t where t: "st_Get ops q s = (res, t)" by fastforce
  with DoGet assms(2) have "t = s'" by simp
  with t Get_any [OF assms(1)] assms(3) show ?thesis by simp
next
  case (DoRevoke q reason at)
  obtain res t where t: "st_Revoke ops q reason at s = (res, t)" by fastforce
  with DoRevoke assms(2) have "t = s'" by simp
  show ?thesis
  proof (cases res)
    case (Inl e)
    with t Revoke_err [OF assms(1)] assms(3) \<open>t = s'\<close> show ?thesis by simp
  next
    case (Inr u)
    with t Revoke_ok [OF assms(1)] obtain q' where
      "view s q = Some q'" "view t = (view s)(q \<mapsto> revoke_record reason at q')" by blast
    with assms(3) \<open>t = s'\<close> show ?thesis
      by (cases "k = q") (auto simp: record_evolves_revoke)
  qed
next
  case DoRevoked
  obtain res t where t: "st_Revoked ops s = (res, t)" by fastforce
  with DoRevoked assms(2) have "t = s'" by simp
  with t Revoked_any [OF assms(1)] assms(3) show ?thesis by simp
next
  case (DoNext now)
  obtain res t where t: "st_NextCRLNumber ops now s = (res, t)" by fastforce
  with DoNext assms(2) have "t = s'" by (auto split: sum.splits)
  with t Next_ok [OF assms(1)] Next_err [OF assms(1)] assms(3) show ?thesis by (cases res) simp_all
qed

text \<open>A record never disappears and a revocation is never undone, over any history.\<close>

lemma run_record:
  assumes "inv s" "store_run ops xs s = (ns, s')" "view s k = Some r"
  shows "\<exists>r'. view s' k = Some r' \<and> record_evolves r r'"
  using assms
proof (induction xs arbitrary: s r ns)
  case Nil
  then show ?case by simp
next
  case (Cons x xs)
  from store_run_Cons [OF Cons.prems(2)] obtain n s1 ns1
    where s1: "store_step ops x s = (n, s1)" "store_run ops xs s1 = (ns1, s')" by blast
  from step_record [OF Cons.prems(1) s1(1) Cons.prems(3)] obtain r1
    where r1: "view s1 k = Some r1" "record_evolves r r1" by blast
  from Cons.IH [OF step_inv [OF Cons.prems(1) s1(1)] s1(2) r1(1)] r1(2) show ?case
    by (blast intro: record_evolves_trans)
qed

lemma run_revoked:
  assumes "inv s" "store_run ops xs s = (ns, s')" "view s k = Some r" "cr_Status r = StatusRevoked"
  shows "view s' k = Some r"
  using run_record [OF assms(1-3)] assms(4) by (auto simp: record_evolves_def)

lemma step_counter:
  assumes "inv s" "store_step ops x s = (n, s')"
  shows "(case n of None \<Rightarrow> counter s' = counter s
          | Some m \<Rightarrow> counter s' = Some m \<and> 0 < m \<and> (\<forall>c. counter s = Some c \<longrightarrow> c < m))"
proof (cases x)
  case (DoRecord q)
  obtain res t where t: "st_Record ops q s = (res, t)" by fastforce
  with DoRecord assms(2) have "t = s'" "n = None" by simp_all
  with t Record_ok [OF assms(1)] Record_err [OF assms(1)] show ?thesis by (cases res) simp_all
next
  case (DoGet q)
  obtain res t where t: "st_Get ops q s = (res, t)" by fastforce
  with DoGet assms(2) have "t = s'" "n = None" by simp_all
  with t Get_any [OF assms(1)] show ?thesis by simp
next
  case (DoRevoke q reason at)
  obtain res t where t: "st_Revoke ops q reason at s = (res, t)" by fastforce
  with DoRevoke assms(2) have "t = s'" "n = None" by simp_all
  with t Revoke_ok [OF assms(1)] Revoke_err [OF assms(1)] show ?thesis by (cases res) simp_all
next
  case DoRevoked
  obtain res t where t: "st_Revoked ops s = (res, t)" by fastforce
  with DoRevoked assms(2) have "t = s'" "n = None" by simp_all
  with t Revoked_any [OF assms(1)] show ?thesis by simp
next
  case (DoNext now)
  obtain res t where t: "st_NextCRLNumber ops now s = (res, t)" by fastforce
  show ?thesis
  proof (cases res)
    case (Inl e)
    with DoNext t assms(2) Next_err [OF assms(1)] show ?thesis by auto
  next
    case (Inr m)
    with DoNext t assms(2) have "n = Some m" "t = s'" by simp_all
    with Next_ok [OF assms(1) t [unfolded Inr]] show ?thesis by auto
  qed
qed

text \<open>CRL numbers are positive and strictly increasing, over any history.\<close>

lemma run_numbers:
  assumes "inv s" "store_run ops xs s = (ns, s')"
  shows "sorted_wrt (<) ns \<and> (\<forall>n \<in> set ns. 0 < n \<and> (\<forall>c. counter s = Some c \<longrightarrow> c < n))"
  using assms
proof (induction xs arbitrary: s ns)
  case Nil
  then show ?case by simp
next
  case (Cons x xs)
  from store_run_Cons [OF Cons.prems(2)] obtain n s1 ns1
    where s1: "store_step ops x s = (n, s1)" "store_run ops xs s1 = (ns1, s')"
      "ns = (case n of None \<Rightarrow> ns1 | Some m \<Rightarrow> m # ns1)" by blast
  from Cons.IH [OF step_inv [OF Cons.prems(1) s1(1)] s1(2)] step_counter [OF Cons.prems(1) s1(1)] s1(3)
  show ?case by (cases n) (auto intro: less_trans)
qed

end

end
