(* ===== verification/Store_Memory.thy ===== *)
theory Store_Memory
  imports Store
begin

text \<open>
  \<^verbatim>\<open>internal/store/memory.go\<close>: the in-memory store. The Go map is an association
  list with distinct keys, whose order stands for one iteration order; the laws
  used of it do not depend on the order. The mutex makes each method one step.
\<close>

record memory =
  mem_records :: "(string \<times> cert_record) list"
  mem_crlNumber :: "int option"

definition new_memory :: memory where
  "new_memory = \<lparr>mem_records = [], mem_crlNumber = None\<rparr>"

definition copy_record :: "cert_record \<Rightarrow> cert_record" where
  "copy_record rec =
     (let out = rec\<lparr>cr_NotAfter := normalize_time (cr_NotAfter rec)\<rparr>
      in if cr_RevokedAt rec \<noteq> 0 then out\<lparr>cr_RevokedAt := normalize_time (cr_RevokedAt rec)\<rparr> else out)"

definition memory_Record :: "cert_record \<Rightarrow> (memory, unit) eff" where
  "memory_Record rec m =
     (let key = show_int (cr_Serial rec) in
      case map_of (mem_records m) key of
        Some _ \<Rightarrow> (Inl (Sentinel (StoreErr ErrDuplicateSerial)), m)
      | None \<Rightarrow> (Inr (), m\<lparr>mem_records := AList.update key (copy_record rec) (mem_records m)\<rparr>))"

definition memory_Get :: "int \<Rightarrow> (memory, cert_record option) eff" where
  "memory_Get serial m = (Inr (map_option copy_record (map_of (mem_records m) (show_int serial))), m)"

definition memory_Revoke :: "int \<Rightarrow> revocation_reason \<Rightarrow> time \<Rightarrow> (memory, unit) eff" where
  "memory_Revoke serial reason at m =
     (if \<not> reason_valid reason then (Inl (Wrap ''reason'' (Sentinel (StoreErr ErrInvalidRevocationReason))), m)
      else case map_of (mem_records m) (show_int serial) of
        None \<Rightarrow> (Inl (Sentinel (StoreErr ErrCertNotFound)), m)
      | Some rec \<Rightarrow>
          if cr_Status rec = StatusRevoked then (Inr (), m)
          else (Inr (), m\<lparr>mem_records := AList.update (show_int serial)
                 (rec\<lparr>cr_Status := StatusRevoked, cr_RevokedAt := normalize_time at,
                      cr_RevocationReason := reason\<rparr>) (mem_records m)\<rparr>))"

definition memory_Revoked :: "(memory, cert_record list) eff" where
  "memory_Revoked m =
     (Inr (map copy_record (filter (\<lambda>r. cr_Status r = StatusRevoked) (map snd (mem_records m)))), m)"

definition memory_NextCRLNumber :: "time \<Rightarrow> (memory, int) eff" where
  "memory_NextCRLNumber now m =
     (case mem_crlNumber m of
        None \<Rightarrow> (let n = seed_crl_number now in (Inr n, m\<lparr>mem_crlNumber := Some n\<rparr>))
      | Some c \<Rightarrow> (Inr (c + 1), m\<lparr>mem_crlNumber := Some (c + 1)\<rparr>))"

definition memory_store :: "memory store_ifc" where
  "memory_store = \<lparr>st_Record = memory_Record, st_Get = memory_Get, st_Revoke = memory_Revoke,
     st_Revoked = memory_Revoked, st_NextCRLNumber = memory_NextCRLNumber\<rparr>"

section \<open>The contract\<close>

definition memory_view :: "memory \<Rightarrow> int \<Rightarrow> cert_record option" where
  "memory_view m k = map_of (mem_records m) (show_int k)"

text \<open>
  Keys are distinct, each key is its record's serial in decimal, records are in
  the form \<open>copy_record\<close> leaves them, and the counter is positive.
\<close>

definition memory_inv :: "memory \<Rightarrow> bool" where
  "memory_inv m \<longleftrightarrow> distinct (map fst (mem_records m)) \<and>
     (\<forall>(key, r) \<in> set (mem_records m). key = show_int (cr_Serial r) \<and> copy_record r = r) \<and>
     (\<forall>n. mem_crlNumber m = Some n \<longrightarrow> 0 < n)"

lemma copy_record_simps [simp]:
  "cr_Serial (copy_record r) = cr_Serial r"
  "cr_Subject (copy_record r) = cr_Subject r"
  "cr_Status (copy_record r) = cr_Status r"
  "cr_NotAfter (copy_record r) = normalize_time (cr_NotAfter r)"
  "copy_record (copy_record r) = copy_record r"
  by (simp_all add: copy_record_def Let_def)

lemma copy_record_revoke:
  "copy_record r = r \<Longrightarrow> copy_record (revoke_record reason at r) = revoke_record reason at r"
  by (cases r) (auto simp: copy_record_def revoke_record_def Let_def split: if_splits)

lemma memory_inv_lookup:
  "memory_inv m \<Longrightarrow> map_of (mem_records m) key = Some r \<Longrightarrow>
     key = show_int (cr_Serial r) \<and> copy_record r = r"
  by (auto simp: memory_inv_def dest!: map_of_SomeD)

lemma memory_inv_update:
  assumes "memory_inv m" "copy_record r = r"
  shows "memory_inv (m\<lparr>mem_records := AList.update (show_int (cr_Serial r)) r (mem_records m)\<rparr>)"
proof -
  have "set (AList.update k v al) \<subseteq> insert (k, v) (set al)" for k v and al :: "(string \<times> cert_record) list"
    by (induction al) auto
  with assms show ?thesis by (fastforce simp: memory_inv_def distinct_update)
qed

lemma memory_view_update:
  "memory_view (m\<lparr>mem_records := AList.update (show_int k) r (mem_records m)\<rparr>) =
     (memory_view m)(k \<mapsto> r)"
  by (rule ext) (simp add: memory_view_def update_conv')

lemma memory_revoke_eq:
  assumes "memory_inv m" "map_of (mem_records m) (show_int k) = Some r" "reason_valid reason"
  shows "memory_Revoke k reason at m =
     (Inr (), if cr_Status r = StatusRevoked then m
              else m\<lparr>mem_records := AList.update (show_int k) (revoke_record reason at r) (mem_records m)\<rparr>)"
  using assms by (simp add: memory_Revoke_def revoke_record_def)

lemma memory_Record_cases:
  assumes "memory_inv m" "memory_Record r m = (res, m')"
  shows "(case res of
      Inl e \<Rightarrow> m' = m \<and> memory_view m (cr_Serial r) \<noteq> None
    | Inr _ \<Rightarrow> memory_inv m' \<and> memory_view m (cr_Serial r) = None \<and>
        memory_view m' = (memory_view m)(cr_Serial r \<mapsto> copy_record r) \<and>
        mem_crlNumber m' = mem_crlNumber m)"
  using assms memory_inv_update [of m "copy_record r"]
  by (auto simp: memory_Record_def Let_def memory_view_update split: option.splits)
    (simp_all add: memory_view_def)

lemma memory_Get_cases:
  assumes "memory_inv m" "memory_Get k m = (res, m')"
  shows "m' = m \<and> res = Inr (memory_view m k)"
  using assms memory_inv_lookup [of m "show_int k"]
  by (auto simp: memory_Get_def memory_view_def map_option_case split: option.splits)

lemma memory_Revoke_cases:
  assumes "memory_inv m" "memory_Revoke k reason at m = (res, m')"
  shows "(case res of
      Inl e \<Rightarrow> m' = m
    | Inr _ \<Rightarrow> reason_valid reason \<and> memory_inv m' \<and> mem_crlNumber m' = mem_crlNumber m \<and>
        (\<exists>r. memory_view m k = Some r \<and>
             memory_view m' = (memory_view m)(k \<mapsto> revoke_record reason at r)))"
proof (cases "reason_valid reason \<and> map_of (mem_records m) (show_int k) \<noteq> None")
  case True
  then obtain r where r: "map_of (mem_records m) (show_int k) = Some r" by auto
  with assms(1) have k: "cr_Serial r = k" "copy_record r = r"
    by (auto dest: memory_inv_lookup)
  have "cr_Serial (revoke_record reason at r) = k" using k by (simp add: revoke_record_def)
  with memory_inv_update [OF assms(1) copy_record_revoke [OF k(2), of reason at]]
  have "memory_inv (m\<lparr>mem_records := AList.update (show_int k) (revoke_record reason at r) (mem_records m)\<rparr>)"
    by simp
  moreover from r have "memory_view m k = Some r" by (simp add: memory_view_def)
  ultimately show ?thesis
    using memory_revoke_eq [OF assms(1) r, of reason at] assms True
    by (auto simp: memory_view_update revoke_record_def fun_upd_idem split: if_splits)
next
  case False
  with assms show ?thesis by (auto simp: memory_Revoke_def split: if_splits)
qed

lemma memory_Revoked_cases:
  assumes "memory_inv m" "memory_Revoked m = (res, m')"
  shows "m' = m \<and> (\<exists>rs. res = Inr rs \<and>
     set rs = {r. cr_Status r = StatusRevoked \<and> (\<exists>k. memory_view m k = Some r)})"
proof -
  let ?R = "{r. cr_Status r = StatusRevoked \<and> (\<exists>k. memory_view m k = Some r)}"
  have "(key, r) \<in> set (mem_records m) \<Longrightarrow> copy_record r = r \<and> memory_view m (cr_Serial r) = Some r"
    for key r using assms(1) by (auto simp: memory_inv_def memory_view_def intro!: map_of_is_SomeI)
  then have "copy_record ` {r \<in> snd ` set (mem_records m). cr_Status r = StatusRevoked} = ?R"
    by (force simp: memory_view_def dest: map_of_SomeD)
  with assms(2) show ?thesis by (auto simp: memory_Revoked_def)
qed

lemma memory_Next_cases:
  assumes "memory_inv m" "memory_NextCRLNumber now m = (res, m')"
  shows "\<exists>n. res = Inr n \<and> memory_inv m' \<and> memory_view m' = memory_view m \<and>
     mem_crlNumber m' = Some n \<and> 0 < n \<and> (\<forall>c. mem_crlNumber m = Some c \<longrightarrow> n = c + 1)"
  using assms seed_crl_number_pos [of now]
  by (auto simp: memory_NextCRLNumber_def memory_inv_def memory_view_def Let_def fun_eq_iff
      split: option.splits)

lemma memory_store_ops [simp]:
  "st_Record memory_store = memory_Record" "st_Get memory_store = memory_Get"
  "st_Revoke memory_store = memory_Revoke" "st_Revoked memory_store = memory_Revoked"
  "st_NextCRLNumber memory_store = memory_NextCRLNumber"
  by (simp_all add: memory_store_def)

lemma memory_preserves:
  "preserves memory_inv (memory_Record r)" "preserves memory_inv (memory_Get k)"
  "preserves memory_inv (memory_Revoke k reason at)" "preserves memory_inv memory_Revoked"
  "preserves memory_inv (memory_NextCRLNumber now)"
proof -
  have ok: "memory_inv m \<Longrightarrow> memory_inv (snd (memory_Record r m))" for m
    using memory_Record_cases [of m r] by (cases "memory_Record r m") (auto split: sum.splits)
  have ok2: "memory_inv m \<Longrightarrow> memory_inv (snd (memory_Get k m))" for m
    by (simp add: memory_Get_def)
  have ok3: "memory_inv m \<Longrightarrow> memory_inv (snd (memory_Revoke k reason at m))" for m
    using memory_Revoke_cases [of m k reason at]
    by (cases "memory_Revoke k reason at m") (auto split: sum.splits)
  have ok4: "memory_inv m \<Longrightarrow> memory_inv (snd (memory_NextCRLNumber now m))" for m
    using memory_Next_cases [of m now] by (cases "memory_NextCRLNumber now m") auto
  from ok ok2 ok3 ok4 show "preserves memory_inv (memory_Record r)"
    "preserves memory_inv (memory_Get k)" "preserves memory_inv (memory_Revoke k reason at)"
    "preserves memory_inv memory_Revoked" "preserves memory_inv (memory_NextCRLNumber now)"
    by (simp_all add: preserves_def memory_Revoked_def)
qed

interpretation mem: cert_store memory_store memory_view mem_crlNumber copy_record memory_inv
proof (unfold_locales, unfold memory_store_ops, goal_cases)
  case (6 s r u s')
  then show ?case using memory_Record_cases [of s r] by fastforce
next
  case (7 s r e s')
  then show ?case using memory_Record_cases [of s r] by fastforce
next
  case (8 s k res s')
  then show ?case using memory_Get_cases [of s k] by fastforce
next
  case (9 s k reason at u s')
  then show ?case using memory_Revoke_cases [of s k reason at] by fastforce
next
  case (10 s k reason at e s')
  then show ?case using memory_Revoke_cases [of s k reason at] by fastforce
next
  case (11 s lres s')
  then show ?case using memory_Revoked_cases [of s] by fastforce
next
  case (12 s now n s')
  then show ?case using memory_Next_cases [of s now] by fastforce
next
  case (13 s now e s')
  then show ?case using memory_Next_cases [of s now] by fastforce
next
  case (14 s k r)
  then show ?case by (auto simp: memory_view_def dest: memory_inv_lookup)
qed (simp_all add: memory_preserves)

end
