(* ===== verification/Store_SQLite.thy ===== *)
theory Store_SQLite
  imports Store
begin

text \<open>
  \<^verbatim>\<open>internal/store/sqlite.go\<close>: the durable store. The database is its two tables:
  rows with the column types of the schema, serials and CRL numbers as decimal
  text, instants as Unix seconds. A statement can fail; when and where is a
  sequence of faults the state carries (\<open>sq_faults\<close>, one per statement), about
  which nothing is assumed. A transaction whose commit has not succeeded leaves
  the tables as they were. The DER form of a subject is a parameter
  (\<open>name_codec\<close>), of which the code relies on decoding what it encoded.
\<close>

record row =
  r_serial :: string
  r_subject_der :: bytes
  r_not_after :: int
  r_status :: string
  r_revoked_at :: "int option"
  r_reason :: "int option"

record sqlite =
  sq_certificates :: "row list"
  sq_crl_counter :: "string option"
  sq_crlNumberFloor :: "int option"
  sq_faults :: "nat \<Rightarrow> bool"
  sq_statements :: nat

record name_codec =
  asn1_marshal :: "atv list list \<Rightarrow> bytes res"
  asn1_unmarshal :: "bytes \<Rightarrow> atv list list res"

definition codec_ok :: "name_codec \<Rightarrow> bool" where
  "codec_ok codec \<longleftrightarrow>
     (\<forall>rdn der. asn1_marshal codec rdn = Inr der \<longrightarrow> asn1_unmarshal codec der = Inr rdn)"

section \<open>Encodings\<close>

definition marshalName :: "name_codec \<Rightarrow> pkix_name \<Rightarrow> bytes res" where
  "marshalName codec name = wrapR ''store: encoding subject'' (asn1_marshal codec (to_rdn name))"

definition unmarshalName :: "name_codec \<Rightarrow> bytes \<Rightarrow> pkix_name res" where
  "unmarshalName codec der =
     bindR (wrapR ''store: decoding stored subject'' (asn1_unmarshal codec der))
       (\<lambda>rdns. Inr (fill_from_rdn empty_name rdns))"

definition scanRecord :: "name_codec \<Rightarrow> row \<Rightarrow> cert_record res" where
  "scanRecord codec row =
     (case set_string (r_serial row) of
        None \<Rightarrow> Inl (Errorf ''stored serial is not a valid integer'')
      | Some serial \<Rightarrow>
          bindR (unmarshalName codec (r_subject_der row)) (\<lambda>subject.
            Inr \<lparr>cr_Serial = serial, cr_Subject = subject,
                 cr_NotAfter = of_unix (r_not_after row), cr_Status = r_status row,
                 cr_RevokedAt = (case r_revoked_at row of None \<Rightarrow> 0 | Some u \<Rightarrow> of_unix u),
                 cr_RevocationReason = (case r_reason row of None \<Rightarrow> 0 | Some n \<Rightarrow> n)\<rparr>))"

definition isUniqueConstraintViolation :: "go_error \<Rightarrow> bool" where
  "isUniqueConstraintViolation err =
     (case err of Errorf text \<Rightarrow> search (lits ''UNIQUE constraint failed'') text | _ \<Rightarrow> False)"

section \<open>Statements\<close>

definition unique_violation :: go_error where
  "unique_violation = Errorf ''UNIQUE constraint failed: certificates.serial''"

definition io_fault :: go_error where
  "io_fault = Errorf ''disk I/O error''"

text \<open>One statement: the next fault decides whether it fails before it does anything.\<close>

definition statement :: "(sqlite \<Rightarrow> 'a res \<times> sqlite) \<Rightarrow> (sqlite, 'a) eff" where
  "statement body s =
     (let s' = s\<lparr>sq_statements := Suc (sq_statements s)\<rparr>
      in if sq_faults s (sq_statements s) then (Inl io_fault, s') else body s')"

definition select_row :: "string \<Rightarrow> (sqlite, row option) eff" where
  "select_row serial = statement (\<lambda>s. (Inr (find (\<lambda>r. r_serial r = serial) (sq_certificates s)), s))"

definition insert_row :: "row \<Rightarrow> (sqlite, unit) eff" where
  "insert_row row = statement (\<lambda>s.
     if r_serial row \<in> r_serial ` set (sq_certificates s) then (Inl unique_violation, s)
     else (Inr (), s\<lparr>sq_certificates := sq_certificates s @ [row]\<rparr>))"

definition update_row :: "string \<Rightarrow> (row \<Rightarrow> row) \<Rightarrow> (sqlite, unit) eff" where
  "update_row serial f = statement (\<lambda>s.
     (Inr (), s\<lparr>sq_certificates := map (\<lambda>r. if r_serial r = serial then f r else r) (sq_certificates s)\<rparr>))"

text \<open>
  A transaction: begin, the body, commit. The tables are restored on every path
  that does not end in a commit that succeeded, as the deferred
  \<^verbatim>\<open>tx.Rollback()\<close> does.
\<close>

definition transaction :: "string \<Rightarrow> string \<Rightarrow> (sqlite, 'a) eff \<Rightarrow> (sqlite, 'a) eff" where
  "transaction begin_msg commit_msg body s =
     (case statement (\<lambda>s. (Inr (), s)) s of
        (Inl e, s1) \<Rightarrow> (Inl (Wrap begin_msg e), s1)
      | (Inr _, s1) \<Rightarrow>
          (case body s1 of
             (Inl e, s2) \<Rightarrow> (Inl e, s2\<lparr>sq_certificates := sq_certificates s, sq_crl_counter := sq_crl_counter s\<rparr>)
           | (Inr x, s2) \<Rightarrow>
               (case statement (\<lambda>s. (Inr (), s)) s2 of
                  (Inl e, s3) \<Rightarrow> (Inl (Wrap commit_msg e),
                     s3\<lparr>sq_certificates := sq_certificates s, sq_crl_counter := sq_crl_counter s\<rparr>)
                | (Inr _, s3) \<Rightarrow> (Inr x, s3))))"

section \<open>The methods\<close>

definition OpenSQLite :: "(nat \<Rightarrow> bool) \<Rightarrow> int option \<Rightarrow> row list \<Rightarrow> string option \<Rightarrow> sqlite" where
  "OpenSQLite faults floor certificates crl_counter =
     \<lparr>sq_certificates = certificates, sq_crl_counter = crl_counter, sq_crlNumberFloor = floor,
      sq_faults = faults, sq_statements = 0\<rparr>"

definition sqlite_Record :: "name_codec \<Rightarrow> cert_record \<Rightarrow> (sqlite, unit) eff" where
  "sqlite_Record codec rec =
     bindE (liftE (marshalName codec (cr_Subject rec))) (\<lambda>subject_der.
     tryE (insert_row \<lparr>r_serial = show_int (cr_Serial rec), r_subject_der = subject_der,
             r_not_after = unix_of (normalize_time (cr_NotAfter rec)), r_status = cr_Status rec,
             r_revoked_at = None, r_reason = None\<rparr>) (\<lambda>res.
       case res of
         Inl err \<Rightarrow> if isUniqueConstraintViolation err
                    then throwE (Wrap (show_int (cr_Serial rec)) (Sentinel (StoreErr ErrDuplicateSerial)))
                    else throwE (Wrap ''store: recording certificate'' err)
       | Inr _ \<Rightarrow> returnE ()))"

definition sqlite_Get :: "name_codec \<Rightarrow> int \<Rightarrow> (sqlite, cert_record option) eff" where
  "sqlite_Get codec serial =
     bindE (wrapE ''store: reading certificate'' (select_row (show_int serial))) (\<lambda>found.
       case found of
         None \<Rightarrow> returnE None
       | Some row \<Rightarrow> bindE (wrapE ''store: reading certificate'' (liftE (scanRecord codec row)))
                       (\<lambda>rec. returnE (Some rec)))"

definition sqlite_Revoke :: "int \<Rightarrow> revocation_reason \<Rightarrow> time \<Rightarrow> (sqlite, unit) eff" where
  "sqlite_Revoke serial reason at =
     (if \<not> reason_valid reason
      then throwE (Wrap ''reason'' (Sentinel (StoreErr ErrInvalidRevocationReason)))
      else transaction ''store: beginning revoke transaction'' ''commit''
        (bindE (wrapE ''store: reading certificate for revocation'' (select_row (show_int serial))) (\<lambda>found.
           case found of
             None \<Rightarrow> throwE (Sentinel (StoreErr ErrCertNotFound))
           | Some row \<Rightarrow>
               if r_status row = StatusRevoked then returnE ()
               else wrapE ''store: revoking certificate''
                 (update_row (show_int serial) (\<lambda>r. r\<lparr>r_status := StatusRevoked,
                    r_revoked_at := Some (unix_of (normalize_time at)), r_reason := Some reason\<rparr>)))))"

definition sqlite_Revoked :: "name_codec \<Rightarrow> (sqlite, cert_record list) eff" where
  "sqlite_Revoked codec =
     bindE (wrapE ''store: listing revoked certificates''
       (statement (\<lambda>s. (Inr (filter (\<lambda>r. r_status r = StatusRevoked) (sq_certificates s)), s)))) (\<lambda>rows.
     wrapE ''store: reading a revoked certificate'' (liftE (mapR (scanRecord codec) rows)))"

definition sqlite_NextCRLNumber :: "time \<Rightarrow> (sqlite, int) eff" where
  "sqlite_NextCRLNumber now =
     transaction ''store: beginning CRL number transaction'' ''store: committing CRL counter''
       (bindE (wrapE ''store: reading CRL counter'' (statement (\<lambda>s. (Inr (sq_crl_counter s, sq_crlNumberFloor s), s))))
         (\<lambda>(stored, floor).
           bindE (liftE (case stored of
             None \<Rightarrow> (let next = seed_crl_number now in
                      Inr (case floor of None \<Rightarrow> next | Some f \<Rightarrow> if f > next then f else next))
           | Some text \<Rightarrow> (case set_string text of
                 None \<Rightarrow> Inl (Errorf ''store: CRL counter is not a valid integer'')
               | Some current \<Rightarrow> Inr (current + 1)))) (\<lambda>next.
           bindE (wrapE ''store: persisting CRL counter''
             (statement (\<lambda>s. (Inr (), s\<lparr>sq_crl_counter := Some (show_int next)\<rparr>)))) (\<lambda>_.
           returnE next))))"

definition sqlite_store :: "name_codec \<Rightarrow> sqlite store_ifc" where
  "sqlite_store codec = \<lparr>st_Record = sqlite_Record codec, st_Get = sqlite_Get codec,
     st_Revoke = sqlite_Revoke, st_Revoked = sqlite_Revoked codec,
     st_NextCRLNumber = sqlite_NextCRLNumber\<rparr>"

section \<open>The contract\<close>

definition sqlite_view :: "name_codec \<Rightarrow> sqlite \<Rightarrow> int \<Rightarrow> cert_record option" where
  "sqlite_view codec s k =
     (case find (\<lambda>r. r_serial r = show_int k) (sq_certificates s) of
        None \<Rightarrow> None
      | Some row \<Rightarrow> (case scanRecord codec row of Inl _ \<Rightarrow> None | Inr rec \<Rightarrow> Some rec))"

definition sqlite_counter :: "sqlite \<Rightarrow> int option" where
  "sqlite_counter s = Option.bind (sq_crl_counter s) set_string"

text \<open>The form a record has after a round through its row.\<close>

definition sqlite_stored :: "cert_record \<Rightarrow> cert_record" where
  "sqlite_stored r = r\<lparr>cr_Subject := fill_from_rdn empty_name (to_rdn (cr_Subject r)),
     cr_NotAfter := normalize_time (cr_NotAfter r), cr_RevokedAt := 0, cr_RevocationReason := 0\<rparr>"

definition row_ok :: "name_codec \<Rightarrow> row \<Rightarrow> bool" where
  "row_ok codec row \<longleftrightarrow>
     (\<exists>rec. scanRecord codec row = Inr rec \<and> r_serial row = show_int (cr_Serial rec))"

definition sqlite_inv :: "name_codec \<Rightarrow> sqlite \<Rightarrow> bool" where
  "sqlite_inv codec s \<longleftrightarrow> codec_ok codec \<and> distinct (map r_serial (sq_certificates s)) \<and>
     (\<forall>row \<in> set (sq_certificates s). row_ok codec row) \<and>
     (\<forall>text. sq_crl_counter s = Some text \<longrightarrow> (\<exists>n > 0. text = show_int n))"

lemma fault_texts [simp]:
  "isUniqueConstraintViolation unique_violation" "\<not> isUniqueConstraintViolation io_fault"
  by code_simp+

lemma statement_eq:
  "statement body s = (r, s') \<longleftrightarrow>
     (let t = s\<lparr>sq_statements := Suc (sq_statements s)\<rparr> in
      if sq_faults s (sq_statements s) then r = Inl io_fault \<and> s' = t else body t = (r, s'))"
  by (auto simp: statement_def Let_def)

lemma find_map_row:
  "(\<And>r. r_serial (f r) = r_serial r) \<Longrightarrow>
    find (\<lambda>r. r_serial r = k) (map (\<lambda>r. if r_serial r = k' then f r else r) rows) =
      map_option (\<lambda>r. if r_serial r = k' then f r else r) (find (\<lambda>r. r_serial r = k) rows)"
  by (induction rows) auto

lemma find_append_row:
  "find P (rows @ [row]) = (case find P rows of None \<Rightarrow> if P row then Some row else None | Some r \<Rightarrow> Some r)"
  by (induction rows) auto

lemma find_serial_None:
  "find (\<lambda>r. r_serial r = k) rows = None \<longleftrightarrow> k \<notin> r_serial ` set rows"
  by (auto simp: find_None_iff)

lemma find_serial_Some:
  "find (\<lambda>r. r_serial r = k) rows = Some row \<Longrightarrow> row \<in> set rows \<and> r_serial row = k"
  by (auto simp: find_Some_iff)

lemma find_serial_mem:
  "distinct (map r_serial rows) \<Longrightarrow> row \<in> set rows \<Longrightarrow> find (\<lambda>r. r_serial r = r_serial row) rows = Some row"
  by (induction rows) (auto simp: image_iff)

lemma sqlite_view_cong:
  "sq_certificates s = sq_certificates t \<Longrightarrow> sqlite_view codec s = sqlite_view codec t"
  by (simp add: sqlite_view_def fun_eq_iff)

lemma sqlite_inv_cong:
  "sq_certificates s = sq_certificates t \<Longrightarrow> sq_crl_counter s = sq_crl_counter t \<Longrightarrow>
    sqlite_inv codec s = sqlite_inv codec t"
  by (simp add: sqlite_inv_def)

lemma scanRecord_fresh:
  assumes "codec_ok codec" "marshalName codec (cr_Subject rec) = Inr der"
  shows "scanRecord codec \<lparr>r_serial = show_int (cr_Serial rec), r_subject_der = der,
       r_not_after = unix_of (normalize_time (cr_NotAfter rec)), r_status = cr_Status rec,
       r_revoked_at = None, r_reason = None\<rparr> = Inr (sqlite_stored rec)"
  using assms
  by (cases rec) (auto simp: scanRecord_def unmarshalName_def marshalName_def codec_ok_def res_simps
      sqlite_stored_def of_unix_unix_of normalize_time_def)

lemma scanRecord_revoked:
  "scanRecord codec row = Inr rec \<Longrightarrow> r_status row \<noteq> StatusRevoked \<Longrightarrow>
    scanRecord codec (row\<lparr>r_status := StatusRevoked,
        r_revoked_at := Some (unix_of (normalize_time at)), r_reason := Some reason\<rparr>) =
      Inr (revoke_record reason at rec)"
  by (auto simp: scanRecord_def res_simps revoke_record_def of_unix_unix_of normalize_time_def
      split: option.splits)

lemma scanRecord_status:
  "scanRecord codec row = Inr rec \<Longrightarrow> cr_Status rec = r_status row"
  by (auto simp: scanRecord_def res_simps split: option.splits)

lemma sqlite_view_row:
  assumes "sqlite_inv codec s" "find (\<lambda>r. r_serial r = show_int k) (sq_certificates s) = Some row"
  shows "\<exists>rec. scanRecord codec row = Inr rec \<and> sqlite_view codec s k = Some rec \<and> cr_Serial rec = k"
proof -
  from find_serial_Some [OF assms(2)] have "row \<in> set (sq_certificates s)" "r_serial row = show_int k"
    by simp_all
  with assms(1) obtain rec where "scanRecord codec row = Inr rec" "r_serial row = show_int (cr_Serial rec)"
    by (auto simp: sqlite_inv_def row_ok_def)
  with assms(2) \<open>r_serial row = show_int k\<close> show ?thesis by (simp add: sqlite_view_def)
qed

text \<open>A transaction either fails and leaves the tables, or ran its body to the end.\<close>

lemma transaction_cases:
  assumes "transaction bm cm body s = (r, s')"
  shows "(\<exists>e. r = Inl e) \<and> sq_certificates s' = sq_certificates s \<and> sq_crl_counter s' = sq_crl_counter s
    \<or> (\<exists>x s2. r = Inr x \<and> body (s\<lparr>sq_statements := Suc (sq_statements s)\<rparr>) = (Inr x, s2) \<and>
         sq_certificates s' = sq_certificates s2 \<and> sq_crl_counter s' = sq_crl_counter s2)"
  using assms
  by (auto simp: transaction_def statement_def Let_def split: prod.splits sum.splits if_splits)

lemma sqlite_Record_cases:
  assumes "sqlite_inv codec s" "sqlite_Record codec r s = (res, s')"
  shows "(case res of
      Inl e \<Rightarrow> sq_certificates s' = sq_certificates s \<and> sq_crl_counter s' = sq_crl_counter s
    | Inr _ \<Rightarrow> sqlite_inv codec s' \<and> sqlite_view codec s (cr_Serial r) = None \<and>
        sqlite_view codec s' = (sqlite_view codec s)(cr_Serial r \<mapsto> sqlite_stored r) \<and>
        sq_crl_counter s' = sq_crl_counter s)"
proof (cases "marshalName codec (cr_Subject r)")
  case (Inl e)
  with assms show ?thesis by (auto simp: sqlite_Record_def bindE_def)
next
  case (Inr der)
  let ?row = "\<lparr>r_serial = show_int (cr_Serial r), r_subject_der = der,
       r_not_after = unix_of (normalize_time (cr_NotAfter r)), r_status = cr_Status r,
       r_revoked_at = None, r_reason = None\<rparr>"
  from assms(1) have "codec_ok codec" by (simp add: sqlite_inv_def)
  from scanRecord_fresh [OF this Inr] have scan: "scanRecord codec ?row = Inr (sqlite_stored r)" .
  show ?thesis
  proof (cases "sq_faults s (sq_statements s) \<or> show_int (cr_Serial r) \<in> r_serial ` set (sq_certificates s)")
    case True
    with assms(2) Inr show ?thesis
      by (auto simp: sqlite_Record_def bindE_def tryE_def insert_row_def statement_def Let_def
          split: if_splits)
  next
    case False
    with assms(2) Inr have res: "res = Inr ()"
      "s' = s\<lparr>sq_statements := Suc (sq_statements s), sq_certificates := sq_certificates s @ [?row]\<rparr>"
      by (auto simp: sqlite_Record_def bindE_def tryE_def insert_row_def statement_def Let_def)
    from False have none: "find (\<lambda>q. r_serial q = show_int (cr_Serial r)) (sq_certificates s) = None"
      by (simp add: find_serial_None)
    have "sqlite_view codec s' = (sqlite_view codec s)(cr_Serial r \<mapsto> sqlite_stored r)"
      using none scan by (auto simp: res sqlite_view_def fun_eq_iff find_append_row split: option.splits)
    moreover have "sqlite_inv codec s'" using assms(1) False scan
      by (auto simp: res sqlite_inv_def row_ok_def sqlite_stored_def image_iff)
    ultimately show ?thesis using none by (simp add: res sqlite_view_def)
  qed
qed

lemma sqlite_Get_cases:
  assumes "sqlite_inv codec s" "sqlite_Get codec k s = (res, s')"
  shows "sq_certificates s' = sq_certificates s \<and> sq_crl_counter s' = sq_crl_counter s \<and>
    (\<forall>rec. res = Inr rec \<longrightarrow> rec = sqlite_view codec s k)"
  using assms
  by (auto simp: sqlite_Get_def bindE_def wrapE_def select_row_def statement_def Let_def
      sqlite_view_def split: option.splits sum.splits if_splits)

lemma sqlite_Revoke_cases:
  assumes "sqlite_inv codec s" "sqlite_Revoke k reason at s = (res, s')"
  shows "(case res of
      Inl e \<Rightarrow> sq_certificates s' = sq_certificates s \<and> sq_crl_counter s' = sq_crl_counter s
    | Inr _ \<Rightarrow> reason_valid reason \<and> sqlite_inv codec s' \<and> sq_crl_counter s' = sq_crl_counter s \<and>
        (\<exists>r. sqlite_view codec s k = Some r \<and>
             sqlite_view codec s' = (sqlite_view codec s)(k \<mapsto> revoke_record reason at r)))"
proof (cases res)
  case (Inl e)
  with assms(2) show ?thesis
    by (auto simp: sqlite_Revoke_def split: if_splits dest!: transaction_cases)
next
  case (Inr u)
  let ?f = "\<lambda>r. r\<lparr>r_status := StatusRevoked, r_revoked_at := Some (unix_of (normalize_time at)),
      r_reason := Some reason\<rparr>"
  from assms(2) Inr have valid: "reason_valid reason" by (auto simp: sqlite_Revoke_def split: if_splits)
  from assms(2) Inr valid obtain row where
    row: "find (\<lambda>r. r_serial r = show_int k) (sq_certificates s) = Some row" and
    out: "sq_crl_counter s' = sq_crl_counter s"
      "sq_certificates s' = (if r_status row = StatusRevoked then sq_certificates s
         else map (\<lambda>r. if r_serial r = show_int k then ?f r else r) (sq_certificates s))"
    by (auto simp: sqlite_Revoke_def dest!: transaction_cases)
      (auto simp: bindE_def wrapE_def select_row_def update_row_def statement_def Let_def
        split: option.splits sum.splits if_splits)
  from sqlite_view_row [OF assms(1) row] obtain rec where
    rec: "scanRecord codec row = Inr rec" "sqlite_view codec s k = Some rec" "cr_Serial rec = k" by blast
  show ?thesis
  proof (cases "r_status row = StatusRevoked")
    case True
    with rec scanRecord_status [OF rec(1)] have "revoke_record reason at rec = rec"
      by (simp add: revoke_record_def)
    with True out rec assms(1) valid Inr show ?thesis
      using sqlite_view_cong [of s' s codec] sqlite_inv_cong [of s' s codec] by (auto simp: fun_upd_idem)
  next
    case False
    then have certs: "sq_certificates s' = map (\<lambda>r. if r_serial r = show_int k then ?f r else r) (sq_certificates s)"
      by (simp add: out)
    have scan: "scanRecord codec (?f row) = Inr (revoke_record reason at rec)"
      by (rule scanRecord_revoked [OF rec(1) False])
    have only: "r \<in> set (sq_certificates s) \<Longrightarrow> r_serial r = show_int k \<Longrightarrow> r = row" for r
      using row assms(1) find_serial_mem [of "sq_certificates s" r] by (auto simp: sqlite_inv_def)
    have "sqlite_view codec s' = (sqlite_view codec s)(k \<mapsto> revoke_record reason at rec)"
      using row scan find_serial_Some [OF row]
      by (auto simp: sqlite_view_def certs find_map_row fun_eq_iff split: option.splits
          dest!: find_serial_Some)
    moreover have "row_ok codec (?f row)"
      using scan rec(3) find_serial_Some [OF row] by (auto simp: row_ok_def revoke_record_def)
    then have "r \<in> set (sq_certificates s') \<Longrightarrow> row_ok codec r" for r
      using assms(1) only by (auto simp: certs sqlite_inv_def)
    then have "sqlite_inv codec s'"
      using assms(1) by (simp add: sqlite_inv_def certs out(1) comp_def if_distrib cong: if_cong)
    ultimately show ?thesis using rec valid Inr out(1) by auto
  qed
qed

lemma sqlite_Revoked_cases:
  assumes "sqlite_inv codec s" "sqlite_Revoked codec s = (res, s')"
  shows "sq_certificates s' = sq_certificates s \<and> sq_crl_counter s' = sq_crl_counter s \<and>
    (\<forall>rs. res = Inr rs \<longrightarrow>
       set rs = {r. cr_Status r = StatusRevoked \<and> (\<exists>k. sqlite_view codec s k = Some r)})"
proof -
  have row: "row \<in> set (sq_certificates s) \<Longrightarrow> scanRecord codec row = Inr rec \<Longrightarrow>
      sqlite_view codec s (cr_Serial rec) = Some rec" for row rec
    using assms(1) find_serial_mem [of "sq_certificates s" row]
    by (fastforce simp: sqlite_inv_def row_ok_def sqlite_view_def)
  have view: "sqlite_view codec s k = Some rec \<Longrightarrow>
      \<exists>row \<in> set (sq_certificates s). scanRecord codec row = Inr rec" for k rec
    by (auto simp: sqlite_view_def split: option.splits sum.splits dest!: find_serial_Some)
  have "mapR (scanRecord codec) (filter (\<lambda>r. r_status r = StatusRevoked) (sq_certificates s)) = Inr rs \<Longrightarrow>
      set rs = {r. cr_Status r = StatusRevoked \<and> (\<exists>k. sqlite_view codec s k = Some r)}" for rs
  proof -
    assume "mapR (scanRecord codec) (filter (\<lambda>r. r_status r = StatusRevoked) (sq_certificates s)) = Inr rs"
    then have eq: "rec \<in> set rs \<longleftrightarrow>
        (\<exists>row \<in> set (sq_certificates s). r_status row = StatusRevoked \<and> scanRecord codec row = Inr rec)" for rec
      by (auto simp: mapR_mem)
    show ?thesis
    proof (intro set_eqI iffI)
      fix rec assume "rec \<in> set rs"
      then obtain q where q: "q \<in> set (sq_certificates s)" "r_status q = StatusRevoked"
        "scanRecord codec q = Inr rec" using eq by blast
      with row [OF q(1,3)] scanRecord_status [OF q(3)] show "rec \<in> {r. cr_Status r = StatusRevoked \<and>
          (\<exists>k. sqlite_view codec s k = Some r)}" by auto
    next
      fix rec assume "rec \<in> {r. cr_Status r = StatusRevoked \<and> (\<exists>k. sqlite_view codec s k = Some r)}"
      then obtain k where k: "cr_Status rec = StatusRevoked" "sqlite_view codec s k = Some rec" by blast
      from view [OF k(2)] obtain q where "q \<in> set (sq_certificates s)" "scanRecord codec q = Inr rec" by blast
      with k(1) eq scanRecord_status show "rec \<in> set rs" by force
    qed
  qed
  with assms(2) show ?thesis
    by (auto simp: sqlite_Revoked_def bindE_def wrapE_def statement_def Let_def wrapR_def
        split: if_splits sum.splits)
qed

lemma sqlite_Next_cases:
  assumes "sqlite_inv codec s" "sqlite_NextCRLNumber now s = (res, s')"
  shows "sq_certificates s' = sq_certificates s \<and>
    (case res of
      Inl e \<Rightarrow> sq_crl_counter s' = sq_crl_counter s
    | Inr n \<Rightarrow> sq_crl_counter s' = Some (show_int n) \<and> 0 < n \<and>
        (\<forall>c. sqlite_counter s = Some c \<longrightarrow> n = c + 1))"
  using assms(2) unfolding sqlite_NextCRLNumber_def
  apply (rule transaction_cases [THEN disjE])
   apply force
  using assms(1) seed_crl_number_pos [of now]
  by (auto simp: bindE_def wrapE_def statement_def Let_def sqlite_counter_def sqlite_inv_def
      split: option.splits sum.splits if_splits)

lemma sqlite_store_ops [simp]:
  "st_Record (sqlite_store codec) = sqlite_Record codec" "st_Get (sqlite_store codec) = sqlite_Get codec"
  "st_Revoke (sqlite_store codec) = sqlite_Revoke" "st_Revoked (sqlite_store codec) = sqlite_Revoked codec"
  "st_NextCRLNumber (sqlite_store codec) = sqlite_NextCRLNumber"
  by (simp_all add: sqlite_store_def)

lemma sqlite_inv_counter:
  "sqlite_inv codec s \<Longrightarrow> sq_certificates s' = sq_certificates s \<Longrightarrow>
    sq_crl_counter s' = Some (show_int n) \<Longrightarrow> 0 < n \<Longrightarrow> sqlite_inv codec s'"
  by (auto simp: sqlite_inv_def)

lemma sqlite_preserves:
  "preserves (sqlite_inv codec) (sqlite_Record codec r)" "preserves (sqlite_inv codec) (sqlite_Get codec k)"
  "preserves (sqlite_inv codec) (sqlite_Revoke k reason at)"
  "preserves (sqlite_inv codec) (sqlite_Revoked codec)"
  "preserves (sqlite_inv codec) (sqlite_NextCRLNumber now)"
proof -
  have frame: "sqlite_inv codec s \<Longrightarrow> sq_certificates s' = sq_certificates s \<Longrightarrow>
      sq_crl_counter s' = sq_crl_counter s \<Longrightarrow> sqlite_inv codec s'" for s s'
    by (simp add: sqlite_inv_def)
  have 1: "sqlite_inv codec s'" if "sqlite_inv codec s" "sqlite_Record codec r s = (res, s')" for s res s'
    using sqlite_Record_cases [OF that] frame [OF that(1), of s'] by (cases res) auto
  have 2: "sqlite_inv codec s'" if "sqlite_inv codec s" "sqlite_Get codec k s = (res, s')" for s res s'
    using sqlite_Get_cases [OF that] frame [OF that(1), of s'] by blast
  have 3: "sqlite_inv codec s'" if "sqlite_inv codec s" "sqlite_Revoke k reason at s = (res, s')" for s res s'
    using sqlite_Revoke_cases [OF that] frame [OF that(1), of s'] by (cases res) auto
  have 4: "sqlite_inv codec s'" if "sqlite_inv codec s" "sqlite_Revoked codec s = (res, s')" for s res s'
    using sqlite_Revoked_cases [OF that] frame [OF that(1), of s'] by blast
  have 5: "sqlite_inv codec s'" if "sqlite_inv codec s" "sqlite_NextCRLNumber now s = (res, s')" for s res s'
    using sqlite_Next_cases [OF that] frame [OF that(1), of s'] sqlite_inv_counter [OF that(1), of s']
    by (cases res) auto
  show "preserves (sqlite_inv codec) (sqlite_Record codec r)"
    by (rule preservesI) (metis 1 prod.collapse)
  show "preserves (sqlite_inv codec) (sqlite_Get codec k)"
    by (rule preservesI) (metis 2 prod.collapse)
  show "preserves (sqlite_inv codec) (sqlite_Revoke k reason at)"
    by (rule preservesI) (metis 3 prod.collapse)
  show "preserves (sqlite_inv codec) (sqlite_Revoked codec)"
    by (rule preservesI) (metis 4 prod.collapse)
  show "preserves (sqlite_inv codec) (sqlite_NextCRLNumber now)"
    by (rule preservesI) (metis 5 prod.collapse)
qed

lemma sqlite_counter_cong: "sq_crl_counter s = sq_crl_counter t \<Longrightarrow> sqlite_counter s = sqlite_counter t"
  by (simp add: sqlite_counter_def)

interpretation sql: cert_store "sqlite_store codec" "sqlite_view codec" sqlite_counter sqlite_stored
  "sqlite_inv codec" for codec
proof (unfold_locales, unfold sqlite_store_ops, goal_cases)
  case (6 s r u s')
  with sqlite_Record_cases [of codec s r "Inr u" s'] show ?case by (simp add: sqlite_counter_def)
next
  case (7 s r e s')
  with sqlite_Record_cases [of codec s r "Inl e" s'] show ?case
    by (simp add: sqlite_counter_cong [of s' s] sqlite_view_cong [of s' s])
next
  case (8 s k res s')
  with sqlite_Get_cases [of codec s k res s'] show ?case
    by (simp add: sqlite_counter_cong [of s' s] sqlite_view_cong [of s' s])
next
  case (9 s k reason at u s')
  with sqlite_Revoke_cases [of codec s k reason at "Inr u" s'] show ?case
    by (simp add: sqlite_counter_cong [of s' s])
next
  case (10 s k reason at e s')
  with sqlite_Revoke_cases [of codec s k reason at "Inl e" s'] show ?case
    by (simp add: sqlite_counter_cong [of s' s] sqlite_view_cong [of s' s])
next
  case (11 s lres s')
  with sqlite_Revoked_cases [of codec s lres s'] show ?case
    by (simp add: sqlite_counter_cong [of s' s] sqlite_view_cong [of s' s])
next
  case (12 s now n s')
  with sqlite_Next_cases [of codec s now "Inr n" s'] show ?case
    by (simp add: sqlite_counter_def sqlite_view_cong [of s' s])
next
  case (13 s now e s')
  with sqlite_Next_cases [of codec s now "Inl e" s'] show ?case
    by (simp add: sqlite_counter_cong [of s' s] sqlite_view_cong [of s' s])
next
  case (14 s k r)
  then show ?case using sqlite_view_row [of codec s k]
    by (cases "find (\<lambda>r. r_serial r = show_int k) (sq_certificates s)") (auto simp: sqlite_view_def)
qed (simp_all add: sqlite_preserves sqlite_stored_def)

lemma sqlite_inv_open: "codec_ok codec \<Longrightarrow> sqlite_inv codec (OpenSQLite faults floor [] None)"
  by (simp add: sqlite_inv_def OpenSQLite_def)

text \<open>A database without faults and records of empty subjects, for the evaluated examples.\<close>

definition empty_codec :: name_codec where
  "empty_codec = \<lparr>asn1_marshal = (\<lambda>rdn. if rdn = [] then Inr [] else Inl (Errorf ''asn1'')),
     asn1_unmarshal = (\<lambda>der. if der = [] then Inr [] else Inl (Errorf ''asn1''))\<rparr>"

definition quiet_db :: sqlite where
  "quiet_db = OpenSQLite (\<lambda>_. False) None [] None"

definition plain_record :: "int \<Rightarrow> cert_record" where
  "plain_record k = \<lparr>cr_Serial = k, cr_Subject = empty_name, cr_NotAfter = 7 * second,
     cr_Status = StatusValid, cr_RevokedAt = 0, cr_RevocationReason = 0\<rparr>"

lemma empty_codec_ok: "codec_ok empty_codec"
  by (simp add: codec_ok_def empty_codec_def)

lemma quiet_db_inv: "sqlite_inv empty_codec quiet_db"
  unfolding quiet_db_def by (rule sqlite_inv_open [OF empty_codec_ok])

section \<open>Properties\<close>

text \<open>C2: Whatever statements fail and whatever the clock reads, the CRL numbers the database
  hands out over any history of operations are positive, strictly increasing and above the number
  it held before.\<close>

theorem sqlite_crl_numbers_increase:
  assumes "sqlite_inv codec s" "store_run (sqlite_store codec) xs s = (ns, s')"
  shows "sorted_wrt (<) ns \<and> (\<forall>n \<in> set ns. 0 < n \<and> (\<forall>c. sqlite_counter s = Some c \<longrightarrow> c < n))"
  using assms by (rule sql.run_numbers)

theorem sqlite_crl_numbers_increase_witness:
  "\<exists>ns s'. store_run (sqlite_store empty_codec) [DoNext 0, DoNext (unix_epoch * second)] quiet_db = (ns, s')
     \<and> ns = [1, 2] \<and> sorted_wrt (<) ns"
proof -
  let ?run = "store_run (sqlite_store empty_codec) [DoNext 0, DoNext (unix_epoch * second)] quiet_db"
  have "fst ?run = [1, 2]" by code_simp
  moreover obtain ns s' where "?run = (ns, s')" by (cases ?run)
  ultimately show ?thesis using sqlite_crl_numbers_increase [OF quiet_db_inv] by auto
qed

text \<open>C3: A revocation that reported success is on every later CRL listing and stays exactly as
  it was recorded: over any history of further operations, whatever fails on the way, a listing
  that succeeds contains the record with its first date and reason.\<close>

theorem sqlite_revoked_stays_listed:
  assumes "sqlite_inv codec s" "sqlite_Revoke k reason at s = (Inr (), s1)"
    "store_run (sqlite_store codec) xs s1 = (ns, s2)" "sqlite_Revoked codec s2 = (Inr rs, s3)"
  shows "\<exists>r \<in> set rs. cr_Serial r = k \<and> cr_Status r = StatusRevoked \<and>
    (\<exists>r0. sqlite_view codec s k = Some r0 \<and> r = revoke_record reason at r0)"
proof -
  from sql.Revoke_ok [OF assms(1), of k reason at "()" s1] assms(2) obtain r0
    where r0: "sqlite_view codec s k = Some r0"
      "sqlite_view codec s1 = (sqlite_view codec s)(k \<mapsto> revoke_record reason at r0)"
    by auto
  from preservesD [OF sql.inv_Revoke assms(1)] assms(2) have s1: "sqlite_inv codec s1" by simp
  from sql.run_revoked [OF s1 assms(3), of k] r0 have v: "sqlite_view codec s2 k = Some (revoke_record reason at r0)"
    by simp
  from sql.run_inv [OF s1 assms(3)] have s2: "sqlite_inv codec s2" .
  from sql.Revoked_any [OF s2, of "Inr rs" s3] assms(4) v r0(1) sql.view_serial [OF s2 v] show ?thesis
    by auto
qed

theorem sqlite_revoked_stays_listed_witness:
  "\<exists>s. \<exists>rs. fst (sqlite_Revoked empty_codec s) = Inr rs \<and> (\<exists>r \<in> set rs. cr_Serial r = 5)"
proof -
  let ?s = "snd (sqlite_Record empty_codec (plain_record 5) quiet_db)"
  let ?s1 = "snd (sqlite_Revoke 5 1 (9 * second) ?s)"
  let ?s2 = "snd (store_run (sqlite_store empty_codec) [DoRevoke 5 4 0] ?s1)"
  have inv: "sqlite_inv empty_codec ?s"
    using preserves_snd [OF sql.inv_Record quiet_db_inv] by simp
  have r: "is_ok (fst (sqlite_Revoke 5 1 (9 * second) ?s))" by code_simp
  have "is_ok (fst (sqlite_Revoked empty_codec ?s2))" by code_simp
  then obtain rs where 2: "sqlite_Revoked empty_codec ?s2 = (Inr rs, snd (sqlite_Revoked empty_codec ?s2))"
    by (rule is_ok_fstE)
  from sqlite_revoked_stays_listed [OF inv is_ok_fst_unit [OF r] prod.collapse [symmetric] 2]
  have "\<exists>r \<in> set rs. cr_Serial r = 5" by blast
  with arg_cong [OF 2, of fst] show ?thesis by (intro exI [of _ ?s2] exI [of _ rs]) simp
qed

text \<open>What a successful record operation stored is what a later read returns: after any
  history, a read of that serial that succeeds finds it, with its serial and expiry (to the second),
  valid as recorded or since revoked, and a second record under the serial never replaced it.\<close>

theorem sqlite_record_then_get:
  assumes "sqlite_inv codec s" "sqlite_Record codec r s = (Inr (), s1)"
    "store_run (sqlite_store codec) xs s1 = (ns, s2)" "sqlite_Get codec (cr_Serial r) s2 = (Inr found, s3)"
  shows "\<exists>r'. found = Some r' \<and> cr_Serial r' = cr_Serial r \<and>
    cr_NotAfter r' = normalize_time (cr_NotAfter r) \<and>
    cr_Subject r' = fill_from_rdn empty_name (to_rdn (cr_Subject r)) \<and>
    (cr_Status r' = cr_Status r \<or> cr_Status r' = StatusRevoked)"
proof -
  from sql.Record_ok [OF assms(1), of r "()" s1] assms(2)
  have v: "sqlite_view codec s1 (cr_Serial r) = Some (sqlite_stored r)" by simp
  from preservesD [OF sql.inv_Record assms(1)] assms(2) have s1: "sqlite_inv codec s1" by simp
  from sql.run_record [OF s1 assms(3) v] obtain r'
    where "sqlite_view codec s2 (cr_Serial r) = Some r'" "record_evolves (sqlite_stored r) r'" by blast
  with sql.Get_any [OF sql.run_inv [OF s1 assms(3)], of "cr_Serial r" "Inr found" s3] assms(4)
  show ?thesis by (auto simp: record_evolves_def sqlite_stored_def)
qed

theorem sqlite_record_then_get_witness:
  "\<exists>s2 r'. fst (sqlite_Get empty_codec 5 s2) = Inr (Some r') \<and> cr_Serial r' = 5 \<and> cr_NotAfter r' = 7 * second"
proof -
  let ?s1 = "snd (sqlite_Record empty_codec (plain_record 5) quiet_db)"
  let ?s2 = "snd (store_run (sqlite_store empty_codec) [DoNext 0, DoRecord (plain_record 5)] ?s1)"
  have r: "is_ok (fst (sqlite_Record empty_codec (plain_record 5) quiet_db))" by code_simp
  have "is_ok (fst (sqlite_Get empty_codec (cr_Serial (plain_record 5)) ?s2))" by code_simp
  then obtain found where 2: "sqlite_Get empty_codec (cr_Serial (plain_record 5)) ?s2 =
      (Inr found, snd (sqlite_Get empty_codec (cr_Serial (plain_record 5)) ?s2))"
    by (rule is_ok_fstE)
  from sqlite_record_then_get [OF quiet_db_inv is_ok_fst_unit [OF r] prod.collapse [symmetric] 2]
  obtain r' where "found = Some r'" "cr_Serial r' = 5" "cr_NotAfter r' = normalize_time (7 * second)"
    by (auto simp: plain_record_def)
  with arg_cong [OF 2, of fst] show ?thesis
    by (intro exI [of _ ?s2] exI [of _ r'])
      (simp add: plain_record_def normalize_time_def truncate_second_def)
qed

end
