(* ===== verification/Store_Agree.thy ===== *)
theory Store_Agree
  imports Store_Memory Store_SQLite
begin

text \<open>
  The two implementations of \<^verbatim>\<open>Store\<close> against each other: the in-memory store, which the
  tests and the other components' examples run on, and the SQLite store, which the service
  runs on and in which every statement may fail. A call that fails for a reason of the
  database is one the memory store never saw; on all others the two answer alike.
\<close>

section \<open>What a caller sees\<close>

text \<open>\<open>Refused\<close> carries the sentinel a caller can test for, \<open>Broken\<close> is any other failure.\<close>

datatype answered =
    Done
  | Found "cert_record option"
  | Listed "cert_record set"
  | Numbered int
  | Refused store_sentinel
  | Broken

fun store_sentinel_of :: "go_error \<Rightarrow> store_sentinel option" where
  "store_sentinel_of (Sentinel (StoreErr t)) = Some t"
| "store_sentinel_of (Wrap _ e) = store_sentinel_of e"
| "store_sentinel_of _ = None"

definition answer_of :: "('a \<Rightarrow> answered) \<Rightarrow> 'a res \<times> 's \<Rightarrow> answered \<times> 's" where
  "answer_of ok p = (case p of
     (Inr x, s) \<Rightarrow> (ok x, s)
   | (Inl e, s) \<Rightarrow> (case store_sentinel_of e of Some t \<Rightarrow> Refused t | None \<Rightarrow> Broken, s))"

fun store_call :: "'s store_ifc \<Rightarrow> store_op \<Rightarrow> 's \<Rightarrow> answered \<times> 's" where
  "store_call ops (DoRecord r) s = answer_of (\<lambda>_. Done) (st_Record ops r s)"
| "store_call ops (DoGet k) s = answer_of Found (st_Get ops k s)"
| "store_call ops (DoRevoke k reason at) s = answer_of (\<lambda>_. Done) (st_Revoke ops k reason at s)"
| "store_call ops DoRevoked s = answer_of (\<lambda>rs. Listed (set rs)) (st_Revoked ops s)"
| "store_call ops (DoNext now) s = answer_of Numbered (st_NextCRLNumber ops now s)"

fun store_calls :: "'s store_ifc \<Rightarrow> store_op list \<Rightarrow> 's \<Rightarrow> answered list \<times> 's" where
  "store_calls ops [] s = ([], s)"
| "store_calls ops (x # xs) s =
     (case store_call ops x s of (a, s1) \<Rightarrow> (case store_calls ops xs s1 of (as, s2) \<Rightarrow> (a # as, s2)))"

text \<open>The calls the database carried out, with their answers.\<close>

definition carried_out :: "store_op list \<Rightarrow> answered list \<Rightarrow> (store_op \<times> answered) list" where
  "carried_out xs as = filter (\<lambda>(x, a). a \<noteq> Broken) (zip xs as)"

text \<open>A record as the CA writes it: not yet revoked, with a subject the encoding keeps.\<close>

definition as_issued :: "cert_record \<Rightarrow> bool" where
  "as_issued r \<longleftrightarrow> cr_RevokedAt r = 0 \<and> cr_RevocationReason r = 0 \<and>
     fill_from_rdn empty_name (to_rdn (cr_Subject r)) = cr_Subject r"

fun issued_op :: "store_op \<Rightarrow> bool" where
  "issued_op (DoRecord r) = as_issued r"
| "issued_op _ = True"

lemma as_issued_stored: "as_issued r \<Longrightarrow> sqlite_stored r = copy_record r"
  by (cases r) (simp add: as_issued_def sqlite_stored_def copy_record_def Let_def)

text \<open>The encoder's own failures are never the store's sentinels.\<close>

definition codec_errors_plain :: "name_codec \<Rightarrow> bool" where
  "codec_errors_plain codec \<longleftrightarrow>
     (\<forall>rdn e. asn1_marshal codec rdn = Inl e \<longrightarrow> store_sentinel_of e = None)"

section \<open>One call\<close>

definition agree :: "name_codec \<Rightarrow> memory \<Rightarrow> sqlite \<Rightarrow> bool" where
  "agree codec m s \<longleftrightarrow> memory_inv m \<and> sqlite_inv codec s \<and> memory_view m = sqlite_view codec s \<and>
     mem_crlNumber m = sqlite_counter s \<and> sq_crlNumberFloor s = None"

lemma memory_Record_eq:
  assumes "memory_inv m"
  shows "case memory_view m (cr_Serial r) of
      None \<Rightarrow> \<exists>m'. memory_Record r m = (Inr (), m')
    | Some _ \<Rightarrow> memory_Record r m = (Inl (Sentinel (StoreErr ErrDuplicateSerial)), m)"
  by (auto simp: memory_Record_def memory_view_def Let_def split: option.split)

lemma memory_Revoke_eq:
  "memory_Revoke k reason at m =
     (if \<not> reason_valid reason then (Inl (Wrap ''reason'' (Sentinel (StoreErr ErrInvalidRevocationReason))), m)
      else case memory_view m k of None \<Rightarrow> (Inl (Sentinel (StoreErr ErrCertNotFound)), m)
         | Some r \<Rightarrow> (Inr (), snd (memory_Revoke k reason at m)))"
  by (auto simp: memory_Revoke_def memory_view_def split: option.split)

lemma sqlite_view_None:
  "sqlite_inv codec s \<Longrightarrow>
    sqlite_view codec s k = None \<longleftrightarrow> find (\<lambda>r. r_serial r = show_int k) (sq_certificates s) = None"
  using sqlite_view_row [of codec s k] by (force simp: sqlite_view_def split: option.splits)

text \<open>Which sentinel the database answers with, and only when the memory store would.\<close>

lemma sqlite_Record_refused:
  assumes "sqlite_inv codec s" "codec_errors_plain codec" "sqlite_Record codec r s = (Inl e, s')"
    "store_sentinel_of e = Some t"
  shows "t = ErrDuplicateSerial \<and> sqlite_view codec s (cr_Serial r) \<noteq> None"
proof -
  have "sqlite_view codec s (cr_Serial r) = None \<Longrightarrow> show_int (cr_Serial r) \<notin> r_serial ` set (sq_certificates s)"
    using sqlite_view_None [OF assms(1)] find_serial_None by metis
  with assms(2-) fault_texts(2) show ?thesis
    by (auto simp: sqlite_Record_def bindE_def tryE_def insert_row_def statement_def Let_def marshalName_def
        codec_errors_plain_def io_fault_def res_simps split: if_splits sum.splits)
qed

lemma sqlite_Revoke_refused:
  assumes "sqlite_inv codec s" "sqlite_Revoke k reason at s = (Inl e, s')" "store_sentinel_of e = Some t"
  shows "if reason_valid reason then t = ErrCertNotFound \<and> sqlite_view codec s k = None
    else t = ErrInvalidRevocationReason"
  using assms(2,3) sqlite_view_None [OF assms(1), of k]
  by (auto simp: sqlite_Revoke_def transaction_def bindE_def wrapE_def select_row_def update_row_def statement_def
      Let_def io_fault_def split: if_splits option.splits sum.splits prod.splits)

lemma sqlite_plain_errors:
  assumes "sqlite_inv codec s"
  shows "sqlite_Get codec k s = (Inl e, s') \<Longrightarrow> store_sentinel_of e = None"
    and "sqlite_Revoked codec s = (Inl e, s') \<Longrightarrow> store_sentinel_of e = None"
    and "sqlite_NextCRLNumber now s = (Inl e, s') \<Longrightarrow> store_sentinel_of e = None"
proof -
  have scan: "row \<in> set (sq_certificates s) \<Longrightarrow> \<exists>rec. scanRecord codec row = Inr rec" for row
    using assms by (auto simp: sqlite_inv_def row_ok_def)
  have rows: "\<exists>rs. mapR (scanRecord codec) (filter P (sq_certificates s)) = Inr rs" for P
  proof -
    have "\<exists>rs. mapR (scanRecord codec) rows = Inr rs" if "set rows \<subseteq> set (sq_certificates s)" for rows
      using that scan by (induction rows) (fastforce simp: res_simps)+
    then show ?thesis by simp
  qed
  show "sqlite_Get codec k s = (Inl e, s') \<Longrightarrow> store_sentinel_of e = None"
    using scan by (fastforce simp: sqlite_Get_def bindE_def wrapE_def select_row_def statement_def Let_def io_fault_def
        split: if_splits option.splits sum.splits dest!: find_serial_Some)
  show "sqlite_Revoked codec s = (Inl e, s') \<Longrightarrow> store_sentinel_of e = None"
    using rows [of "\<lambda>r. r_status r = StatusRevoked"]
    by (auto simp: sqlite_Revoked_def bindE_def wrapE_def statement_def Let_def io_fault_def split: if_splits)
  show "sqlite_NextCRLNumber now s = (Inl e, s') \<Longrightarrow> store_sentinel_of e = None"
    by (auto simp: sqlite_NextCRLNumber_def transaction_def bindE_def wrapE_def statement_def Let_def io_fault_def
        split: if_splits option.splits sum.splits prod.splits)
qed

lemma sqlite_floor:
  "sq_crlNumberFloor (snd (store_call (sqlite_store codec) x s)) = sq_crlNumberFloor s"
  by (cases x) (auto simp: answer_of_def sqlite_Record_def sqlite_Get_def sqlite_Revoke_def sqlite_Revoked_def
      sqlite_NextCRLNumber_def transaction_def bindE_def tryE_def wrapE_def insert_row_def select_row_def update_row_def
      statement_def Let_def split: prod.splits sum.splits option.splits if_splits)

text \<open>The number a fresh store and a running counter give.\<close>

definition next_number :: "time \<Rightarrow> int option \<Rightarrow> int" where
  "next_number now c = (case c of None \<Rightarrow> seed_crl_number now | Some n \<Rightarrow> n + 1)"

lemma memory_Next_number:
  "\<exists>m'. memory_NextCRLNumber now m = (Inr (next_number now (mem_crlNumber m)), m')"
  by (simp add: memory_NextCRLNumber_def next_number_def Let_def split: option.split)

lemma sqlite_Next_number:
  assumes "sqlite_inv codec s" "sq_crlNumberFloor s = None" "sqlite_NextCRLNumber now s = (Inr n, s')"
  shows "n = next_number now (sqlite_counter s)"
  using assms
  by (auto simp: sqlite_NextCRLNumber_def transaction_def bindE_def wrapE_def statement_def Let_def sqlite_counter_def
      sqlite_inv_def next_number_def split: if_splits option.splits sum.splits prod.splits)

lemma agreeD:
  "agree codec m s \<Longrightarrow> memory_inv m" "agree codec m s \<Longrightarrow> sqlite_inv codec s"
  "agree codec m s \<Longrightarrow> memory_view m = sqlite_view codec s"
  "agree codec m s \<Longrightarrow> mem_crlNumber m = sqlite_counter s" "agree codec m s \<Longrightarrow> sq_crlNumberFloor s = None"
  by (simp_all add: agree_def)

text \<open>The other half of a step: the answers match and the states still agree.\<close>

definition matched_on_memory :: "name_codec \<Rightarrow> store_op \<Rightarrow> memory \<Rightarrow> answered \<Rightarrow> sqlite \<Rightarrow> bool" where
  "matched_on_memory codec x m a s' \<longleftrightarrow>
     (if a = Broken then agree codec m s' else \<exists>m'. store_call memory_store x m = (a, m') \<and> agree codec m' s')"

lemma store_call_snd: "snd (store_call ops x s) = snd (store_step ops x s)"
  by (cases x) (auto simp: answer_of_def split: prod.split sum.split)

lemma agree_call:
  assumes "agree codec m s" "store_call (sqlite_store codec) x s = (a, s')" "memory_inv m'"
    "memory_view m' = sqlite_view codec s'" "mem_crlNumber m' = sqlite_counter s'"
  shows "agree codec m' s'"
proof -
  have "sqlite_inv codec s'"
    using sql.step_inv [OF agreeD(2) [OF assms(1)] prod.collapse [symmetric]] store_call_snd [of "sqlite_store codec" x s] assms(2)
    by (metis snd_conv)
  with assms sqlite_floor [of codec x s] show ?thesis by (simp add: agree_def)
qed

lemma agree_Record:
  assumes "agree codec m s" "codec_errors_plain codec" "as_issued r"
    and call: "store_call (sqlite_store codec) (DoRecord r) s = (a, s')"
  shows "matched_on_memory codec (DoRecord r) m a s'"
proof -
  note m = agreeD(1) [OF assms(1)] and s = agreeD(2) [OF assms(1)] and view = agreeD(3) [OF assms(1)]
    and counter = agreeD(4) [OF assms(1)] and step = agree_call [OF assms(1) call]
  obtain res where q: "sqlite_Record codec r s = (res, s')" and a: "answer_of (\<lambda>_. Done) (res, s') = (a, s')"
    using call by (cases "sqlite_Record codec r s") (auto simp: answer_of_def split: sum.splits)
  note mem = memory_Record_eq [OF m, of r, unfolded view]
  show ?thesis
  proof (cases res)
    case (Inl e)
    with q sql.Record_err [OF s] m view counter have same: "agree codec m s'" by (intro step) auto
    from a Inl sqlite_Record_refused [OF s assms(2) q [unfolded Inl]] mem same show ?thesis
      by (auto simp: matched_on_memory_def answer_of_def split: option.splits)
  next
    case (Inr u)
    with q sql.Record_ok [OF s] have ok: "sqlite_view codec s (cr_Serial r) = None"
      "sqlite_view codec s' = (sqlite_view codec s)(cr_Serial r \<mapsto> sqlite_stored r)" "sqlite_counter s' = sqlite_counter s"
      by auto
    with mem obtain m' where m': "memory_Record r m = (Inr (), m')" by auto
    with memory_Record_cases [OF m m'] ok view counter assms(3) have "agree codec m' s'"
      by (intro step) (simp_all add: as_issued_stored)
    with a Inr m' show ?thesis by (auto simp: matched_on_memory_def answer_of_def)
  qed
qed

lemma agree_Revoke:
  assumes "agree codec m s" and call: "store_call (sqlite_store codec) (DoRevoke k reason at) s = (a, s')"
  shows "matched_on_memory codec (DoRevoke k reason at) m a s'"
proof -
  note m = agreeD(1) [OF assms(1)] and s = agreeD(2) [OF assms(1)] and view = agreeD(3) [OF assms(1)]
    and counter = agreeD(4) [OF assms(1)] and step = agree_call [OF assms(1) call]
  obtain res where q: "sqlite_Revoke k reason at s = (res, s')" and a: "answer_of (\<lambda>_. Done) (res, s') = (a, s')"
    using call by (cases "sqlite_Revoke k reason at s") (auto simp: answer_of_def split: sum.splits)
  note mem = memory_Revoke_eq [of k reason at m, unfolded view]
  show ?thesis
  proof (cases res)
    case (Inl e)
    with q sql.Revoke_err [OF s] m view counter have same: "agree codec m s'" by (intro step) auto
    from a Inl sqlite_Revoke_refused [OF s q [unfolded Inl]] mem same show ?thesis
      by (auto simp: matched_on_memory_def answer_of_def split: option.splits if_splits)
  next
    case (Inr u)
    with q sql.Revoke_ok [OF s] obtain r where ok: "reason_valid reason" "sqlite_view codec s k = Some r"
      "sqlite_view codec s' = (sqlite_view codec s)(k \<mapsto> revoke_record reason at r)" "sqlite_counter s' = sqlite_counter s"
      by fastforce
    with mem obtain m' where m': "memory_Revoke k reason at m = (Inr (), m')" by auto
    from memory_Revoke_cases [OF m m'] ok view counter have "agree codec m' s'" by (intro step) auto
    with a Inr m' show ?thesis by (auto simp: matched_on_memory_def answer_of_def)
  qed
qed

lemma agree_read:
  assumes "agree codec m s" and call: "store_call (sqlite_store codec) x s = (a, s')" and "x = DoGet k \<or> x = DoRevoked"
  shows "matched_on_memory codec x m a s'"
proof -
  note m = agreeD(1) [OF assms(1)] and s = agreeD(2) [OF assms(1)] and view = agreeD(3) [OF assms(1)]
    and counter = agreeD(4) [OF assms(1)] and step = agree_call [OF assms(1) call]
  show ?thesis
  proof (cases "x = DoRevoked")
    case True
    obtain res where q: "sqlite_Revoked codec s = (res, s')" and a: "answer_of (\<lambda>rs. Listed (set rs)) (res, s') = (a, s')"
      using call by (cases "sqlite_Revoked codec s") (auto simp: True answer_of_def split: sum.splits)
    from q sql.Revoked_any [OF s] m view counter have same: "agree codec m s'" by (intro step) auto
    obtain rs where "memory_Revoked m = (Inr rs, m)"
      "set rs = {r. cr_Status r = StatusRevoked \<and> (\<exists>k. sqlite_view codec s k = Some r)}"
      using memory_Revoked_cases [OF m] view by (cases "memory_Revoked m") auto
    with a q same sqlite_Revoked_cases [OF s q] sqlite_plain_errors(2) [OF s] show ?thesis
      by (cases res) (auto simp: True matched_on_memory_def answer_of_def)
  next
    case False
    with assms(3) have x: "x = DoGet k" by simp
    obtain res where q: "sqlite_Get codec k s = (res, s')" and a: "answer_of Found (res, s') = (a, s')"
      using call by (cases "sqlite_Get codec k s") (auto simp: x answer_of_def split: sum.splits)
    from q sql.Get_any [OF s] m view counter have same: "agree codec m s'" by (intro step) auto
    have "memory_Get k m = (Inr (sqlite_view codec s k), m)"
      using memory_Get_cases [OF m] view by (cases "memory_Get k m") auto
    with a q same sqlite_Get_cases [OF s q] sqlite_plain_errors(1) [OF s] show ?thesis
      by (cases res) (auto simp: x matched_on_memory_def answer_of_def)
  qed
qed

lemma agree_Next:
  assumes "agree codec m s" and call: "store_call (sqlite_store codec) (DoNext now) s = (a, s')"
  shows "matched_on_memory codec (DoNext now) m a s'"
proof -
  note m = agreeD(1) [OF assms(1)] and s = agreeD(2) [OF assms(1)] and view = agreeD(3) [OF assms(1)]
    and counter = agreeD(4) [OF assms(1)] and step = agree_call [OF assms(1) call]
  obtain res where q: "sqlite_NextCRLNumber now s = (res, s')" and a: "answer_of Numbered (res, s') = (a, s')"
    using call by (cases "sqlite_NextCRLNumber now s") (auto simp: answer_of_def split: sum.splits)
  show ?thesis
  proof (cases res)
    case (Inl e)
    with q sql.Next_err [OF s] m view counter have "agree codec m s'" by (intro step) auto
    with a Inl sqlite_plain_errors(3) [OF s q [unfolded Inl]] show ?thesis
      by (simp add: matched_on_memory_def answer_of_def)
  next
    case (Inr n)
    with q sql.Next_ok [OF s] have ok: "sqlite_view codec s' = sqlite_view codec s" "sqlite_counter s' = Some n" by auto
    obtain m' where m': "memory_NextCRLNumber now m = (Inr n, m')"
      using memory_Next_number [of now m] sqlite_Next_number [OF s agreeD(5) [OF assms(1)] q [unfolded Inr]] counter by auto
    from memory_Next_cases [OF m m'] ok view have "agree codec m' s'" by (intro step) auto
    with a Inr m' show ?thesis by (auto simp: matched_on_memory_def answer_of_def)
  qed
qed

lemma agree_step:
  assumes "agree codec m s" "codec_errors_plain codec" "issued_op x" "store_call (sqlite_store codec) x s = (a, s')"
  shows "matched_on_memory codec x m a s'"
proof (cases x)
  case (DoRecord r)
  with assms agree_Record show ?thesis by simp
next
  case (DoGet k)
  with assms agree_read show ?thesis by blast
next
  case (DoRevoke k reason at)
  with assms agree_Revoke show ?thesis by blast
next
  case DoRevoked
  with assms agree_read show ?thesis by blast
next
  case (DoNext now)
  with assms agree_Next show ?thesis by blast
qed

section \<open>Whole histories\<close>

lemma store_calls_Cons:
  "store_calls ops (x # xs) s = (as, s') \<longleftrightarrow>
     (\<exists>a s1 as1. store_call ops x s = (a, s1) \<and> store_calls ops xs s1 = (as1, s') \<and> as = a # as1)"
  by (auto split: prod.splits)


lemma new_stores_agree:
  "codec_ok codec \<Longrightarrow> agree codec new_memory (OpenSQLite faults None [] None)"
  using sqlite_inv_open [of codec faults None]
  by (simp add: agree_def new_memory_def memory_inv_def memory_view_def sqlite_view_def OpenSQLite_def
      sqlite_counter_def fun_eq_iff)

text \<open>A database whose second statement fails: the first read breaks, the rest goes on.\<close>

definition faulty_db :: sqlite where
  "faulty_db = OpenSQLite (\<lambda>n. n = 1) None [] None"

definition some_calls :: "store_op list" where
  "some_calls = [DoRecord (plain_record 5), DoGet 5, DoRecord (plain_record 5), DoRevoke 6 1 0, DoRevoke 5 1 0, DoNext 0]"


end
