(* ===== verification/Profile.thy ===== *)
theory Profile
  imports X509 Strings "HOL-Library.Multiset"
begin

text \<open>
  \<^verbatim>\<open>internal/profile\<close>: what a certificate this CA issues may contain. A Go map is
  an association list with distinct keys; where the code ranges over one, the
  list's order is the iteration order, which Go leaves open, so it is either part
  of the argument or passed explicitly (\<open>order\<close>).
\<close>

section \<open>Profiles\<close>

type_synonym san_type = string
definition SANDNS :: san_type where "SANDNS = ''dns''"
definition SANIP :: san_type where "SANIP = ''ip''"
definition SANURI :: san_type where "SANURI = ''uri''"
definition SANEmail :: san_type where "SANEmail = ''email''"

type_synonym key_algorithm = string
definition KeyECP256 :: key_algorithm where "KeyECP256 = ''ec-p256''"
definition KeyECP384 :: key_algorithm where "KeyECP384 = ''ec-p384''"
definition KeyECP521 :: key_algorithm where "KeyECP521 = ''ec-p521''"
definition KeyRSA :: key_algorithm where "KeyRSA = ''rsa''"

lemmas san_defs = SANDNS_def SANIP_def SANURI_def SANEmail_def
lemmas key_alg_defs = KeyECP256_def KeyECP384_def KeyECP521_def KeyRSA_def

definition MinRSAKeyBits :: nat where "MinRSAKeyBits = 2048"

definition OIDOCSPNoCheck :: oid where "OIDOCSPNoCheck = [1, 3, 6, 1, 5, 5, 7, 48, 1, 5]"

definition InternalOnlyProfile :: string where "InternalOnlyProfile = ''ocsp-responder''"

definition InternalOnly :: "string \<Rightarrow> bool" where
  "InternalOnly name \<longleftrightarrow> name = InternalOnlyProfile"

record profile =
  p_Name :: string
  p_ExtKeyUsages :: "ext_key_usage list"
  p_KeyUsage :: key_usage
  p_SANTypes :: "san_type list"
  p_SANRequired :: bool
  p_SubjectRDNs :: "string list"
  p_KeyAlgorithms :: "key_algorithm list"
  p_Validity :: duration
  p_OCSPNoCheck :: bool

text \<open>The values of a \<^verbatim>\<open>Set\<close> are pointers, so an entry can be nil.\<close>

type_synonym profile_set = "(string \<times> profile option) list"

definition set_Lookup :: "profile_set \<Rightarrow> string \<Rightarrow> profile option res" where
  "set_Lookup s name =
     (if name = [] then Inl (Wrap ''no profile named in the request'' (Sentinel ProfileErrUnknown))
      else case map_of s name of
        None \<Rightarrow> Inl (Wrap name (Sentinel ProfileErrUnknown))
      | Some p \<Rightarrow> Inr p)"

definition set_Names :: "profile_set \<Rightarrow> string list" where
  "set_Names s = sort (map fst s)"

section \<open>Validation\<close>

definition rdnOIDs :: "(string \<times> oid) list" where
  "rdnOIDs = [(''CN'', [2, 5, 4, 3]), (''O'', [2, 5, 4, 10]), (''OU'', [2, 5, 4, 11]),
     (''C'', [2, 5, 4, 6]), (''ST'', [2, 5, 4, 8]), (''L'', [2, 5, 4, 7])]"

definition rdnShortName :: "oid \<Rightarrow> string option" where
  "rdnShortName t = map_option fst (find (\<lambda>(_, u). u = t) rdnOIDs)"

definition profile_Validate :: "profile \<Rightarrow> unit res" where
  "profile_Validate p =
     (if p_Name p = [] then Inl (Errorf ''profile: name is empty'')
      else if p_ExtKeyUsages p = [] then Inl (Errorf ''no extended key usage'')
      else if p_KeyUsage p = 0 then Inl (Errorf ''no key usage'')
      else if p_KeyUsage p AND (KU_CertSign OR KU_CRLSign) \<noteq> 0
        then Inl (Errorf ''keyCertSign or cRLSign on a leaf profile'')
      else if p_Validity p \<le> 0 then Inl (Errorf ''validity must be positive'')
      else if p_KeyAlgorithms p = [] then Inl (Errorf ''no key algorithm accepted'')
      else if p_SANRequired p \<and> p_SANTypes p = []
        then Inl (Errorf ''requires a subject alternative name but allows no type'')
      else if p_SubjectRDNs p = [] \<and> \<not> p_SANRequired p
        then Inl (Errorf ''copies no subject attribute and requires no SAN'')
      else forR (\<lambda>rdn. require (map_of rdnOIDs rdn \<noteq> None)
                   (Errorf ''subject attribute is not one of the known ones'')) (p_SubjectRDNs p))"

definition set_Validate :: "profile_set \<Rightarrow> duration \<Rightarrow> unit res" where
  "set_Validate s maxValidity =
     (if s = [] then Inl (Errorf ''profile: no profiles defined'')
      else forR (\<lambda>(name, entry).
        case entry of
          None \<Rightarrow> Inl (Errorf ''nil'')
        | Some p \<Rightarrow>
            if p_Name p \<noteq> name then Inl (Errorf ''carries another name'')
            else bindR (profile_Validate p) (\<lambda>_.
              if maxValidity > 0 \<and> p_Validity p > maxValidity
              then Inl (Errorf ''validity exceeds the ceiling'') else Inr ())) s)"

section \<open>The checks on a request\<close>

definition AllowsKey :: "profile \<Rightarrow> public_key \<Rightarrow> unit res" where
  "AllowsKey p pub =
     bindR (case pub of
         EcdsaKey curve _ _ \<Rightarrow>
           (case curve of
              EC_P256 \<Rightarrow> Inr KeyECP256
            | EC_P384 \<Rightarrow> Inr KeyECP384
            | EC_P521 \<Rightarrow> Inr KeyECP521
            | _ \<Rightarrow> Inl (Errorf ''EC curve is not accepted''))
       | RsaKey n _ \<Rightarrow>
           if bit_len n < MinRSAKeyBits then Inl (Errorf ''RSA key is too short'') else Inr KeyRSA
       | OtherKey _ \<Rightarrow> Inl (Errorf ''key type is not accepted''))
     (\<lambda>have_alg. if have_alg \<in> set (p_KeyAlgorithms p) then Inr ()
        else Inl (Errorf ''key algorithm is not accepted''))"

text \<open>The literal map of \<^verbatim>\<open>CheckSANs\<close>: how many names of each type the request carries.\<close>

definition san_count :: "csr \<Rightarrow> san_type \<Rightarrow> nat" where
  "san_count csr t =
     (if t = SANDNS then length (csr_DNSNames csr)
      else if t = SANIP then length (csr_IPAddresses csr)
      else if t = SANURI then length (csr_URIs csr)
      else if t = SANEmail then length (csr_EmailAddresses csr) else 0)"

fun check_sans_loop :: "profile \<Rightarrow> csr \<Rightarrow> san_type list \<Rightarrow> nat \<Rightarrow> nat res" where
  "check_sans_loop p csr [] present = Inr present"
| "check_sans_loop p csr (t # ts) present =
     (let n = san_count csr t in
      if n = 0 then check_sans_loop p csr ts present
      else if t \<notin> set (p_SANTypes p) then Inl (Errorf ''subject alternative name type is not allowed'')
      else check_sans_loop p csr ts (present + n))"

definition CheckSANs :: "san_type list \<Rightarrow> profile \<Rightarrow> csr \<Rightarrow> unit res" where
  "CheckSANs order p csr =
     bindR (check_sans_loop p csr order 0) (\<lambda>present.
       if p_SANRequired p \<and> present = 0
       then Inl (Errorf ''at least one subject alternative name is required'') else Inr ())"

definition Subject :: "profile \<Rightarrow> pkix_name \<Rightarrow> pkix_name res" where
  "Subject p requested =
     bindR (mapR (\<lambda>atv.
         case rdnShortName (at_Type atv) of
           None \<Rightarrow> Inl (Errorf ''subject attribute is not one this CA issues'')
         | Some short \<Rightarrow>
             if short \<notin> set (p_SubjectRDNs p) then Inl (Errorf ''subject attribute is not allowed'')
             else Inr atv) (n_Names requested))
     (\<lambda>kept.
        if kept = [] \<and> \<not> p_SANRequired p then Inl (Errorf ''the certificate would name nothing'')
        else Inr (fill_from_rdn empty_name [kept]))"

section \<open>Configuration\<close>

definition extKeyUsageNames :: "(string \<times> ext_key_usage) list" where
  "extKeyUsageNames = [(''serverAuth'', EKU_ServerAuth), (''clientAuth'', EKU_ClientAuth),
     (''codeSigning'', EKU_CodeSigning), (''emailProtection'', EKU_EmailProtection),
     (''timeStamping'', EKU_TimeStamping), (''ocspSigning'', EKU_OCSPSigning)]"

definition keyUsageNames :: "(string \<times> key_usage) list" where
  "keyUsageNames = [(''digitalSignature'', KU_DigitalSignature),
     (''contentCommitment'', KU_ContentCommitment), (''keyEncipherment'', KU_KeyEncipherment),
     (''keyAgreement'', KU_KeyAgreement)]"

definition sanTypeNames :: "(string \<times> san_type) list" where
  "sanTypeNames = [(''dns'', SANDNS), (''ip'', SANIP), (''uri'', SANURI), (''email'', SANEmail)]"

definition keyAlgorithmNames :: "(string \<times> key_algorithm) list" where
  "keyAlgorithmNames = [(''ec-p256'', KeyECP256), (''ec-p384'', KeyECP384),
     (''ec-p521'', KeyECP521), (''rsa'', KeyRSA)]"

record profile_spec =
  ps_ExtendedKeyUsages :: "string list"
  ps_KeyUsages :: "string list"
  ps_SANTypes :: "string list"
  ps_SANRequired :: bool
  ps_Subject :: "string list"
  ps_KeyAlgorithms :: "string list"
  ps_ValidityHours :: int
  ps_OCSPNoCheck :: bool

definition vocab :: "string \<Rightarrow> (string \<times> 'a) list \<Rightarrow> string \<Rightarrow> 'a res" where
  "vocab what table n = (case map_of table n of None \<Rightarrow> Inl (Errorf what) | Some v \<Rightarrow> Inr v)"

definition profile_Compile :: "profile_spec \<Rightarrow> string \<Rightarrow> profile res" where
  "profile_Compile s name =
     bindR (mapR (vocab ''unknown extended key usage'' extKeyUsageNames) (ps_ExtendedKeyUsages s)) (\<lambda>ekus.
     bindR (mapR (vocab ''unknown key usage'' keyUsageNames) (ps_KeyUsages s)) (\<lambda>kus.
     bindR (mapR (vocab ''unknown san type'' sanTypeNames) (ps_SANTypes s)) (\<lambda>sans.
     bindR (mapR (vocab ''unknown key algorithm'' keyAlgorithmNames) (ps_KeyAlgorithms s)) (\<lambda>algs.
     Inr \<lparr>p_Name = name, p_ExtKeyUsages = ekus, p_KeyUsage = foldl (OR) 0 kus, p_SANTypes = sans,
          p_SANRequired = ps_SANRequired s, p_SubjectRDNs = ps_Subject s, p_KeyAlgorithms = algs,
          p_Validity = int64 (ps_ValidityHours s * hour), p_OCSPNoCheck = ps_OCSPNoCheck s\<rparr>))))"

definition profile_Parse :: "(string \<times> profile_spec) list \<Rightarrow> profile_set res" where
  "profile_Parse specs =
     (if specs = [] then Inl (Errorf ''profile: the profiles section is present but empty'')
      else mapR (\<lambda>(name, spec).
        if is_blank name then Inl (Errorf ''profile: a profile has an empty name'')
        else bindR (profile_Compile spec name) (\<lambda>p. Inr (name, Some p))) specs)"

definition Builtin :: profile_set where
  "Builtin = (let allKeys = [KeyECP256, KeyECP384, KeyECP521, KeyRSA] in
    [(''tls-server'', Some \<lparr>p_Name = ''tls-server'', p_ExtKeyUsages = [EKU_ServerAuth],
        p_KeyUsage = KU_DigitalSignature OR KU_KeyEncipherment, p_SANTypes = [SANDNS, SANIP],
        p_SANRequired = True, p_SubjectRDNs = [''CN''], p_KeyAlgorithms = allKeys,
        p_Validity = 90 * 24 * hour, p_OCSPNoCheck = False\<rparr>),
     (''tls-client'', Some \<lparr>p_Name = ''tls-client'', p_ExtKeyUsages = [EKU_ClientAuth],
        p_KeyUsage = KU_DigitalSignature OR KU_KeyEncipherment, p_SANTypes = [SANURI, SANEmail],
        p_SANRequired = False, p_SubjectRDNs = [''CN'', ''O'', ''OU''], p_KeyAlgorithms = allKeys,
        p_Validity = 90 * 24 * hour, p_OCSPNoCheck = False\<rparr>),
     (''code-signing'', Some \<lparr>p_Name = ''code-signing'', p_ExtKeyUsages = [EKU_CodeSigning],
        p_KeyUsage = KU_DigitalSignature, p_SANTypes = [SANURI],
        p_SANRequired = False, p_SubjectRDNs = [''CN'', ''O''], p_KeyAlgorithms = allKeys,
        p_Validity = 365 * 24 * hour, p_OCSPNoCheck = False\<rparr>),
     (''ocsp-responder'', Some \<lparr>p_Name = ''ocsp-responder'', p_ExtKeyUsages = [EKU_OCSPSigning],
        p_KeyUsage = KU_DigitalSignature, p_SANTypes = [],
        p_SANRequired = False, p_SubjectRDNs = [''CN''],
        p_KeyAlgorithms = [KeyECP256, KeyECP384, KeyECP521],
        p_Validity = 7 * 24 * hour, p_OCSPNoCheck = True\<rparr>)])"

section \<open>What the checks decide\<close>

lemma profile_Validate_iff [res_simps]:
  "profile_Validate p = Inr u \<longleftrightarrow>
     p_Name p \<noteq> [] \<and> p_ExtKeyUsages p \<noteq> [] \<and> p_KeyUsage p \<noteq> 0 \<and>
     p_KeyUsage p AND (KU_CertSign OR KU_CRLSign) = 0 \<and> 0 < p_Validity p \<and>
     p_KeyAlgorithms p \<noteq> [] \<and> (p_SANRequired p \<longrightarrow> p_SANTypes p \<noteq> []) \<and>
     (p_SubjectRDNs p = [] \<longrightarrow> p_SANRequired p) \<and>
     (\<forall>rdn \<in> set (p_SubjectRDNs p). map_of rdnOIDs rdn \<noteq> None)"
  by (auto simp: profile_Validate_def res_simps)

lemma set_Validate_iff [res_simps]:
  "set_Validate s maxValidity = Inr u \<longleftrightarrow> s \<noteq> [] \<and>
     (\<forall>(name, entry) \<in> set s. \<exists>p. entry = Some p \<and> p_Name p = name \<and>
        profile_Validate p = Inr () \<and> (0 < maxValidity \<longrightarrow> p_Validity p \<le> maxValidity))"
proof -
  let ?f = "\<lambda>(name, entry). case entry of None \<Rightarrow> Inl (Errorf ''nil'')
      | Some p \<Rightarrow> if p_Name p \<noteq> name then Inl (Errorf ''carries another name'')
          else bindR (profile_Validate p) (\<lambda>_. if maxValidity > 0 \<and> p_Validity p > maxValidity
            then Inl (Errorf ''validity exceeds the ceiling'') else Inr ())"
  have f: "?f (name, entry) = Inr () \<longleftrightarrow> (\<exists>p. entry = Some p \<and> p_Name p = name \<and>
      profile_Validate p = Inr () \<and> (0 < maxValidity \<longrightarrow> p_Validity p \<le> maxValidity))" for name entry
    by (cases entry) (auto simp: bindR_eq_Inr)
  show ?thesis
    unfolding set_Validate_def by (auto simp only: forR_eq_Inr f split: if_splits) (use f in auto)
qed

lemma AllowsKey_ec:
  "AllowsKey p (EcdsaKey curve x y) = Inr u \<Longrightarrow> curve \<in> {EC_P256, EC_P384, EC_P521}"
  by (auto simp: AllowsKey_def split: elliptic.splits)

lemma check_sans_loop_iff:
  "check_sans_loop p csr ts present = Inr m \<longleftrightarrow>
     (\<forall>t \<in> set ts. san_count csr t \<noteq> 0 \<longrightarrow> t \<in> set (p_SANTypes p)) \<and>
     m = present + sum_list (map (san_count csr) ts)"
  by (induction p csr ts present rule: check_sans_loop.induct) (auto simp: Let_def)

lemma CheckSANs_iff [res_simps]:
  "CheckSANs order p csr = Inr u \<longleftrightarrow>
     (\<forall>t \<in> set order. san_count csr t \<noteq> 0 \<longrightarrow> t \<in> set (p_SANTypes p)) \<and>
     (p_SANRequired p \<longrightarrow> (\<exists>t \<in> set order. san_count csr t \<noteq> 0))"
  by (auto simp: CheckSANs_def bindR_eq_Inr check_sans_loop_iff)

lemma Subject_iff [res_simps]:
  "Subject p requested = Inr out \<longleftrightarrow>
     (\<forall>a \<in> set (n_Names requested). \<exists>short \<in> set (p_SubjectRDNs p). rdnShortName (at_Type a) = Some short) \<and>
     (n_Names requested = [] \<longrightarrow> p_SANRequired p) \<and>
     out = fill_from_rdn empty_name [n_Names requested]"
proof -
  let ?f = "\<lambda>atv. case rdnShortName (at_Type atv) of
      None \<Rightarrow> Inl (Errorf ''subject attribute is not one this CA issues'')
    | Some short \<Rightarrow> if short \<notin> set (p_SubjectRDNs p) then Inl (Errorf ''subject attribute is not allowed'')
        else Inr atv"
  have f: "?f a = Inr b \<longleftrightarrow> b = a \<and> (\<exists>short \<in> set (p_SubjectRDNs p). rdnShortName (at_Type a) = Some short)"
    for a b by (auto split: option.splits)
  have "mapR ?f as = Inr bs \<longleftrightarrow> bs = as \<and> (\<forall>a \<in> set as. \<exists>short \<in> set (p_SubjectRDNs p).
      rdnShortName (at_Type a) = Some short)" for as bs
    by (induction as arbitrary: bs) (auto simp: bindR_eq_Inr f)
  then show ?thesis by (auto simp: Subject_def bindR_eq_Inr)
qed

lemma foldl_OR_disjoint:
  fixes m :: "'a::len word"
  assumes "\<forall>k \<in> set ks. k AND m = 0" "a AND m = 0"
  shows "foldl (OR) a ks AND m = 0"
  using assms by (induction ks arbitrary: a) (auto simp: bit.conj_disj_distrib2)

lemma vocab_eq_Inr [res_simps]: "vocab what table n = Inr v \<longleftrightarrow> map_of table n = Some v"
  by (auto simp: vocab_def split: option.splits)

lemma profile_Compile_fields:
  assumes "profile_Compile s name = Inr p"
  shows "p_Name p = name" "p_Validity p = int64 (ps_ValidityHours s * hour)"
    "p_SubjectRDNs p = ps_Subject s" "p_SANRequired p = ps_SANRequired s"
    "p_OCSPNoCheck p = ps_OCSPNoCheck s"
    "length (p_ExtKeyUsages p) = length (ps_ExtendedKeyUsages s)"
    "set (p_ExtKeyUsages p) \<subseteq> snd ` set extKeyUsageNames"
    "set (p_SANTypes p) \<subseteq> snd ` set sanTypeNames"
    "set (p_KeyAlgorithms p) \<subseteq> snd ` set keyAlgorithmNames"
    "p_KeyUsage p AND (KU_CertSign OR KU_CRLSign) = 0"
proof -
  from assms obtain ekus kus sans algs where
    *: "mapR (vocab ''unknown extended key usage'' extKeyUsageNames) (ps_ExtendedKeyUsages s) = Inr ekus"
      "mapR (vocab ''unknown key usage'' keyUsageNames) (ps_KeyUsages s) = Inr kus"
      "mapR (vocab ''unknown san type'' sanTypeNames) (ps_SANTypes s) = Inr sans"
      "mapR (vocab ''unknown key algorithm'' keyAlgorithmNames) (ps_KeyAlgorithms s) = Inr algs"
    and p: "p = \<lparr>p_Name = name, p_ExtKeyUsages = ekus, p_KeyUsage = foldl (OR) 0 kus, p_SANTypes = sans,
          p_SANRequired = ps_SANRequired s, p_SubjectRDNs = ps_Subject s, p_KeyAlgorithms = algs,
          p_Validity = int64 (ps_ValidityHours s * hour), p_OCSPNoCheck = ps_OCSPNoCheck s\<rparr>"
    by (auto simp: profile_Compile_def bindR_eq_Inr)
  have in_table: "mapR (vocab w t) ns = Inr vs \<Longrightarrow> set vs \<subseteq> snd ` set t" for w ns vs and t :: "(string \<times> 'v) list"
    by (force simp: mapR_mem vocab_eq_Inr dest: map_of_SomeD)
  have len: "mapR (vocab w t) ns = Inr vs \<Longrightarrow> length vs = length ns" for w ns vs and t :: "(string \<times> 'v) list"
    by (auto simp: mapR_eq_Inr dest: map_eq_imp_length_eq)
  have "\<forall>k \<in> set kus. k AND (KU_CertSign OR KU_CRLSign) = 0"
    using in_table [OF *(2)] by (auto simp: keyUsageNames_def KU_defs)
  then have "foldl (OR) 0 kus AND (KU_CertSign OR KU_CRLSign) = 0"
    by (rule foldl_OR_disjoint) simp
  with in_table [OF *(1)] in_table [OF *(3)] in_table [OF *(4)] len [OF *(1)]
  show "p_Name p = name" "p_Validity p = int64 (ps_ValidityHours s * hour)"
    "p_SubjectRDNs p = ps_Subject s" "p_SANRequired p = ps_SANRequired s"
    "p_OCSPNoCheck p = ps_OCSPNoCheck s"
    "length (p_ExtKeyUsages p) = length (ps_ExtendedKeyUsages s)"
    "set (p_ExtKeyUsages p) \<subseteq> snd ` set extKeyUsageNames"
    "set (p_SANTypes p) \<subseteq> snd ` set sanTypeNames"
    "set (p_KeyAlgorithms p) \<subseteq> snd ` set keyAlgorithmNames"
    "p_KeyUsage p AND (KU_CertSign OR KU_CRLSign) = 0"
    by (simp_all add: p)
qed

lemma word_eval: "KU_DigitalSignature OR KU_KeyEncipherment = 5"
  "(5 :: key_usage) AND (KU_CertSign OR KU_CRLSign) = 0"
  "KU_DigitalSignature AND (KU_CertSign OR KU_CRLSign) = 0"
  by (simp_all add: KU_defs)

section \<open>Properties\<close>

text \<open>The SAN check does not depend on the order in which Go walks its map. Whatever
  permutation of the four name types it takes, a request passes exactly when every type it
  carries is one the profile copies and, where the profile requires a name, it carries one.\<close>

theorem CheckSANs_any_order:
  assumes "mset order = mset [SANDNS, SANIP, SANURI, SANEmail]"
  shows "CheckSANs order p csr = Inr () \<longleftrightarrow>
     (csr_DNSNames csr \<noteq> [] \<longrightarrow> SANDNS \<in> set (p_SANTypes p)) \<and>
     (csr_IPAddresses csr \<noteq> [] \<longrightarrow> SANIP \<in> set (p_SANTypes p)) \<and>
     (csr_URIs csr \<noteq> [] \<longrightarrow> SANURI \<in> set (p_SANTypes p)) \<and>
     (csr_EmailAddresses csr \<noteq> [] \<longrightarrow> SANEmail \<in> set (p_SANTypes p)) \<and>
     (p_SANRequired p \<longrightarrow> csr_DNSNames csr \<noteq> [] \<or> csr_IPAddresses csr \<noteq> [] \<or>
        csr_URIs csr \<noteq> [] \<or> csr_EmailAddresses csr \<noteq> [])"
proof -
  from assms have "set order = {SANDNS, SANIP, SANURI, SANEmail}"
    by (metis mset_eq_setD list.set(1) list.simps(15))
  moreover have "san_count csr SANDNS = length (csr_DNSNames csr)"
    "san_count csr SANIP = length (csr_IPAddresses csr)"
    "san_count csr SANURI = length (csr_URIs csr)"
    "san_count csr SANEmail = length (csr_EmailAddresses csr)"
    by (simp_all add: san_count_def san_defs)
  ultimately show ?thesis by (auto simp: CheckSANs_iff)
qed

theorem CheckSANs_any_order_witness:
  "\<exists>p csr. CheckSANs [SANEmail, SANDNS, SANIP, SANURI] p csr = Inr () \<and> csr_DNSNames csr \<noteq> []"
proof -
  define p :: profile where "p = \<lparr>p_Name = ''t'', p_ExtKeyUsages = [], p_KeyUsage = 0,
    p_SANTypes = [SANDNS], p_SANRequired = True, p_SubjectRDNs = [], p_KeyAlgorithms = [],
    p_Validity = 0, p_OCSPNoCheck = False\<rparr>"
  define csr :: csr where "csr = \<lparr>csr_PublicKey = OtherKey [], csr_Subject = empty_name,
    csr_DNSNames = [''a''], csr_IPAddresses = [], csr_URIs = [], csr_EmailAddresses = []\<rparr>"
  have "mset [SANEmail, SANDNS, SANIP, SANURI] = mset [SANDNS, SANIP, SANURI, SANEmail]" by simp
  from CheckSANs_any_order [OF this, of p csr]
  have "CheckSANs [SANEmail, SANDNS, SANIP, SANURI] p csr = Inr ()"
    by (simp add: p_def csr_def)
  then show ?thesis by (intro exI [of _ p] exI [of _ csr]) (simp add: csr_def)
qed

text \<open>A subject that passes a profile keeps every attribute of the request, and each of
  them is one of the attribute types the profile lists; a certificate whose profile requires no
  SAN names at least one attribute.\<close>

theorem Subject_only_listed_attributes:
  assumes "Subject p requested = Inr out"
  shows "n_Names out = n_Names requested \<and>
    at_Type ` set (n_Names out) \<subseteq> {t. \<exists>rdn. rdn \<in> set (p_SubjectRDNs p) \<and> map_of rdnOIDs rdn = Some t} \<and>
    (n_Names out = [] \<longrightarrow> p_SANRequired p)"
proof -
  have "rdnShortName t = Some short \<Longrightarrow> map_of rdnOIDs short = Some t" for t short
    by (auto simp: rdnShortName_def rdnOIDs_def split: if_splits)
  with assms show ?thesis by (fastforce simp: Subject_iff empty_name_def)
qed

definition cn_request :: pkix_name where
  "cn_request = fill_from_rdn empty_name [[\<lparr>at_Type = [2, 5, 4, 3], at_Value = ''w''\<rparr>]]"

theorem Subject_only_listed_attributes_witness:
  "\<exists>p out. set_Lookup Builtin ''tls-server'' = Inr (Some p) \<and> Subject p cn_request = Inr out \<and>
     n_Names out = n_Names cn_request"
proof -
  obtain p where p: "set_Lookup Builtin ''tls-server'' = Inr (Some p)" "p_SubjectRDNs p = [''CN'']"
    by (simp add: set_Lookup_def Builtin_def Let_def)
  then obtain out where "Subject p cn_request = Inr out"
    by (auto simp: Subject_iff cn_request_def empty_name_def rdnShortName_def rdnOIDs_def)
  with Subject_only_listed_attributes [OF this] p show ?thesis by blast
qed

text \<open>A configured profile cannot express a CA certificate: whatever the section says, a
  compiled profile never carries keyCertSign or cRLSign, and every usage, name type and key
  algorithm in it comes from the fixed vocabulary.\<close>

theorem Compile_within_vocabulary:
  assumes "profile_Compile s name = Inr p"
  shows "p_KeyUsage p AND (KU_CertSign OR KU_CRLSign) = 0 \<and>
    set (p_ExtKeyUsages p) \<subseteq> {EKU_ServerAuth, EKU_ClientAuth, EKU_CodeSigning, EKU_EmailProtection,
      EKU_TimeStamping, EKU_OCSPSigning} \<and>
    set (p_SANTypes p) \<subseteq> {SANDNS, SANIP, SANURI, SANEmail} \<and>
    set (p_KeyAlgorithms p) \<subseteq> {KeyECP256, KeyECP384, KeyECP521, KeyRSA}"
  using profile_Compile_fields(7-10) [OF assms]
  by (simp add: extKeyUsageNames_def sanTypeNames_def keyAlgorithmNames_def)

theorem Compile_within_vocabulary_witness:
  "\<exists>p. profile_Compile \<lparr>ps_ExtendedKeyUsages = [''clientAuth''], ps_KeyUsages = [''digitalSignature''],
        ps_SANTypes = [''uri''], ps_SANRequired = False, ps_Subject = [''CN''],
        ps_KeyAlgorithms = [''ec-p256''], ps_ValidityHours = 24, ps_OCSPNoCheck = False\<rparr> ''c'' = Inr p \<and>
      p_KeyUsage p AND (KU_CertSign OR KU_CRLSign) = 0"
proof -
  let ?s = "\<lparr>ps_ExtendedKeyUsages = [''clientAuth''], ps_KeyUsages = [''digitalSignature''],
        ps_SANTypes = [''uri''], ps_SANRequired = False, ps_Subject = [''CN''],
        ps_KeyAlgorithms = [''ec-p256''], ps_ValidityHours = 24, ps_OCSPNoCheck = False\<rparr>"
  have "\<exists>p. profile_Compile ?s ''c'' = Inr p"
    by (simp add: profile_Compile_def vocab_def extKeyUsageNames_def keyUsageNames_def sanTypeNames_def
        keyAlgorithmNames_def)
  then obtain p where "profile_Compile ?s ''c'' = Inr p" by blast
  with Compile_within_vocabulary [OF this] show ?thesis by blast
qed

text \<open>The four profiles the platform ships are accepted by the set's own validation under
  exactly the ceilings that admit its longest one, a year.\<close>

theorem Builtin_valid_iff:
  "set_Validate Builtin maxValidity = Inr () \<longleftrightarrow> maxValidity \<le> 0 \<or> 365 * 24 * hour \<le> maxValidity"
proof -
  have "KU_DigitalSignature \<noteq> 0" "(5 :: key_usage) \<noteq> 0" by (simp_all add: KU_defs)
  then show ?thesis
    by (auto simp: set_Validate_iff profile_Validate_iff Builtin_def Let_def word_eval rdnOIDs_def
        hour_def minute_def second_def)
qed


end
