(* ===== verification/Entitlement.thy ===== *)
theory Entitlement
  imports Profile Regex
begin

text \<open>
  \<^verbatim>\<open>internal/entitlement\<close>: which profiles and which names an authenticated identity may
  ask for. Patterns are globs, compiled to the regular expressions of \<^theory_text>\<open>Regex\<close>, or
  address ranges. The text syntax of addresses (\<^verbatim>\<open>net.ParseIP\<close>, \<^verbatim>\<open>net.ParseCIDR\<close>) is the
  parameter \<open>net_lib\<close>; \<^verbatim>\<open>IPNet.Contains\<close> and \<^verbatim>\<open>IP.Equal\<close> are modelled on the bytes.
  A DNS name of a request is ASCII (the library parses it as an IA5String), so case
  folding is the folding of ASCII letters.
\<close>

section \<open>Addresses\<close>

type_synonym ip = "8 word list"

record ipnet =
  net_IP :: ip
  net_Mask :: "8 word list"

record net_lib =
  ParseIP :: "string \<Rightarrow> ip option"
  ParseCIDR :: "string \<Rightarrow> ipnet res"

definition To4 :: "ip \<Rightarrow> ip option" where
  "To4 a =
     (if length a = 4 then Some a
      else if length a = 16 \<and> take 10 a = replicate 10 0 \<and> a ! 10 = 255 \<and> a ! 11 = 255
      then Some (drop 12 a) else None)"

definition networkNumberAndMask :: "ipnet \<Rightarrow> (ip \<times> 8 word list) option" where
  "networkNumberAndMask n =
     (let a = (case To4 (net_IP n) of Some a \<Rightarrow> a | None \<Rightarrow> net_IP n); m = net_Mask n in
      if length a \<noteq> 4 \<and> length a \<noteq> 16 then None
      else if length m = 4 then (if length a \<noteq> 4 then None else Some (a, m))
      else if length m = 16 then Some (a, if length a = 4 then drop 12 m else m)
      else None)"

definition Contains :: "ipnet \<Rightarrow> ip \<Rightarrow> bool" where
  "Contains n a =
     (let a' = (case To4 a of Some x \<Rightarrow> x | None \<Rightarrow> a) in
      case networkNumberAndMask n of
        None \<Rightarrow> a' = []
      | Some (nn, m) \<Rightarrow> length a' = length nn \<and>
          list_all2 (\<lambda>(x, k) y. x AND k = y AND k) (zip nn m) a')"

definition ip_Equal :: "ip \<Rightarrow> ip \<Rightarrow> bool" where
  "ip_Equal a b \<longleftrightarrow>
     (if length a = length b then a = b
      else (case (To4 a, To4 b) of (Some x, Some y) \<Rightarrow> x = y | _ \<Rightarrow> False))"

section \<open>Patterns\<close>

type_synonym name_type = string
definition NameCN :: name_type where "NameCN = ''cn''"
definition NameDNS :: name_type where "NameDNS = ''dns''"
definition NameIP :: name_type where "NameIP = ''ip''"
definition NameURI :: name_type where "NameURI = ''uri''"
definition NameEmail :: name_type where "NameEmail = ''email''"

lemmas name_type_defs = NameCN_def NameDNS_def NameIP_def NameURI_def NameEmail_def

record pattern =
  pat_Type :: name_type
  pat_raw :: string
  pat_re :: "regex option"
  pat_cidr :: "ipnet option"
  pat_ip :: "ip option"
  pat_any :: bool

definition pattern_String :: "pattern \<Rightarrow> string" where
  "pattern_String p = pat_Type p @ '':'' @ pat_raw p"

text \<open>
  The quoted parts joined with \<^verbatim>\<open>.*\<close> and anchored at both ends, matched with
  \<^verbatim>\<open>MatchString\<close>: the whole name must match, and \<^verbatim>\<open>.\<close> is any character but a newline.
\<close>

definition quoted :: "bool \<Rightarrow> string \<Rightarrow> regex" where
  "quoted ci part = seqs (map (\<lambda>c. Sym (if ci then LitFold c else Lit c)) part)"

fun join_parts :: "bool \<Rightarrow> string list \<Rightarrow> regex" where
  "join_parts ci [] = Eps"
| "join_parts ci [part] = quoted ci part"
| "join_parts ci (part # parts) = Seq (quoted ci part) (Seq (Star (Sym Dot)) (join_parts ci parts))"

definition globRegexp :: "string \<Rightarrow> bool \<Rightarrow> regex" where
  "globRegexp glob ci = join_parts ci (Split (CHR ''*'') glob)"

definition ParsePattern :: "net_lib \<Rightarrow> string \<Rightarrow> pattern res" where
  "ParsePattern net s =
     (let (typ, rest, ok) = Cut (CHR '':'') s;
          p = \<lparr>pat_Type = typ, pat_raw = rest, pat_re = None, pat_cidr = None, pat_ip = None,
               pat_any = False\<rparr> in
      if \<not> ok \<or> rest = [] then Inl (Errorf ''pattern is not <type>:<glob>'')
      else if typ \<in> {NameCN, NameURI, NameEmail} then Inr (p\<lparr>pat_re := Some (globRegexp rest False)\<rparr>)
      else if typ = NameDNS then Inr (p\<lparr>pat_re := Some (globRegexp rest True)\<rparr>)
      else if typ = NameIP then
        (if rest = ''*'' then Inr (p\<lparr>pat_any := True\<rparr>)
         else if CHR ''/'' \<in> set rest
         then bindR (wrapR ''pattern'' (ParseCIDR net rest)) (\<lambda>cidr. Inr (p\<lparr>pat_cidr := Some cidr\<rparr>))
         else case ParseIP net rest of
             None \<Rightarrow> Inl (Errorf ''not an IP address, a CIDR range or *'')
           | Some a \<Rightarrow> Inr (p\<lparr>pat_ip := Some a\<rparr>))
      else Inl (Errorf ''unknown name type''))"

text \<open>A pattern with no expression would be a nil dereference; \<open>ParsePattern\<close> makes none.\<close>

definition pattern_matches :: "net_lib \<Rightarrow> pattern \<Rightarrow> string \<Rightarrow> bool" where
  "pattern_matches net p name =
     (if pat_Type p = NameIP then
        pat_any p \<or>
        (case ParseIP net name of
           None \<Rightarrow> False
         | Some a \<Rightarrow>
            (case pat_cidr p of
               Some cidr \<Rightarrow> Contains cidr a
             | None \<Rightarrow> (case pat_ip p of Some b \<Rightarrow> ip_Equal b a | None \<Rightarrow> ip_Equal [] a)))
      else (case pat_re p of Some re \<Rightarrow> rmatch re name | None \<Rightarrow> False))"

section \<open>Entitlements\<close>

text \<open>The granted profiles are the keys of a Go map whose values are all true.\<close>

record entitlement =
  ent_profiles :: "string list"
  ent_names :: "pattern list"

record entitlement_spec =
  es_Profiles :: "string list"
  es_Names :: "string list"

fun compile_profiles :: "string list \<Rightarrow> string list \<Rightarrow> string list res" where
  "compile_profiles granted [] = Inr granted"
| "compile_profiles granted (name # names) =
     (if name = [] then Inl (Errorf ''lists an empty profile name'')
      else if InternalOnly name then Inl (Errorf ''no client may obtain'')
      else if name \<in> set granted then Inl (Errorf ''lists profile twice'')
      else compile_profiles (granted @ [name]) names)"

definition entitlement_Compile :: "net_lib \<Rightarrow> entitlement_spec \<Rightarrow> string \<Rightarrow> entitlement res" where
  "entitlement_Compile net s identity =
     (if es_Profiles s = [] then Inl (Errorf ''lists no profile'')
      else if es_Names s = [] then Inl (Errorf ''lists no name pattern'')
      else bindR (compile_profiles [] (es_Profiles s)) (\<lambda>granted.
           bindR (mapR (\<lambda>raw. wrapR ''entitlement'' (ParsePattern net raw)) (es_Names s)) (\<lambda>pats.
           Inr \<lparr>ent_profiles = granted, ent_names = pats\<rparr>)))"

definition Profiles :: "entitlement \<Rightarrow> string list" where
  "Profiles e = sort (ent_profiles e)"

definition PermitsProfile :: "entitlement \<Rightarrow> string \<Rightarrow> bool" where
  "PermitsProfile e name \<longleftrightarrow> name \<in> set (ent_profiles e) \<and> \<not> InternalOnly name"

definition check_name :: "net_lib \<Rightarrow> entitlement \<Rightarrow> name_type \<Rightarrow> string \<Rightarrow> unit res" where
  "check_name net e typ name =
     (if \<exists>p \<in> set (ent_names e). pat_Type p = typ \<and> pattern_matches net p name then Inr ()
      else Inl (Wrap ''matches no pattern'' (Sentinel ErrNotEntitled)))"

text \<open>The addresses of a request are given here by their text, \<^verbatim>\<open>ip.String()\<close>.\<close>

definition PermitsNames :: "net_lib \<Rightarrow> entitlement \<Rightarrow> csr \<Rightarrow> unit res" where
  "PermitsNames net e csr =
     bindR (if n_CommonName (csr_Subject csr) \<noteq> []
            then check_name net e NameCN (n_CommonName (csr_Subject csr)) else Inr ()) (\<lambda>_.
     bindR (forR (check_name net e NameDNS) (csr_DNSNames csr)) (\<lambda>_.
     bindR (forR (check_name net e NameIP) (csr_IPAddresses csr)) (\<lambda>_.
     bindR (forR (check_name net e NameURI) (csr_URIs csr)) (\<lambda>_.
     forR (check_name net e NameEmail) (csr_EmailAddresses csr)))))"

type_synonym entitlement_map = "(string \<times> entitlement) list"

definition entitlement_Parse ::
    "net_lib \<Rightarrow> (string \<times> entitlement_spec) list \<Rightarrow> entitlement_map res" where
  "entitlement_Parse net specs =
     mapR (\<lambda>(identity, spec).
       if is_blank identity then Inl (Errorf ''an entry has an empty identity'')
       else bindR (entitlement_Compile net spec identity) (\<lambda>e. Inr (identity, e))) specs"

definition Identities :: "entitlement_map \<Rightarrow> string list" where
  "Identities m = sort (map fst m)"

section \<open>What a glob matches\<close>

inductive glob_matches :: "bool \<Rightarrow> string \<Rightarrow> string \<Rightarrow> bool" where
  glob_Nil: "glob_matches ci [] []"
| glob_Star: "CHR 0x0A \<notin> set run \<Longrightarrow> glob_matches ci glob s \<Longrightarrow>
    glob_matches ci (CHR ''*'' # glob) (run @ s)"
| glob_Char: "c \<noteq> CHR ''*'' \<Longrightarrow> d = c \<or> ci \<and> ascii_lower d = ascii_lower c \<Longrightarrow>
    glob_matches ci glob s \<Longrightarrow> glob_matches ci (c # glob) (d # s)"

code_pred glob_matches .

inductive_simps glob_matches_Nil [simp]: "glob_matches ci [] s"
inductive_simps glob_matches_Cons: "glob_matches ci (c # glob) s"

lemma matches_seqs_Cons: "matches (seqs (r # rs)) s \<longleftrightarrow> matches (Seq r (seqs rs)) s"
  by (cases rs) (auto simp: matches_Seq_iff)

lemma matches_Seq_assoc: "matches (Seq (Seq a b) c) s \<longleftrightarrow> matches (Seq a (Seq b c)) s"
  by (auto simp: matches_Seq_iff) (metis append.assoc)+

lemma matches_Seq_cong:
  "(\<And>s. matches a s \<longleftrightarrow> matches a' s) \<Longrightarrow> matches (Seq a b) s \<longleftrightarrow> matches (Seq a' b) s"
  by (simp add: matches_Seq_iff)

lemma matches_Seq_Sym:
  "matches (Seq (Sym cs) r) s \<longleftrightarrow> (\<exists>d t. s = d # t \<and> in_cset cs d \<and> matches r t)"
proof -
  have "matches (Seq (Sym cs) r) (d # t) \<longleftrightarrow> in_cset cs d \<and> matches r t" for d t
  proof
    assume "in_cset cs d \<and> matches r t"
    then show "matches (Seq (Sym cs) r) (d # t)"
      using matches_Seq [OF matches_Sym, of cs d r t] by simp
  qed (auto simp: matches_Seq_iff matches_Sym_iff)
  moreover have "\<not> matches (Seq (Sym cs) r) []"
    by (auto simp: matches_Seq_iff matches_Sym_iff)
  ultimately show ?thesis by (cases s) auto
qed

lemma quoted_Nil [simp]: "quoted ci [] = Eps"
  by (simp add: quoted_def)

lemma matches_quoted_Cons:
  "matches (quoted ci (c # part)) s \<longleftrightarrow>
     matches (Seq (Sym (if ci then LitFold c else Lit c)) (quoted ci part)) s"
  by (simp only: quoted_def list.map matches_seqs_Cons)

lemma matches_join_Cons:
  "matches (join_parts ci ((c # part) # parts)) s \<longleftrightarrow>
     (\<exists>d t. s = d # t \<and> (d = c \<or> ci \<and> ascii_lower d = ascii_lower c) \<and>
        matches (join_parts ci (part # parts)) t)"
proof -
  have one: "matches (Seq (Sym (if ci then LitFold c else Lit c)) r) s \<longleftrightarrow>
      (\<exists>d t. s = d # t \<and> (d = c \<or> ci \<and> ascii_lower d = ascii_lower c) \<and> matches r t)" for r
    by (auto simp: matches_Seq_Sym)
  show ?thesis
  proof (cases parts)
    case Nil
    then show ?thesis by (simp add: matches_quoted_Cons one)
  next
    case (Cons p ps)
    then show ?thesis
      by (simp add: matches_Seq_cong [OF matches_quoted_Cons] matches_Seq_assoc one)
  qed
qed

lemma matches_join_Star:
  assumes "parts \<noteq> []"
  shows "matches (join_parts ci ([] # parts)) s \<longleftrightarrow>
     (\<exists>run t. s = run @ t \<and> CHR 0x0A \<notin> set run \<and> matches (join_parts ci parts) t)"
  using assms by (cases parts) (auto simp: matches_Seq_iff matches_Star_Sym)

lemma globRegexp_iff: "matches (globRegexp glob ci) s \<longleftrightarrow> glob_matches ci glob s"
  unfolding globRegexp_def
proof (induction glob arbitrary: s)
  case (Cons c glob)
  show ?case
  proof (cases "c = CHR ''*''")
    case True
    then show ?thesis
      by (auto simp: matches_join_Star Cons.IH glob_matches_Cons)
  next
    case False
    obtain part parts where "Split (CHR ''*'') glob = part # parts"
      by (cases "Split (CHR ''*'') glob") auto
    with False Cons.IH show ?thesis
      by (auto simp: matches_join_Cons glob_matches_Cons)
  qed
qed simp

lemma ascii_lower_newline: "ascii_lower (CHR 0x0A) = ascii_lower c \<Longrightarrow> c = CHR 0x0A"
proof (rule ccontr)
  let ?n = "of_char c :: nat"
  assume eq: "ascii_lower (CHR 0x0A) = ascii_lower c" and "c \<noteq> CHR 0x0A"
  moreover have "ascii_lower (CHR 0x0A) = CHR 0x0A" by (simp add: ascii_lower_def)
  ultimately have n: "65 \<le> ?n" "?n \<le> 90" and c: "CHR 0x0A = (char_of (?n + 32) :: char)"
    by (auto simp: ascii_lower_def split: if_splits)
  from arg_cong [OF c, of "of_char :: char \<Rightarrow> nat"] have "10 = (?n + 32) mod 256" by simp
  with n show False by simp
qed

lemma glob_newline_blind:
  assumes "glob_matches ci glob s"
  shows "CHR 0x0A \<in> set s \<Longrightarrow> CHR 0x0A \<in> set glob"
  using assms
proof (induction rule: glob_matches.induct)
  case (glob_Char c d ci glob s)
  with ascii_lower_newline [of c] show ?case by auto
qed auto

section \<open>What an entitlement grants\<close>

lemma compile_profiles_Inr:
  "compile_profiles granted names = Inr out \<longleftrightarrow>
     out = granted @ names \<and> distinct names \<and> set names \<inter> set granted = {} \<and>
     [] \<notin> set names \<and> (\<forall>n \<in> set names. \<not> InternalOnly n)"
  by (induction granted names rule: compile_profiles.induct) auto

lemma check_name_iff [res_simps]:
  "check_name net e typ name = Inr u \<longleftrightarrow>
     (\<exists>p \<in> set (ent_names e). pat_Type p = typ \<and> pattern_matches net p name)"
  by (auto simp: check_name_def)

definition csr_names :: "csr \<Rightarrow> (name_type \<times> string) set" where
  "csr_names csr =
     (let cn = n_CommonName (csr_Subject csr) in if cn = [] then {} else {(NameCN, cn)}) \<union>
     Pair NameDNS ` set (csr_DNSNames csr) \<union> Pair NameIP ` set (csr_IPAddresses csr) \<union>
     Pair NameURI ` set (csr_URIs csr) \<union> Pair NameEmail ` set (csr_EmailAddresses csr)"

lemma PermitsNames_iff:
  "PermitsNames net e csr = Inr u \<longleftrightarrow>
     (\<forall>(typ, name) \<in> csr_names csr.
        \<exists>p \<in> set (ent_names e). pat_Type p = typ \<and> pattern_matches net p name)"
  by (simp add: PermitsNames_def bindR_eq_Inr forR_eq_Inr check_name_iff csr_names_def Let_def
      ball_Un conj_assoc)

lemma ParsePattern_type:
  assumes "ParsePattern net s = Inr p"
  shows "Cut (CHR '':'') s = (pat_Type p, pat_raw p, True)"
proof -
  obtain ty rest ok where "Cut (CHR '':'') s = (ty, rest, ok)" by (cases "Cut (CHR '':'') s")
  with assms show ?thesis
    by (auto simp: ParsePattern_def Let_def bindR_eq_Inr split: if_splits option.splits)
qed

lemma ParsePattern_glob:
  assumes "ParsePattern net s = Inr pat" "pat_Type pat \<noteq> NameIP"
  shows "s = pat_Type pat @ '':'' @ pat_raw pat \<and> pat_raw pat \<noteq> [] \<and>
    pat_Type pat \<in> {NameCN, NameDNS, NameURI, NameEmail} \<and>
    pattern_matches net pat name = glob_matches (pat_Type pat = NameDNS) (pat_raw pat) name"
proof -
  have cut: "Cut sep x = (a, b, True) \<Longrightarrow> x = a @ sep # b" for sep x a b
    using Cut_found by blast
  obtain ty rest ok where c: "Cut (CHR '':'') s = (ty, rest, ok)" by (cases "Cut (CHR '':'') s")
  with assms have *: "ok" "rest \<noteq> []" "ty \<in> {NameCN, NameDNS, NameURI, NameEmail}"
    "pat = \<lparr>pat_Type = ty, pat_raw = rest, pat_re = Some (globRegexp rest (ty = NameDNS)),
       pat_cidr = None, pat_ip = None, pat_any = False\<rparr>"
    by (auto simp: ParsePattern_def Let_def bindR_eq_Inr name_type_defs split: if_splits option.splits)
  with c have "s = ty @ '':'' @ rest" by (auto dest: cut)
  moreover from * have "ty \<noteq> NameIP" by (auto simp: name_type_defs)
  ultimately show ?thesis using *
    by (simp add: pattern_matches_def rmatch_correct globRegexp_iff)
qed

lemma entitlement_Compile_Inr:
  "entitlement_Compile net s identity = Inr e \<longleftrightarrow>
     es_Profiles s \<noteq> [] \<and> es_Names s \<noteq> [] \<and> ent_profiles e = es_Profiles s \<and>
     distinct (es_Profiles s) \<and> [] \<notin> set (es_Profiles s) \<and>
     (\<forall>n \<in> set (es_Profiles s). \<not> InternalOnly n) \<and>
     map (ParsePattern net) (es_Names s) = map Inr (ent_names e)"
proof -
  have "map (\<lambda>raw. wrapR m (ParsePattern net raw)) ns = map Inr ps \<longleftrightarrow>
      map (ParsePattern net) ns = map Inr ps" for m ns ps
    by (induction ns arbitrary: ps) (auto simp: map_eq_Cons_conv Cons_eq_map_conv wrapR_eq_Inr)
  then show ?thesis
    by (auto simp: entitlement_Compile_def bindR_eq_Inr compile_profiles_Inr mapR_eq_Inr)
qed

text \<open>A library that knows no address, for the evaluated examples.\<close>

definition no_net :: net_lib where
  "no_net = \<lparr>ParseIP = (\<lambda>_. None), ParseCIDR = (\<lambda>_. Inl (Errorf ''invalid CIDR''))\<rparr>"

definition web_spec :: entitlement_spec where
  "web_spec = \<lparr>es_Profiles = [''tls-server''], es_Names = [''cn:w'', ''dns:*.E'']\<rparr>"

definition web_csr :: csr where
  "web_csr = \<lparr>csr_PublicKey = EcdsaKey EC_P256 1 2, csr_Subject = common_name ''w'',
     csr_DNSNames = [''a.e''], csr_IPAddresses = [], csr_URIs = [], csr_EmailAddresses = []\<rparr>"

lemma web_compiles: "\<exists>e. entitlement_Compile no_net web_spec ''id'' = Inr e \<and>
    PermitsNames no_net e web_csr = Inr ()"
proof -
  have "case entitlement_Compile no_net web_spec ''id'' of Inl _ \<Rightarrow> False
      | Inr e \<Rightarrow> is_ok (PermitsNames no_net e web_csr)"
    by code_simp
  then show ?thesis by (auto simp: is_ok_iff split: sum.splits)
qed

section \<open>Properties\<close>

text \<open>C7: A request without addresses passes an identity's entitlement exactly when every name
  it carries, the subject's common name included, is matched by a glob the configuration lists for
  that identity under the name's own type: a star stands for any run without a newline, letters of
  a DNS name match in either case, and everything else is literal.\<close>

theorem PermitsNames_by_configured_globs:
  assumes "entitlement_Compile net spec identity = Inr e" "csr_IPAddresses csr = []"
  shows "PermitsNames net e csr = Inr () \<longleftrightarrow>
    (\<forall>(typ, name) \<in> csr_names csr. \<exists>glob. typ @ '':'' @ glob \<in> set (es_Names spec) \<and>
       glob_matches (typ = NameDNS) glob name)"
proof -
  from assms have *: "map (ParsePattern net) (es_Names spec) = map Inr (ent_names e)"
    by (simp add: entitlement_Compile_Inr)
  have key: "(\<exists>p \<in> set (ent_names e). pat_Type p = ty \<and> pattern_matches net p name) \<longleftrightarrow>
      (\<exists>glob. ty @ '':'' @ glob \<in> set (es_Names spec) \<and> glob_matches (ty = NameDNS) glob name)"
    if ty: "(ty, name) \<in> csr_names csr" for ty name
  proof -
    from ty assms(2) have t: "ty \<noteq> NameIP" "CHR '':'' \<notin> set ty"
      by (auto simp: csr_names_def name_type_defs Let_def split: if_splits)
    show ?thesis
    proof
      assume "\<exists>p \<in> set (ent_names e). pat_Type p = ty \<and> pattern_matches net p name"
      then obtain p where p: "p \<in> set (ent_names e)" "pat_Type p = ty" "pattern_matches net p name"
        by blast
      with arg_cong [OF *, of "\<lambda>xs. Inr p \<in> set xs"]
      obtain raw where "raw \<in> set (es_Names spec)" "ParsePattern net raw = Inr p"
        by (auto simp: image_iff)
      with ParsePattern_glob [of net raw p name] p t
      show "\<exists>glob. ty @ '':'' @ glob \<in> set (es_Names spec) \<and> glob_matches (ty = NameDNS) glob name"
        by blast
    next
      assume "\<exists>glob. ty @ '':'' @ glob \<in> set (es_Names spec) \<and> glob_matches (ty = NameDNS) glob name"
      then obtain glob where g: "ty @ '':'' @ glob \<in> set (es_Names spec)"
        "glob_matches (ty = NameDNS) glob name" by blast
      with arg_cong [OF *, of set]
      obtain p where p: "p \<in> set (ent_names e)" "ParsePattern net (ty @ '':'' @ glob) = Inr p"
        by auto
      with ParsePattern_type [OF p(2)] t Cut_append [of "CHR '':''" ty glob]
      have "pat_Type p = ty" "pat_raw p = glob" by simp_all
      with p g t ParsePattern_glob [OF p(2), of name]
      show "\<exists>p \<in> set (ent_names e). pat_Type p = ty \<and> pattern_matches net p name"
        by auto
    qed
  qed
  show ?thesis
    unfolding PermitsNames_iff by (intro ball_cong refl) (simp only: split_paired_all case_prod_conv key)
qed

theorem PermitsNames_by_configured_globs_witness:
  "\<exists>e. PermitsNames no_net e web_csr = Inr () \<and>
    (\<forall>(typ, name) \<in> csr_names web_csr. \<exists>glob. typ @ '':'' @ glob \<in> set (es_Names web_spec) \<and>
       glob_matches (typ = NameDNS) glob name)"
proof -
  have "csr_IPAddresses web_csr = []" by (simp add: web_csr_def)
  with web_compiles PermitsNames_by_configured_globs [of no_net web_spec "''id''" _ web_csr]
  show ?thesis by blast
qed

text \<open>Whatever a configured mapping says, no identity of it may obtain the internal-only
  profile; each may obtain exactly the profiles its entry lists, which are at least one, none empty
  and none listed twice, and its identity is not blank.\<close>

theorem Parse_grants_what_is_listed:
  assumes "entitlement_Parse net specs = Inr m" "(identity, e) \<in> set m"
  shows "\<exists>spec. (identity, spec) \<in> set specs \<and> \<not> is_blank identity \<and>
    (\<forall>name. PermitsProfile e name \<longleftrightarrow> name \<in> set (es_Profiles spec)) \<and>
    \<not> PermitsProfile e InternalOnlyProfile \<and> es_Profiles spec \<noteq> [] \<and>
    [] \<notin> set (es_Profiles spec) \<and> distinct (es_Profiles spec) \<and> ent_names e \<noteq> []"
proof -
  from assms obtain spec where "(identity, spec) \<in> set specs" "\<not> is_blank identity"
    "entitlement_Compile net spec identity = Inr e"
    by (auto simp: entitlement_Parse_def mapR_mem bindR_eq_Inr split: if_splits)
  then show ?thesis
    by (auto simp: entitlement_Compile_Inr PermitsProfile_def InternalOnly_def intro!: exI [of _ spec])
qed

theorem Parse_grants_what_is_listed_witness:
  "\<exists>m e. entitlement_Parse no_net [(''id'', web_spec)] = Inr m \<and> (''id'', e) \<in> set m \<and>
     PermitsProfile e ''tls-server'' \<and> \<not> PermitsProfile e InternalOnlyProfile"
proof -
  obtain e where "entitlement_Compile no_net web_spec ''id'' = Inr e" using web_compiles by blast
  then have "entitlement_Parse no_net [(''id'', web_spec)] = Inr [(''id'', e)]"
    by (simp add: entitlement_Parse_def is_blank_def is_space_def)
  with Parse_grants_what_is_listed [OF this, of "''id''" e]
  show ?thesis by (auto simp: web_spec_def)
qed

text \<open>A glob is not any run of characters: no pattern an operator can write without a
  newline in it, \<^verbatim>\<open>cn:*\<close> included, matches a name that contains one.\<close>

theorem glob_never_matches_newline:
  assumes "ParsePattern net s = Inr p" "pat_Type p \<noteq> NameIP" "CHR 0x0A \<notin> set s"
    "CHR 0x0A \<in> set name"
  shows "\<not> pattern_matches net p name"
  using ParsePattern_glob [OF assms(1,2), of name] assms(3,4) glob_newline_blind by fastforce

theorem glob_never_matches_newline_witness:
  "\<exists>p. ParsePattern no_net ''cn:*'' = Inr p \<and> \<not> pattern_matches no_net p [CHR ''a'', CHR 0x0A]"
proof -
  obtain p where p: "ParsePattern no_net ''cn:*'' = Inr p" "pat_Type p \<noteq> NameIP"
    by (simp add: ParsePattern_def name_type_defs)
  from glob_never_matches_newline [OF p, of "[CHR ''a'', CHR 0x0A]"] p(1) show ?thesis by simp
qed

end
