(* ===== verification/Pkcs11_Types.thy ===== *)
theory Pkcs11_Types
  imports X509 Regex
begin

text \<open>
  \<^verbatim>\<open>internal/pkcs11\<close>, the types every backend shares (\<^verbatim>\<open>types.go\<close>, \<^verbatim>\<open>capabilities.go\<close>,
  \<^verbatim>\<open>eckey.go\<close>), the names of adapters, labels and roles (\<^verbatim>\<open>adapters.go\<close>, \<^verbatim>\<open>roles.go\<close>,
  \<^verbatim>\<open>luna.go\<close>), and a session with its budget (\<^verbatim>\<open>session.go\<close>).
\<close>

section \<open>Workspaces, objects and mechanisms\<close>

record workspace =
  ws_SlotID :: nat
  ws_Label :: string
  ws_Serial :: string
  ws_Present :: bool

definition zero_workspace :: workspace where
  "zero_workspace = \<lparr>ws_SlotID = 0, ws_Label = [], ws_Serial = [], ws_Present = False\<rparr>"

type_synonym role = "64 word"
definition RoleUser :: role where "RoleUser = 1"
definition RoleSO :: role where "RoleSO = 0"

record session_options =
  so_IdleTimeout :: duration
  so_MaxTTL :: duration

definition DefaultSessionOptions :: session_options where
  "DefaultSessionOptions = \<lparr>so_IdleTimeout = 15 * minute, so_MaxTTL = 8 * hour\<rparr>"

type_synonym attribute_type = nat
definition AttrClass :: attribute_type where "AttrClass = 0x000"
definition AttrToken :: attribute_type where "AttrToken = 0x001"
definition AttrPrivate :: attribute_type where "AttrPrivate = 0x002"
definition AttrLabel :: attribute_type where "AttrLabel = 0x003"
definition AttrKeyType :: attribute_type where "AttrKeyType = 0x100"
definition AttrID :: attribute_type where "AttrID = 0x102"
definition AttrSensitive :: attribute_type where "AttrSensitive = 0x103"
definition AttrEncrypt :: attribute_type where "AttrEncrypt = 0x104"
definition AttrDecrypt :: attribute_type where "AttrDecrypt = 0x105"
definition AttrWrap :: attribute_type where "AttrWrap = 0x106"
definition AttrUnwrap :: attribute_type where "AttrUnwrap = 0x107"
definition AttrSign :: attribute_type where "AttrSign = 0x108"
definition AttrVerify :: attribute_type where "AttrVerify = 0x10A"
definition AttrValueLen :: attribute_type where "AttrValueLen = 0x161"
definition AttrExtractable :: attribute_type where "AttrExtractable = 0x162"
definition AttrEcParams :: attribute_type where "AttrEcParams = 0x180"
definition AttrEcPoint :: attribute_type where "AttrEcPoint = 0x181"

lemmas attr_defs = AttrClass_def AttrToken_def AttrPrivate_def AttrLabel_def AttrKeyType_def
  AttrID_def AttrSensitive_def AttrEncrypt_def AttrDecrypt_def AttrWrap_def AttrUnwrap_def
  AttrSign_def AttrVerify_def AttrValueLen_def AttrExtractable_def AttrEcParams_def AttrEcPoint_def

record attribute =
  attr_Type :: attribute_type
  attr_Value :: bytes

type_synonym object_class = "64 word"
definition ClassPublicKey :: object_class where "ClassPublicKey = 2"
definition ClassPrivateKey :: object_class where "ClassPrivateKey = 3"
definition ClassSecretKey :: object_class where "ClassSecretKey = 4"

definition KeyTypeEC :: "64 word" where "KeyTypeEC = 3"
definition KeyTypeAES :: "64 word" where "KeyTypeAES = 0x1F"

text \<open>A \<^verbatim>\<open>CK_ULONG\<close>: eight bytes, the least significant first.\<close>

definition ulong_bytes :: "64 word \<Rightarrow> bytes" where
  "ulong_bytes v = map (\<lambda>i. char_of (unat (drop_bit (8 * i) v))) [0..<8]"

definition bool_bytes :: "bool \<Rightarrow> bytes" where
  "bool_bytes b = [if b then CHR 0x01 else CHR 0x00]"

definition NumericAttribute :: "attribute_type \<Rightarrow> 64 word \<Rightarrow> attribute" where
  "NumericAttribute t v = \<lparr>attr_Type = t, attr_Value = ulong_bytes v\<rparr>"

text \<open>Reading such a value back, as a token does.\<close>

fun bytes_ulong :: "bytes \<Rightarrow> nat" where
  "bytes_ulong [] = 0"
| "bytes_ulong (c # cs) = of_char c + 256 * bytes_ulong cs"

type_synonym mechanism_type = nat
definition MechECDSA :: mechanism_type where "MechECDSA = 0x1041"
definition MechECKeyPairGen :: mechanism_type where "MechECKeyPairGen = 0x1040"
definition MechAESKeyGen :: mechanism_type where "MechAESKeyGen = 0x1080"
definition MechAESCBCPad :: mechanism_type where "MechAESCBCPad = 0x1085"
definition MechAESKeyWrap :: mechanism_type where "MechAESKeyWrap = 0x2109"

record mechanism =
  mech_Type :: mechanism_type
  mech_Param :: bytes

type_synonym object_handle = nat

datatype ec_curve = P256 | P384 | P521 | OtherCurve int

fun ec_curve_Curve :: "ec_curve \<Rightarrow> elliptic option" where
  "ec_curve_Curve P256 = Some EC_P256"
| "ec_curve_Curve P384 = Some EC_P384"
| "ec_curve_Curve P521 = Some EC_P521"
| "ec_curve_Curve (OtherCurve _) = None"

text \<open>The DER object identifiers \<^verbatim>\<open>CKA_EC_PARAMS\<close> takes.\<close>

fun ecCurveOID :: "ec_curve \<Rightarrow> bytes res" where
  "ecCurveOID P256 = Inr (map (char_of :: nat \<Rightarrow> char) [0x06, 0x08, 0x2a, 0x86, 0x48, 0xce, 0x3d, 0x03, 0x01, 0x07])"
| "ecCurveOID P384 = Inr (map (char_of :: nat \<Rightarrow> char) [0x06, 0x05, 0x2b, 0x81, 0x04, 0x00, 0x22])"
| "ecCurveOID P521 = Inr (map (char_of :: nat \<Rightarrow> char) [0x06, 0x05, 0x2b, 0x81, 0x04, 0x00, 0x23])"
| "ecCurveOID (OtherCurve _) = Inl (Sentinel (Pkcs11 ErrUnsupportedCurve))"

record key_pair_request =
  kp_Curve :: ec_curve
  kp_Label :: string
  kp_ID :: bytes
  kp_Sign :: bool
  kp_Verify :: bool
  kp_Extractable :: bool

record key_pair_handle =
  kh_Public :: object_handle
  kh_Private :: object_handle

record secret_key_request =
  sk_KeyBits :: int
  sk_Label :: string
  sk_ID :: bytes
  sk_Encrypt :: bool
  sk_Decrypt :: bool
  sk_Wrap :: bool
  sk_Unwrap :: bool
  sk_Extractable :: bool

section \<open>Capabilities and adapters\<close>

type_synonym zero_digest_behaviour = string
definition ZeroDigestAccepted :: zero_digest_behaviour where "ZeroDigestAccepted = ''accepted''"
definition ZeroDigestVerifyRefused :: zero_digest_behaviour where
  "ZeroDigestVerifyRefused = ''verify-refused''"
definition ZeroDigestSignRefused :: zero_digest_behaviour where
  "ZeroDigestSignRefused = ''sign-refused''"

record capabilities =
  ConcurrentSlotEnumeration :: bool
  SecondInitializeInProcess :: bool
  HandlesSpanSessions :: bool
  HandlesSurviveSessionClose :: bool
  ZeroDigest :: zero_digest_behaviour
  UnwrapHonoursExtractable :: bool
  PrivateKeyWrapRefused :: string
  UnwrapNeedsValueLen :: bool
  SerializeOnOneThread :: bool

definition softHSM2Capabilities :: capabilities where
  "softHSM2Capabilities = \<lparr>ConcurrentSlotEnumeration = True, SecondInitializeInProcess = False,
     HandlesSpanSessions = True, HandlesSurviveSessionClose = True, ZeroDigest = ZeroDigestAccepted,
     UnwrapHonoursExtractable = True, PrivateKeyWrapRefused = [], UnwrapNeedsValueLen = False,
     SerializeOnOneThread = False\<rparr>"

definition protectServerCapabilities :: capabilities where
  "protectServerCapabilities = \<lparr>ConcurrentSlotEnumeration = False, SecondInitializeInProcess = False,
     HandlesSpanSessions = True, HandlesSurviveSessionClose = True, ZeroDigest = ZeroDigestVerifyRefused,
     UnwrapHonoursExtractable = True, PrivateKeyWrapRefused = [], UnwrapNeedsValueLen = False,
     SerializeOnOneThread = True\<rparr>"

definition lunaCapabilities :: capabilities where
  "lunaCapabilities = \<lparr>ConcurrentSlotEnumeration = True, SecondInitializeInProcess = False,
     HandlesSpanSessions = True, HandlesSurviveSessionClose = True, ZeroDigest = ZeroDigestSignRefused,
     UnwrapHonoursExtractable = False,
     PrivateKeyWrapRefused = ''Luna partition policy 1 (Allow private key wrapping) is off'',
     UnwrapNeedsValueLen = True, SerializeOnOneThread = False\<rparr>"

definition AdapterSoftHSM2 :: string where "AdapterSoftHSM2 = ''softhsm2''"
definition AdapterProtectServer :: string where "AdapterProtectServer = ''protectserver''"
definition AdapterLuna :: string where "AdapterLuna = ''luna''"

definition AdapterNames :: "string list" where
  "AdapterNames = [AdapterSoftHSM2, AdapterProtectServer, AdapterLuna]"

text \<open>The capabilities the adapter a name selects is built with.\<close>

definition adapter_capabilities :: "string \<Rightarrow> capabilities res" where
  "adapter_capabilities name =
     (if name = AdapterSoftHSM2 then Inr softHSM2Capabilities
      else if name = AdapterProtectServer then Inr protectServerCapabilities
      else if name = AdapterLuna then Inr lunaCapabilities
      else Inl (Wrap name (Sentinel (RoleErr ErrUnknownAdapter))))"

section \<open>Versioned labels\<close>

definition label_char :: regex where
  "label_char = Alt (Sym (Range (CHR ''a'') (CHR ''z''))) (Sym digit)"

text \<open>\<^verbatim>\<open>^[a-z0-9]+(-[a-z0-9]+)*-v[0-9]+$\<close>\<close>

definition versionedLabelPattern :: regex where
  "versionedLabelPattern =
     Seq (Plus label_char) (Seq (Star (Seq (Sym (Lit (CHR ''-''))) (Plus label_char)))
       (Seq (lits ''-v'') (Plus (Sym digit))))"

definition ValidateVersionedLabel :: "string \<Rightarrow> unit res" where
  "ValidateVersionedLabel label =
     (if rmatch versionedLabelPattern label then Inr () else Inl (Errorf ''not a versioned label''))"

section \<open>Login roles\<close>

definition RoleCryptoOfficer :: string where "RoleCryptoOfficer = ''co''"
definition LunaRoleCryptoUser :: role where "LunaRoleCryptoUser = 0x80000001"
definition LunaRoleLimitedCryptoOfficer :: role where "LunaRoleLimitedCryptoOfficer = 0x80000003"

record login_role =
  lr_name :: string
  lr_role :: role
  lr_hint :: string

definition CryptoOfficer :: login_role where
  "CryptoOfficer = \<lparr>lr_name = [], lr_role = 0, lr_hint = []\<rparr>"

definition role_Name :: "login_role \<Rightarrow> string" where
  "role_Name r = (if lr_name r = [] then RoleCryptoOfficer else lr_name r)"

definition role_Role :: "login_role \<Rightarrow> role" where
  "role_Role r = (if lr_name r = [] then RoleUser else lr_role r)"

definition CKR_USER_PIN_NOT_INITIALIZED :: nat where "CKR_USER_PIN_NOT_INITIALIZED = 0x102"

definition role_Explain :: "login_role \<Rightarrow> go_error \<Rightarrow> go_error" where
  "role_Explain r err =
     (if lr_hint r = [] \<or> errors_as_ckr err \<noteq> Some CKR_USER_PIN_NOT_INITIALIZED then err
      else Wrap (lr_hint r) err)"

definition adapterRoles :: "(string \<times> (string \<times> login_role) list) list" where
  "adapterRoles =
     [(AdapterSoftHSM2, [(RoleCryptoOfficer, CryptoOfficer)]),
      (AdapterProtectServer, [(RoleCryptoOfficer, CryptoOfficer)]),
      (AdapterLuna,
        [(RoleCryptoOfficer, CryptoOfficer),
         (''lco'', \<lparr>lr_name = ''lco'', lr_role = LunaRoleLimitedCryptoOfficer,
            lr_hint = ''the Limited Crypto Officer exists only on a V1 partition''\<rparr>),
         (''cu'', \<lparr>lr_name = ''cu'', lr_role = LunaRoleCryptoUser,
            lr_hint = ''the Crypto User is not initialized on this partition''\<rparr>)])]"

definition RoleByName :: "string \<Rightarrow> string \<Rightarrow> login_role res" where
  "RoleByName adapter name =
     (case map_of adapterRoles adapter of
        None \<Rightarrow> Inl (Wrap adapter (Sentinel (RoleErr ErrUnknownAdapter)))
      | Some roles \<Rightarrow>
          (case map_of roles (if name = [] then RoleCryptoOfficer else name) of
             None \<Rightarrow> Inl (Wrap name (Sentinel (RoleErr ErrUnknownRole)))
           | Some r \<Rightarrow> Inr r))"

section \<open>Public points\<close>

text \<open>
  Curve arithmetic is a parameter: \<open>on_curve\<close> says which pairs of coordinates
  are a point. The encodings are modelled: the uncompressed point \<^verbatim>\<open>04 || X || Y\<close>
  and a DER OCTET STRING in the short and the one-byte long form, the lengths a
  point of a supported curve needs.
\<close>

fun field_bytes :: "elliptic \<Rightarrow> nat" where
  "field_bytes EC_P224 = 28"
| "field_bytes EC_P256 = 32"
| "field_bytes EC_P384 = 48"
| "field_bytes EC_P521 = 66"
| "field_bytes (EC_other _) = 0"

definition be_nat :: "bytes \<Rightarrow> nat" where
  "be_nat b = foldl (\<lambda>a c. a * 256 + of_char c) 0 b"

lemma be_nat_simps [simp]:
  "be_nat [] = 0"
  "be_nat (c # cs) = of_char c * 256 ^ length cs + be_nat cs"
proof -
  have "foldl (\<lambda>a c. a * 256 + of_char c) a b = a * 256 ^ length b + foldl (\<lambda>a c. a * 256 + of_char c) 0 b"
    for a :: nat and b
  proof (induction b arbitrary: a)
    case (Cons d b)
    show ?case
      using Cons [of "a * 256 + of_char d"] Cons [of "of_char d"] by (simp add: algebra_simps)
  qed simp
  from this [of "of_char c" cs] show "be_nat (c # cs) = of_char c * 256 ^ length cs + be_nat cs"
    by (simp add: be_nat_def)
qed (simp add: be_nat_def)

text \<open>\<open>on_curve\<close> also rejects coordinates outside the field.\<close>

definition elliptic_Unmarshal ::
    "(elliptic \<Rightarrow> int \<Rightarrow> int \<Rightarrow> bool) \<Rightarrow> elliptic \<Rightarrow> bytes \<Rightarrow> (int \<times> int) option" where
  "elliptic_Unmarshal on_curve curve data =
     (let n = field_bytes curve in
      if length data \<noteq> 1 + 2 * n \<or> data ! 0 \<noteq> CHR 0x04 then None
      else let x = int (be_nat (take n (drop 1 data))); y = int (be_nat (drop (1 + n) data)) in
           if on_curve curve x y then Some (x, y) else None)"

fun der_octet_string :: "bytes \<Rightarrow> bytes option" where
  "der_octet_string (tag # len # rest) =
     (if tag \<noteq> CHR 0x04 then None
      else if (of_char len :: nat) < 128 then
        (if of_char len \<le> length rest then Some (take (of_char len) rest) else None)
      else if (of_char len :: nat) = 129 then
        (case rest of [] \<Rightarrow> None
         | l # rest' \<Rightarrow> if 128 \<le> (of_char l :: nat) \<and> of_char l \<le> length rest'
                       then Some (take (of_char l) rest') else None)
      else None)"
| "der_octet_string _ = None"

definition DecodeECPoint ::
    "(elliptic \<Rightarrow> int \<Rightarrow> int \<Rightarrow> bool) \<Rightarrow> elliptic \<Rightarrow> bytes \<Rightarrow> public_key res" where
  "DecodeECPoint on_curve curve ecPoint =
     (case elliptic_Unmarshal on_curve curve ecPoint of
        Some (x, y) \<Rightarrow> Inr (EcdsaKey curve x y)
      | None \<Rightarrow>
          (case Option.bind (der_octet_string ecPoint) (elliptic_Unmarshal on_curve curve) of
             Some (x, y) \<Rightarrow> Inr (EcdsaKey curve x y)
           | None \<Rightarrow> Inl (Errorf ''pkcs11: invalid EC point encoding'')))"

section \<open>Sessions\<close>

record session =
  ss_workspace :: workspace
  ss_handle :: nat
  ss_openedAt :: time
  ss_lastUsedAt :: time
  ss_idleTimeout :: duration
  ss_maxTTL :: duration
  ss_loggedIn :: bool
  ss_closed :: bool

definition over_budget :: "session \<Rightarrow> time \<Rightarrow> bool" where
  "over_budget s now \<longleftrightarrow>
     time_sub now (ss_openedAt s) > ss_maxTTL s \<or> time_sub now (ss_lastUsedAt s) > ss_idleTimeout s"

definition markClosed :: "session \<Rightarrow> session" where
  "markClosed s = s\<lparr>ss_closed := True, ss_loggedIn := False\<rparr>"

definition touch :: "session \<Rightarrow> time \<Rightarrow> unit res \<times> session" where
  "touch s now =
     (if ss_closed s then (Inl (Sentinel (Pkcs11 ErrSessionClosed)), s)
      else if over_budget s now
      then (Inl (Sentinel (Pkcs11 ErrSessionExpired)), s\<lparr>ss_closed := True, ss_loggedIn := False\<rparr>)
      else (Inr (), s\<lparr>ss_lastUsedAt := now\<rparr>))"

definition expired :: "session \<Rightarrow> time \<Rightarrow> bool" where
  "expired s now \<longleftrightarrow> ss_closed s \<or> over_budget s now"

end
