(* ===== verification/Adapter.thy ===== *)
theory Adapter
  imports Pkcs11_Types
begin

text \<open>
  \<^verbatim>\<open>internal/pkcs11/adapter.go\<close>: the Go interface \<^verbatim>\<open>VendorAdapter\<close> as a record of
  operations on a state \<open>'s\<close>, and what its clients rely on, as the locale
  \<open>vendor_adapter\<close>. A \<^verbatim>\<open>*Session\<close> is a reference (an index), a PIN is a
  reference to a byte buffer the caller and the adapter share. \<open>host\<close> is what the
  clients use of the Go runtime: the clock and the random source.
\<close>

type_synonym session_ref = nat
type_synonym buffer = nat

record 's vendor_adapter =
  va_Capabilities :: capabilities
  va_Workspaces :: "('s, workspace list) eff"
  va_OpenSession :: "workspace \<Rightarrow> session_options \<Rightarrow> ('s, session_ref) eff"
  va_CloseSession :: "session_ref \<Rightarrow> ('s, unit) eff"
  va_LoginToken :: "workspace \<Rightarrow> buffer \<Rightarrow> role \<Rightarrow> ('s, unit) eff"
  va_LogoutToken :: "('s, unit) eff"
  va_TokenLoggedIn :: "'s \<Rightarrow> bool"
  va_Login :: "session_ref \<Rightarrow> buffer \<Rightarrow> role \<Rightarrow> ('s, unit) eff"
  va_Logout :: "session_ref \<Rightarrow> ('s, unit) eff"
  va_GenerateKeyPair :: "session_ref \<Rightarrow> key_pair_request \<Rightarrow> ('s, key_pair_handle) eff"
  va_GenerateSecretKey :: "session_ref \<Rightarrow> secret_key_request \<Rightarrow> ('s, object_handle) eff"
  va_GenerateRandom :: "session_ref \<Rightarrow> nat \<Rightarrow> ('s, bytes) eff"
  va_FindObjects :: "session_ref \<Rightarrow> attribute list \<Rightarrow> ('s, object_handle list) eff"
  va_GetAttributes :: "session_ref \<Rightarrow> object_handle \<Rightarrow> attribute_type list \<Rightarrow> ('s, attribute list) eff"
  va_DestroyObject :: "session_ref \<Rightarrow> object_handle \<Rightarrow> ('s, unit) eff"
  va_Sign :: "session_ref \<Rightarrow> object_handle \<Rightarrow> mechanism \<Rightarrow> bytes \<Rightarrow> ('s, bytes) eff"
  va_Verify :: "session_ref \<Rightarrow> object_handle \<Rightarrow> mechanism \<Rightarrow> bytes \<Rightarrow> bytes \<Rightarrow> ('s, unit) eff"
  va_Encrypt :: "session_ref \<Rightarrow> object_handle \<Rightarrow> mechanism \<Rightarrow> bytes \<Rightarrow> ('s, bytes) eff"
  va_Decrypt :: "session_ref \<Rightarrow> object_handle \<Rightarrow> mechanism \<Rightarrow> bytes \<Rightarrow> ('s, bytes) eff"
  va_Wrap :: "session_ref \<Rightarrow> object_handle \<Rightarrow> object_handle \<Rightarrow> mechanism \<Rightarrow> ('s, bytes) eff"
  va_Unwrap :: "session_ref \<Rightarrow> object_handle \<Rightarrow> mechanism \<Rightarrow> bytes \<Rightarrow> attribute list \<Rightarrow> ('s, object_handle) eff"
  va_Close :: "('s, unit) eff"

record 's host =
  h_Now :: "('s, time) eff"
  h_Rand :: "nat \<Rightarrow> ('s, bytes) eff"

section \<open>Finding a key\<close>

definition FindKeyByLabel ::
    "'s vendor_adapter \<Rightarrow> session_ref \<Rightarrow> object_class \<Rightarrow> string \<Rightarrow> ('s, object_handle) eff" where
  "FindKeyByLabel ad s class label =
     bindE (wrapE ''FindObjects'' (va_FindObjects ad s
              [NumericAttribute AttrClass class, \<lparr>attr_Type = AttrLabel, attr_Value = label\<rparr>])) (\<lambda>handles.
       case handles of
         [] \<Rightarrow> throwE (Wrap label (Sentinel (FindKey Pk11_ErrKeyNotFound)))
       | [h] \<Rightarrow> returnE h
       | _ \<Rightarrow> throwE (Wrap label (Sentinel (FindKey ErrAmbiguousLabel))))"

definition LabelIsFree ::
    "'s vendor_adapter \<Rightarrow> session_ref \<Rightarrow> object_class \<Rightarrow> string \<Rightarrow> ('s, bool) eff" where
  "LabelIsFree ad s class label =
     tryE (FindKeyByLabel ad s class label) (\<lambda>r. case r of
         Inr _ \<Rightarrow> returnE False
       | Inl err \<Rightarrow> if errors_is err (FindKey Pk11_ErrKeyNotFound) then returnE True else throwE err)"

section \<open>The contract\<close>

text \<open>
  What \<^verbatim>\<open>adapter.go\<close> and \<^verbatim>\<open>tokenlogin.go\<close> promise about the token's authentication:
  \<open>LoginToken\<close> is the only operation that gains it and refuses when it is held,
  \<open>LogoutToken\<close> loses it whatever it reports, and nothing else changes it. \<open>frame\<close>
  is any observation of the state the operations that neither create nor remove
  an object keep.
\<close>

locale vendor_adapter =
  fixes ad :: "'s vendor_adapter" and host :: "'s host" and frame :: "'s \<Rightarrow> bool"
  assumes LoginToken_ok: "va_LoginToken ad ws pin role s = (Inr u, s') \<Longrightarrow>
      \<not> va_TokenLoggedIn ad s \<and> va_TokenLoggedIn ad s'"
    and LoginToken_err: "va_LoginToken ad ws pin role s = (Inl e, s') \<Longrightarrow>
      va_TokenLoggedIn ad s' = va_TokenLoggedIn ad s"
    and LogoutToken_any: "va_LogoutToken ad s = (r, s') \<Longrightarrow> \<not> va_TokenLoggedIn ad s'"
    and login_Workspaces: "preserves (\<lambda>s. va_TokenLoggedIn ad s = b) (va_Workspaces ad)"
    and login_OpenSession: "preserves (\<lambda>s. va_TokenLoggedIn ad s = b) (va_OpenSession ad ws opts)"
    and login_CloseSession: "preserves (\<lambda>s. va_TokenLoggedIn ad s = b) (va_CloseSession ad sref)"
    and login_FindObjects: "preserves (\<lambda>s. va_TokenLoggedIn ad s = b) (va_FindObjects ad sref tmpl)"
    and login_GetAttributes: "preserves (\<lambda>s. va_TokenLoggedIn ad s = b) (va_GetAttributes ad sref obj types)"
    and login_Sign: "preserves (\<lambda>s. va_TokenLoggedIn ad s = b) (va_Sign ad sref obj mech data)"
    and login_GenerateKeyPair: "preserves (\<lambda>s. va_TokenLoggedIn ad s = b) (va_GenerateKeyPair ad sref req)"
    and login_DestroyObject: "preserves (\<lambda>s. va_TokenLoggedIn ad s = b) (va_DestroyObject ad sref obj)"
    and login_Now: "preserves (\<lambda>s. va_TokenLoggedIn ad s = b) (h_Now host)"
    and login_Rand: "preserves (\<lambda>s. va_TokenLoggedIn ad s = b) (h_Rand host n)"
    and frame_LoginToken: "preserves frame (va_LoginToken ad ws pin role)"
    and frame_LogoutToken: "preserves frame (va_LogoutToken ad)"
    and frame_Workspaces: "preserves frame (va_Workspaces ad)"
    and frame_OpenSession: "preserves frame (va_OpenSession ad ws opts)"
    and frame_CloseSession: "preserves frame (va_CloseSession ad sref)"
    and frame_FindObjects: "preserves frame (va_FindObjects ad sref tmpl)"
    and frame_GetAttributes: "preserves frame (va_GetAttributes ad sref obj types)"
    and frame_Sign: "preserves frame (va_Sign ad sref obj mech data)"
    and frame_Now: "preserves frame (h_Now host)"
    and frame_Rand: "preserves frame (h_Rand host n)"
begin

lemmas login_ops = login_Workspaces login_OpenSession login_CloseSession login_FindObjects
  login_GetAttributes login_Sign login_GenerateKeyPair login_DestroyObject login_Now login_Rand

lemmas frame_ops = frame_LoginToken frame_LogoutToken frame_Workspaces frame_OpenSession
  frame_CloseSession frame_FindObjects frame_GetAttributes frame_Sign frame_Now frame_Rand

end

lemma preserves_FindKeyByLabel [pres_intros]:
  "(\<And>tmpl. preserves P (va_FindObjects ad s tmpl)) \<Longrightarrow> preserves P (FindKeyByLabel ad s class label)"
  unfolding FindKeyByLabel_def by (intro pres_intros) auto

lemma preserves_LabelIsFree [pres_intros]:
  "(\<And>tmpl. preserves P (va_FindObjects ad s tmpl)) \<Longrightarrow> preserves P (LabelIsFree ad s class label)"
  unfolding LabelIsFree_def by (intro pres_intros) auto

lemma FindKeyByLabel_cases:
  "FindKeyByLabel ad s class label st = (r, st') \<longleftrightarrow>
     (case va_FindObjects ad s
         [NumericAttribute AttrClass class, \<lparr>attr_Type = AttrLabel, attr_Value = label\<rparr>] st of
        (Inl e, st1) \<Rightarrow> r = Inl (Wrap ''FindObjects'' e) \<and> st' = st1
      | (Inr [], st1) \<Rightarrow> r = Inl (Wrap label (Sentinel (FindKey Pk11_ErrKeyNotFound))) \<and> st' = st1
      | (Inr [h], st1) \<Rightarrow> r = Inr h \<and> st' = st1
      | (Inr _, st1) \<Rightarrow> r = Inl (Wrap label (Sentinel (FindKey ErrAmbiguousLabel))) \<and> st' = st1)"
  by (auto simp: FindKeyByLabel_def bindE_def wrapE_def split: prod.splits sum.splits list.splits)

end
