(* ===== verification/CA.thy ===== *)
theory CA
  imports Profile Adapter
begin

text \<open>
  \<^verbatim>\<open>internal/ca/ca.go\<close> and \<^verbatim>\<open>crl.go\<close>: issuing a leaf under a profile and building a
  CRL. The CA signs through a \<^verbatim>\<open>crypto.Signer\<close>, so issuing is an operation on the
  signer's state; the clock and the random source are the \<open>host\<close>'s. The order in
  which Go walks the map of name types in \<^verbatim>\<open>CheckSANs\<close> is an argument.
\<close>

definition issuanceClockSkewAllowance :: duration where
  "issuanceClockSkewAllowance = 5 * minute"

definition minRSAKeyBits :: nat where "minRSAKeyBits = MinRSAKeyBits"

text \<open>\<^verbatim>\<open>fmt.Errorf("%w: %v", sentinel, err)\<close>: the cause is text only.\<close>

definition as_sentinel :: "ca_sentinel \<Rightarrow> 'a res \<Rightarrow> 'a res" where
  "as_sentinel t r = (case r of Inl _ \<Rightarrow> Inl (Sentinel (CaErr t)) | Inr x \<Rightarrow> Inr x)"

lemma as_sentinel_eq [res_simps]:
  "as_sentinel t r = Inr x \<longleftrightarrow> r = Inr x"
  "as_sentinel t r = Inl e \<longleftrightarrow> (\<exists>e'. r = Inl e') \<and> e = Sentinel (CaErr t)"
  by (auto simp: as_sentinel_def split: sum.splits)

section \<open>Distribution points\<close>

record leaf_distribution =
  ld_CRLURL :: string
  ld_IssuerCertURL :: string
  ld_OCSPURL :: string

definition ValidateDistributionURL :: "x509_lib \<Rightarrow> string \<Rightarrow> string \<Rightarrow> unit res" where
  "ValidateDistributionURL lib field raw =
     (if raw = [] then Inl (Errorf ''is not set'')
      else bindR (wrapR ''is not a valid URL'' (lib_url_parse lib raw)) (\<lambda>(scheme, host).
        if scheme \<noteq> ''http'' \<and> scheme \<noteq> ''https'' then Inl (Errorf ''must be an http or https URL'')
        else if host = [] then Inl (Errorf ''has no host'') else Inr ()))"

definition LeafDistribution_Validate :: "x509_lib \<Rightarrow> leaf_distribution \<Rightarrow> unit res" where
  "LeafDistribution_Validate lib d =
     bindR (ValidateDistributionURL lib ''CRL distribution point'' (ld_CRLURL d)) (\<lambda>_.
     bindR (ValidateDistributionURL lib ''AIA CA-Issuers URL'' (ld_IssuerCertURL d)) (\<lambda>_.
     if ld_OCSPURL d \<noteq> [] then ValidateDistributionURL lib ''AIA OCSP URL'' (ld_OCSPURL d) else Inr ()))"

section \<open>The CA\<close>

record 's ca =
  ca_cert :: certificate
  ca_signer :: "'s crypto_signer"
  ca_maxTTL :: duration
  ca_dist :: leaf_distribution

definition NewCA ::
    "certificate \<Rightarrow> 's crypto_signer \<Rightarrow> duration \<Rightarrow> leaf_distribution \<Rightarrow> 's ca" where
  "NewCA cert signer maxTTL dist =
     \<lparr>ca_cert = cert, ca_signer = signer, ca_maxTTL = maxTTL, ca_dist = dist\<rparr>"

definition checkIssuerCanCover :: "'s ca \<Rightarrow> time \<Rightarrow> time \<Rightarrow> unit res" where
  "checkIssuerCanCover c now notAfter =
     (if now < c_NotBefore (ca_cert c) then Inl (Wrap ''not valid until'' (Sentinel (CaErr ErrIssuerNotValid)))
      else if now > c_NotAfter (ca_cert c) then Inl (Wrap ''expired'' (Sentinel (CaErr ErrIssuerNotValid)))
      else if notAfter > c_NotAfter (ca_cert c)
      then Inl (Wrap ''would outlive issuer'' (Sentinel (CaErr ErrValidityExceedsIssuer)))
      else Inr ())"

definition validateCSR :: "x509_lib \<Rightarrow> csr \<Rightarrow> unit res" where
  "validateCSR lib csr =
     (if \<not> lib_csr_signature_ok lib csr then Inl (Sentinel (CaErr ErrInvalidCSRSignature))
      else if n_CommonName (csr_Subject csr) = [] \<and> n_Organization (csr_Subject csr) = []
      then Inl (Sentinel (CaErr ErrEmptySubject))
      else case csr_PublicKey csr of
        EcdsaKey curve _ _ \<Rightarrow>
          if curve_params_name curve \<in> {''P-256'', ''P-384'', ''P-521''} then Inr ()
          else Inl (Wrap ''EC curve'' (Sentinel (CaErr ErrDisallowedKeyType)))
      | RsaKey n _ \<Rightarrow>
          if bit_len n < minRSAKeyBits then Inl (Wrap ''RSA key'' (Sentinel (CaErr ErrDisallowedKeyType)))
          else Inr ()
      | OtherKey _ \<Rightarrow> Inl (Wrap ''type'' (Sentinel (CaErr ErrDisallowedKeyType))))"

definition keyUsageFor :: "public_key \<Rightarrow> key_usage \<Rightarrow> key_usage" where
  "keyUsageFor pub fromProfile =
     (case pub of RsaKey _ _ \<Rightarrow> fromProfile
      | EcdsaKey _ _ _ \<Rightarrow> fromProfile AND NOT KU_KeyEncipherment
      | OtherKey _ \<Rightarrow> fromProfile AND NOT KU_KeyEncipherment)"

text \<open>The redraw loop ends when a draw is not all zeros, or fails.\<close>

partial_function (option) serial_loop :: "'s host \<Rightarrow> 's \<Rightarrow> (int res \<times> 's) option" where
  "serial_loop host s =
     (case h_Rand host 16 s of
        (Inl err, s') \<Rightarrow> Some (Inl (Wrap ''ca: generating serial'' err), s')
      | (Inr buf, s') \<Rightarrow>
          let serial = int (be_nat buf) in
          if serial > 0 then Some (Inr serial, s') else serial_loop host s')"

declare serial_loop.simps [code]

definition GenerateSerial :: "'s host \<Rightarrow> ('s, int) eff" where
  "GenerateSerial host s = (case serial_loop host s of None \<Rightarrow> (Inl Hang, s) | Some x \<Rightarrow> x)"

definition subjectKeyID :: "x509_lib \<Rightarrow> public_key \<Rightarrow> bytes res" where
  "subjectKeyID lib pub =
     bindR (wrapR ''ca: marshaling public key for SubjectKeyId'' (lib_marshal_public_key lib pub)) (\<lambda>der.
     Inr (lib_sha1 lib der))"

text \<open>
  \<open>Issue\<close>, in the order of the code: the CA's own configuration, the request, the
  profile, the ceiling, the clock and the issuer's window, then the template. The
  first part returns the subject the certificate will carry.
\<close>

definition issue_checks ::
    "x509_lib \<Rightarrow> san_type list \<Rightarrow> 's ca \<Rightarrow> csr \<Rightarrow> profile option \<Rightarrow> (profile \<times> pkix_name) res" where
  "issue_checks lib order c csr p =
     bindR (as_sentinel ErrNoDistributionPoints (LeafDistribution_Validate lib (ca_dist c))) (\<lambda>_.
     case p of
       None \<Rightarrow> Inl (Wrap ''Issue called with no profile'' (Sentinel ProfileErrUnknown))
     | Some p \<Rightarrow>
         bindR (validateCSR lib csr) (\<lambda>_.
         bindR (as_sentinel ErrDisallowedKeyType (AllowsKey p (csr_PublicKey csr))) (\<lambda>_.
         bindR (as_sentinel ErrNameNotAllowed (CheckSANs order p csr)) (\<lambda>_.
         bindR (as_sentinel ErrSubjectNotAllowed (Subject p (csr_Subject csr))) (\<lambda>subject.
         if ca_maxTTL c > 0 \<and> p_Validity p > ca_maxTTL c
         then Inl (Wrap ''profile'' (Sentinel (CaErr ErrValidityExceedsPolicy)))
         else Inr (p, subject))))))"

definition issue_template ::
    "'s ca \<Rightarrow> csr \<Rightarrow> profile \<Rightarrow> pkix_name \<Rightarrow> time \<Rightarrow> int \<Rightarrow> bytes \<Rightarrow> certificate" where
  "issue_template c csr p subject now serial ski = zero_cert
     \<lparr>c_SerialNumber := serial, c_Subject := subject,
      c_NotBefore := now - issuanceClockSkewAllowance, c_NotAfter := now + p_Validity p,
      c_KeyUsage := keyUsageFor (csr_PublicKey csr) (p_KeyUsage p), c_ExtKeyUsage := p_ExtKeyUsages p,
      c_BasicConstraintsValid := True, c_IsCA := False, c_SubjectKeyId := ski,
      c_AuthorityKeyId := c_SubjectKeyId (ca_cert c), c_DNSNames := csr_DNSNames csr,
      c_IPAddresses := csr_IPAddresses csr, c_EmailAddresses := csr_EmailAddresses csr,
      c_URIs := csr_URIs csr, c_CRLDistributionPoints := [ld_CRLURL (ca_dist c)],
      c_IssuingCertificateURL := [ld_IssuerCertURL (ca_dist c)],
      c_OCSPServer := (if ld_OCSPURL (ca_dist c) \<noteq> [] then [ld_OCSPURL (ca_dist c)] else []),
      c_ExtraExtensions := (if p_OCSPNoCheck p
        then [\<lparr>ext_Id = OIDOCSPNoCheck, ext_Value = [CHR 0x05, CHR 0x00]\<rparr>] else [])\<rparr>"

definition Issue ::
    "x509_lib \<Rightarrow> 's host \<Rightarrow> san_type list \<Rightarrow> 's ca \<Rightarrow> csr \<Rightarrow> profile option \<Rightarrow> ('s, certificate) eff" where
  "Issue lib host order c csr p =
     bindE (liftE (issue_checks lib order c csr p)) (\<lambda>(p, subject).
     bindE (h_Now host) (\<lambda>now.
     bindE (liftE (checkIssuerCanCover c now (now + p_Validity p))) (\<lambda>_.
     bindE (GenerateSerial host) (\<lambda>serial.
     bindE (liftE (subjectKeyID lib (csr_PublicKey csr))) (\<lambda>ski.
     bindE (wrapE ''ca: CreateCertificate'' (create_certificate lib
        (issue_template c csr p subject now serial ski) (ca_cert c) (csr_PublicKey csr) (ca_signer c))) (\<lambda>der.
     liftE (lib_parse_certificate lib der)))))))"

section \<open>CRLs\<close>

record revoked_cert =
  rc_Serial :: int
  rc_RevokedAt :: time
  rc_ReasonCode :: int

definition crl_template :: "revoked_cert list \<Rightarrow> time \<Rightarrow> time \<Rightarrow> int \<Rightarrow> revocation_list" where
  "crl_template revoked thisUpdate nextUpdate number =
     \<lparr>rl_Number = number, rl_ThisUpdate = thisUpdate, rl_NextUpdate = nextUpdate,
      rl_Entries = map (\<lambda>r. \<lparr>re_SerialNumber = rc_Serial r, re_RevocationTime = rc_RevokedAt r,
        re_ReasonCode = rc_ReasonCode r\<rparr>) revoked\<rparr>"

definition BuildCRL ::
    "x509_lib \<Rightarrow> 's ca \<Rightarrow> revoked_cert list \<Rightarrow> time \<Rightarrow> time \<Rightarrow> int option \<Rightarrow> ('s, bytes) eff" where
  "BuildCRL lib c revoked thisUpdate nextUpdate number =
     (if \<not> nextUpdate > thisUpdate then throwE (Errorf ''nextUpdate must be after thisUpdate'')
      else case number of
        None \<Rightarrow> throwE (Errorf ''CRL number must be a positive integer'')
      | Some n \<Rightarrow>
          if n \<le> 0 then throwE (Errorf ''CRL number must be a positive integer'')
          else wrapE ''ca: CreateRevocationList''
            (create_revocation_list lib (crl_template revoked thisUpdate nextUpdate n) (ca_cert c) (ca_signer c)))"

section \<open>What issuing checks and signs\<close>

lemma ValidateDistributionURL_iff:
  "ValidateDistributionURL lib field raw = Inr u \<longleftrightarrow> raw \<noteq> [] \<and>
     (\<exists>scheme host. lib_url_parse lib raw = Inr (scheme, host) \<and> scheme \<in> {''http'', ''https''} \<and> host \<noteq> [])"
  by (cases "lib_url_parse lib raw") (auto simp: ValidateDistributionURL_def split: if_split_asm)

lemma LeafDistribution_Validate_iff:
  "LeafDistribution_Validate lib d = Inr u \<longleftrightarrow>
     (\<forall>raw \<in> {ld_CRLURL d, ld_IssuerCertURL d} \<union> (if ld_OCSPURL d = [] then {} else {ld_OCSPURL d}).
        ValidateDistributionURL lib [] raw = Inr ())"
  by (auto simp: LeafDistribution_Validate_def bindR_eq_Inr ValidateDistributionURL_iff)

lemma checkIssuerCanCover_iff:
  "checkIssuerCanCover c now notAfter = Inr u \<longleftrightarrow>
     c_NotBefore (ca_cert c) \<le> now \<and> now \<le> c_NotAfter (ca_cert c) \<and> notAfter \<le> c_NotAfter (ca_cert c)"
  by (auto simp: checkIssuerCanCover_def)

definition strong_key :: "public_key \<Rightarrow> bool" where
  "strong_key pub \<longleftrightarrow> (case pub of
       EcdsaKey curve _ _ \<Rightarrow> curve_params_name curve \<in> {''P-256'', ''P-384'', ''P-521''}
     | RsaKey n _ \<Rightarrow> 2048 \<le> bit_len n
     | OtherKey _ \<Rightarrow> False)"

lemma validateCSR_iff:
  "validateCSR lib csr = Inr u \<longleftrightarrow> lib_csr_signature_ok lib csr \<and>
     (n_CommonName (csr_Subject csr) \<noteq> [] \<or> n_Organization (csr_Subject csr) \<noteq> []) \<and>
     strong_key (csr_PublicKey csr)"
  by (auto simp: validateCSR_def strong_key_def minRSAKeyBits_def MinRSAKeyBits_def
      split: public_key.splits if_splits)

lemma issue_checks_iff:
  "issue_checks lib order c csr p = Inr (q, subject) \<longleftrightarrow>
     p = Some q \<and> LeafDistribution_Validate lib (ca_dist c) = Inr () \<and> validateCSR lib csr = Inr () \<and>
     AllowsKey q (csr_PublicKey csr) = Inr () \<and> CheckSANs order q csr = Inr () \<and>
     Subject q (csr_Subject csr) = Inr subject \<and> (ca_maxTTL c > 0 \<longrightarrow> p_Validity q \<le> ca_maxTTL c)"
  by (cases p) (auto simp: issue_checks_def bindR_eq_Inr as_sentinel_eq)

lemma serial_loop_pos:
  assumes "serial_loop host s = Some y"
  shows "case fst y of Inl _ \<Rightarrow> True | Inr n \<Rightarrow> 0 < n"
proof (rule serial_loop.raw_induct [where P = "\<lambda>host s y. case fst y of Inl _ \<Rightarrow> True | Inr n \<Rightarrow> 0 < n",
      OF _ assms])
  fix loop :: "'s host \<Rightarrow> 's \<Rightarrow> (int res \<times> 's) option" and host s y
  assume IH: "\<And>host s y. loop host s = Some y \<Longrightarrow> (case fst y of Inl _ \<Rightarrow> True | Inr n \<Rightarrow> 0 < n)"
    and body: "(case h_Rand host 16 s of
        (Inl err, s') \<Rightarrow> Some (Inl (Wrap ''ca: generating serial'' err), s')
      | (Inr buf, s') \<Rightarrow> let serial = int (be_nat buf) in
          if serial > 0 then Some (Inr serial, s') else loop host s') = Some y"
  obtain r s' where "h_Rand host 16 s = (r, s')" by fastforce
  with body IH show "case fst y of Inl _ \<Rightarrow> True | Inr n \<Rightarrow> 0 < n"
    by (cases r) (auto simp: Let_def split: if_splits)
qed

lemma GenerateSerial_pos: "GenerateSerial host s = (Inr n, s') \<Longrightarrow> 0 < n"
  using serial_loop_pos [of host s] by (auto simp: GenerateSerial_def split: option.splits)

lemma GenerateSerial_returns:
  "h_Rand host 16 s = (Inr buf, s') \<Longrightarrow> be_nat buf > 0 \<Longrightarrow>
    GenerateSerial host s = (Inr (int (be_nat buf)), s')"
  by (simp add: GenerateSerial_def serial_loop.simps)

lemma be_nat_less: "be_nat b < 256 ^ length b"
proof (induction b)
  case (Cons c b)
  have "of_char c * 256 ^ length b + be_nat b < (of_char c + 1) * 256 ^ length b" using Cons by simp
  also have "\<dots> \<le> 256 * 256 ^ length b"
    using nat_of_char_less_256 [of c] by (intro mult_right_mono) (simp_all del: nat_of_char_less_256)
  finally show ?case by simp
qed simp

lemma keyUsageFor_within: "fromProfile AND m = 0 \<Longrightarrow> keyUsageFor pub fromProfile AND m = 0"
proof -
  have "(fromProfile AND x) AND m = (fromProfile AND m) AND x" for x by (simp only: ac_simps)
  moreover assume "fromProfile AND m = 0"
  ultimately show ?thesis by (cases pub) (simp_all add: keyUsageFor_def)
qed

lemma issue_template_sel [simp]:
  "c_SerialNumber (issue_template c csr p subject now serial ski) = serial"
  "c_Subject (issue_template c csr p subject now serial ski) = subject"
  "c_NotBefore (issue_template c csr p subject now serial ski) = now - issuanceClockSkewAllowance"
  "c_NotAfter (issue_template c csr p subject now serial ski) = now + p_Validity p"
  "c_KeyUsage (issue_template c csr p subject now serial ski) = keyUsageFor (csr_PublicKey csr) (p_KeyUsage p)"
  "c_ExtKeyUsage (issue_template c csr p subject now serial ski) = p_ExtKeyUsages p"
  "c_BasicConstraintsValid (issue_template c csr p subject now serial ski)"
  "\<not> c_IsCA (issue_template c csr p subject now serial ski)"
  "c_DNSNames (issue_template c csr p subject now serial ski) = csr_DNSNames csr"
  "c_IPAddresses (issue_template c csr p subject now serial ski) = csr_IPAddresses csr"
  "c_URIs (issue_template c csr p subject now serial ski) = csr_URIs csr"
  "c_EmailAddresses (issue_template c csr p subject now serial ski) = csr_EmailAddresses csr"
  "c_CRLDistributionPoints (issue_template c csr p subject now serial ski) = [ld_CRLURL (ca_dist c)]"
  by (simp_all add: issue_template_def)

lemma clock_skew_pos [simp]: "0 < issuanceClockSkewAllowance"
  by (simp add: issuanceClockSkewAllowance_def minute_def second_def)

lemma Issue_Inr:
  "Issue lib host order c csr p s = (Inr cert, s') \<Longrightarrow>
    \<exists>q subject now serial ski tbs sig.
      issue_checks lib order c csr p = Inr (q, subject) \<and> 0 < serial \<and>
      checkIssuerCanCover c now (now + p_Validity q) = Inr () \<and>
      lib_tbs_certificate lib (issue_template c csr q subject now serial ski) (ca_cert c) (csr_PublicKey csr) = Inr tbs \<and>
      lib_verify lib (sg_Public (ca_signer c)) tbs sig \<and>
      lib_parse_certificate lib (lib_assemble lib tbs sig) = Inr cert"
  by (auto simp: Issue_def res_simps dest!: create_certificate_Inr) (blast dest: GenerateSerial_pos)

text \<open>A library and a host for the evaluated examples, and a CA over them.\<close>

definition demo_lib :: x509_lib where
  "demo_lib = \<lparr>lib_csr_signature_ok = (\<lambda>_. True), lib_signature_ok = (\<lambda>_ _. True),
     lib_marshal_public_key = (\<lambda>_. Inr ''spki''), lib_sha1 = (\<lambda>b. take 20 b), lib_sha256 = (\<lambda>b. take 32 b),
     lib_hash_for = (\<lambda>_. SHA256), lib_tbs_certificate = (\<lambda>_ _ _. Inr ''tbs''),
     lib_tbs_crl = (\<lambda>_ _. Inr ''tbs''), lib_digest = (\<lambda>_ _. replicate 32 (CHR 0x02)), lib_verify = (\<lambda>_ _ _. True),
     lib_assemble = (\<lambda>t g. t @ g), lib_parse_certificate = (\<lambda>_. Inr zero_cert),
     lib_url_parse = (\<lambda>_. Inr (''http'', ''h'')), lib_pem_decode = (\<lambda>b. Some (b, []))\<rparr>"

definition demo_host :: "'s host" where
  "demo_host = \<lparr>h_Now = returnE (1000 * hour), h_Rand = (\<lambda>n. returnE (replicate n (CHR 0x01)))\<rparr>"

definition demo_ca :: "'s ca" where
  "demo_ca = NewCA (zero_cert\<lparr>c_NotBefore := 1000 * hour, c_NotAfter := 90000 * hour\<rparr>)
     \<lparr>sg_Public = EcdsaKey EC_P256 1 2, sg_Sign = (\<lambda>_ _. returnE ''sig'')\<rparr> (9000 * hour)
     \<lparr>ld_CRLURL = ''http://h/crl'', ld_IssuerCertURL = ''http://h/ca'', ld_OCSPURL = []\<rparr>"

definition demo_csr :: csr where
  "demo_csr = \<lparr>csr_PublicKey = EcdsaKey EC_P384 3 4, csr_Subject = cn_request\<lparr>n_CommonName := ''w''\<rparr>,
     csr_DNSNames = [''w.example''], csr_IPAddresses = [], csr_URIs = [], csr_EmailAddresses = []\<rparr>"

definition demo_profile :: profile where
  "demo_profile = \<lparr>p_Name = ''tls-server'', p_ExtKeyUsages = [EKU_ServerAuth],
     p_KeyUsage = KU_DigitalSignature OR KU_KeyEncipherment, p_SANTypes = [SANDNS, SANIP],
     p_SANRequired = True, p_SubjectRDNs = [''CN''], p_KeyAlgorithms = [KeyECP384],
     p_Validity = 90 * 24 * hour, p_OCSPNoCheck = False\<rparr>"

text \<open>The policy checks on a request whose CA is configured, by the first that fails.\<close>

lemma issue_checks_err:
  assumes "issue_checks lib order c csr (Some q) = Inl e" "LeafDistribution_Validate lib (ca_dist c) = Inr ()"
  shows "validateCSR lib csr = Inl e \<or>
    validateCSR lib csr = Inr () \<and>
     (AllowsKey q (csr_PublicKey csr) \<noteq> Inr () \<and> e = Sentinel (CaErr ErrDisallowedKeyType) \<or>
      AllowsKey q (csr_PublicKey csr) = Inr () \<and>
       (CheckSANs order q csr \<noteq> Inr () \<and> e = Sentinel (CaErr ErrNameNotAllowed) \<or>
        CheckSANs order q csr = Inr () \<and>
         (\<not> is_ok (Subject q (csr_Subject csr)) \<and> e = Sentinel (CaErr ErrSubjectNotAllowed) \<or>
          is_ok (Subject q (csr_Subject csr)) \<and> ca_maxTTL c < p_Validity q \<and>
            e = Wrap ''profile'' (Sentinel (CaErr ErrValidityExceedsPolicy)))))"
proof -
  let ?tail = "bindR (as_sentinel ErrSubjectNotAllowed (Subject q (csr_Subject csr))) (\<lambda>subject.
      if ca_maxTTL c > 0 \<and> p_Validity q > ca_maxTTL c
      then Inl (Wrap ''profile'' (Sentinel (CaErr ErrValidityExceedsPolicy))) else Inr (q, subject))"
  have tail: "?tail = Inl e \<Longrightarrow> \<not> is_ok (Subject q (csr_Subject csr)) \<and> e = Sentinel (CaErr ErrSubjectNotAllowed) \<or>
      is_ok (Subject q (csr_Subject csr)) \<and> ca_maxTTL c < p_Validity q \<and>
        e = Wrap ''profile'' (Sentinel (CaErr ErrValidityExceedsPolicy))"
    by (cases "Subject q (csr_Subject csr)") (auto simp: as_sentinel_def split: if_splits)
  show ?thesis
    using assms tail
    by (cases "validateCSR lib csr"; cases "AllowsKey q (csr_PublicKey csr)"; cases "CheckSANs order q csr")
      (simp_all add: issue_checks_def as_sentinel_def)
qed

lemma validateCSR_err:
  assumes "validateCSR lib csr = Inl e"
  shows "if \<not> lib_csr_signature_ok lib csr then errors_is e (CaErr ErrInvalidCSRSignature)
    else if n_CommonName (csr_Subject csr) = [] \<and> n_Organization (csr_Subject csr) = []
    then errors_is e (CaErr ErrEmptySubject)
    else \<not> strong_key (csr_PublicKey csr) \<and> errors_is e (CaErr ErrDisallowedKeyType)"
  using assms
  by (cases "csr_PublicKey csr")
    (auto simp: validateCSR_def strong_key_def minRSAKeyBits_def MinRSAKeyBits_def split: if_splits)

section \<open>Properties\<close>

text \<open>C1: A certificate that issuing returns was signed over a template the policy allows: under a
  valid profile the leaf is no CA and carries no CA key usage, an EC key no keyEncipherment, its
  serial is positive, it ends within the issuer's window and within the CA's ceiling, the request
  proved possession of a strong key, and its names are of the types the profile copies.\<close>

theorem Issue_signs_only_policy:
  assumes "Issue lib host order c csr (Some p) s = (Inr cert, s')" "profile_Validate p = Inr ()"
    "mset order = mset [SANDNS, SANIP, SANURI, SANEmail]"
  shows "\<exists>t tbs sig. lib_tbs_certificate lib t (ca_cert c) (csr_PublicKey csr) = Inr tbs \<and>
    lib_verify lib (sg_Public (ca_signer c)) tbs sig \<and>
    lib_parse_certificate lib (lib_assemble lib tbs sig) = Inr cert \<and>
    \<not> c_IsCA t \<and> c_BasicConstraintsValid t \<and> c_KeyUsage t AND (KU_CertSign OR KU_CRLSign) = 0 \<and>
    (is_ecdsa (csr_PublicKey csr) \<longrightarrow> c_KeyUsage t AND KU_KeyEncipherment = 0) \<and>
    c_ExtKeyUsage t = p_ExtKeyUsages p \<and> c_ExtKeyUsage t \<noteq> [] \<and>
    0 < c_SerialNumber t \<and> c_NotBefore t < c_NotAfter t \<and> c_NotAfter t \<le> c_NotAfter (ca_cert c) \<and>
    (0 < ca_maxTTL c \<longrightarrow> c_NotAfter t - c_NotBefore t \<le> ca_maxTTL c + issuanceClockSkewAllowance) \<and>
    lib_csr_signature_ok lib csr \<and> strong_key (csr_PublicKey csr) \<and>
    n_Names (c_Subject t) = n_Names (csr_Subject csr) \<and>
    (c_DNSNames t \<noteq> [] \<longrightarrow> SANDNS \<in> set (p_SANTypes p)) \<and> (c_IPAddresses t \<noteq> [] \<longrightarrow> SANIP \<in> set (p_SANTypes p)) \<and>
    (c_URIs t \<noteq> [] \<longrightarrow> SANURI \<in> set (p_SANTypes p)) \<and>
    (c_EmailAddresses t \<noteq> [] \<longrightarrow> SANEmail \<in> set (p_SANTypes p)) \<and>
    c_CRLDistributionPoints t \<noteq> [] \<and> [] \<notin> set (c_CRLDistributionPoints t)"
proof -
  from Issue_Inr [OF assms(1)] obtain q subject now serial ski tbs sig where
    q: "issue_checks lib order c csr (Some p) = Inr (q, subject)" "0 < serial"
      "checkIssuerCanCover c now (now + p_Validity q) = Inr ()" and
    signed: "lib_tbs_certificate lib (issue_template c csr q subject now serial ski) (ca_cert c) (csr_PublicKey csr) = Inr tbs"
      "lib_verify lib (sg_Public (ca_signer c)) tbs sig"
      "lib_parse_certificate lib (lib_assemble lib tbs sig) = Inr cert" by blast
  from q(1) have p: "q = p" and csr: "validateCSR lib csr = Inr ()" "CheckSANs order p csr = Inr ()"
    "Subject p (csr_Subject csr) = Inr subject" "ca_maxTTL c > 0 \<longrightarrow> p_Validity p \<le> ca_maxTTL c"
    "LeafDistribution_Validate lib (ca_dist c) = Inr ()"
    by (auto simp: issue_checks_iff)
  let ?t = "issue_template c csr p subject now serial ski"
  from assms(3) have order: "set order = {SANDNS, SANIP, SANURI, SANEmail}"
    by (metis mset_eq_setD list.set(1) list.simps(15))
  from csr(2) order have sans: "csr_DNSNames csr \<noteq> [] \<longrightarrow> SANDNS \<in> set (p_SANTypes p)"
    "csr_IPAddresses csr \<noteq> [] \<longrightarrow> SANIP \<in> set (p_SANTypes p)"
    "csr_URIs csr \<noteq> [] \<longrightarrow> SANURI \<in> set (p_SANTypes p)"
    "csr_EmailAddresses csr \<noteq> [] \<longrightarrow> SANEmail \<in> set (p_SANTypes p)"
    by (simp_all add: CheckSANs_iff san_count_def san_defs)
  have usage: "c_KeyUsage ?t AND (KU_CertSign OR KU_CRLSign) = 0" "p_ExtKeyUsages p \<noteq> []" "0 < p_Validity p"
    using assms(2) by (simp_all add: profile_Validate_iff keyUsageFor_within)
  have ec: "is_ecdsa (csr_PublicKey csr) \<longrightarrow> c_KeyUsage ?t AND KU_KeyEncipherment = 0"
    by (cases "csr_PublicKey csr") (simp_all add: keyUsageFor_def and.assoc)
  have names: "n_Names subject = n_Names (csr_Subject csr)"
    using csr(3) by (simp add: Subject_iff empty_name_def)
  have window: "now + p_Validity p \<le> c_NotAfter (ca_cert c)"
    using q(3) p by (simp add: checkIssuerCanCover_iff)
  have possession: "lib_csr_signature_ok lib csr" "strong_key (csr_PublicKey csr)"
    using csr(1) by (simp_all add: validateCSR_iff)
  have url: "ld_CRLURL (ca_dist c) \<noteq> []"
    using csr(5) by (simp add: LeafDistribution_Validate_iff ValidateDistributionURL_iff)
  have order_ok: "c_NotBefore ?t < c_NotAfter ?t"
    using usage(3) clock_skew_pos by (simp del: clock_skew_pos)
  show ?thesis
    using signed [unfolded p] q(2) sans usage ec names window possession url csr(4) order_ok
    by (intro exI [of _ ?t] exI [of _ tbs] exI [of _ sig] conjI) (simp_all del: clock_skew_pos)
qed

theorem Issue_signs_only_policy_witness:
  "\<exists>cert. fst (Issue demo_lib demo_host [SANDNS, SANIP, SANURI, SANEmail] demo_ca demo_csr (Some demo_profile) ()) = Inr cert \<and>
    (\<exists>t. 0 < c_SerialNumber t \<and> lib_tbs_certificate demo_lib t (ca_cert (demo_ca :: unit ca)) (csr_PublicKey demo_csr) = Inr ''tbs'')"
proof -
  let ?i = "Issue demo_lib demo_host [SANDNS, SANIP, SANURI, SANEmail] demo_ca demo_csr (Some demo_profile) ()"
  have "is_ok (issue_checks demo_lib [SANDNS, SANIP, SANURI, SANEmail] (demo_ca :: unit ca) demo_csr (Some demo_profile))"
    by code_simp
  then obtain q subject where
    c: "issue_checks demo_lib [SANDNS, SANIP, SANURI, SANEmail] (demo_ca :: unit ca) demo_csr (Some demo_profile) = Inr (q, subject)"
    by (auto simp: is_ok_iff)
  then have "q = demo_profile" by (simp add: issue_checks_iff)
  then have w: "checkIssuerCanCover (demo_ca :: unit ca) (1000 * hour) (1000 * hour + p_Validity q) = Inr ()"
    by (simp add: checkIssuerCanCover_iff demo_ca_def NewCA_def demo_profile_def hour_def minute_def second_def)
  have "h_Rand demo_host 16 () = (Inr (replicate 16 (CHR 0x01)), ())" by (simp add: demo_host_def)
  then have r: "GenerateSerial demo_host () = (Inr (int (be_nat (replicate 16 (CHR 0x01)))), ())"
  proof (rule GenerateSerial_returns)
    have "0 < be_nat (replicate (Suc 15) (CHR 0x01))" by (simp only: replicate_Suc be_nat_simps) simp
    then show "0 < be_nat (replicate 16 (CHR 0x01))" by simp
  qed
  have "is_ok (fst ?i)"
    using c w r by (simp add: Issue_def bindE_def demo_host_def subjectKeyID_def demo_lib_def
        create_certificate_def sign_tbs_def demo_ca_def NewCA_def wrapE_def)
  then obtain cert where i: "?i = (Inr cert, snd ?i)" by (rule is_ok_fstE)
  have "KU_DigitalSignature OR KU_KeyEncipherment \<noteq> 0" by (simp add: KU_defs)
  then have v: "profile_Validate demo_profile = Inr ()"
    by (simp add: profile_Validate_iff demo_profile_def word_eval rdnOIDs_def hour_def minute_def second_def)
  from Issue_signs_only_policy [OF i v refl] obtain t where
    "0 < c_SerialNumber t" "\<exists>tbs. lib_tbs_certificate demo_lib t (ca_cert (demo_ca :: unit ca)) (csr_PublicKey demo_csr) = Inr tbs"
    by blast
  with arg_cong [OF i, of fst] show ?thesis by (auto simp: demo_lib_def)
qed

text \<open>C10: A request that breaks the policy is refused before anything happens: the state is as it
  was, so no clock was read, no serial drawn and no signature asked for, and the error names the
  first rule it broke, in the order of the code.\<close>

theorem Issue_refusals:
  assumes "issue_checks lib order c csr p = Inl e"
  shows "Issue lib host order c csr p s = (Inl e, s) \<and>
    (if LeafDistribution_Validate lib (ca_dist c) \<noteq> Inr () then errors_is e (CaErr ErrNoDistributionPoints)
     else case p of
       None \<Rightarrow> errors_is e ProfileErrUnknown
     | Some q \<Rightarrow>
         if \<not> lib_csr_signature_ok lib csr then errors_is e (CaErr ErrInvalidCSRSignature)
         else if n_CommonName (csr_Subject csr) = [] \<and> n_Organization (csr_Subject csr) = []
         then errors_is e (CaErr ErrEmptySubject)
         else if \<not> strong_key (csr_PublicKey csr) \<or> AllowsKey q (csr_PublicKey csr) \<noteq> Inr ()
         then errors_is e (CaErr ErrDisallowedKeyType)
         else if CheckSANs order q csr \<noteq> Inr () then errors_is e (CaErr ErrNameNotAllowed)
         else if \<not> is_ok (Subject q (csr_Subject csr)) then errors_is e (CaErr ErrSubjectNotAllowed)
         else errors_is e (CaErr ErrValidityExceedsPolicy) \<and> ca_maxTTL c < p_Validity q)"
proof
  show "Issue lib host order c csr p s = (Inl e, s)"
    using assms by (simp add: Issue_def bindE_def)
  show "(if LeafDistribution_Validate lib (ca_dist c) \<noteq> Inr () then errors_is e (CaErr ErrNoDistributionPoints)
     else case p of None \<Rightarrow> errors_is e ProfileErrUnknown
     | Some q \<Rightarrow>
         if \<not> lib_csr_signature_ok lib csr then errors_is e (CaErr ErrInvalidCSRSignature)
         else if n_CommonName (csr_Subject csr) = [] \<and> n_Organization (csr_Subject csr) = []
         then errors_is e (CaErr ErrEmptySubject)
         else if \<not> strong_key (csr_PublicKey csr) \<or> AllowsKey q (csr_PublicKey csr) \<noteq> Inr ()
         then errors_is e (CaErr ErrDisallowedKeyType)
         else if CheckSANs order q csr \<noteq> Inr () then errors_is e (CaErr ErrNameNotAllowed)
         else if \<not> is_ok (Subject q (csr_Subject csr)) then errors_is e (CaErr ErrSubjectNotAllowed)
         else errors_is e (CaErr ErrValidityExceedsPolicy) \<and> ca_maxTTL c < p_Validity q)"
  proof (cases "LeafDistribution_Validate lib (ca_dist c)")
    case (Inl e')
    with assms show ?thesis by (simp add: issue_checks_def as_sentinel_def) fastforce
  next
    case dist: (Inr u)
    show ?thesis
    proof (cases p)
      case None
      with assms dist show ?thesis by (auto simp: issue_checks_def as_sentinel_def)
    next
      case (Some q)
      show ?thesis
      proof (cases "validateCSR lib csr")
        case (Inl e')
        with assms dist Some have "e' = e" by (simp add: issue_checks_def as_sentinel_def)
        with validateCSR_err [OF Inl] dist Some show ?thesis by (auto split: if_splits)
      next
        case (Inr u')
        then have "lib_csr_signature_ok lib csr" "strong_key (csr_PublicKey csr)"
          "\<not> (n_CommonName (csr_Subject csr) = [] \<and> n_Organization (csr_Subject csr) = [])"
          using validateCSR_iff [of lib csr u'] by simp_all
        with issue_checks_err [of lib order c csr q e] assms dist Some Inr show ?thesis by auto
      qed
    qed
  qed
qed

theorem Issue_refusals_witness:
  "\<exists>e. Issue demo_lib demo_host [SANDNS, SANIP, SANURI, SANEmail] demo_ca
      (demo_csr\<lparr>csr_PublicKey := RsaKey 3 65537\<rparr>) (Some demo_profile) () = (Inl e, ()) \<and>
    errors_is e (CaErr ErrDisallowedKeyType)"
proof -
  let ?csr = "demo_csr\<lparr>csr_PublicKey := RsaKey 3 65537\<rparr>"
  let ?ca = "demo_ca :: unit ca"
  have b: "bit_len 3 = 2" by (simp add: bit_len.simps)
  have "validateCSR demo_lib ?csr = Inl (Wrap ''RSA key'' (Sentinel (CaErr ErrDisallowedKeyType)))"
    by (simp add: b validateCSR_def demo_lib_def demo_csr_def minRSAKeyBits_def MinRSAKeyBits_def)
  moreover have d: "LeafDistribution_Validate demo_lib (ca_dist ?ca) = Inr ()"
    by (simp add: LeafDistribution_Validate_def ValidateDistributionURL_def demo_lib_def demo_ca_def NewCA_def)
  ultimately have e: "issue_checks demo_lib [SANDNS, SANIP, SANURI, SANEmail] ?ca ?csr (Some demo_profile) =
      Inl (Wrap ''RSA key'' (Sentinel (CaErr ErrDisallowedKeyType)))"
    by (simp add: issue_checks_def as_sentinel_def)
  have "\<not> strong_key (csr_PublicKey ?csr)" by (simp add: strong_key_def b)
  moreover have "lib_csr_signature_ok demo_lib ?csr" "n_CommonName (csr_Subject ?csr) \<noteq> []"
    by (simp_all add: demo_lib_def demo_csr_def)
  ultimately show ?thesis using Issue_refusals [OF e, of demo_host "()"] d by auto
qed

text \<open>A CRL is signed only over a window that is not empty and a positive number, and lists
  exactly the certificates it was given, in order.\<close>

theorem BuildCRL_signs:
  assumes "BuildCRL lib c revoked thisUpdate nextUpdate number s = (Inr der, s')"
  shows "\<exists>t tbs sig. lib_tbs_crl lib t (ca_cert c) = Inr tbs \<and> lib_verify lib (sg_Public (ca_signer c)) tbs sig \<and>
    der = lib_assemble lib tbs sig \<and> number = Some (rl_Number t) \<and> 0 < rl_Number t \<and>
    rl_ThisUpdate t = thisUpdate \<and> rl_NextUpdate t = nextUpdate \<and> thisUpdate < nextUpdate \<and>
    map re_SerialNumber (rl_Entries t) = map rc_Serial revoked \<and>
    map re_RevocationTime (rl_Entries t) = map rc_RevokedAt revoked \<and>
    map re_ReasonCode (rl_Entries t) = map rc_ReasonCode revoked"
proof -
  from assms obtain n where n: "number = Some n" "0 < n" "thisUpdate < nextUpdate"
    "create_revocation_list lib (crl_template revoked thisUpdate nextUpdate n) (ca_cert c) (ca_signer c) s = (Inr der, s')"
    by (auto simp: BuildCRL_def res_simps split: if_splits option.splits)
  from create_revocation_list_Inr [OF n(4)] n(1-3) show ?thesis
    by (force simp: crl_template_def)
qed

theorem BuildCRL_signs_witness:
  "\<exists>der. \<exists>t :: revocation_list. fst (BuildCRL demo_lib demo_ca [\<lparr>rc_Serial = 7, rc_RevokedAt = 5, rc_ReasonCode = 1\<rparr>] 0 9 (Some 3) ()) = Inr der \<and>
     rl_Number t = 3 \<and> map re_SerialNumber (rl_Entries t) = [7]"
proof -
  let ?b = "BuildCRL demo_lib demo_ca [\<lparr>rc_Serial = 7, rc_RevokedAt = 5, rc_ReasonCode = 1\<rparr>] 0 9 (Some 3) ()"
  have "is_ok (fst ?b)" by code_simp
  then obtain der where b: "?b = (Inr der, snd ?b)" by (rule is_ok_fstE)
  from BuildCRL_signs [OF b] obtain t :: revocation_list
    where "rl_Number t = 3" "map re_SerialNumber (rl_Entries t) = [7]" by force
  with arg_cong [OF b, of fst] show ?thesis by (intro exI [of _ der] exI [of _ t]) simp
qed

text \<open>Only one end of a leaf's window is checked against its issuer: within five minutes of the
  issuer's start, a leaf is signed that begins before its issuer does.\<close>

theorem leaf_may_begin_before_issuer:
  "(checkIssuerCanCover c (c_NotBefore (ca_cert c)) notAfter = Inr () \<longleftrightarrow>
     c_NotBefore (ca_cert c) \<le> c_NotAfter (ca_cert c) \<and> notAfter \<le> c_NotAfter (ca_cert c)) \<and>
   c_NotBefore (issue_template c csr p subject (c_NotBefore (ca_cert c)) serial ski) < c_NotBefore (ca_cert c)"
  by (simp add: checkIssuerCanCover_iff)

end
