(* ===== verification/Secure_PIN.thy ===== *)
theory Secure_PIN
  imports X509
begin

text \<open>
  \<^verbatim>\<open>internal/pkcs11/secure_pin.go\<close> over an explicit store of byte buffers. A Go
  slice is a reference into \<open>go_bufs\<close>; a C allocation is an index into
  \<open>c_bufs\<close>, with its contents and whether it has been freed. Freed memory keeps
  what was last written to it, so a PIN that was not overwritten stays visible.
\<close>

record buffers =
  go_bufs :: "bytes list"
  c_bufs :: "(bytes \<times> bool) list"

definition zeros :: "bytes \<Rightarrow> bytes" where
  "zeros b = map (\<lambda>_. CHR 0x00) b"

definition go_buf :: "nat \<Rightarrow> buffers \<Rightarrow> bytes" where
  "go_buf i m = (if i < length (go_bufs m) then go_bufs m ! i else [])"

definition zeroizeBytes :: "nat \<Rightarrow> buffers \<Rightarrow> buffers" where
  "zeroizeBytes i m = m\<lparr>go_bufs := (go_bufs m)[i := zeros (go_buf i m)]\<rparr>"

text \<open>A \<^verbatim>\<open>SecurePIN\<close> is its buffer pointer, nil (\<open>None\<close>) when it holds nothing.\<close>

type_synonym secure_pin = "nat option"

definition NewSecurePIN :: "nat \<Rightarrow> buffers \<Rightarrow> secure_pin \<times> buffers" where
  "NewSecurePIN pin m =
     (let b = go_buf pin m; m1 = zeroizeBytes pin m in
      if length b > 0 then (Some (length (c_bufs m)), m1\<lparr>c_bufs := c_bufs m @ [(b, False)]\<rparr>)
      else (None, m1))"

definition withGoString :: "secure_pin \<Rightarrow> buffers \<Rightarrow> string" where
  "withGoString p m = (case p of None \<Rightarrow> [] | Some i \<Rightarrow> fst (c_bufs m ! i))"

definition wipe :: "secure_pin \<Rightarrow> buffers \<Rightarrow> buffers" where
  "wipe p m = (case p of None \<Rightarrow> m
     | Some i \<Rightarrow> m\<lparr>c_bufs := (c_bufs m)[i := (zeros (fst (c_bufs m ! i)), snd (c_bufs m ! i))]\<rparr>)"

definition Zeroize :: "secure_pin \<Rightarrow> buffers \<Rightarrow> buffers" where
  "Zeroize p m = (case p of None \<Rightarrow> m
     | Some i \<Rightarrow> let m1 = wipe p m in m1\<lparr>c_bufs := (c_bufs m1)[i := (fst (c_bufs m1 ! i), True)]\<rparr>)"

text \<open>No C buffer, freed or not, holds anything but zeros, and all are freed.\<close>

definition c_clean :: "buffers \<Rightarrow> bool" where
  "c_clean m \<longleftrightarrow> (\<forall>(b, freed) \<in> set (c_bufs m). b = zeros b \<and> freed)"

definition go_clean :: "nat \<Rightarrow> buffers \<Rightarrow> bool" where
  "go_clean i m \<longleftrightarrow> go_buf i m = zeros (go_buf i m)"

lemma zeros_idem [simp]: "zeros (zeros b) = zeros b"
  by (simp add: zeros_def)

lemma zeros_Nil [simp]: "zeros [] = []" "zeros b = [] \<longleftrightarrow> b = []"
  by (simp_all add: zeros_def)

lemma c_bufs_zeroizeBytes [simp]: "c_bufs (zeroizeBytes i m) = c_bufs m"
  by (simp add: zeroizeBytes_def)

lemma go_buf_zeroizeBytes [simp]: "go_buf i (zeroizeBytes i m) = zeros (go_buf i m)"
  by (simp add: zeroizeBytes_def go_buf_def)

lemma zeroizeBytes_idem [simp]: "zeroizeBytes i (zeroizeBytes i m) = zeroizeBytes i m"
  by (simp add: zeroizeBytes_def go_buf_def)

lemma go_clean_zeroizeBytes [simp]: "go_clean i (zeroizeBytes i m)"
  by (simp add: go_clean_def)

lemma c_clean_zeroizeBytes [simp]: "c_clean (zeroizeBytes i m) = c_clean m"
  by (simp add: c_clean_def)

text \<open>A PIN that was put away and zeroized again leaves only zeros behind.\<close>

lemma Zeroize_NewSecurePIN:
  assumes "NewSecurePIN pin m = (p, m')" "c_clean m"
  shows "c_clean (Zeroize p m')" "go_bufs (Zeroize p m') = go_bufs (zeroizeBytes pin m)"
    "withGoString p m' = go_buf pin m"
  using assms
  by (auto simp: NewSecurePIN_def Zeroize_def wipe_def withGoString_def c_clean_def Let_def
      zeroizeBytes_def list_update_append split: if_splits)

end
