(* ===== verification/Pkcs11_Base.thy ===== *)
theory Pkcs11_Base
  imports Adapter Secure_PIN
begin

text \<open>
  \<^verbatim>\<open>internal/pkcs11/base.go\<close> and \<^verbatim>\<open>tokenlogin.go\<close>: the one implementation behind
  every vendor's adapter. The loaded PKCS#11 module is a parameter, the record
  \<open>p11_module\<close> of its C functions on a state \<open>'t\<close> that nothing is assumed about.
  Around it the adapter keeps its own state, \<open>world\<close>: the sessions it opened
  (\<open>w_heap\<close>, by reference) and the ones still registered (\<open>w_sessions\<close>, by handle),
  the anchor login, the closed flag and the byte buffers of the PINs. The clock,
  the context and the random source are read from \<open>w_env\<close>, one reading per tick,
  in any sequence. An operation is one step: the locks make it so, and running a
  call on the module's own thread does not change what it returns.
\<close>

section \<open>The module\<close>

record token_info =
  ti_Label :: string
  ti_SerialNumber :: string

record 't p11_module =
  C_Initialize :: "('t, unit) eff"
  C_Finalize :: "('t, unit) eff"
  C_GetSlotList :: "('t, nat list) eff"
  C_GetTokenInfo :: "nat \<Rightarrow> ('t, token_info) eff"
  C_OpenSession :: "nat \<Rightarrow> ('t, nat) eff"
  C_CloseSession :: "nat \<Rightarrow> ('t, unit) eff"
  C_Login :: "nat \<Rightarrow> role \<Rightarrow> string \<Rightarrow> ('t, unit) eff"
  C_Logout :: "nat \<Rightarrow> ('t, unit) eff"
  C_GenerateKeyPair :: "nat \<Rightarrow> mechanism_type \<Rightarrow> attribute list \<Rightarrow> attribute list \<Rightarrow> ('t, nat \<times> nat) eff"
  C_GenerateKey :: "nat \<Rightarrow> mechanism_type \<Rightarrow> attribute list \<Rightarrow> ('t, nat) eff"
  C_GenerateRandom :: "nat \<Rightarrow> nat \<Rightarrow> ('t, bytes) eff"
  C_DestroyObject :: "nat \<Rightarrow> nat \<Rightarrow> ('t, unit) eff"
  C_FindObjectsInit :: "nat \<Rightarrow> attribute list \<Rightarrow> ('t, unit) eff"
  C_FindObjects :: "nat \<Rightarrow> nat \<Rightarrow> ('t, nat list) eff"
  C_FindObjectsFinal :: "nat \<Rightarrow> ('t, unit) eff"
  C_GetAttributeValue :: "nat \<Rightarrow> nat \<Rightarrow> attribute_type list \<Rightarrow> ('t, attribute list) eff"
  C_SignInit :: "nat \<Rightarrow> mechanism \<Rightarrow> nat \<Rightarrow> ('t, unit) eff"
  C_Sign :: "nat \<Rightarrow> bytes \<Rightarrow> ('t, bytes) eff"
  C_VerifyInit :: "nat \<Rightarrow> mechanism \<Rightarrow> nat \<Rightarrow> ('t, unit) eff"
  C_Verify :: "nat \<Rightarrow> bytes \<Rightarrow> bytes \<Rightarrow> ('t, unit) eff"
  C_EncryptInit :: "nat \<Rightarrow> mechanism \<Rightarrow> nat \<Rightarrow> ('t, unit) eff"
  C_Encrypt :: "nat \<Rightarrow> bytes \<Rightarrow> ('t, bytes) eff"
  C_DecryptInit :: "nat \<Rightarrow> mechanism \<Rightarrow> nat \<Rightarrow> ('t, unit) eff"
  C_Decrypt :: "nat \<Rightarrow> bytes \<Rightarrow> ('t, bytes) eff"
  C_WrapKey :: "nat \<Rightarrow> mechanism \<Rightarrow> nat \<Rightarrow> nat \<Rightarrow> ('t, bytes) eff"
  C_UnwrapKey :: "nat \<Rightarrow> mechanism \<Rightarrow> nat \<Rightarrow> bytes \<Rightarrow> attribute list \<Rightarrow> ('t, nat) eff"

section \<open>The adapter's state\<close>

record env =
  env_Now :: "nat \<Rightarrow> time"
  env_ctx :: "nat \<Rightarrow> go_error option"
  env_rand :: "nat \<Rightarrow> nat \<Rightarrow> bytes res"

record 't world =
  w_module :: 't
  w_closed :: bool
  w_sessions :: "(nat \<times> session_ref) list"
  w_heap :: "session list"
  w_anchorSession :: nat
  w_anchorWorkspace :: workspace
  w_tokenLoggedIn :: bool
  w_bufs :: buffers
  w_env :: env
  w_tick :: nat

definition onModule :: "('t, 'a) eff \<Rightarrow> ('t world, 'a) eff" where
  "onModule f s = (case f (w_module s) of (r, m) \<Rightarrow> (r, s\<lparr>w_module := m\<rparr>))"

text \<open>Both lock helpers refuse once the adapter is closed.\<close>

definition withStateLock :: "('t world, 'a) eff \<Rightarrow> ('t world, 'a) eff" where
  "withStateLock fn s = (if w_closed s then (Inl (Sentinel (Pkcs11 ErrAdapterClosed)), s) else fn s)"

definition withReadLock :: "('t world, 'a) eff \<Rightarrow> ('t world, 'a) eff" where
  "withReadLock fn s = (if w_closed s then (Inl (Sentinel (Pkcs11 ErrAdapterClosed)), s) else fn s)"

definition checkCtx :: "('t world, unit) eff" where
  "checkCtx s = (case env_ctx (w_env s) (w_tick s) of None \<Rightarrow> Inr () | Some e \<Rightarrow> Inl e,
                 s\<lparr>w_tick := Suc (w_tick s)\<rparr>)"

definition time_Now :: "('t world, time) eff" where
  "time_Now s = (Inr (env_Now (w_env s) (w_tick s)), s\<lparr>w_tick := Suc (w_tick s)\<rparr>)"

definition rand_Read :: "nat \<Rightarrow> ('t world, bytes) eff" where
  "rand_Read n s = (env_rand (w_env s) (w_tick s) n, s\<lparr>w_tick := Suc (w_tick s)\<rparr>)"

text \<open>A reference no \<open>OpenSession\<close> returned reads as a closed session.\<close>

definition no_session :: session where
  "no_session = \<lparr>ss_workspace = zero_workspace, ss_handle = 0, ss_openedAt = 0, ss_lastUsedAt = 0,
     ss_idleTimeout = 0, ss_maxTTL = 0, ss_loggedIn = False, ss_closed = True\<rparr>"

definition get_session :: "session_ref \<Rightarrow> 't world \<Rightarrow> session" where
  "get_session r s = (if r < length (w_heap s) then w_heap s ! r else no_session)"

definition put_session :: "session_ref \<Rightarrow> session \<Rightarrow> 't world \<Rightarrow> 't world" where
  "put_session r x s = s\<lparr>w_heap := (w_heap s)[r := x]\<rparr>"

definition handle_of :: "session_ref \<Rightarrow> ('t world, nat) eff" where
  "handle_of r = getsE (\<lambda>s. ss_handle (get_session r s))"

definition touch_session :: "session_ref \<Rightarrow> ('t world, unit) eff" where
  "touch_session r s =
     (case touch (get_session r s) (env_Now (w_env s) (w_tick s)) of
        (res, x) \<Rightarrow> (res, put_session r x (s\<lparr>w_tick := Suc (w_tick s)\<rparr>)))"

definition setLoggedIn :: "session_ref \<Rightarrow> bool \<Rightarrow> ('t world, unit) eff" where
  "setLoggedIn r b = modifyE (\<lambda>s. put_session r ((get_session r s)\<lparr>ss_loggedIn := b\<rparr>) s)"

text \<open>The prologue of every operation on a session, then the operation on its handle.\<close>

definition in_session :: "session_ref \<Rightarrow> (nat \<Rightarrow> ('t world, 'a) eff) \<Rightarrow> ('t world, 'a) eff" where
  "in_session r body =
     bindE checkCtx (\<lambda>_. bindE (touch_session r) (\<lambda>_. bindE (handle_of r) body))"

section \<open>Workspaces and sessions\<close>

definition trim_right_spaces :: "string \<Rightarrow> string" where
  "trim_right_spaces s = rev (dropWhile (\<lambda>c. c = CHR '' '') (rev s))"

fun slot_workspaces :: "'t p11_module \<Rightarrow> nat list \<Rightarrow> ('t, workspace list) eff" where
  "slot_workspaces m [] = returnE []"
| "slot_workspaces m (slot # slots) =
     tryE (C_GetTokenInfo m slot) (\<lambda>ti.
       case ti of
         Inl _ \<Rightarrow> slot_workspaces m slots
       | Inr info \<Rightarrow> bindE (slot_workspaces m slots) (\<lambda>rest.
           returnE (\<lparr>ws_SlotID = slot, ws_Label = trim_right_spaces (ti_Label info),
                     ws_Serial = trim_right_spaces (ti_SerialNumber info), ws_Present = True\<rparr> # rest)))"

definition base_Workspaces :: "'t p11_module \<Rightarrow> capabilities \<Rightarrow> ('t world, workspace list) eff" where
  "base_Workspaces m caps =
     bindE checkCtx (\<lambda>_.
     (if ConcurrentSlotEnumeration caps then withReadLock else withStateLock) (onModule
       (bindE (wrapE ''C_GetSlotList'' (C_GetSlotList m)) (slot_workspaces m))))"

definition effective_options :: "session_options \<Rightarrow> session_options" where
  "effective_options opts =
     opts\<lparr>so_IdleTimeout := (if so_IdleTimeout opts \<le> 0 then so_IdleTimeout DefaultSessionOptions
                            else so_IdleTimeout opts),
          so_MaxTTL := (if so_MaxTTL opts \<le> 0 then so_MaxTTL DefaultSessionOptions else so_MaxTTL opts)\<rparr>"

definition register_session :: "session \<Rightarrow> 't world \<Rightarrow> session_ref res \<times> 't world" where
  "register_session x s =
     (let r = length (w_heap s) in
      (Inr r, s\<lparr>w_heap := w_heap s @ [x],
                w_sessions := (ss_handle x, r) # filter (\<lambda>(h, _). h \<noteq> ss_handle x) (w_sessions s)\<rparr>))"

definition base_OpenSession ::
    "'t p11_module \<Rightarrow> workspace \<Rightarrow> session_options \<Rightarrow> ('t world, session_ref) eff" where
  "base_OpenSession m ws opts =
     bindE checkCtx (\<lambda>_.
     bindE (withStateLock (wrapE ''C_OpenSession'' (onModule (C_OpenSession m (ws_SlotID ws))))) (\<lambda>handle.
     bindE time_Now (\<lambda>now.
     (let o' = effective_options opts in
      register_session \<lparr>ss_workspace = ws, ss_handle = handle, ss_openedAt = now, ss_lastUsedAt = now,
        ss_idleTimeout = so_IdleTimeout o', ss_maxTTL = so_MaxTTL o', ss_loggedIn = False,
        ss_closed = False\<rparr>))))"

definition CKR_SESSION_HANDLE_INVALID :: nat where "CKR_SESSION_HANDLE_INVALID = 0xB3"

definition isSessionHandleInvalid :: "go_error \<Rightarrow> bool" where
  "isSessionHandleInvalid err \<longleftrightarrow> errors_as_ckr err = Some CKR_SESSION_HANDLE_INVALID"

definition unregister :: "nat \<Rightarrow> ('t world, unit) eff" where
  "unregister handle = modifyE (\<lambda>s. s\<lparr>w_sessions := filter (\<lambda>(h, _). h \<noteq> handle) (w_sessions s)\<rparr>)"

definition base_CloseSession :: "'t p11_module \<Rightarrow> session_ref \<Rightarrow> ('t world, unit) eff" where
  "base_CloseSession m r =
     bindE (modifyE (\<lambda>s. put_session r (markClosed (get_session r s)) s)) (\<lambda>_.
     bindE (handle_of r) (\<lambda>h.
     tryE (withStateLock (wrapE ''C_CloseSession'' (onModule (C_CloseSession m h)))) (\<lambda>res.
       bindE (if (case res of Inr _ \<Rightarrow> True
                  | Inl err \<Rightarrow> errors_is err (Pkcs11 ErrAdapterClosed) \<or> isSessionHandleInvalid err)
              then unregister h else returnE ())
         (\<lambda>_. liftE res))))"

section \<open>Logging in\<close>

definition zeroize_buffer :: "buffer \<Rightarrow> ('t world, unit) eff" where
  "zeroize_buffer pin = modifyE (\<lambda>s. s\<lparr>w_bufs := zeroizeBytes pin (w_bufs s)\<rparr>)"

definition new_secure_pin :: "buffer \<Rightarrow> ('t world, secure_pin) eff" where
  "new_secure_pin pin s =
     (case NewSecurePIN pin (w_bufs s) of (p, b) \<Rightarrow> (Inr p, s\<lparr>w_bufs := b\<rparr>))"

definition zeroize_secure :: "secure_pin \<Rightarrow> ('t world, unit) eff" where
  "zeroize_secure p = modifyE (\<lambda>s. s\<lparr>w_bufs := Zeroize p (w_bufs s)\<rparr>)"

definition module_login :: "'t p11_module \<Rightarrow> nat \<Rightarrow> role \<Rightarrow> secure_pin \<Rightarrow> ('t world, unit) eff" where
  "module_login m handle role p s = onModule (C_Login m handle role (withGoString p (w_bufs s))) s"

definition pin_empty :: "buffer \<Rightarrow> ('t world, bool) eff" where
  "pin_empty pin = getsE (\<lambda>s. go_buf pin (w_bufs s) = [])"

definition base_Login :: "'t p11_module \<Rightarrow> session_ref \<Rightarrow> buffer \<Rightarrow> role \<Rightarrow> ('t world, unit) eff" where
  "base_Login m r pin role =
     finallyE (zeroize_buffer pin)
      (bindE checkCtx (\<lambda>_.
       bindE (touch_session r) (\<lambda>_.
       bindE (pin_empty pin) (\<lambda>empty.
         if empty then throwE (Sentinel (Pkcs11 ErrEmptyPIN))
         else bindE (new_secure_pin pin) (\<lambda>secure.
           finallyE (zeroize_secure secure)
            (bindE (handle_of r) (\<lambda>h.
             bindE (wrapE ''C_Login'' (withStateLock (module_login m h role secure))) (\<lambda>_.
             setLoggedIn r True))))))))"

definition base_Logout :: "'t p11_module \<Rightarrow> session_ref \<Rightarrow> ('t world, unit) eff" where
  "base_Logout m r =
     in_session r (\<lambda>h.
       bindE (withStateLock (wrapE ''C_Logout'' (onModule (C_Logout m h)))) (\<lambda>_. setLoggedIn r False))"

definition set_anchor :: "nat \<Rightarrow> workspace \<Rightarrow> bool \<Rightarrow> ('t world, unit) eff" where
  "set_anchor h ws b = modifyE (\<lambda>s. s\<lparr>w_anchorSession := h, w_anchorWorkspace := ws, w_tokenLoggedIn := b\<rparr>)"

definition base_LoginToken ::
    "'t p11_module \<Rightarrow> workspace \<Rightarrow> buffer \<Rightarrow> role \<Rightarrow> ('t world, unit) eff" where
  "base_LoginToken m ws pin role =
     finallyE (zeroize_buffer pin)
      (bindE checkCtx (\<lambda>_.
       bindE (pin_empty pin) (\<lambda>empty.
       if empty then throwE (Sentinel (Pkcs11 ErrEmptyPIN))
       else bindE (getsE w_tokenLoggedIn) (\<lambda>logged_in.
         if logged_in then throwE (Sentinel (Pkcs11 ErrTokenAlreadyLoggedIn))
         else bindE (new_secure_pin pin) (\<lambda>secure.
           finallyE (zeroize_secure secure)
            (withStateLock
              (bindE (wrapE ''C_OpenSession (anchor)'' (onModule (C_OpenSession m (ws_SlotID ws)))) (\<lambda>handle.
               tryE (module_login m handle role secure) (\<lambda>res.
                 case res of
                   Inl err \<Rightarrow> tryE (onModule (C_CloseSession m handle))
                                (\<lambda>_. throwE (Wrap ''C_Login (anchor)'' err))
                 | Inr _ \<Rightarrow> set_anchor handle ws True)))))))))"

definition base_LogoutToken :: "'t p11_module \<Rightarrow> ('t world, unit) eff" where
  "base_LogoutToken m =
     bindE (getsE w_tokenLoggedIn) (\<lambda>logged_in.
       if \<not> logged_in then returnE ()
       else bindE (getsE w_anchorSession) (\<lambda>anchor.
         tryE (withStateLock (wrapE ''C_Logout (anchor)'' (onModule (C_Logout m anchor)))) (\<lambda>err.
         tryE (withStateLock (onModule (C_CloseSession m anchor))) (\<lambda>_.
         bindE (set_anchor 0 zero_workspace False) (\<lambda>_.
         liftE err)))))"

section \<open>Keys and objects\<close>

definition resolveID :: "bytes \<Rightarrow> ('t world, bytes) eff" where
  "resolveID kid = (if kid \<noteq> [] then returnE kid else wrapE ''pkcs11: generating key id'' (rand_Read 8))"

definition attr_bool :: "attribute_type \<Rightarrow> bool \<Rightarrow> attribute" where
  "attr_bool t b = \<lparr>attr_Type = t, attr_Value = bool_bytes b\<rparr>"

definition attr_bytes :: "attribute_type \<Rightarrow> bytes \<Rightarrow> attribute" where
  "attr_bytes t b = \<lparr>attr_Type = t, attr_Value = b\<rparr>"

definition public_template :: "key_pair_request \<Rightarrow> bytes \<Rightarrow> bytes \<Rightarrow> attribute list" where
  "public_template req ecParams kid =
     [NumericAttribute AttrClass ClassPublicKey, NumericAttribute AttrKeyType KeyTypeEC,
      attr_bool AttrToken True, attr_bytes AttrLabel (kp_Label req), attr_bytes AttrID kid,
      attr_bytes AttrEcParams ecParams, attr_bool AttrVerify (kp_Verify req)]"

definition private_template :: "key_pair_request \<Rightarrow> bytes \<Rightarrow> attribute list" where
  "private_template req kid =
     [NumericAttribute AttrClass ClassPrivateKey, NumericAttribute AttrKeyType KeyTypeEC,
      attr_bool AttrToken True, attr_bool AttrPrivate True, attr_bytes AttrLabel (kp_Label req),
      attr_bytes AttrID kid, attr_bool AttrSign (kp_Sign req), attr_bool AttrSensitive True,
      attr_bool AttrExtractable (kp_Extractable req)]"

definition base_GenerateKeyPair ::
    "'t p11_module \<Rightarrow> session_ref \<Rightarrow> key_pair_request \<Rightarrow> ('t world, key_pair_handle) eff" where
  "base_GenerateKeyPair m r req =
     in_session r (\<lambda>h.
       bindE (liftE (ecCurveOID (kp_Curve req))) (\<lambda>ecParams.
       bindE (resolveID (kp_ID req)) (\<lambda>kid.
       bindE (withStateLock (wrapE ''C_GenerateKeyPair'' (onModule
          (C_GenerateKeyPair m h MechECKeyPairGen (public_template req ecParams kid) (private_template req kid)))))
        (\<lambda>(pub, priv). returnE \<lparr>kh_Public = pub, kh_Private = priv\<rparr>))))"

definition secret_template :: "secret_key_request \<Rightarrow> int \<Rightarrow> bytes \<Rightarrow> attribute list" where
  "secret_template req bits kid =
     [NumericAttribute AttrClass ClassSecretKey, NumericAttribute AttrKeyType KeyTypeAES,
      attr_bool AttrToken True, attr_bytes AttrLabel (sk_Label req), attr_bytes AttrID kid,
      NumericAttribute AttrValueLen (of_int (bits div 8)), attr_bool AttrEncrypt (sk_Encrypt req),
      attr_bool AttrDecrypt (sk_Decrypt req), attr_bool AttrWrap (sk_Wrap req),
      attr_bool AttrUnwrap (sk_Unwrap req), attr_bool AttrSensitive True,
      attr_bool AttrExtractable (sk_Extractable req)]"

definition base_GenerateSecretKey ::
    "'t p11_module \<Rightarrow> session_ref \<Rightarrow> secret_key_request \<Rightarrow> ('t world, object_handle) eff" where
  "base_GenerateSecretKey m r req =
     in_session r (\<lambda>h.
       let bits = (if sk_KeyBits req = 0 then 256 else sk_KeyBits req) in
       if bits \<notin> {128, 192, 256} then throwE (Wrap ''bits'' (Sentinel (Pkcs11 ErrUnsupportedKeySize)))
       else bindE (resolveID (sk_ID req)) (\<lambda>kid.
         withStateLock (wrapE ''C_GenerateKey'' (onModule
           (C_GenerateKey m h MechAESKeyGen (secret_template req bits kid))))))"

definition base_GenerateRandom :: "'t p11_module \<Rightarrow> session_ref \<Rightarrow> nat \<Rightarrow> ('t world, bytes) eff" where
  "base_GenerateRandom m r n =
     in_session r (\<lambda>h. withReadLock (wrapE ''C_GenerateRandom'' (onModule (C_GenerateRandom m h n))))"

definition base_DestroyObject :: "'t p11_module \<Rightarrow> session_ref \<Rightarrow> object_handle \<Rightarrow> ('t world, unit) eff" where
  "base_DestroyObject m r obj =
     in_session r (\<lambda>h. withStateLock (wrapE ''C_DestroyObject'' (onModule (C_DestroyObject m h obj))))"

definition findObjectsBatch :: nat where "findObjectsBatch = 50"

text \<open>The search loop stops at an empty batch only, so a module can keep it going.\<close>

partial_function (option) find_loop ::
    "'t p11_module \<Rightarrow> nat \<Rightarrow> nat list \<Rightarrow> 't \<Rightarrow> (nat list res \<times> 't) option" where
  "find_loop m h out t =
     (case C_FindObjects m h findObjectsBatch t of
        (Inl err, t') \<Rightarrow> Some (Inl (Wrap ''C_FindObjects'' err), t')
      | (Inr batch, t') \<Rightarrow> if batch = [] then Some (Inr out, t') else find_loop m h (out @ batch) t')"

declare find_loop.simps [code]

definition find_all_objects :: "'t p11_module \<Rightarrow> nat \<Rightarrow> ('t, nat list) eff" where
  "find_all_objects m h t = (case find_loop m h [] t of None \<Rightarrow> (Inl Hang, t) | Some x \<Rightarrow> x)"

definition base_FindObjects ::
    "'t p11_module \<Rightarrow> session_ref \<Rightarrow> attribute list \<Rightarrow> ('t world, object_handle list) eff" where
  "base_FindObjects m r tmpl =
     in_session r (\<lambda>h. withStateLock (onModule
       (bindE (wrapE ''C_FindObjectsInit'' (C_FindObjectsInit m h tmpl)) (\<lambda>_.
        finallyE (C_FindObjectsFinal m h) (find_all_objects m h)))))"

definition base_GetAttributes ::
    "'t p11_module \<Rightarrow> session_ref \<Rightarrow> object_handle \<Rightarrow> attribute_type list \<Rightarrow> ('t world, attribute list) eff" where
  "base_GetAttributes m r obj types =
     in_session r (\<lambda>h. withReadLock (wrapE ''C_GetAttributeValue'' (onModule (C_GetAttributeValue m h obj types))))"

section \<open>Cryptographic operations\<close>

definition base_Sign ::
    "'t p11_module \<Rightarrow> session_ref \<Rightarrow> object_handle \<Rightarrow> mechanism \<Rightarrow> bytes \<Rightarrow> ('t world, bytes) eff" where
  "base_Sign m r key mech data =
     in_session r (\<lambda>h. withStateLock (onModule
       (bindE (wrapE ''C_SignInit'' (C_SignInit m h mech key)) (\<lambda>_. wrapE ''C_Sign'' (C_Sign m h data)))))"

definition base_Verify ::
    "'t p11_module \<Rightarrow> session_ref \<Rightarrow> object_handle \<Rightarrow> mechanism \<Rightarrow> bytes \<Rightarrow> bytes \<Rightarrow> ('t world, unit) eff" where
  "base_Verify m r key mech data sig =
     in_session r (\<lambda>h. withStateLock (onModule
       (bindE (wrapE ''C_VerifyInit'' (C_VerifyInit m h mech key)) (\<lambda>_.
        wrapE ''C_Verify'' (C_Verify m h data sig)))))"

definition base_Encrypt ::
    "'t p11_module \<Rightarrow> session_ref \<Rightarrow> object_handle \<Rightarrow> mechanism \<Rightarrow> bytes \<Rightarrow> ('t world, bytes) eff" where
  "base_Encrypt m r key mech plaintext =
     in_session r (\<lambda>h. withStateLock (onModule
       (bindE (wrapE ''C_EncryptInit'' (C_EncryptInit m h mech key)) (\<lambda>_.
        wrapE ''C_Encrypt'' (C_Encrypt m h plaintext)))))"

definition base_Decrypt ::
    "'t p11_module \<Rightarrow> session_ref \<Rightarrow> object_handle \<Rightarrow> mechanism \<Rightarrow> bytes \<Rightarrow> ('t world, bytes) eff" where
  "base_Decrypt m r key mech ciphertext =
     in_session r (\<lambda>h. withStateLock (onModule
       (bindE (wrapE ''C_DecryptInit'' (C_DecryptInit m h mech key)) (\<lambda>_.
        wrapE ''C_Decrypt'' (C_Decrypt m h ciphertext)))))"

definition base_Wrap ::
    "'t p11_module \<Rightarrow> session_ref \<Rightarrow> object_handle \<Rightarrow> object_handle \<Rightarrow> mechanism \<Rightarrow> ('t world, bytes) eff" where
  "base_Wrap m r wrappingKey keyToWrap mech =
     in_session r (\<lambda>h. withStateLock (wrapE ''C_WrapKey'' (onModule
       (C_WrapKey m h mech wrappingKey keyToWrap))))"

definition unwrapTemplate :: "attribute list \<Rightarrow> attribute list" where
  "unwrapTemplate tmpl = filter (\<lambda>a. attr_Type a \<noteq> AttrSensitive) tmpl @ [attr_bool AttrSensitive True]"

definition base_Unwrap ::
    "'t p11_module \<Rightarrow> session_ref \<Rightarrow> object_handle \<Rightarrow> mechanism \<Rightarrow> bytes \<Rightarrow> attribute list \<Rightarrow>
     ('t world, object_handle) eff" where
  "base_Unwrap m r unwrappingKey mech wrapped tmpl =
     in_session r (\<lambda>h. withStateLock (wrapE ''C_UnwrapKey'' (onModule
       (C_UnwrapKey m h mech unwrappingKey wrapped (unwrapTemplate tmpl)))))"

section \<open>Starting, sweeping and closing\<close>

definition newPKCS11Adapter :: "'t p11_module \<Rightarrow> 't option \<Rightarrow> buffers \<Rightarrow> env \<Rightarrow> 't world res" where
  "newPKCS11Adapter m loaded bufs e =
     (case loaded of
        None \<Rightarrow> Inl (Errorf ''failed to load module'')
      | Some t \<Rightarrow>
          (case C_Initialize m t of
             (Inl err, _) \<Rightarrow> Inl (Wrap ''C_Initialize'' err)
           | (Inr _, t') \<Rightarrow>
               Inr \<lparr>w_module = t', w_closed = False, w_sessions = [], w_heap = [], w_anchorSession = 0,
                    w_anchorWorkspace = zero_workspace, w_tokenLoggedIn = False, w_bufs = bufs,
                    w_env = e, w_tick = 0\<rparr>))"

text \<open>
  The janitor's sweep: the sessions past their budget are marked and leave the
  map first, then the token is asked to close them.
\<close>

fun sweep_collect :: "(nat \<times> session_ref) list \<Rightarrow> 't world \<Rightarrow> nat list \<times> 't world" where
  "sweep_collect [] s = ([], s)"
| "sweep_collect ((h, r) # rest) s =
     (let x = get_session r s; now = env_Now (w_env s) (w_tick s); s1 = s\<lparr>w_tick := Suc (w_tick s)\<rparr> in
      if expired x now then
        let s2 = put_session r (markClosed x)
                   (s1\<lparr>w_sessions := filter (\<lambda>(k, _). k \<noteq> h) (w_sessions s1)\<rparr>);
            (hs, s3) = sweep_collect rest s2
        in (h # hs, s3)
      else sweep_collect rest s1)"

fun close_handles :: "'t p11_module \<Rightarrow> nat list \<Rightarrow> ('t world, unit) eff" where
  "close_handles m [] = returnE ()"
| "close_handles m (h # hs) =
     tryE (withStateLock (onModule (C_CloseSession m h))) (\<lambda>_. close_handles m hs)"

definition sweepExpired :: "'t p11_module \<Rightarrow> ('t world, unit) eff" where
  "sweepExpired m s = (case sweep_collect (w_sessions s) s of (hs, s') \<Rightarrow> close_handles m hs s')"

definition mark_all_closed :: "'t world \<Rightarrow> 't world" where
  "mark_all_closed s = s\<lparr>w_heap := map (\<lambda>r. let x = w_heap s ! r in
       if r \<in> snd ` set (w_sessions s) then markClosed x else x) [0..<length (w_heap s)],
     w_sessions := []\<rparr>"

definition finalize_module :: "'t p11_module \<Rightarrow> ('t world, unit) eff" where
  "finalize_module m = onModule (tryE (C_Finalize m) (\<lambda>_. returnE ()))"

definition base_Close :: "'t p11_module \<Rightarrow> ('t world, unit) eff" where
  "base_Close m s =
     (if w_closed s then (Inr (), s)
      else tryE (base_LogoutToken m) (\<lambda>_ s1.
        let handles = map fst (w_sessions s1) in
        bindE (close_handles m handles) (\<lambda>_.
        bindE (finalize_module m) (\<lambda>_.
        modifyE (\<lambda>s. s\<lparr>w_closed := True\<rparr>))) (mark_all_closed s1)) s)"

definition base_adapter :: "'t p11_module \<Rightarrow> capabilities \<Rightarrow> 't world vendor_adapter" where
  "base_adapter m caps = \<lparr>va_Capabilities = caps, va_Workspaces = base_Workspaces m caps,
     va_OpenSession = base_OpenSession m, va_CloseSession = base_CloseSession m,
     va_LoginToken = base_LoginToken m, va_LogoutToken = base_LogoutToken m,
     va_TokenLoggedIn = w_tokenLoggedIn, va_Login = base_Login m, va_Logout = base_Logout m,
     va_GenerateKeyPair = base_GenerateKeyPair m, va_GenerateSecretKey = base_GenerateSecretKey m,
     va_GenerateRandom = base_GenerateRandom m, va_FindObjects = base_FindObjects m,
     va_GetAttributes = base_GetAttributes m, va_DestroyObject = base_DestroyObject m,
     va_Sign = base_Sign m, va_Verify = base_Verify m, va_Encrypt = base_Encrypt m,
     va_Decrypt = base_Decrypt m, va_Wrap = base_Wrap m, va_Unwrap = base_Unwrap m,
     va_Close = base_Close m\<rparr>"

definition base_host :: "'t world host" where
  "base_host = \<lparr>h_Now = time_Now, h_Rand = rand_Read\<rparr>"

text \<open>\<^verbatim>\<open>NewAdapterByName\<close>: the adapter a name selects and its initial state.\<close>

definition NewAdapterByName ::
    "string \<Rightarrow> 't p11_module \<Rightarrow> 't option \<Rightarrow> buffers \<Rightarrow> env \<Rightarrow> ('t world vendor_adapter \<times> 't world) res" where
  "NewAdapterByName name m loaded bufs e =
     bindR (adapter_capabilities name) (\<lambda>caps.
     bindR (newPKCS11Adapter m loaded bufs e) (\<lambda>s. Inr (base_adapter m caps, s)))"

end
