(* ===== verification/Pkcs11_Frames.thy ===== *)
theory Pkcs11_Frames
  imports Pkcs11_Base
begin

text \<open>
  Which predicates of the adapter's state its operations keep. The locales state
  what a predicate must tolerate (a clock tick, a session's bookkeeping, the
  module's calls) and give, once, that every operation keeps it. They are
  interpreted on the predicates the properties need: the token's login state, a
  session staying closed, an observation of the module's state.
\<close>

definition sensitive_template :: "attribute list \<Rightarrow> bool" where
  "sensitive_template tmpl \<longleftrightarrow>
     filter (\<lambda>a. attr_Type a = AttrSensitive) tmpl = [attr_bool AttrSensitive True]"

lemma sensitive_templates [simp]:
  "sensitive_template (private_template req kid)"
  "sensitive_template (secret_template sreq bits kid)"
  "sensitive_template (unwrapTemplate tmpl)"
proof -
  have "filter (\<lambda>a. attr_Type a = AttrSensitive) (filter (\<lambda>a. attr_Type a \<noteq> AttrSensitive) tmpl) = []"
    by (induction tmpl) auto
  then show "sensitive_template (unwrapTemplate tmpl)"
    by (simp add: sensitive_template_def unwrapTemplate_def attr_bool_def)
qed (simp_all add: sensitive_template_def private_template_def secret_template_def attr_bool_def
    attr_bytes_def NumericAttribute_def attr_defs)

locale world_frame =
  fixes m :: "'t p11_module" and P :: "'t world \<Rightarrow> bool"
  assumes tick: "P s \<Longrightarrow> P (s\<lparr>w_tick := n\<rparr>)"
    and put: "P s \<Longrightarrow> ss_handle x = ss_handle (get_session r s) \<Longrightarrow> (ss_closed (get_session r s) \<Longrightarrow> ss_closed x) \<Longrightarrow> P (put_session r x s)"
    and register: "P s \<Longrightarrow> P (snd (register_session x s))"
    and unlist: "P s \<Longrightarrow> P (s\<lparr>w_sessions := filter keep (w_sessions s)\<rparr>)"
    and bufs: "P s \<Longrightarrow> P (s\<lparr>w_bufs := b\<rparr>)"
    and call_GetSlotList: "preserves P (onModule (C_GetSlotList m))"
    and call_GetTokenInfo: "preserves P (onModule (C_GetTokenInfo m slot))"
    and call_OpenSession: "preserves P (onModule (C_OpenSession m slot))"
    and call_CloseSession: "preserves P (onModule (C_CloseSession m h))"
    and call_Login: "preserves P (onModule (C_Login m h role pin))"
    and call_Logout: "preserves P (onModule (C_Logout m h))"
    and call_GenerateRandom: "preserves P (onModule (C_GenerateRandom m h k))"
    and call_FindObjectsInit: "preserves P (onModule (C_FindObjectsInit m h tmpl))"
    and call_FindObjects: "preserves P (onModule (C_FindObjects m h k))"
    and call_FindObjectsFinal: "preserves P (onModule (C_FindObjectsFinal m h))"
    and call_GetAttributeValue: "preserves P (onModule (C_GetAttributeValue m h obj types))"
    and call_SignInit: "preserves P (onModule (C_SignInit m h mech obj))"
    and call_Sign: "preserves P (onModule (C_Sign m h data))"
    and call_VerifyInit: "preserves P (onModule (C_VerifyInit m h mech obj))"
    and call_Verify: "preserves P (onModule (C_Verify m h data sig))"
    and call_EncryptInit: "preserves P (onModule (C_EncryptInit m h mech obj))"
    and call_Encrypt: "preserves P (onModule (C_Encrypt m h data))"
    and call_DecryptInit: "preserves P (onModule (C_DecryptInit m h mech obj))"
    and call_Decrypt: "preserves P (onModule (C_Decrypt m h data))"
    and call_WrapKey: "preserves P (onModule (C_WrapKey m h mech obj obj'))"

text \<open>How \<open>onModule\<close> distributes over what is built from several calls.\<close>

lemma onModule_bindE: "onModule (bindE f g) = bindE (onModule f) (\<lambda>x. onModule (g x))"
  by (rule ext) (simp add: onModule_def bindE_def split: prod.split sum.split)

lemma onModule_tryE: "onModule (tryE f g) = tryE (onModule f) (\<lambda>x. onModule (g x))"
  by (rule ext) (simp add: onModule_def tryE_def split: prod.split)

lemma onModule_wrapE: "onModule (wrapE msg f) = wrapE msg (onModule f)"
  by (rule ext) (simp add: onModule_def wrapE_def split: prod.split)

lemma onModule_finallyE: "onModule (finallyE c f) = finallyE (onModule c) (onModule f)"
  by (rule ext) (simp add: onModule_def finallyE_def split: prod.split)

lemma onModule_returnE: "onModule (returnE x) = returnE x"
  by (rule ext) (simp add: onModule_def)

lemma onModule_throwE: "onModule (throwE x) = throwE x"
  by (rule ext) (simp add: onModule_def)

lemmas onModule_simps = onModule_bindE onModule_tryE onModule_wrapE onModule_finallyE
  onModule_returnE onModule_throwE

lemma preserves_withStateLock [pres_intros]: "preserves P f \<Longrightarrow> preserves P (withStateLock f)"
  by (simp add: preserves_def withStateLock_def)

lemma preserves_withReadLock [pres_intros]: "preserves P f \<Longrightarrow> preserves P (withReadLock f)"
  by (simp add: preserves_def withReadLock_def)

lemma touch_handle [simp]: "ss_handle (snd (touch x now)) = ss_handle x"
  by (simp add: touch_def)

lemma touch_closed: "ss_closed x \<Longrightarrow> ss_closed (snd (touch x now))"
  by (simp add: touch_def)

lemma find_loop_keeps:
  assumes "find_loop m h out t = Some y" "preserves Q (C_FindObjects m h findObjectsBatch)" "Q t"
  shows "Q (snd y)"
proof -
  have "preserves Q (C_FindObjects m h findObjectsBatch) \<longrightarrow> Q t \<longrightarrow> Q (snd y)"
  proof (rule find_loop.raw_induct [where P = "\<lambda>m h out t y.
      preserves Q (C_FindObjects m h findObjectsBatch) \<longrightarrow> Q t \<longrightarrow> Q (snd y)", OF _ assms(1)], intro impI)
    fix loop m h out t y
    assume IH: "\<And>m h out t y. loop m h out t = Some y \<Longrightarrow>
        preserves Q (C_FindObjects m h findObjectsBatch) \<longrightarrow> Q t \<longrightarrow> Q (snd y)"
      and body: "(case C_FindObjects m h findObjectsBatch t of
          (Inl err, t') \<Rightarrow> Some (Inl (Wrap ''C_FindObjects'' err), t')
        | (Inr batch, t') \<Rightarrow> if batch = [] then Some (Inr out, t') else loop m h (out @ batch) t') = Some y"
      and Q: "preserves Q (C_FindObjects m h findObjectsBatch)" "Q t"
    obtain r t' where c: "C_FindObjects m h findObjectsBatch t = (r, t')" by fastforce
    with Q have "Q t'" by (blast dest: preservesD)
    with c body IH Q show "Q (snd y)" by (cases r) (auto split: if_splits)
  qed
  with assms show ?thesis by blast
qed

context world_frame
begin

lemma pres_checkCtx: "preserves P checkCtx"
  by (rule preservesI) (simp add: checkCtx_def tick)

lemma pres_time_Now: "preserves P time_Now"
  by (rule preservesI) (simp add: time_Now_def tick)

lemma pres_rand_Read: "preserves P (rand_Read n)"
  by (rule preservesI) (simp add: rand_Read_def tick)

lemma pres_touch_session: "preserves P (touch_session r)"
proof (rule preservesI)
  fix s assume "P s"
  then have "P (put_session r (snd (touch (get_session r s) now)) (s\<lparr>w_tick := Suc (w_tick s)\<rparr>))" for now
    by (intro put tick) (auto simp: get_session_def touch_closed)
  then show "P (snd (touch_session r s))"
    by (simp add: touch_session_def split: prod.split) (metis snd_conv)
qed

lemma pres_handle_of: "preserves P (handle_of r)"
  unfolding handle_of_def by (rule pres_intros)

lemma pres_setLoggedIn: "preserves P (setLoggedIn r b)"
  unfolding setLoggedIn_def by (rule pres_intros) (auto intro: put)

lemma pres_mark: "preserves P (modifyE (\<lambda>s. put_session r (markClosed (get_session r s)) s))"
  by (rule pres_intros) (auto intro: put simp: markClosed_def)

lemma pres_register: "preserves P (register_session x)"
  by (rule preservesI) (rule register)

lemma pres_unregister: "preserves P (unregister h)"
  unfolding unregister_def by (rule pres_intros) (rule unlist)

lemma pres_buffers: "preserves P (zeroize_buffer pin)" "preserves P (new_secure_pin pin)"
  "preserves P (zeroize_secure p)" "preserves P (pin_empty pin)"
  by (auto simp: zeroize_buffer_def new_secure_pin_def zeroize_secure_def pin_empty_def preserves_def bufs
      split: prod.split)

lemma pres_module_login: "preserves P (module_login m h role p)"
  using call_Login by (simp add: preserves_def module_login_def)

lemma pres_in_session: "(\<And>h. preserves P (body h)) \<Longrightarrow> preserves P (in_session r body)"
  unfolding in_session_def by (intro pres_intros pres_checkCtx pres_touch_session pres_handle_of)

lemma pres_slot_workspaces: "preserves P (onModule (slot_workspaces m slots))"
proof (induction slots)
  case Nil
  then show ?case by (simp only: slot_workspaces.simps onModule_simps pres_intros)
next
  case (Cons slot slots)
  have "preserves P (onModule (case ti of Inl e \<Rightarrow> slot_workspaces m slots
      | Inr info \<Rightarrow> bindE (slot_workspaces m slots) (\<lambda>rest. returnE (f info rest))))" for ti f
    using Cons by (cases ti) (auto simp only: sum.case onModule_simps intro!: pres_intros)
  then show ?case
    by (auto simp only: slot_workspaces.simps onModule_simps intro!: pres_intros call_GetTokenInfo)
qed

lemma pres_find_all: "preserves P (onModule (find_all_objects m h))"
proof (rule preservesI)
  fix s assume P: "P s"
  have keeps: "preserves (\<lambda>t. P (s\<lparr>w_module := t\<rparr>)) (C_FindObjects m h findObjectsBatch)"
  proof (rule preservesI)
    fix t assume "P (s\<lparr>w_module := t\<rparr>)"
    from preserves_snd [OF call_FindObjects this, of h findObjectsBatch]
    show "P (s\<lparr>w_module := snd (C_FindObjects m h findObjectsBatch t)\<rparr>)"
      by (simp add: onModule_def split: prod.splits)
  qed
  show "P (snd (onModule (find_all_objects m h) s))"
  proof (cases "find_loop m h [] (w_module s)")
    case None
    with P show ?thesis by (simp add: onModule_def find_all_objects_def)
  next
    case (Some y)
    from find_loop_keeps [OF Some keeps] P Some show ?thesis
      by (auto simp: onModule_def find_all_objects_def split: prod.split)
  qed
qed

lemma pres_Workspaces: "preserves P (base_Workspaces m caps)"
  unfolding base_Workspaces_def onModule_simps
  by (auto intro!: pres_intros pres_checkCtx call_GetSlotList pres_slot_workspaces)

lemma pres_OpenSession: "preserves P (base_OpenSession m ws opts)"
  unfolding base_OpenSession_def Let_def
  by (intro pres_intros pres_checkCtx pres_time_Now pres_register call_OpenSession)

lemma pres_CloseSession: "preserves P (base_CloseSession m r)"
  unfolding base_CloseSession_def
  by (intro pres_intros pres_mark pres_handle_of call_CloseSession pres_unregister)

lemma pres_Login: "preserves P (base_Login m r pin role)"
  unfolding base_Login_def
  by (intro pres_intros pres_checkCtx pres_touch_session pres_buffers pres_handle_of
      pres_module_login pres_setLoggedIn)

lemma pres_Logout: "preserves P (base_Logout m r)"
  unfolding base_Logout_def
  by (intro pres_intros pres_in_session call_Logout pres_setLoggedIn)

lemma pres_GenerateRandom: "preserves P (base_GenerateRandom m r n)"
  unfolding base_GenerateRandom_def by (intro pres_intros pres_in_session call_GenerateRandom)

lemma pres_FindObjects: "preserves P (base_FindObjects m r tmpl)"
  unfolding base_FindObjects_def onModule_simps
  by (intro pres_intros pres_in_session call_FindObjectsInit call_FindObjectsFinal pres_find_all)

lemma pres_GetAttributes: "preserves P (base_GetAttributes m r obj types)"
  unfolding base_GetAttributes_def by (intro pres_intros pres_in_session call_GetAttributeValue)

lemma pres_Sign: "preserves P (base_Sign m r obj mech data)"
  unfolding base_Sign_def onModule_simps by (intro pres_intros pres_in_session call_SignInit call_Sign)

lemma pres_Verify: "preserves P (base_Verify m r obj mech data sig)"
  unfolding base_Verify_def onModule_simps by (intro pres_intros pres_in_session call_VerifyInit call_Verify)

lemma pres_Encrypt: "preserves P (base_Encrypt m r obj mech data)"
  unfolding base_Encrypt_def onModule_simps by (intro pres_intros pres_in_session call_EncryptInit call_Encrypt)

lemma pres_Decrypt: "preserves P (base_Decrypt m r obj mech data)"
  unfolding base_Decrypt_def onModule_simps by (intro pres_intros pres_in_session call_DecryptInit call_Decrypt)

lemma pres_Wrap: "preserves P (base_Wrap m r obj obj' mech)"
  unfolding base_Wrap_def by (intro pres_intros pres_in_session call_WrapKey)

lemma pres_close_handles: "preserves P (close_handles m hs)"
  by (induction hs) (auto simp only: close_handles.simps intro!: pres_intros call_CloseSession)

lemma pres_sweep_collect: "P s \<Longrightarrow> P (snd (sweep_collect l s))"
proof (induction l s rule: sweep_collect.induct)
  case (2 h r rest s)
  let ?s1 = "s\<lparr>w_tick := Suc (w_tick s)\<rparr>"
  have "P (?s1\<lparr>w_sessions := filter (\<lambda>(k, _). k \<noteq> h) (w_sessions ?s1)\<rparr>)" by (intro unlist tick 2(3))
  from put [OF this, of "markClosed (get_session r s)" r]
  have "P (put_session r (markClosed (get_session r s))
      (s\<lparr>w_tick := Suc (w_tick s), w_sessions := filter (\<lambda>(k, _). k \<noteq> h) (w_sessions s)\<rparr>))"
    by (simp add: markClosed_def get_session_def)
  with 2 tick [OF 2(3), of "Suc (w_tick s)"] show ?case
    by (auto simp: Let_def split: prod.split)
qed simp

lemma pres_sweepExpired: "preserves P (sweepExpired m)"
proof (rule preservesI)
  fix s assume "P s"
  with pres_sweep_collect have "P (snd (sweep_collect (w_sessions s) s))" by blast
  then show "P (snd (sweepExpired m s))"
    using preserves_snd [OF pres_close_handles] by (auto simp: sweepExpired_def split: prod.split)
qed

end

section \<open>Logging in, creating and closing\<close>

locale world_frame_login = world_frame +
  assumes anchor: "P s \<Longrightarrow> P (s\<lparr>w_anchorSession := h, w_anchorWorkspace := ws, w_tokenLoggedIn := b\<rparr>)"
begin

lemma pres_set_anchor: "preserves P (set_anchor h ws b)"
  unfolding set_anchor_def by (rule pres_intros) (rule anchor)

lemma pres_LoginToken: "preserves P (base_LoginToken m ws pin role)"
  unfolding base_LoginToken_def
  by (intro pres_intros pres_checkCtx pres_buffers call_OpenSession call_CloseSession
      pres_module_login pres_set_anchor)

lemma pres_LogoutToken: "preserves P (base_LogoutToken m)"
  unfolding base_LogoutToken_def
  by (intro pres_intros call_Logout call_CloseSession pres_set_anchor)

end

text \<open>
  The calls that create or remove an object. Of the templates, a predicate may
  count on \<^verbatim>\<open>CKA_SENSITIVE\<close>: it is there once, and true.
\<close>

locale world_frame_create = world_frame +
  assumes call_GenerateKeyPair: "sensitive_template priv \<Longrightarrow>
      preserves P (onModule (C_GenerateKeyPair m h mech pub priv))"
    and call_GenerateKey: "sensitive_template tmpl \<Longrightarrow> preserves P (onModule (C_GenerateKey m h mech tmpl))"
    and call_UnwrapKey: "sensitive_template tmpl \<Longrightarrow>
      preserves P (onModule (C_UnwrapKey m h mech' obj wrapped tmpl))"
    and call_DestroyObject: "preserves P (onModule (C_DestroyObject m h obj))"
begin

lemma pres_resolveID: "preserves P (resolveID kid)"
  unfolding resolveID_def by (intro pres_intros pres_rand_Read)

lemma pres_GenerateKeyPair: "preserves P (base_GenerateKeyPair m r req)"
  unfolding base_GenerateKeyPair_def
  by (intro pres_intros pres_in_session pres_resolveID call_GenerateKeyPair) simp

lemma pres_GenerateSecretKey: "preserves P (base_GenerateSecretKey m r req)"
  unfolding base_GenerateSecretKey_def Let_def
  by (intro pres_intros pres_in_session pres_resolveID call_GenerateKey) simp

lemma pres_Unwrap: "preserves P (base_Unwrap m r obj mech wrapped tmpl)"
  unfolding base_Unwrap_def by (intro pres_intros pres_in_session call_UnwrapKey) simp

lemma pres_DestroyObject: "preserves P (base_DestroyObject m r obj)"
  unfolding base_DestroyObject_def by (intro pres_intros pres_in_session call_DestroyObject)

end

text \<open>Everything a running adapter does, in any order.\<close>

datatype adapter_op =
    OpWorkspaces
  | OpOpenSession workspace session_options
  | OpCloseSession session_ref
  | OpLoginToken workspace buffer role
  | OpLogoutToken
  | OpLogin session_ref buffer role
  | OpLogout session_ref
  | OpGenerateKeyPair session_ref key_pair_request
  | OpGenerateSecretKey session_ref secret_key_request
  | OpGenerateRandom session_ref nat
  | OpFindObjects session_ref "attribute list"
  | OpGetAttributes session_ref object_handle "attribute_type list"
  | OpDestroyObject session_ref object_handle
  | OpSign session_ref object_handle mechanism bytes
  | OpVerify session_ref object_handle mechanism bytes bytes
  | OpEncrypt session_ref object_handle mechanism bytes
  | OpDecrypt session_ref object_handle mechanism bytes
  | OpWrap session_ref object_handle object_handle mechanism
  | OpUnwrap session_ref object_handle mechanism bytes "attribute list"
  | OpSweep
  | OpClose

fun adapter_step :: "'t p11_module \<Rightarrow> capabilities \<Rightarrow> adapter_op \<Rightarrow> 't world \<Rightarrow> 't world" where
  "adapter_step m caps OpWorkspaces s = snd (base_Workspaces m caps s)"
| "adapter_step m caps (OpOpenSession ws opts) s = snd (base_OpenSession m ws opts s)"
| "adapter_step m caps (OpCloseSession r) s = snd (base_CloseSession m r s)"
| "adapter_step m caps (OpLoginToken ws pin role) s = snd (base_LoginToken m ws pin role s)"
| "adapter_step m caps OpLogoutToken s = snd (base_LogoutToken m s)"
| "adapter_step m caps (OpLogin r pin role) s = snd (base_Login m r pin role s)"
| "adapter_step m caps (OpLogout r) s = snd (base_Logout m r s)"
| "adapter_step m caps (OpGenerateKeyPair r req) s = snd (base_GenerateKeyPair m r req s)"
| "adapter_step m caps (OpGenerateSecretKey r sreq) s = snd (base_GenerateSecretKey m r sreq s)"
| "adapter_step m caps (OpGenerateRandom r n) s = snd (base_GenerateRandom m r n s)"
| "adapter_step m caps (OpFindObjects r tmpl) s = snd (base_FindObjects m r tmpl s)"
| "adapter_step m caps (OpGetAttributes r obj types) s = snd (base_GetAttributes m r obj types s)"
| "adapter_step m caps (OpDestroyObject r obj) s = snd (base_DestroyObject m r obj s)"
| "adapter_step m caps (OpSign r obj mech data) s = snd (base_Sign m r obj mech data s)"
| "adapter_step m caps (OpVerify r obj mech data sig) s = snd (base_Verify m r obj mech data sig s)"
| "adapter_step m caps (OpEncrypt r obj mech data) s = snd (base_Encrypt m r obj mech data s)"
| "adapter_step m caps (OpDecrypt r obj mech data) s = snd (base_Decrypt m r obj mech data s)"
| "adapter_step m caps (OpWrap r obj obj' mech) s = snd (base_Wrap m r obj obj' mech s)"
| "adapter_step m caps (OpUnwrap r obj mech wrapped tmpl) s = snd (base_Unwrap m r obj mech wrapped tmpl s)"
| "adapter_step m caps OpSweep s = snd (sweepExpired m s)"
| "adapter_step m caps OpClose s = snd (base_Close m s)"

definition adapter_run :: "'t p11_module \<Rightarrow> capabilities \<Rightarrow> adapter_op list \<Rightarrow> 't world \<Rightarrow> 't world" where
  "adapter_run m caps ops s = foldl (\<lambda>s x. adapter_step m caps x s) s ops"

locale world_frame_all = world_frame_login + world_frame_create +
  assumes finalize: "preserves P (onModule (C_Finalize m))"
    and closed: "P s \<Longrightarrow> P (s\<lparr>w_closed := True\<rparr>)"
    and mark_all: "P s \<Longrightarrow> P (mark_all_closed s)"
begin

lemma pres_finalize: "preserves P (finalize_module m)"
  unfolding finalize_module_def onModule_simps by (intro pres_intros finalize)

lemma pres_Close: "preserves P (base_Close m)"
proof (rule preservesI)
  fix s assume "P s"
  obtain r s1 where l: "base_LogoutToken m s = (r, s1)" by fastforce
  from preservesD [OF pres_LogoutToken \<open>P s\<close> l] have marked: "P (mark_all_closed s1)" by (rule mark_all)
  have rest: "preserves P (bindE (close_handles m hs) (\<lambda>_. bindE (finalize_module m) (\<lambda>_.
      modifyE (\<lambda>s. s\<lparr>w_closed := True\<rparr>))))" for hs
    by (intro pres_intros pres_close_handles pres_finalize closed)
  from preserves_snd [OF rest marked] \<open>P s\<close> l show "P (snd (base_Close m s))"
    by (simp add: base_Close_def Let_def)
qed

lemmas pres_ops = pres_Workspaces pres_OpenSession pres_CloseSession pres_LoginToken pres_LogoutToken
  pres_Login pres_Logout pres_GenerateKeyPair pres_GenerateSecretKey pres_GenerateRandom
  pres_FindObjects pres_GetAttributes pres_DestroyObject pres_Sign pres_Verify pres_Encrypt
  pres_Decrypt pres_Wrap pres_Unwrap pres_sweepExpired pres_Close

lemma step_keeps: "P s \<Longrightarrow> P (adapter_step m caps x s)"
  by (cases x) (simp_all only: adapter_step.simps pres_ops [THEN preserves_snd])

lemma run_keeps: "P s \<Longrightarrow> P (adapter_run m caps xs s)"
  unfolding adapter_run_def by (induction xs arbitrary: s) (simp_all add: step_keeps)

end

section \<open>The instances\<close>

text \<open>The login flag changes only where the anchor session does.\<close>

interpretation login: world_frame_create m "\<lambda>s. w_tokenLoggedIn s = b" for m b
  by unfold_locales
    (simp_all add: preserves_def onModule_def put_session_def register_session_def Let_def split: prod.split)

text \<open>A session that is closed stays closed.\<close>

definition closed_at :: "session_ref \<Rightarrow> 't world \<Rightarrow> bool" where
  "closed_at r s \<longleftrightarrow> r < length (w_heap s) \<and> ss_closed (w_heap s ! r)"

lemma closed_at_module [simp]: "closed_at r (s\<lparr>w_module := t\<rparr>) = closed_at r s"
  by (simp add: closed_at_def)

lemma closed_at_put:
  "closed_at r s \<Longrightarrow> (ss_closed (get_session r' s) \<Longrightarrow> ss_closed x) \<Longrightarrow> closed_at r (put_session r' x s)"
  by (cases "r = r'") (auto simp: closed_at_def put_session_def get_session_def)

interpretation shut: world_frame_all m "closed_at r" for m r
proof (unfold_locales, goal_cases)
  case (2 s x r')
  then show ?case by (intro closed_at_put)
qed (auto simp: preserves_def onModule_def register_session_def Let_def closed_at_def
  nth_append mark_all_closed_def markClosed_def split: prod.split)

text \<open>
  The registry is well formed: no handle and no session is in it twice, and an entry is a
  session the adapter opened under that handle.
\<close>

definition registry_ok :: "'t world \<Rightarrow> bool" where
  "registry_ok s \<longleftrightarrow> distinct (map fst (w_sessions s)) \<and> distinct (map snd (w_sessions s)) \<and>
     (\<forall>(h, r) \<in> set (w_sessions s). r < length (w_heap s) \<and> ss_handle (w_heap s ! r) = h)"

lemma distinct_map_filter: "distinct (map f xs) \<Longrightarrow> distinct (map f (filter keep xs))"
  by (induction xs) auto

interpretation listed: world_frame_all m registry_ok for m
proof (unfold_locales, goal_cases)
  case (2 s x r)
  then have "ss_handle ((w_heap s)[r := x] ! r') = ss_handle (w_heap s ! r')" if "r' < length (w_heap s)" for r'
    using that by (simp add: get_session_def nth_list_update split: if_splits)
  with 2(1) show ?case by (auto simp: registry_ok_def put_session_def)
next
  case (3 s x)
  then show ?case
    by (force simp: registry_ok_def register_session_def Let_def nth_append intro: distinct_map_filter)
next
  case (4 s keep)
  then show ?case by (auto simp: registry_ok_def intro: distinct_map_filter)
qed (auto simp: registry_ok_def preserves_def onModule_def mark_all_closed_def split: prod.split)

text \<open>
  An observation \<open>Q\<close> of the module that the calls creating or removing nothing
  keep; and one that creating with a sensitive template and removing keep too.
\<close>

definition reading_calls_keep :: "'t p11_module \<Rightarrow> ('t \<Rightarrow> bool) \<Rightarrow> bool" where
  "reading_calls_keep m Q \<longleftrightarrow>
     preserves Q (C_GetSlotList m) \<and> (\<forall>slot. preserves Q (C_GetTokenInfo m slot)) \<and>
     (\<forall>slot. preserves Q (C_OpenSession m slot)) \<and> (\<forall>h. preserves Q (C_CloseSession m h)) \<and>
     (\<forall>h role pin. preserves Q (C_Login m h role pin)) \<and> (\<forall>h. preserves Q (C_Logout m h)) \<and>
     (\<forall>h n. preserves Q (C_GenerateRandom m h n)) \<and>
     (\<forall>h tmpl. preserves Q (C_FindObjectsInit m h tmpl)) \<and> (\<forall>h n. preserves Q (C_FindObjects m h n)) \<and>
     (\<forall>h. preserves Q (C_FindObjectsFinal m h)) \<and>
     (\<forall>h obj types. preserves Q (C_GetAttributeValue m h obj types)) \<and>
     (\<forall>h mech obj. preserves Q (C_SignInit m h mech obj) \<and> preserves Q (C_VerifyInit m h mech obj) \<and>
        preserves Q (C_EncryptInit m h mech obj) \<and> preserves Q (C_DecryptInit m h mech obj)) \<and>
     (\<forall>h data. preserves Q (C_Sign m h data) \<and> preserves Q (C_Encrypt m h data) \<and>
        preserves Q (C_Decrypt m h data)) \<and>
     (\<forall>h data sig. preserves Q (C_Verify m h data sig)) \<and>
     (\<forall>h mech obj obj'. preserves Q (C_WrapKey m h mech obj obj'))"

definition creating_calls_keep :: "'t p11_module \<Rightarrow> ('t \<Rightarrow> bool) \<Rightarrow> bool" where
  "creating_calls_keep m Q \<longleftrightarrow>
     (\<forall>h mech pub priv. sensitive_template priv \<longrightarrow> preserves Q (C_GenerateKeyPair m h mech pub priv)) \<and>
     (\<forall>h mech tmpl. sensitive_template tmpl \<longrightarrow> preserves Q (C_GenerateKey m h mech tmpl)) \<and>
     (\<forall>h mech obj wrapped tmpl. sensitive_template tmpl \<longrightarrow>
        preserves Q (C_UnwrapKey m h mech obj wrapped tmpl)) \<and>
     (\<forall>h obj. preserves Q (C_DestroyObject m h obj)) \<and> preserves Q (C_Finalize m)"

lemma preserves_onModule:
  "preserves Q f \<Longrightarrow> preserves (\<lambda>s. Q (w_module s)) (onModule f)"
  by (simp add: preserves_def onModule_def split: prod.split) (metis snd_conv)

definition observed :: "'t p11_module \<Rightarrow> ('t \<Rightarrow> bool) \<Rightarrow> 't world \<Rightarrow> bool" where
  "observed m Q s \<longleftrightarrow> (reading_calls_keep m Q \<longrightarrow> Q (w_module s))"

definition observed_sensitive :: "'t p11_module \<Rightarrow> ('t \<Rightarrow> bool) \<Rightarrow> 't world \<Rightarrow> bool" where
  "observed_sensitive m Q s \<longleftrightarrow> (reading_calls_keep m Q \<and> creating_calls_keep m Q \<longrightarrow> Q (w_module s))"

lemma preserves_imp: "(A \<Longrightarrow> preserves P f) \<Longrightarrow> preserves (\<lambda>s. A \<longrightarrow> P s) f"
  by (auto simp: preserves_def)

interpretation quiet: world_frame_login m "observed m Q" for m Q
  by unfold_locales
    (auto simp: observed_def put_session_def register_session_def Let_def,
     auto intro!: preserves_imp preserves_onModule simp: observed_def [abs_def] reading_calls_keep_def)

interpretation guarded: world_frame_all m "observed_sensitive m Q" for m Q
  by unfold_locales
    (auto simp: observed_sensitive_def put_session_def register_session_def Let_def mark_all_closed_def,
     auto intro!: preserves_imp preserves_onModule
       simp: observed_sensitive_def [abs_def] reading_calls_keep_def creating_calls_keep_def)

section \<open>The adapter meets the contract of the interface\<close>

end
