(* ===== verification/Pkcs11_Props.thy ===== *)
theory Pkcs11_Props
  imports Pkcs11_Frames
begin

text \<open>
  What the shared PKCS#11 implementation guarantees: the interface's contract
  (\<open>vendor_adapter\<close>, interpreted on \<open>base_adapter\<close> for any module), PINs wiped on
  every path, sessions that fail closed, keys that are always sensitive, searches
  that return everything, points that decode in both encodings.
\<close>

section \<open>The contract of the interface\<close>

definition anchor_body :: "'t p11_module \<Rightarrow> workspace \<Rightarrow> role \<Rightarrow> secure_pin \<Rightarrow> ('t world, unit) eff" where
  "anchor_body m ws role secure = withStateLock
     (bindE (wrapE ''C_OpenSession (anchor)'' (onModule (C_OpenSession m (ws_SlotID ws)))) (\<lambda>handle.
      tryE (module_login m handle role secure) (\<lambda>res.
        case res of
          Inl err \<Rightarrow> tryE (onModule (C_CloseSession m handle)) (\<lambda>_. throwE (Wrap ''C_Login (anchor)'' err))
        | Inr _ \<Rightarrow> set_anchor handle ws True)))"

lemma anchor_body_flag:
  "anchor_body m ws role p s = (Inr u, s') \<Longrightarrow> w_tokenLoggedIn s'"
  "anchor_body m ws role p s = (Inl e, s') \<Longrightarrow> w_tokenLoggedIn s' = w_tokenLoggedIn s"
  by (auto simp: anchor_body_def withStateLock_def bindE_def tryE_def wrapE_def wrapR_def onModule_def
      module_login_def set_anchor_def split: if_splits sum.splits prod.splits)

lemma LoginToken_flow:
  assumes "base_LoginToken m ws pin role s = (r, s')"
  shows "(\<exists>e. r = Inl e \<and> w_tokenLoggedIn s' = w_tokenLoggedIn s) \<or>
    (\<exists>s1 s2 secure. \<not> w_tokenLoggedIn s \<and> \<not> w_tokenLoggedIn s1 \<and>
       anchor_body m ws role secure s1 = (r, s2) \<and> w_tokenLoggedIn s' = w_tokenLoggedIn s2)"
proof -
  obtain c s1 where c: "checkCtx s = (c, s1)" by fastforce
  then have "w_tokenLoggedIn s1 = w_tokenLoggedIn s" by (auto simp: checkCtx_def)
  moreover have "w_tokenLoggedIn s2 = w_tokenLoggedIn s1" if "new_secure_pin pin s1 = (p, s2)" for p s2
    using that by (auto simp: new_secure_pin_def split: prod.splits)
  ultimately show ?thesis using assms c
    unfolding base_LoginToken_def anchor_body_def [symmetric]
    by (cases c)
      (auto simp: finallyE_def bindE_def pin_empty_def zeroize_buffer_def zeroize_secure_def
        split: prod.splits if_splits sum.splits, metis+)
qed

lemma LogoutToken_flag: "base_LogoutToken m s = (r, s') \<Longrightarrow> \<not> w_tokenLoggedIn s'"
  by (auto simp: base_LogoutToken_def bindE_def tryE_def set_anchor_def split: if_splits prod.splits)

text \<open>The operations a client's frame can count on, whatever the module.\<close>

lemma base_adapter_sel [simp]:
  "va_Workspaces (base_adapter m caps) = base_Workspaces m caps"
  "va_OpenSession (base_adapter m caps) = base_OpenSession m"
  "va_CloseSession (base_adapter m caps) = base_CloseSession m"
  "va_LoginToken (base_adapter m caps) = base_LoginToken m"
  "va_LogoutToken (base_adapter m caps) = base_LogoutToken m"
  "va_TokenLoggedIn (base_adapter m caps) = w_tokenLoggedIn"
  "va_GenerateKeyPair (base_adapter m caps) = base_GenerateKeyPair m"
  "va_FindObjects (base_adapter m caps) = base_FindObjects m"
  "va_GetAttributes (base_adapter m caps) = base_GetAttributes m"
  "va_DestroyObject (base_adapter m caps) = base_DestroyObject m"
  "va_Sign (base_adapter m caps) = base_Sign m"
  "h_Now base_host = time_Now" "h_Rand base_host = rand_Read"
  by (simp_all add: base_adapter_def base_host_def)

interpretation base: vendor_adapter "base_adapter m caps" base_host "observed m Q" for m caps Q
proof (unfold_locales, unfold base_adapter_sel, goal_cases)
  case (1 ws pin role s u s')
  with LoginToken_flow [OF 1] anchor_body_flag(1) show ?case by blast
next
  case (2 ws pin role s e s')
  with LoginToken_flow [OF 2] anchor_body_flag(2) show ?case by blast
next
  case (3 s r s')
  then show ?case by (rule LogoutToken_flag)
qed (rule login.pres_Workspaces login.pres_OpenSession login.pres_CloseSession login.pres_FindObjects
  login.pres_GetAttributes login.pres_Sign login.pres_GenerateKeyPair login.pres_DestroyObject
  login.pres_time_Now login.pres_rand_Read quiet.pres_LoginToken quiet.pres_LogoutToken
  quiet.pres_Workspaces quiet.pres_OpenSession quiet.pres_CloseSession quiet.pres_FindObjects
  quiet.pres_GetAttributes quiet.pres_Sign quiet.pres_time_Now quiet.pres_rand_Read)+

section \<open>PINs\<close>

lemma keeps_bufs:
  "preserves (\<lambda>s. w_bufs s = b) checkCtx" "preserves (\<lambda>s. w_bufs s = b) (touch_session r)"
  "preserves (\<lambda>s. w_bufs s = b) (onModule f)" "preserves (\<lambda>s. w_bufs s = b) (module_login m h role p)"
  "preserves (\<lambda>s. w_bufs s = b) (set_anchor h ws l)" "preserves (\<lambda>s. w_bufs s = b) (setLoggedIn r l)"
  "preserves (\<lambda>s. w_bufs s = b) (pin_empty pin)" "preserves (\<lambda>s. w_bufs s = b) (handle_of r)"
  by (auto simp: preserves_def checkCtx_def touch_session_def put_session_def onModule_def
      module_login_def set_anchor_def setLoggedIn_def pin_empty_def handle_of_def split: prod.split)

text \<open>The wipe that both logins defer, over any body that leaves the buffers alone.\<close>

definition wiped :: "buffer \<Rightarrow> 't world \<Rightarrow> bool" where
  "wiped pin s \<longleftrightarrow> go_clean pin (w_bufs s) \<and> c_clean (w_bufs s)"

lemma secure_body_clean:
  assumes "\<And>p b. preserves (\<lambda>s. w_bufs s = b) (body p)" "c_clean (w_bufs s)"
  shows "c_clean (w_bufs (snd (bindE (new_secure_pin pin) (\<lambda>p. finallyE (zeroize_secure p) (body p)) s)))"
proof -
  obtain p b where n: "NewSecurePIN pin (w_bufs s) = (p, b)" by fastforce
  let ?s = "s\<lparr>w_bufs := b\<rparr>"
  have "w_bufs (snd (body p ?s)) = b"
    using preserves_snd [OF assms(1), of ?s b p] by simp
  with Zeroize_NewSecurePIN(1) [OF n assms(2)] n show ?thesis
    by (auto simp: bindE_def new_secure_pin_def finallyE_def zeroize_secure_def split: prod.split)
qed

lemma preserves_c_clean:
  assumes "\<And>b. preserves (\<lambda>s. w_bufs s = b) f"
  shows "preserves (\<lambda>s. c_clean (w_bufs s)) f"
  using assms by (simp add: preserves_def)

lemma preserves_secure_body:
  assumes "\<And>p b. preserves (\<lambda>s. w_bufs s = b) (body p)"
  shows "preserves (\<lambda>s. c_clean (w_bufs s)) (bindE (new_secure_pin pin) (\<lambda>p. finallyE (zeroize_secure p) (body p)))"
  by (rule preservesI) (rule secure_body_clean [OF assms])

lemma zeroize_last:
  assumes "preserves (\<lambda>s. c_clean (w_bufs s)) f" "c_clean (w_bufs s)"
  shows "wiped pin (snd (finallyE (zeroize_buffer pin) f s))"
proof -
  from preserves_snd [OF assms] have "c_clean (w_bufs (snd (f s)))" by simp
  then show ?thesis by (auto simp: finallyE_def zeroize_buffer_def wiped_def split: prod.split)
qed

lemma anchor_body_bufs: "preserves (\<lambda>s. w_bufs s = b) (anchor_body m ws role p)"
  unfolding anchor_body_def by (intro pres_intros keeps_bufs)

section \<open>Searching\<close>

lemma find_loop_complete:
  assumes "\<And>t. \<exists>batch t'. C_FindObjects m h findObjectsBatch t = (Inr batch, t') \<and>
      pending t = batch @ pending t' \<and> (batch = [] \<longrightarrow> pending t = [])"
  shows "\<exists>t'. find_loop m h out t = Some (Inr (out @ pending t), t')"
proof (induction "length (pending t)" arbitrary: t out rule: less_induct)
  case less
  from assms [of t] obtain batch t' where b: "C_FindObjects m h findObjectsBatch t = (Inr batch, t')"
    "pending t = batch @ pending t'" "batch = [] \<longrightarrow> pending t = []" by blast
  show ?case
  proof (cases "batch = []")
    case True
    with b show ?thesis by (subst find_loop.simps) simp
  next
    case False
    with b less [of t' "out @ batch"] show ?thesis by (subst find_loop.simps) simp
  qed
qed

section \<open>Points\<close>

fun nat_be :: "nat \<Rightarrow> nat \<Rightarrow> bytes" where
  "nat_be 0 x = []"
| "nat_be (Suc n) x = char_of (x div 256 ^ n mod 256) # nat_be n (x mod 256 ^ n)"

definition point_bytes :: "elliptic \<Rightarrow> nat \<Rightarrow> nat \<Rightarrow> bytes" where
  "point_bytes curve x y = CHR 0x04 # nat_be (field_bytes curve) x @ nat_be (field_bytes curve) y"

definition der_wrap :: "bytes \<Rightarrow> bytes" where
  "der_wrap b = (if length b < 128 then CHR 0x04 # char_of (length b) # b
                 else CHR 0x04 # char_of (129 :: nat) # char_of (length b) # b)"

lemma length_nat_be [simp]: "length (nat_be n x) = n"
  by (induction n x rule: nat_be.induct) simp_all

lemma be_nat_be: "x < 256 ^ n \<Longrightarrow> be_nat (nat_be n x) = x"
proof (induction n x rule: nat_be.induct)
  case (2 n x)
  have "x div 256 ^ n < 256" using 2(2) by (simp add: less_mult_imp_div_less mult.commute)
  with 2 show ?case by (simp add: div_mult_mod_eq)
qed simp

lemma Unmarshal_point:
  assumes "x < 256 ^ field_bytes curve" "y < 256 ^ field_bytes curve" "on_curve curve (int x) (int y)"
  shows "elliptic_Unmarshal on_curve curve (point_bytes curve x y) = Some (int x, int y)"
  using assms by (simp add: elliptic_Unmarshal_def point_bytes_def Let_def be_nat_be)

lemma length_point: "length (point_bytes curve x y) = 1 + 2 * field_bytes curve"
  by (simp add: point_bytes_def)

lemma Unmarshal_length: "length b \<noteq> 1 + 2 * field_bytes curve \<Longrightarrow> elliptic_Unmarshal on_curve curve b = None"
  by (simp add: elliptic_Unmarshal_def Let_def)

lemma der_unwrap: "length b < 256 \<Longrightarrow> der_octet_string (der_wrap b) = Some b"
  by (auto simp: der_wrap_def)

section \<open>Modules for the evaluated examples\<close>

text \<open>A module that refuses everything, except where an example replaces a function.\<close>

definition dead_module :: "'t p11_module" where
  "dead_module = \<lparr>C_Initialize = returnE (), C_Finalize = returnE (), C_GetSlotList = returnE [],
     C_GetTokenInfo = (\<lambda>_. throwE (Ckr 3)), C_OpenSession = (\<lambda>_. returnE 1),
     C_CloseSession = (\<lambda>_. returnE ()), C_Login = (\<lambda>_ _ _. returnE ()), C_Logout = (\<lambda>_. returnE ()),
     C_GenerateKeyPair = (\<lambda>_ _ _ _. throwE (Ckr 5)), C_GenerateKey = (\<lambda>_ _ _. throwE (Ckr 5)),
     C_GenerateRandom = (\<lambda>_ _. throwE (Ckr 5)), C_DestroyObject = (\<lambda>_ _. throwE (Ckr 5)),
     C_FindObjectsInit = (\<lambda>_ _. returnE ()), C_FindObjects = (\<lambda>_ _. returnE []),
     C_FindObjectsFinal = (\<lambda>_. returnE ()), C_GetAttributeValue = (\<lambda>_ _ _. throwE (Ckr 5)),
     C_SignInit = (\<lambda>_ _ _. returnE ()), C_Sign = (\<lambda>_ _. returnE ''sig''),
     C_VerifyInit = (\<lambda>_ _ _. returnE ()), C_Verify = (\<lambda>_ _ _. throwE (Ckr 5)),
     C_EncryptInit = (\<lambda>_ _ _. returnE ()), C_Encrypt = (\<lambda>_ _. throwE (Ckr 5)),
     C_DecryptInit = (\<lambda>_ _ _. returnE ()), C_Decrypt = (\<lambda>_ _. throwE (Ckr 5)),
     C_WrapKey = (\<lambda>_ _ _ _. throwE (Ckr 5)), C_UnwrapKey = (\<lambda>_ _ _ _ _. throwE (Ckr 5))\<rparr>"

definition calm_env :: env where
  "calm_env = \<lparr>env_Now = (\<lambda>n. int n), env_ctx = (\<lambda>_. None), env_rand = (\<lambda>_ n. Inr (replicate (n - 1) (CHR 0x00) @ [CHR 0x07]))\<rparr>"

definition start_world :: "'t \<Rightarrow> 't world" where
  "start_world t = \<lparr>w_module = t, w_closed = False, w_sessions = [], w_heap = [], w_anchorSession = 0,
     w_anchorWorkspace = zero_workspace, w_tokenLoggedIn = False,
     w_bufs = \<lparr>go_bufs = [''1234''], c_bufs = []\<rparr>, w_env = calm_env, w_tick = 0\<rparr>"

text \<open>A module that records the templates it is given to create keys with.\<close>

definition recording_module :: "attribute list list p11_module" where
  "recording_module = dead_module
     \<lparr>C_GenerateKeyPair := (\<lambda>_ _ _ priv t. (Inr (1, 2), t @ [priv])),
      C_GenerateKey := (\<lambda>_ _ tmpl t. (Inr 3, t @ [tmpl])),
      C_UnwrapKey := (\<lambda>_ _ _ _ tmpl t. (Inr 4, t @ [tmpl]))\<rparr>"

text \<open>A module with 120 objects that reuses the lowest free session handle.\<close>

definition reusing_module :: "(nat list \<times> nat) p11_module" where
  "reusing_module = dead_module
     \<lparr>C_OpenSession := (\<lambda>_ (hs, p). let h = (if 1 \<in> set hs then 2 else 1) in (Inr h, h # hs, p)),
      C_CloseSession := (\<lambda>h (hs, p). if h \<in> set hs then (Inr (), filter (\<lambda>k. k \<noteq> h) hs, p)
         else (Inl (Ckr CKR_SESSION_HANDLE_INVALID), hs, p)),
      C_SignInit := (\<lambda>h _ _ (hs, p). if h \<in> set hs then (Inr (), hs, p)
         else (Inl (Ckr CKR_SESSION_HANDLE_INVALID), hs, p)),
      C_FindObjectsInit := (\<lambda>_ _ (hs, p). (Inr (), hs, 0)),
      C_FindObjects := (\<lambda>_ n (hs, p). (Inr [p..<min (p + n) 120], hs, min (p + n) 120))\<rparr>"

section \<open>Properties\<close>



text \<open>C9: A session past its idle timeout or its maximum lifetime, or closed, fails closed: signing,
  generating a key pair, searching, unwrapping and destroying all refuse it with one of the two
  session errors, before any call into the module, and the session is closed for good.\<close>

theorem expired_session_fails_closed:
  fixes s :: "'t world"
  assumes "env_ctx (w_env s) (w_tick s) = None" "r < length (w_heap s)"
    "expired (w_heap s ! r) (env_Now (w_env s) (Suc (w_tick s)))"
  shows "\<exists>e \<in> {ErrSessionClosed, ErrSessionExpired}. \<exists>s'.
    base_Sign m r obj mech data s = (Inl (Sentinel (Pkcs11 e)), s') \<and> w_module s' = w_module s \<and> closed_at r s' \<and>
    fst (base_GenerateKeyPair m r req s) = Inl (Sentinel (Pkcs11 e)) \<and> snd (base_GenerateKeyPair m r req s) = s' \<and>
    fst (base_FindObjects m r tmpl s) = Inl (Sentinel (Pkcs11 e)) \<and> snd (base_FindObjects m r tmpl s) = s' \<and>
    fst (base_Unwrap m r obj mech data tmpl s) = Inl (Sentinel (Pkcs11 e)) \<and>
      snd (base_Unwrap m r obj mech data tmpl s) = s' \<and>
    fst (base_DestroyObject m r obj s) = Inl (Sentinel (Pkcs11 e)) \<and> snd (base_DestroyObject m r obj s) = s'"
proof -
  let ?x = "get_session r s" and ?now = "env_Now (w_env s) (Suc (w_tick s))"
  let ?e = "if ss_closed ?x then ErrSessionClosed else ErrSessionExpired"
  let ?s = "put_session r (snd (touch ?x ?now)) (s\<lparr>w_tick := Suc (Suc (w_tick s))\<rparr>)"
  have step: "in_session r body s = (Inl (Sentinel (Pkcs11 ?e)), ?s)" for body :: "nat \<Rightarrow> ('t world, 'a) eff"
    using assms
    by (auto simp: in_session_def bindE_def checkCtx_def touch_session_def touch_def expired_def
        get_session_def put_session_def split: prod.splits)
  have "w_module ?s = w_module s" "closed_at r ?s"
    using assms by (auto simp: put_session_def closed_at_def touch_def expired_def get_session_def)
  then show ?thesis
    by (intro bexI [of _ ?e] exI [of _ ?s])
      (simp_all add: step base_Sign_def base_GenerateKeyPair_def base_FindObjects_def base_Unwrap_def
        base_DestroyObject_def)
qed

definition one_session :: "duration \<Rightarrow> 't \<Rightarrow> 't world" where
  "one_session ttl t = snd (base_OpenSession dead_module zero_workspace
     \<lparr>so_IdleTimeout = ttl, so_MaxTTL = ttl\<rparr> (start_world t))"

theorem expired_session_fails_closed_witness:
  "\<exists>e. fst (base_Sign dead_module 0 0 \<lparr>mech_Type = 0, mech_Param = []\<rparr> [] (one_session 1 ())) =
     Inl (Sentinel (Pkcs11 e))"
proof -
  have "env_ctx (w_env (one_session 1 ())) (w_tick (one_session 1 ())) = None"
    "0 < length (w_heap (one_session 1 ()))"
    "expired (w_heap (one_session 1 ()) ! 0) (env_Now (w_env (one_session 1 ())) (Suc (w_tick (one_session 1 ()))))"
    by code_simp+
  from expired_session_fails_closed [OF this, of dead_module 0 "\<lparr>mech_Type = 0, mech_Param = []\<rparr>" "[]"]
  show ?thesis by (metis fst_conv)
qed



text \<open>C4: No key this adapter creates or restores is readable: whatever operations run, in any
  order and with any caller's templates, an invariant of the token that creating keys keeps as long
  as their template carries \<^verbatim>\<open>CKA_SENSITIVE\<close> exactly once, and true, holds throughout.\<close>

theorem created_keys_are_sensitive:
  assumes "reading_calls_keep m Q" "creating_calls_keep m Q" "Q (w_module s)"
  shows "Q (w_module (adapter_run m caps ops s))"
proof -
  from assms have "observed_sensitive m Q s" by (simp add: observed_sensitive_def)
  then have "observed_sensitive m Q (adapter_run m caps ops s)" by (rule guarded.run_keeps)
  with assms show ?thesis by (simp add: observed_sensitive_def)
qed

definition sensitive_run :: "adapter_op list" where
  "sensitive_run = [OpOpenSession zero_workspace DefaultSessionOptions,
     OpGenerateKeyPair 0 \<lparr>kp_Curve = P384, kp_Label = ''k-v1'', kp_ID = [], kp_Sign = True,
       kp_Verify = True, kp_Extractable = True\<rparr>,
     OpUnwrap 0 0 \<lparr>mech_Type = 0, mech_Param = []\<rparr> [] [attr_bool AttrSensitive False]]"

theorem created_keys_are_sensitive_witness:
  "let t = w_module (adapter_run recording_module lunaCapabilities sensitive_run (start_world [])) in
     length t = 2 \<and> (\<forall>tmpl \<in> set t. sensitive_template tmpl)"
proof -
  let ?Q = "\<lambda>t. \<forall>tmpl \<in> set t. sensitive_template tmpl"
  let ?t = "w_module (adapter_run recording_module lunaCapabilities sensitive_run (start_world []))"
  have "reading_calls_keep recording_module ?Q" "creating_calls_keep recording_module ?Q"
    by (auto simp: reading_calls_keep_def creating_calls_keep_def recording_module_def dead_module_def
        preserves_def)
  moreover have "?Q (w_module (start_world []))" by (simp add: start_world_def)
  ultimately have "?Q ?t" by (rule created_keys_are_sensitive)
  moreover have "length ?t = 2" by code_simp
  ultimately show ?thesis by (simp add: Let_def)
qed

lemma sweep_collect_handles:
  fixes s :: "'t world"
  shows "distinct (map fst l) \<Longrightarrow> distinct (fst (sweep_collect l s)) \<and> set (fst (sweep_collect l s)) \<subseteq> fst ` set l"
proof (induction l arbitrary: s)
  case (Cons x l)
  have "distinct (fst (sweep_collect l t)) \<and> set (fst (sweep_collect l t)) \<subseteq> fst ` set l" for t :: "'t world"
    by (rule Cons.IH) (use Cons.prems in simp)
  moreover have "fst x \<notin> fst ` set l" using Cons.prems by simp
  ultimately show ?case by (cases x) (simp add: Let_def case_prod_unfold, blast)
qed simp

text \<open>
  C8: The adapter's registry of sessions is well formed at every moment. From a fresh adapter,
  whatever operations run in whatever order and whatever the module answers (a handle it hands
  out again included), a registered handle names exactly one session, one the adapter opened
  and that carries this handle, and no session is registered twice; so the janitor asks the
  module to close a handle at most once in a sweep.
\<close>

theorem registered_sessions_are_well_formed:
  assumes "newPKCS11Adapter m loaded bufs e = Inr s0" "s = adapter_run m caps ops s0"
  shows "distinct (map fst (w_sessions s)) \<and> distinct (map snd (w_sessions s)) \<and>
    list_all (\<lambda>(h, r). r < length (w_heap s) \<and> ss_handle (w_heap s ! r) = h) (w_sessions s) \<and>
    distinct (fst (sweep_collect (w_sessions s) s))"
proof -
  have "registry_ok s0"
    using assms(1) by (auto simp: newPKCS11Adapter_def registry_ok_def split: option.splits prod.splits sum.splits)
  then have "registry_ok s" using assms(2) by (simp add: listed.run_keeps)
  with sweep_collect_handles [of "w_sessions s" s] show ?thesis by (auto simp: registry_ok_def list_all_iff)
qed

text \<open>A module that hands the same handle out twice.\<close>

definition reopened :: "(attribute list) list world" where
  "reopened = adapter_run recording_module lunaCapabilities
     [OpOpenSession zero_workspace DefaultSessionOptions, OpOpenSession zero_workspace DefaultSessionOptions] (start_world [])"

theorem registered_sessions_are_well_formed_witness:
  "length (w_heap reopened) = 2 \<and> length (w_sessions reopened) = 1 \<and> distinct (map fst (w_sessions reopened))"
proof -
  have "newPKCS11Adapter recording_module (Some []) \<lparr>go_bufs = [''1234''], c_bufs = []\<rparr> calm_env = Inr (start_world [])"
    by (simp add: newPKCS11Adapter_def recording_module_def dead_module_def start_world_def)
  from registered_sessions_are_well_formed [OF this reopened_def]
  have "distinct (map fst (w_sessions reopened))" by blast
  moreover have "length (w_heap reopened) = 2" "length (w_sessions reopened) = 1" by code_simp+
  ultimately show ?thesis by blast
qed

text \<open>C11: A search returns every matching object, however many batches the module splits them
  into: on a live session, whatever prefix of the pending handles each call hands out, as long as it
  is empty only at the end, the loop ends and the result is all of them in order.\<close>

theorem FindObjects_returns_everything:
  assumes "env_ctx (w_env s) (w_tick s) = None" "r < length (w_heap s)" "\<not> w_closed s"
    "\<not> expired (w_heap s ! r) (env_Now (w_env s) (Suc (w_tick s)))"
    "C_FindObjectsInit m (ss_handle (w_heap s ! r)) tmpl (w_module s) = (Inr (), t1)"
    "\<And>t. \<exists>batch t'. C_FindObjects m (ss_handle (w_heap s ! r)) findObjectsBatch t = (Inr batch, t') \<and>
      pending t = batch @ pending t' \<and> (batch = [] \<longrightarrow> pending t = [])"
  shows "fst (base_FindObjects m r tmpl s) = Inr (pending t1)"
proof -
  from find_loop_complete [of m "ss_handle (w_heap s ! r)" pending "[]" t1] assms(6) obtain t2
    where "find_loop m (ss_handle (w_heap s ! r)) [] t1 = Some (Inr (pending t1), t2)" by auto
  with assms(1-5) show ?thesis
    by (auto simp: base_FindObjects_def in_session_def bindE_def checkCtx_def touch_session_def touch_def
        put_session_def get_session_def handle_of_def withStateLock_def onModule_def wrapE_def
        finallyE_def find_all_objects_def expired_def split: prod.split)
qed

theorem FindObjects_returns_everything_witness:
  "fst (base_FindObjects reusing_module 0 [] (one_session 9 ([1], 0))) = Inr [0..<120]"
proof -
  let ?s = "one_session 9 ([1 :: nat], 0 :: nat)"
  have s: "env_ctx (w_env ?s) (w_tick ?s) = None" "0 < length (w_heap ?s)" "\<not> w_closed ?s"
    "\<not> expired (w_heap ?s ! 0) (env_Now (w_env ?s) (Suc (w_tick ?s)))"
    by code_simp+
  have i: "C_FindObjectsInit reusing_module (ss_handle (w_heap ?s ! 0)) [] (w_module ?s) = (Inr (), [1], 0)"
    by code_simp
  have f: "\<exists>batch t'. C_FindObjects reusing_module h findObjectsBatch t = (Inr batch, t') \<and>
      [snd t..<120] = batch @ [snd t'..<120] \<and> (batch = [] \<longrightarrow> [snd t..<120] = [])" for h t
  proof (cases t)
    case (Pair hs p)
    have "[p..<120] = [p..<min (p + 50) 120] @ [min (p + 50) 120..<120]"
      using upt_add_eq_append [of p "min (p + 50) 120" "120 - min (p + 50) 120"] by (cases "p \<le> 120") auto
    with Pair show ?thesis by (auto simp: reusing_module_def findObjectsBatch_def)
  qed
  from FindObjects_returns_everything [OF s i f] show ?thesis by simp
qed

text \<open>C13: A CKA_EC_POINT value decodes to the same public key in both encodings tokens use, the bare
  uncompressed point and the DER OCTET STRING around it, for each of the three curves, although an
  uncompressed point starts with the very byte that tags an OCTET STRING.\<close>

theorem DecodeECPoint_both_encodings:
  assumes "ec_curve_Curve c = Some curve" "on_curve curve (int x) (int y)"
    "x < 256 ^ field_bytes curve" "y < 256 ^ field_bytes curve"
  shows "DecodeECPoint on_curve curve (point_bytes curve x y) = Inr (EcdsaKey curve (int x) (int y)) \<and>
    DecodeECPoint on_curve curve (der_wrap (point_bytes curve x y)) = Inr (EcdsaKey curve (int x) (int y))"
proof -
  from assms(1) have "curve \<in> {EC_P256, EC_P384, EC_P521}" by (cases c) auto
  then have len: "length (point_bytes curve x y) < 256" by (auto simp: length_point)
  moreover have "length (der_wrap (point_bytes curve x y)) \<noteq> 1 + 2 * field_bytes curve"
    by (simp add: der_wrap_def length_point)
  ultimately show ?thesis
    using Unmarshal_point [of x curve y on_curve] assms(2-4)
    by (simp add: DecodeECPoint_def der_unwrap Unmarshal_length)
qed

theorem DecodeECPoint_both_encodings_witness:
  "DecodeECPoint (\<lambda>_ x y. y = x + 1) EC_P521 (der_wrap (point_bytes EC_P521 41 42)) = Inr (EcdsaKey EC_P521 41 42)"
  using DecodeECPoint_both_encodings [of P521 EC_P521 "\<lambda>_ x y. y = x + 1" 41 42] by simp

text \<open>A role name resolves only for an adapter that defines it, an empty one to the Crypto
  Officer, and no name on any adapter is the token's security officer, although its number is the
  zero value of the type.\<close>

theorem RoleByName_never_security_officer:
  "(case RoleByName adapter name of
      Inr r \<Rightarrow> adapter \<in> set AdapterNames \<and> role_Role r \<noteq> RoleSO \<and>
        role_Name r = (if name = [] then RoleCryptoOfficer else name) \<and>
        (role_Role r \<noteq> RoleUser \<longrightarrow> adapter = AdapterLuna \<and> name \<in> {''lco'', ''cu''})
    | Inl err \<Rightarrow> if adapter \<in> set AdapterNames then errors_is err (RoleErr ErrUnknownRole)
        else errors_is err (RoleErr ErrUnknownAdapter))"
  by (auto simp: RoleByName_def adapterRoles_def AdapterNames_def role_Role_def role_Name_def
      CryptoOfficer_def RoleUser_def RoleSO_def RoleCryptoOfficer_def LunaRoleLimitedCryptoOfficer_def
      LunaRoleCryptoUser_def AdapterSoftHSM2_def AdapterProtectServer_def AdapterLuna_def
      split: option.splits if_splits)

theorem RoleByName_never_security_officer_witness:
  "\<exists>r. RoleByName AdapterLuna ''lco'' = Inr r \<and> role_Role r = LunaRoleLimitedCryptoOfficer \<and> role_Role r \<noteq> RoleSO"
  using RoleByName_never_security_officer [of AdapterLuna "''lco''"]
  by (simp add: RoleByName_def adapterRoles_def AdapterSoftHSM2_def AdapterProtectServer_def AdapterLuna_def
      RoleCryptoOfficer_def role_Role_def)

text \<open>Closing a session twice is not idempotent: on a module that hands a released handle out
  again, the second close of the first session releases the handle of another session, which is
  still open in the adapter's eyes, is dropped from the map the janitor sweeps, and can sign no more.\<close>

theorem second_close_releases_another_session:
  "let open = OpOpenSession zero_workspace DefaultSessionOptions;
       s = adapter_run reusing_module softHSM2Capabilities [open, OpCloseSession 0, open] (start_world ([], 0));
       s' = snd (base_CloseSession reusing_module 0 s);
       sign = base_Sign reusing_module 1 0 \<lparr>mech_Type = MechECDSA, mech_Param = []\<rparr> [] in
     fst (base_CloseSession reusing_module 0 s) = Inr () \<and>
     fst (sign s) = Inr ''sig'' \<and> w_sessions s = [(1, 1)] \<and>
     fst (sign s') = Inl (Wrap ''C_SignInit'' (Ckr CKR_SESSION_HANDLE_INVALID)) \<and>
     w_sessions s' = [] \<and> \<not> ss_closed (w_heap s' ! 1)"
  by code_simp

end
