(* ===== verification/Signer.thy ===== *)
theory Signer
  imports CA Pkcs11_Props
begin

text \<open>
  \<^verbatim>\<open>internal/ca/signer.go\<close>, \<^verbatim>\<open>intermediate.go\<close> and \<^verbatim>\<open>service.go\<close>: the signer over a
  token key, and the two loading paths, the intermediate's and the service's own
  TLS certificate. All of it is a client of the \<^verbatim>\<open>VendorAdapter\<close> interface: the
  lemmas that rest on its contract are proved in the locale \<open>vendor_adapter\<close>.
  Files are read through a function from paths to contents; curve arithmetic is
  \<open>on_curve\<close>, as in \<open>DecodeECPoint\<close>.
\<close>

section \<open>Sessions around an operation\<close>

definition withSession ::
    "'s vendor_adapter \<Rightarrow> workspace \<Rightarrow> session_options \<Rightarrow> (session_ref \<Rightarrow> ('s, 'a) eff) \<Rightarrow> ('s, 'a) eff" where
  "withSession ad ws opts fn =
     bindE (wrapE ''ca: OpenSession'' (va_OpenSession ad ws opts)) (\<lambda>session.
     finallyE (va_CloseSession ad session) (fn session))"

definition ca_findKeyByLabel ::
    "'s vendor_adapter \<Rightarrow> session_ref \<Rightarrow> object_class \<Rightarrow> string \<Rightarrow> ('s, object_handle) eff" where
  "ca_findKeyByLabel ad s class label =
     tryE (FindKeyByLabel ad s class label) (\<lambda>r. case r of
         Inr h \<Rightarrow> returnE h
       | Inl err \<Rightarrow> if errors_is err (FindKey Pk11_ErrKeyNotFound)
                  then throwE (Wrap label (Sentinel (CaErr Ca_ErrKeyNotFound)))
                  else throwE (Wrap ''ca'' err))"

definition keyPairExists ::
    "'s vendor_adapter \<Rightarrow> workspace \<Rightarrow> session_options \<Rightarrow> string \<Rightarrow> ('s, bool) eff" where
  "keyPairExists ad ws opts label =
     withSession ad ws opts (\<lambda>s.
       tryE (ca_findKeyByLabel ad s ClassPrivateKey label) (\<lambda>r. case r of
           Inr _ \<Rightarrow> returnE True
         | Inl err \<Rightarrow> if errors_is err (CaErr Ca_ErrKeyNotFound) then returnE False else throwE err))"

section \<open>Signatures\<close>

fun hashForCurve :: "ec_curve \<Rightarrow> crypto_hash res" where
  "hashForCurve P256 = Inr SHA256"
| "hashForCurve P384 = Inr SHA384"
| "hashForCurve P521 = Inr SHA512"
| "hashForCurve (OtherCurve _) = Inl (Sentinel (Pkcs11 ErrUnsupportedCurve))"

text \<open>
  \<^verbatim>\<open>asn1.Marshal\<close> of a SEQUENCE of two non-negative INTEGERs: minimal big-endian
  bytes with a zero in front of a high bit, lengths in short or long form.
\<close>

function nat_bytes :: "nat \<Rightarrow> bytes" where
  "nat_bytes n = (if n = 0 then [] else nat_bytes (n div 256) @ [char_of (n mod 256)])"
  by pat_completeness auto
termination by (relation "measure id") auto

declare nat_bytes.simps [simp del]

definition der_length :: "nat \<Rightarrow> bytes" where
  "der_length n =
     (if n < 128 then [char_of n]
      else char_of (128 + length (nat_bytes n)) # nat_bytes n)"

definition der_int_body :: "nat \<Rightarrow> bytes" where
  "der_int_body n =
     (let b = nat_bytes n in
      if b = [] then [CHR 0x00]
      else if 128 \<le> (of_char (hd b) :: nat) then CHR 0x00 # b else b)"

definition der_int :: "nat \<Rightarrow> bytes" where
  "der_int n = CHR 0x02 # der_length (length (der_int_body n)) @ der_int_body n"

definition der_sequence :: "bytes \<Rightarrow> bytes" where
  "der_sequence body = CHR 0x30 # der_length (length body) @ body"

definition rawECDSAToASN1 :: "bytes \<Rightarrow> bytes res" where
  "rawECDSAToASN1 sig =
     (if length sig = 0 \<or> length sig mod 2 \<noteq> 0 then Inl (Errorf ''ca: malformed raw ECDSA signature'')
      else let half = length sig div 2 in
           Inr (der_sequence (der_int (be_nat (take half sig)) @ der_int (be_nat (drop half sig)))))"

definition signer_Sign ::
    "'s vendor_adapter \<Rightarrow> workspace \<Rightarrow> session_options \<Rightarrow> string \<Rightarrow> crypto_hash \<Rightarrow> bytes \<Rightarrow> crypto_hash \<Rightarrow>
     ('s, bytes) eff" where
  "signer_Sign ad ws opts label hash digest optHash =
     (if optHash \<noteq> hash then throwE (Errorf ''ca: signer requires another hash for this curve'')
      else if length digest \<noteq> hash_size hash then throwE (Errorf ''ca: digest has the wrong length'')
      else bindE (wrapE ''ca: HSM sign'' (withSession ad ws opts (\<lambda>sess.
             bindE (ca_findKeyByLabel ad sess ClassPrivateKey label) (\<lambda>handle.
             va_Sign ad sess handle \<lparr>mech_Type = MechECDSA, mech_Param = []\<rparr> digest)))) (\<lambda>raw.
           liftE (rawECDSAToASN1 raw)))"

definition NewSigner ::
    "(elliptic \<Rightarrow> int \<Rightarrow> int \<Rightarrow> bool) \<Rightarrow> 's vendor_adapter \<Rightarrow> workspace \<Rightarrow> session_options \<Rightarrow> string \<Rightarrow>
     ec_curve \<Rightarrow> ('s, 's crypto_signer) eff" where
  "NewSigner on_curve ad ws opts keyLabel curve =
     (case ec_curve_Curve curve of
        None \<Rightarrow> throwE (Sentinel (Pkcs11 ErrUnsupportedCurve))
      | Some ellipticCurve \<Rightarrow>
          bindE (liftE (hashForCurve curve)) (\<lambda>hash.
          bindE (withSession ad ws opts (\<lambda>s.
             bindE (ca_findKeyByLabel ad s ClassPublicKey keyLabel) (\<lambda>handle.
             bindE (wrapE ''ca: reading CKA_EC_POINT'' (va_GetAttributes ad s handle [AttrEcPoint])) (\<lambda>attrs.
             case attrs of
               [] \<Rightarrow> throwE (Errorf ''ca: CKA_EC_POINT not returned'')
             | a # _ \<Rightarrow> liftE (DecodeECPoint on_curve ellipticCurve (attr_Value a)))))) (\<lambda>pub.
          returnE \<lparr>sg_Public = pub, sg_Sign = signer_Sign ad ws opts keyLabel hash\<rparr>)))"

section \<open>Loading the intermediate\<close>

definition checkIntermediateCert :: "x509_lib \<Rightarrow> certificate \<Rightarrow> time \<Rightarrow> unit res" where
  "checkIntermediateCert lib cert now =
     (if \<not> c_BasicConstraintsValid cert then Inl (Wrap ''no basicConstraints'' (Sentinel (CaErr ErrNotAnIntermediate)))
      else if \<not> c_IsCA cert then Inl (Wrap ''not a CA certificate'' (Sentinel (CaErr ErrNotAnIntermediate)))
      else if check_signature_from lib cert cert
      then Inl (Wrap ''self-signed'' (Sentinel (CaErr ErrRootCertificateRejected)))
      else if \<not> c_MaxPathLenZero cert then Inl (Wrap ''no pathlen:0'' (Sentinel (CaErr ErrNotAnIntermediate)))
      else if c_KeyUsage cert AND KU_CertSign = 0
      then Inl (Wrap ''no keyCertSign'' (Sentinel (CaErr ErrNotAnIntermediate)))
      else if c_KeyUsage cert AND KU_CRLSign = 0
      then Inl (Wrap ''no cRLSign'' (Sentinel (CaErr ErrNotAnIntermediate)))
      else if now < c_NotBefore cert then Inl (Wrap ''not valid until'' (Sentinel (CaErr ErrIssuerNotValid)))
      else if now > c_NotAfter cert then Inl (Wrap ''expired'' (Sentinel (CaErr ErrIssuerNotValid)))
      else Inr ())"

definition checkKeyMatchesCert :: "public_key \<Rightarrow> certificate \<Rightarrow> unit res" where
  "checkKeyMatchesCert signerPub cert =
     (if \<not> is_ecdsa (c_PublicKey cert)
      then Inl (Wrap ''certificate key is not ECDSA'' (Sentinel (CaErr ErrKeyCertMismatch)))
      else if \<not> is_ecdsa signerPub
      then Inl (Wrap ''HSM key is not ECDSA'' (Sentinel (CaErr ErrKeyCertMismatch)))
      else if c_PublicKey cert \<noteq> signerPub
      then Inl (Wrap ''not the key certified'' (Sentinel (CaErr ErrKeyCertMismatch)))
      else Inr ())"

type_synonym file_reader = "string \<Rightarrow> bytes res"

definition loadCertPEM :: "x509_lib \<Rightarrow> file_reader \<Rightarrow> string \<Rightarrow> certificate res" where
  "loadCertPEM lib ReadFile path =
     bindR (wrapR ''ca: reading CA certificate'' (ReadFile path)) (\<lambda>data.
     case lib_pem_decode lib data of
       None \<Rightarrow> Inl (Errorf ''does not contain a PEM block'')
     | Some (block, rest) \<Rightarrow>
         if \<not> is_blank rest then Inl (Errorf ''contains more than one PEM block'')
         else wrapR ''ca: parsing CA certificate'' (lib_parse_certificate lib block))"

type_synonym 's pin_resolver = "('s, buffer) eff"

text \<open>A login, with the role's explanation of a refusal.\<close>

definition role_login ::
    "'s vendor_adapter \<Rightarrow> workspace \<Rightarrow> 's pin_resolver \<Rightarrow> login_role \<Rightarrow> ('s, unit) eff" where
  "role_login ad ws resolvePIN role =
     bindE (wrapE ''ca: resolving PIN'' resolvePIN) (\<lambda>pin.
     tryE (va_LoginToken ad ws pin (role_Role role)) (\<lambda>r. case r of
         Inl err \<Rightarrow> throwE (Wrap ''ca: token login'' (role_Explain role err))
       | Inr _ \<Rightarrow> returnE ()))"

record load_intermediate_params =
  li_KeyLabel :: string
  li_Role :: login_role
  li_CertPath :: string
  li_Curve :: ec_curve
  li_CertTTL :: duration
  li_Distribution :: leaf_distribution

definition LoadIntermediate ::
    "x509_lib \<Rightarrow> (elliptic \<Rightarrow> int \<Rightarrow> int \<Rightarrow> bool) \<Rightarrow> 's vendor_adapter \<Rightarrow> 's host \<Rightarrow> file_reader \<Rightarrow> workspace \<Rightarrow>
     session_options \<Rightarrow> 's pin_resolver \<Rightarrow> load_intermediate_params \<Rightarrow> ('s, 's ca) eff" where
  "LoadIntermediate lib on_curve ad host ReadFile ws opts resolvePIN params =
     bindE (wrapE ''ca: leaf distribution'' (liftE (LeafDistribution_Validate lib (li_Distribution params)))) (\<lambda>_.
     bindE (getsE (va_TokenLoggedIn ad)) (\<lambda>logged_in.
     bindE (if logged_in then returnE () else role_login ad ws resolvePIN (li_Role params)) (\<lambda>_.
     bindE (liftE (loadCertPEM lib ReadFile (li_CertPath params))) (\<lambda>cert.
     bindE (h_Now host) (\<lambda>now.
     bindE (liftE (checkIntermediateCert lib cert now)) (\<lambda>_.
     bindE (wrapE ''ca: loading intermediate key''
        (NewSigner on_curve ad ws opts (li_KeyLabel params) (li_Curve params))) (\<lambda>signer.
     bindE (liftE (checkKeyMatchesCert (sg_Public signer) cert)) (\<lambda>_.
     returnE \<lparr>ca_cert = cert, ca_signer = signer, ca_maxTTL = li_CertTTL params,
              ca_dist = li_Distribution params\<rparr>))))))))"

section \<open>Loading the service's certificate\<close>

record service_certificate_params =
  sc_KeyLabel :: string
  sc_CertPath :: string
  sc_Curve :: ec_curve

record 's tls_certificate =
  tls_Certificate :: "bytes list"
  tls_PrivateKey :: "'s crypto_signer"
  tls_Leaf :: certificate

definition checkServiceCert :: "x509_lib \<Rightarrow> certificate \<Rightarrow> certificate \<Rightarrow> time \<Rightarrow> unit res" where
  "checkServiceCert lib leaf issuer now =
     (if c_IsCA leaf then Inl (Wrap ''is a CA certificate'' (Sentinel (CaErr ErrNotAServiceCertificate)))
      else if EKU_ServerAuth \<notin> set (c_ExtKeyUsage leaf)
      then Inl (Wrap ''no serverAuth'' (Sentinel (CaErr ErrNotAServiceCertificate)))
      else if now < c_NotBefore leaf then Inl (Wrap ''not valid until'' (Sentinel (CaErr ErrIssuerNotValid)))
      else if now > c_NotAfter leaf then Inl (Wrap ''expired'' (Sentinel (CaErr ErrIssuerNotValid)))
      else if \<not> check_signature_from lib leaf issuer
      then Inl (Wrap ''not signed by the loaded intermediate'' (Sentinel (CaErr ErrNotAServiceCertificate)))
      else Inr ())"

definition LoadServiceCertificate ::
    "x509_lib \<Rightarrow> (elliptic \<Rightarrow> int \<Rightarrow> int \<Rightarrow> bool) \<Rightarrow> 's vendor_adapter \<Rightarrow> 's host \<Rightarrow> file_reader \<Rightarrow> workspace \<Rightarrow>
     session_options \<Rightarrow> certificate option \<Rightarrow> service_certificate_params \<Rightarrow> ('s, 's tls_certificate) eff" where
  "LoadServiceCertificate lib on_curve ad host ReadFile ws opts issuer params =
     (case issuer of
        None \<Rightarrow> throwE (Wrap ''no issuer certificate'' (Sentinel (CaErr ErrNotAServiceCertificate)))
      | Some issuer \<Rightarrow>
          bindE (liftE (loadCertPEM lib ReadFile (sc_CertPath params))) (\<lambda>leaf.
          bindE (h_Now host) (\<lambda>now.
          bindE (liftE (checkServiceCert lib leaf issuer now)) (\<lambda>_.
          bindE (wrapE ''ca: loading the service TLS key''
             (NewSigner on_curve ad ws opts (sc_KeyLabel params) (sc_Curve params))) (\<lambda>signer.
          bindE (liftE (checkKeyMatchesCert (sg_Public signer) leaf)) (\<lambda>_.
          returnE \<lparr>tls_Certificate = [c_Raw leaf, c_Raw issuer], tls_PrivateKey = signer,
                   tls_Leaf = leaf\<rparr>))))))"

section \<open>What the operations keep\<close>

lemma preserves_withSession [pres_intros]:
  "preserves P (va_OpenSession ad ws opts) \<Longrightarrow> (\<And>s. preserves P (va_CloseSession ad s)) \<Longrightarrow>
    (\<And>s. preserves P (fn s)) \<Longrightarrow> preserves P (withSession ad ws opts fn)"
  unfolding withSession_def by (intro pres_intros)

lemma preserves_ca_findKeyByLabel [pres_intros]:
  "(\<And>tmpl. preserves P (va_FindObjects ad s tmpl)) \<Longrightarrow> preserves P (ca_findKeyByLabel ad s class label)"
  unfolding ca_findKeyByLabel_def by (intro pres_intros)

lemma NewSigner_Inr:
  fixes s :: 's
  assumes "NewSigner on_curve ad ws opts label curve s = (Inr signer, s')"
  shows "\<exists>hash ec x y. hashForCurve curve = Inr hash \<and> sg_Sign signer = signer_Sign ad ws opts label hash \<and>
    sg_Public signer = EcdsaKey ec x y \<and> ec_curve_Curve curve = Some ec"
proof -
  have "DecodeECPoint on_curve ec b = Inr pub \<Longrightarrow> \<exists>x y. pub = EcdsaKey ec x y" for ec b pub
    by (auto simp: DecodeECPoint_def split: option.splits prod.splits)
  moreover from assms obtain ec hash pub t t' and attrs :: "attribute list" where
    "ec_curve_Curve curve = Some ec" "hashForCurve curve = Inr hash"
    "signer = \<lparr>sg_Public = pub, sg_Sign = signer_Sign ad ws opts label hash\<rparr>"
    "(case attrs of [] \<Rightarrow> throwE (Errorf ''ca: CKA_EC_POINT not returned'')
      | a # _ \<Rightarrow> liftE (DecodeECPoint on_curve ec (attr_Value a))) t = (Inr pub, t' :: 's)"
    by (auto simp: NewSigner_def withSession_def res_simps split: option.splits)
  ultimately show ?thesis by (cases attrs) auto
qed

lemma NewSigner_keeps_Sign:
  assumes "NewSigner on_curve ad ws opts label curve s = (Inr signer, s')"
    "\<And>hash. preserves P (signer_Sign ad ws opts label hash d h)"
  shows "preserves P (sg_Sign signer d h)"
  using NewSigner_Inr [OF assms(1)] assms(2) by auto

context vendor_adapter
begin

text \<open>
  One predicate covers both uses of the contract: the token is in the login state
  it was in, and the frame holds if it held.
\<close>

lemma keep_keyPairExists:
  "preserves (\<lambda>s. va_TokenLoggedIn ad s = b) (keyPairExists ad ws opts label)"
  "preserves frame (keyPairExists ad ws opts label)"
  unfolding keyPairExists_def by (intro pres_intros login_ops frame_ops)+

lemma keep_signer_Sign:
  "preserves (\<lambda>s. va_TokenLoggedIn ad s = b) (signer_Sign ad ws opts label hash digest h)"
  "preserves frame (signer_Sign ad ws opts label hash digest h)"
  unfolding signer_Sign_def by (intro pres_intros login_ops frame_ops)+

lemma keep_NewSigner:
  "preserves (\<lambda>s. va_TokenLoggedIn ad s = b) (NewSigner on_curve ad ws opts label curve)"
  "preserves frame (NewSigner on_curve ad ws opts label curve)"
  unfolding NewSigner_def by (intro pres_intros login_ops frame_ops)+

lemma keep_role_login: "preserves frame resolvePIN \<Longrightarrow> preserves frame (role_login ad ws resolvePIN role)"
  unfolding role_login_def by (intro pres_intros frame_ops)

lemma keep_LoadIntermediate:
  "preserves frame resolvePIN \<Longrightarrow>
    preserves frame (LoadIntermediate lib on_curve ad host ReadFile ws opts resolvePIN params)"
  unfolding LoadIntermediate_def by (intro pres_intros frame_ops keep_role_login keep_NewSigner)

end

end
