(* ===== verification/Ceremony.thy ===== *)
theory Ceremony
  imports Signer
begin

text \<open>
  \<^verbatim>\<open>internal/ca/ceremony.go\<close> and \<^verbatim>\<open>reissue.go\<close>: bootstrapping the two-tier hierarchy,
  and re-issuing the intermediate under the existing root. Go's deferred logout
  can turn a finished result into a result beside an error; such a result is a
  pair with the error (\<open>deferE\<close>), and a caller that returns on any error is \<open>strict\<close>.
  The order in which the two labels are validated is an argument, as Go ranges
  over a map.
\<close>

definition DefaultRootValidity :: duration where "DefaultRootValidity = 10 * 365 * 24 * hour"
definition DefaultIntermediateValidity :: duration where "DefaultIntermediateValidity = 5 * 365 * 24 * hour"
definition DefaultRootCRLValidity :: duration where "DefaultRootCRLValidity = 5 * 365 * 24 * hour"

type_synonym 'a reported = "'a \<times> go_error option"

definition strict :: "('s, 'a reported) eff \<Rightarrow> ('s, 'a) eff" where
  "strict f = bindE f (\<lambda>(x, err). case err of None \<Rightarrow> returnE x | Some e \<Rightarrow> throwE e)"

lemma preserves_strict [pres_intros]: "preserves P f \<Longrightarrow> preserves P (strict f)"
  unfolding strict_def by (intro pres_intros)

section \<open>Token logins around an operation\<close>

definition withTokenLogin ::
    "'s vendor_adapter \<Rightarrow> workspace \<Rightarrow> 's pin_resolver \<Rightarrow> login_role \<Rightarrow> ('s, 'a) eff \<Rightarrow> ('s, 'a reported) eff" where
  "withTokenLogin ad ws resolvePIN role fn =
     bindE (getsE (va_TokenLoggedIn ad)) (\<lambda>logged_in.
       if logged_in then throwE (Errorf ''ca: ceremony: a token is already authenticated'')
       else bindE (role_login ad ws resolvePIN role) (\<lambda>_.
         deferE (va_LogoutToken ad) ''work completed but logging out failed'' fn))"

fun checkLogins ::
    "'s vendor_adapter \<Rightarrow> login_role \<Rightarrow> (workspace \<times> 's pin_resolver) list \<Rightarrow> ('s, unit) eff" where
  "checkLogins ad role [] = returnE ()"
| "checkLogins ad role ((ws, pin) # tokens) =
     bindE (wrapE ''checking the login before anything is created''
        (strict (withTokenLogin ad ws pin role (returnE ())))) (\<lambda>_.
     checkLogins ad role tokens)"

definition key_request :: "ec_curve \<Rightarrow> string \<Rightarrow> bool \<Rightarrow> key_pair_request" where
  "key_request curve label extractable = \<lparr>kp_Curve = curve, kp_Label = label, kp_ID = [],
     kp_Sign = True, kp_Verify = True, kp_Extractable = extractable\<rparr>"

definition generateCeremonyKey ::
    "(elliptic \<Rightarrow> int \<Rightarrow> int \<Rightarrow> bool) \<Rightarrow> 's vendor_adapter \<Rightarrow> session_options \<Rightarrow> workspace \<Rightarrow>
     's pin_resolver \<Rightarrow> login_role \<Rightarrow> string \<Rightarrow> ec_curve \<Rightarrow> ('s, public_key reported) eff" where
  "generateCeremonyKey on_curve ad opts ws resolvePIN role label curve =
     withTokenLogin ad ws resolvePIN role
       (bindE (keyPairExists ad ws opts label) (\<lambda>exists.
        if exists then throwE (Errorf ''ca: ceremony refuses to overwrite existing key label'')
        else bindE (wrapE ''ca: generating key pair''
               (withSession ad ws opts (\<lambda>s. va_GenerateKeyPair ad s (key_request curve label False)))) (\<lambda>_.
        bindE (NewSigner on_curve ad ws opts label curve) (\<lambda>signer.
        if is_ecdsa (sg_Public signer) then returnE (sg_Public signer)
        else throwE (Errorf ''ca: unexpected public key type'')))))"

section \<open>The ceremony\<close>

record 's ceremony_params =
  cp_RootWorkspace :: workspace
  cp_RootPIN :: "'s pin_resolver"
  cp_RootKeyLabel :: string
  cp_RootSubject :: pkix_name
  cp_RootCurve :: ec_curve
  cp_RootValidity :: duration
  cp_RootCRLValidity :: duration
  cp_IntermediateWorkspace :: workspace
  cp_IntermediatePIN :: "'s pin_resolver"
  cp_IntermediateKeyLabel :: string
  cp_IntermediateSubject :: pkix_name
  cp_IntermediateCurve :: ec_curve
  cp_IntermediateValidity :: duration
  cp_RootCRLURL :: string
  cp_RootCertURL :: string
  cp_Role :: login_role
  cp_RootKeyExtractable :: bool

definition ceremony_validate :: "x509_lib \<Rightarrow> bool \<Rightarrow> 's ceremony_params \<Rightarrow> unit res" where
  "ceremony_validate lib rootFirst p =
     (if ws_Serial (cp_RootWorkspace p) = [] \<or> ws_Serial (cp_IntermediateWorkspace p) = []
      then Inl (Errorf ''both workspaces must carry a token serial number'')
      else if ws_Serial (cp_RootWorkspace p) = ws_Serial (cp_IntermediateWorkspace p)
      then Inl (Errorf ''root and intermediate on the same token'')
      else if cp_RootKeyLabel p = [] \<or> cp_IntermediateKeyLabel p = []
      then Inl (Errorf ''both key labels must be set'')
      else if cp_RootKeyLabel p = cp_IntermediateKeyLabel p then Inl (Errorf ''one key label for both tiers'')
      else bindR (forR ValidateVersionedLabel (if rootFirst then [cp_RootKeyLabel p, cp_IntermediateKeyLabel p]
                  else [cp_IntermediateKeyLabel p, cp_RootKeyLabel p])) (\<lambda>_.
      bindR (ValidateDistributionURL lib ''RootCRLURL'' (cp_RootCRLURL p)) (\<lambda>_.
      bindR (ValidateDistributionURL lib ''RootCertURL'' (cp_RootCertURL p)) (\<lambda>_.
      if cp_IntermediateValidity p > cp_RootValidity p
      then Inl (Errorf ''the intermediate would outlive the root that signed it'') else Inr ()))))"

definition ceremony_defaults :: "'s ceremony_params \<Rightarrow> 's ceremony_params" where
  "ceremony_defaults p = p
     \<lparr>cp_RootValidity := (if cp_RootValidity p = 0 then DefaultRootValidity else cp_RootValidity p),
      cp_RootCRLValidity := (if cp_RootCRLValidity p = 0 then DefaultRootCRLValidity else cp_RootCRLValidity p),
      cp_IntermediateValidity := (if cp_IntermediateValidity p = 0 then DefaultIntermediateValidity
                                  else cp_IntermediateValidity p)\<rparr>"

record ceremony_result =
  res_RootCertDER :: bytes
  res_IntermediateCertDER :: bytes
  res_RootCRLDER :: bytes

definition root_template :: "'s ceremony_params \<Rightarrow> time \<Rightarrow> int \<Rightarrow> bytes \<Rightarrow> certificate" where
  "root_template p now serial ski = zero_cert
     \<lparr>c_SerialNumber := serial, c_Subject := cp_RootSubject p,
      c_NotBefore := now - issuanceClockSkewAllowance, c_NotAfter := now + cp_RootValidity p,
      c_KeyUsage := KU_CertSign OR KU_CRLSign, c_BasicConstraintsValid := True, c_IsCA := True,
      c_MaxPathLen := 1, c_SubjectKeyId := ski, c_AuthorityKeyId := ski\<rparr>"

text \<open>The intermediate's template, which the ceremony and the re-issue share.\<close>

definition intermediate_template ::
    "pkix_name \<Rightarrow> duration \<Rightarrow> string \<Rightarrow> string \<Rightarrow> time \<Rightarrow> int \<Rightarrow> bytes \<Rightarrow> bytes \<Rightarrow> certificate" where
  "intermediate_template subject validity crlURL certURL now serial ski rootSKI = zero_cert
     \<lparr>c_SerialNumber := serial, c_Subject := subject,
      c_NotBefore := now - issuanceClockSkewAllowance, c_NotAfter := now + validity,
      c_KeyUsage := KU_CertSign OR KU_CRLSign, c_BasicConstraintsValid := True, c_IsCA := True,
      c_MaxPathLen := 0, c_MaxPathLenZero := True, c_SubjectKeyId := ski, c_AuthorityKeyId := rootSKI,
      c_CRLDistributionPoints := [crlURL], c_IssuingCertificateURL := [certURL]\<rparr>"

definition empty_distribution :: leaf_distribution where
  "empty_distribution = \<lparr>ld_CRLURL = [], ld_IssuerCertURL = [], ld_OCSPURL = []\<rparr>"

definition signRootAndIntermediate ::
    "x509_lib \<Rightarrow> (elliptic \<Rightarrow> int \<Rightarrow> int \<Rightarrow> bool) \<Rightarrow> 's vendor_adapter \<Rightarrow> 's host \<Rightarrow> session_options \<Rightarrow>
     's ceremony_params \<Rightarrow> public_key \<Rightarrow> ('s, ceremony_result) eff" where
  "signRootAndIntermediate lib on_curve ad host opts p interPub =
     bindE (keyPairExists ad (cp_RootWorkspace p) opts (cp_RootKeyLabel p)) (\<lambda>exists.
     if exists then throwE (Errorf ''ca: ceremony refuses to overwrite existing root key label'')
     else
     bindE (wrapE ''ca: generating root key pair'' (withSession ad (cp_RootWorkspace p) opts (\<lambda>s.
        va_GenerateKeyPair ad s (key_request (cp_RootCurve p) (cp_RootKeyLabel p) (cp_RootKeyExtractable p))))) (\<lambda>_.
     bindE (NewSigner on_curve ad (cp_RootWorkspace p) opts (cp_RootKeyLabel p) (cp_RootCurve p)) (\<lambda>rootSigner.
     if \<not> is_ecdsa (sg_Public rootSigner) then throwE (Errorf ''ca: unexpected root public key type'')
     else
     bindE (liftE (subjectKeyID lib (sg_Public rootSigner))) (\<lambda>rootSKI.
     bindE (GenerateSerial host) (\<lambda>rootSerial.
     bindE (h_Now host) (\<lambda>now.
     let rootT = root_template p now rootSerial rootSKI in
     bindE (wrapE ''ca: self-signing root certificate''
        (create_certificate lib rootT rootT (sg_Public rootSigner) rootSigner)) (\<lambda>rootDER.
     bindE (wrapE ''ca: parsing freshly-signed root certificate'' (liftE (lib_parse_certificate lib rootDER))) (\<lambda>rootCert.
     bindE (liftE (subjectKeyID lib interPub)) (\<lambda>interSKI.
     bindE (GenerateSerial host) (\<lambda>interSerial.
     bindE (wrapE ''ca: signing intermediate certificate'' (create_certificate lib
        (intermediate_template (cp_IntermediateSubject p) (cp_IntermediateValidity p) (cp_RootCRLURL p)
          (cp_RootCertURL p) now interSerial interSKI rootSKI) rootCert interPub rootSigner)) (\<lambda>interDER.
     bindE (wrapE ''ca: building root CRL'' (BuildCRL lib (NewCA rootCert rootSigner 0 empty_distribution) []
        (now - issuanceClockSkewAllowance) (now + cp_RootCRLValidity p) (Some 1))) (\<lambda>rootCRLDER.
     returnE \<lparr>res_RootCertDER = rootDER, res_IntermediateCertDER = interDER,
              res_RootCRLDER = rootCRLDER\<rparr>))))))))))))"

definition RunCeremony ::
    "x509_lib \<Rightarrow> (elliptic \<Rightarrow> int \<Rightarrow> int \<Rightarrow> bool) \<Rightarrow> bool \<Rightarrow> 's vendor_adapter \<Rightarrow> 's host \<Rightarrow> session_options \<Rightarrow>
     's ceremony_params \<Rightarrow> ('s, ceremony_result reported) eff" where
  "RunCeremony lib on_curve rootFirst ad host opts params =
     (let p = ceremony_defaults params in
      bindE (liftE (ceremony_validate lib rootFirst p)) (\<lambda>_.
      bindE (wrapE ''ca: ceremony'' (checkLogins ad (cp_Role p)
         [(cp_RootWorkspace p, cp_RootPIN p), (cp_IntermediateWorkspace p, cp_IntermediatePIN p)])) (\<lambda>_.
      bindE (wrapE ''ca: ceremony: intermediate key'' (strict (generateCeremonyKey on_curve ad opts
         (cp_IntermediateWorkspace p) (cp_IntermediatePIN p) (cp_Role p) (cp_IntermediateKeyLabel p)
         (cp_IntermediateCurve p)))) (\<lambda>interPub.
      withTokenLogin ad (cp_RootWorkspace p) (cp_RootPIN p) (cp_Role p)
        (bindE (wrapE ''ca: ceremony: checking token separation''
           (keyPairExists ad (cp_RootWorkspace p) opts (cp_IntermediateKeyLabel p))) (\<lambda>interVisibleFromRoot.
         if interVisibleFromRoot
         then throwE (Errorf ''ca: ceremony aborted: the intermediate key is visible from the root token'')
         else signRootAndIntermediate lib on_curve ad host opts p interPub))))))"

section \<open>Re-issuing the intermediate\<close>

record 's reissue_params =
  rp_RootWorkspace :: workspace
  rp_RootPIN :: "'s pin_resolver"
  rp_RootKeyLabel :: string
  rp_RootCurve :: ec_curve
  rp_RootCert :: "certificate option"
  rp_Role :: login_role
  rp_IntermediateWorkspace :: workspace
  rp_IntermediatePIN :: "'s pin_resolver"
  rp_IntermediateKeyLabel :: string
  rp_IntermediateSubject :: pkix_name
  rp_IntermediateCurve :: ec_curve
  rp_IntermediateValidity :: duration
  rp_RootCRLURL :: string
  rp_RootCertURL :: string

definition checkRootMaySign :: "x509_lib \<Rightarrow> certificate \<Rightarrow> duration \<Rightarrow> time \<Rightarrow> unit res" where
  "checkRootMaySign lib root interValidity now =
     (if \<not> c_BasicConstraintsValid root then Inl (Wrap ''no basicConstraints'' (Sentinel (CaErr ErrNotAnIntermediate)))
      else if \<not> c_IsCA root then Inl (Wrap ''not a CA certificate'' (Sentinel (CaErr ErrNotAnIntermediate)))
      else if c_KeyUsage root AND KU_CertSign = 0
      then Inl (Wrap ''no keyCertSign'' (Sentinel (CaErr ErrNotAnIntermediate)))
      else if \<not> check_signature_from lib root root then Inl (Errorf ''not self-signed'')
      else if c_MaxPathLenZero root then Inl (Wrap ''pathlen:0'' (Sentinel (CaErr ErrNotAnIntermediate)))
      else if now < c_NotBefore root then Inl (Wrap ''not valid until'' (Sentinel (CaErr ErrIssuerNotValid)))
      else if now > c_NotAfter root then Inl (Wrap ''expired'' (Sentinel (CaErr ErrIssuerNotValid)))
      else let v = (if interValidity = 0 then DefaultIntermediateValidity else interValidity) in
        if now + v > c_NotAfter root
        then Inl (Wrap ''would expire after the root'' (Sentinel (CaErr ErrValidityExceedsIssuer)))
        else Inr ())"

definition reissue_validate :: "x509_lib \<Rightarrow> 's host \<Rightarrow> 's reissue_params \<Rightarrow> ('s, unit) eff" where
  "reissue_validate lib host p =
     (if ws_Serial (rp_RootWorkspace p) = [] \<or> ws_Serial (rp_IntermediateWorkspace p) = []
      then throwE (Errorf ''both workspaces must carry a token serial number'')
      else if ws_Serial (rp_RootWorkspace p) = ws_Serial (rp_IntermediateWorkspace p)
      then throwE (Errorf ''root and intermediate on the same token'')
      else if rp_RootKeyLabel p = [] \<or> rp_IntermediateKeyLabel p = []
      then throwE (Errorf ''both key labels must be set'')
      else if rp_RootKeyLabel p = rp_IntermediateKeyLabel p then throwE (Errorf ''one key label for both tiers'')
      else bindE (liftE (wrapR ''IntermediateKeyLabel'' (ValidateVersionedLabel (rp_IntermediateKeyLabel p)))) (\<lambda>_.
      bindE (liftE (ValidateDistributionURL lib ''RootCRLURL'' (rp_RootCRLURL p))) (\<lambda>_.
      bindE (liftE (ValidateDistributionURL lib ''RootCertURL'' (rp_RootCertURL p))) (\<lambda>_.
      case rp_RootCert p of
        None \<Rightarrow> throwE (Errorf ''requires the existing root certificate'')
      | Some root \<Rightarrow>
          if n_CommonName (rp_IntermediateSubject p) = [] \<and> n_Organization (rp_IntermediateSubject p) = []
          then throwE (Wrap ''intermediate subject'' (Sentinel (CaErr ErrEmptySubject)))
          else bindE (h_Now host) (\<lambda>now.
            liftE (checkRootMaySign lib root (rp_IntermediateValidity p) now))))))"

definition signIntermediateUnderExistingRoot ::
    "x509_lib \<Rightarrow> (elliptic \<Rightarrow> int \<Rightarrow> int \<Rightarrow> bool) \<Rightarrow> 's vendor_adapter \<Rightarrow> 's host \<Rightarrow> session_options \<Rightarrow>
     's reissue_params \<Rightarrow> certificate \<Rightarrow> public_key \<Rightarrow> ('s, bytes) eff" where
  "signIntermediateUnderExistingRoot lib on_curve ad host opts p root interPub =
     bindE (wrapE ''looking for the root key''
        (keyPairExists ad (rp_RootWorkspace p) opts (rp_RootKeyLabel p))) (\<lambda>exists.
     if \<not> exists then throwE (Wrap ''no root key'' (Sentinel (CaErr Ca_ErrKeyNotFound)))
     else
     bindE (wrapE ''opening the root signer''
        (NewSigner on_curve ad (rp_RootWorkspace p) opts (rp_RootKeyLabel p) (rp_RootCurve p))) (\<lambda>rootSigner.
     bindE (wrapE ''ca: reissue-intermediate'' (liftE (checkKeyMatchesCert (sg_Public rootSigner) root))) (\<lambda>_.
     bindE (liftE (subjectKeyID lib interPub)) (\<lambda>interSKI.
     bindE (GenerateSerial host) (\<lambda>interSerial.
     bindE (h_Now host) (\<lambda>now.
     bindE (wrapE ''the root may no longer sign this''
        (liftE (checkRootMaySign lib root (rp_IntermediateValidity p) now))) (\<lambda>_.
     wrapE ''signing the new intermediate certificate'' (create_certificate lib
        (intermediate_template (rp_IntermediateSubject p) (rp_IntermediateValidity p) (rp_RootCRLURL p)
          (rp_RootCertURL p) now interSerial interSKI (c_SubjectKeyId root)) root interPub rootSigner))))))))"

definition ReissueIntermediate ::
    "x509_lib \<Rightarrow> (elliptic \<Rightarrow> int \<Rightarrow> int \<Rightarrow> bool) \<Rightarrow> 's vendor_adapter \<Rightarrow> 's host \<Rightarrow> session_options \<Rightarrow>
     's reissue_params \<Rightarrow> ('s, bytes reported) eff" where
  "ReissueIntermediate lib on_curve ad host opts params =
     (let p = params\<lparr>rp_IntermediateValidity := (if rp_IntermediateValidity params = 0
                then DefaultIntermediateValidity else rp_IntermediateValidity params)\<rparr> in
      bindE (reissue_validate lib host p) (\<lambda>_.
      bindE (wrapE ''ca: reissue-intermediate'' (checkLogins ad (rp_Role p)
         [(rp_RootWorkspace p, rp_RootPIN p), (rp_IntermediateWorkspace p, rp_IntermediatePIN p)])) (\<lambda>_.
      bindE (wrapE ''new intermediate key'' (strict (generateCeremonyKey on_curve ad opts
         (rp_IntermediateWorkspace p) (rp_IntermediatePIN p) (rp_Role p) (rp_IntermediateKeyLabel p)
         (rp_IntermediateCurve p)))) (\<lambda>interPub.
      withTokenLogin ad (rp_RootWorkspace p) (rp_RootPIN p) (rp_Role p)
        (bindE (wrapE ''checking token separation''
           (keyPairExists ad (rp_RootWorkspace p) opts (rp_IntermediateKeyLabel p))) (\<lambda>interVisibleFromRoot.
         if interVisibleFromRoot
         then throwE (Errorf ''aborted: the new intermediate key is visible from the root token'')
         else case rp_RootCert p of
           None \<Rightarrow> throwE (Errorf ''requires the existing root certificate'')
         | Some root \<Rightarrow> signIntermediateUnderExistingRoot lib on_curve ad host opts p root interPub))))))"

section \<open>Logged out on every path\<close>

lemma preserves_GenerateSerial:
  fixes host :: "'s host"
  assumes "\<And>n. preserves P (h_Rand host n)"
  shows "preserves P (GenerateSerial host)"
proof (rule preservesI)
  fix s assume "P s"
  have "(\<forall>n. preserves P (h_Rand host n)) \<longrightarrow> P s \<longrightarrow> P (snd y)" if y: "serial_loop host s = Some y" for y
  proof (rule serial_loop.raw_induct [where P = "\<lambda>host s y. (\<forall>n. preserves P (h_Rand host n)) \<longrightarrow> P s \<longrightarrow> P (snd y)",
        OF _ y], intro impI)
    fix loop :: "'s host \<Rightarrow> 's \<Rightarrow> (int res \<times> 's) option" and host s y
    assume IH: "\<And>host s y. loop host s = Some y \<Longrightarrow> (\<forall>n. preserves P (h_Rand host n)) \<longrightarrow> P s \<longrightarrow> P (snd y)"
      and body: "(case h_Rand host 16 s of
          (Inl err, s') \<Rightarrow> Some (Inl (Wrap ''ca: generating serial'' err), s')
        | (Inr buf, s') \<Rightarrow> let serial = int (be_nat buf) in
            if serial > 0 then Some (Inr serial, s') else loop host s') = Some y"
      and keeps: "\<forall>n. preserves P (h_Rand host n)" "P s"
    obtain r s' where r: "h_Rand host 16 s = (r, s')" by fastforce
    with keeps have "P s'" by (blast dest: preservesD)
    with r body IH keeps(1) show "P (snd y)" by (cases r) (auto simp: Let_def split: if_splits)
  qed
  with assms \<open>P s\<close> show "P (snd (GenerateSerial host s))"
    by (auto simp: GenerateSerial_def split: option.split)
qed

context vendor_adapter
begin

text \<open>\<open>out\<close>: no token is authenticated. A login of its own is always undone.\<close>

abbreviation out :: "'s \<Rightarrow> bool" where "out s \<equiv> \<not> va_TokenLoggedIn ad s"

lemma out_withTokenLogin: "preserves out resolvePIN \<Longrightarrow> preserves out (withTokenLogin ad ws resolvePIN role fn)"
proof (rule preservesI)
  fix s assume pin: "preserves out resolvePIN" and s: "out s"
  have login: "out s'" if "role_login ad ws resolvePIN role s = (Inl e, s')" for e s'
    using that preservesD [OF pin s] LoginToken_err
    by (auto simp: role_login_def bindE_def tryE_def wrapE_def wrapR_def split: sum.splits prod.splits)
  obtain r s1 where r: "role_login ad ws resolvePIN role s = (r, s1)" by fastforce
  show "out (snd (withTokenLogin ad ws resolvePIN role fn s))"
  proof (cases r)
    case (Inl e)
    with r s login [of e s1] show ?thesis by (simp add: withTokenLogin_def bindE_def)
  next
    case (Inr u)
    with r s LogoutToken_any show ?thesis
      by (auto simp: withTokenLogin_def bindE_def deferE_def split: prod.splits sum.splits)
  qed
qed

lemma out_generateCeremonyKey: "preserves out resolvePIN \<Longrightarrow>
    preserves out (generateCeremonyKey on_curve ad opts ws resolvePIN role label curve)"
  unfolding generateCeremonyKey_def by (rule out_withTokenLogin)

lemma out_checkLogins: "\<forall>(ws, pin) \<in> set tokens. preserves out pin \<Longrightarrow> preserves out (checkLogins ad role tokens)"
  by (induction tokens) (auto simp only: checkLogins.simps list.set ball_simps split_paired_all case_prod_conv
      insert_iff intro!: pres_intros out_withTokenLogin)

text \<open>Before the first key exists, only the frame's operations run.\<close>

lemma frame_withTokenLogin: "preserves frame resolvePIN \<Longrightarrow> preserves frame fn \<Longrightarrow>
    preserves frame (withTokenLogin ad ws resolvePIN role fn)"
  unfolding withTokenLogin_def by (intro pres_intros keep_role_login frame_ops)

lemma frame_checkLogins: "\<forall>(ws, pin) \<in> set tokens. preserves frame pin \<Longrightarrow> preserves frame (checkLogins ad role tokens)"
  by (induction tokens) (auto simp only: checkLogins.simps list.set ball_simps split_paired_all case_prod_conv
      insert_iff intro!: pres_intros frame_withTokenLogin)

lemma out_RunCeremony:
  assumes "preserves out (cp_RootPIN params)" "preserves out (cp_IntermediatePIN params)"
  shows "preserves out (RunCeremony lib on_curve rootFirst ad host opts params)"
  unfolding RunCeremony_def Let_def
  by (intro pres_intros out_checkLogins out_generateCeremonyKey out_withTokenLogin)
    (use assms in \<open>auto simp: ceremony_defaults_def\<close>)

lemma out_ReissueIntermediate:
  assumes "preserves out (rp_RootPIN params)" "preserves out (rp_IntermediatePIN params)" "preserves out (h_Now host)"
  shows "preserves out (ReissueIntermediate lib on_curve ad host opts params)"
  unfolding ReissueIntermediate_def reissue_validate_def Let_def
  by (intro pres_intros out_checkLogins out_generateCeremonyKey out_withTokenLogin)
    (use assms in auto)

text \<open>A re-issue creates one thing, the new intermediate's pair under its own label.\<close>

lemma frame_generateCeremonyKey:
  assumes "preserves frame resolvePIN"
    "\<And>s. preserves frame (va_GenerateKeyPair ad s (key_request curve label False))"
  shows "preserves frame (generateCeremonyKey on_curve ad opts ws resolvePIN role label curve)"
  unfolding generateCeremonyKey_def
  by (intro pres_intros frame_withTokenLogin keep_keyPairExists keep_NewSigner frame_ops assms)

lemma frame_GenerateSerial: "preserves frame (GenerateSerial host)"
  by (rule preserves_GenerateSerial) (rule frame_Rand)

lemma frame_signIntermediate:
  "preserves frame (signIntermediateUnderExistingRoot lib on_curve ad host opts p root interPub)"
proof (rule preservesI)
  fix s assume s: "frame s"
  have tail: "preserves frame (bindE (wrapE ''ca: reissue-intermediate'' (liftE (checkKeyMatchesCert (sg_Public sg) root))) (\<lambda>_.
     bindE (liftE (subjectKeyID lib interPub)) (\<lambda>interSKI. bindE (GenerateSerial host) (\<lambda>interSerial.
     bindE (h_Now host) (\<lambda>now. bindE (wrapE ''the root may no longer sign this''
        (liftE (checkRootMaySign lib root (rp_IntermediateValidity p) now))) (\<lambda>_.
     wrapE ''signing the new intermediate certificate'' (create_certificate lib
        (intermediate_template (rp_IntermediateSubject p) (rp_IntermediateValidity p) (rp_RootCRLURL p)
          (rp_RootCertURL p) now interSerial interSKI (c_SubjectKeyId root)) root interPub sg)))))))"
    if "NewSigner on_curve ad (rp_RootWorkspace p) opts (rp_RootKeyLabel p) (rp_RootCurve p) t = (Inr sg, t')" for sg t t'
    by (intro pres_intros frame_ops frame_GenerateSerial NewSigner_keeps_Sign [OF that] keep_signer_Sign)
  obtain r1 s1 where 1: "keyPairExists ad (rp_RootWorkspace p) opts (rp_RootKeyLabel p) s = (r1, s1)" by fastforce
  from preservesD [OF keep_keyPairExists(2) s 1] have s1: "frame s1" .
  obtain r2 s2 where 2: "NewSigner on_curve ad (rp_RootWorkspace p) opts (rp_RootKeyLabel p) (rp_RootCurve p) s1 = (r2, s2)"
    by fastforce
  from preservesD [OF keep_NewSigner(2) s1 2] have s2: "frame s2" .
  show "frame (snd (signIntermediateUnderExistingRoot lib on_curve ad host opts p root interPub s))"
  proof (cases r2)
    case (Inl e)
    with 1 2 s1 s2 show ?thesis
      by (cases r1) (simp_all add: signIntermediateUnderExistingRoot_def bindE_def wrapE_def)
  next
    case (Inr sg)
    from preserves_snd [OF tail [OF 2 [unfolded Inr]] s2] 1 2 Inr s1 show ?thesis
      by (cases r1) (simp_all add: signIntermediateUnderExistingRoot_def bindE_step wrapE_step)
  qed
qed

lemma frame_ReissueIntermediate:
  assumes "preserves frame (rp_RootPIN params)" "preserves frame (rp_IntermediatePIN params)"
    "\<And>s. preserves frame (va_GenerateKeyPair ad s
        (key_request (rp_IntermediateCurve params) (rp_IntermediateKeyLabel params) False))"
  shows "preserves frame (ReissueIntermediate lib on_curve ad host opts params)"
  unfolding ReissueIntermediate_def reissue_validate_def Let_def
  by (intro pres_intros frame_checkLogins frame_generateCeremonyKey frame_withTokenLogin
      keep_keyPairExists frame_signIntermediate frame_ops)
    (use assms in auto)

end

end
