(* ===== verification/Signer_Props.thy ===== *)
theory Signer_Props
  imports Signer
begin

text \<open>
  The encoding of an HSM's raw signature read back, and what the loading of the
  intermediate and of a service certificate lets through.
\<close>

section \<open>The DER of a signature\<close>

lemma be_nat_append: "be_nat (a @ b) = be_nat a * 256 ^ length b + be_nat b"
  by (induction a) (simp_all add: algebra_simps power_add)

lemma be_nat_nat_bytes [simp]: "be_nat (nat_bytes n) = n"
proof (induction n rule: nat_bytes.induct)
  case (1 n)
  then show ?case by (cases "n = 0") (simp_all add: nat_bytes.simps [of n] be_nat_append nat_bytes.simps [of 0])
qed

lemma length_nat_bytes: "n < 256 ^ k \<Longrightarrow> length (nat_bytes n) \<le> k"
proof (induction n arbitrary: k rule: nat_bytes.induct)
  case (1 n)
  show ?case
  proof (cases "n = 0")
    case False
    with 1(2) obtain j where k: "k = Suc j" by (cases k) auto
    with 1(2) have "n div 256 < 256 ^ j" by (simp add: less_mult_imp_div_less mult.commute)
    with 1(1) False k show ?thesis by (simp add: nat_bytes.simps [of n])
  qed (simp add: nat_bytes.simps)
qed

lemma be_nat_der_int_body [simp]: "be_nat (der_int_body n) = n"
  by (auto simp: der_int_body_def Let_def) (metis be_nat_nat_bytes be_nat_simps(1))

lemma length_der_int_body: "n < 256 ^ k \<Longrightarrow> length (der_int_body n) \<le> Suc k"
  using length_nat_bytes [of n k] by (auto simp: der_int_body_def Let_def)

text \<open>A reader of a SEQUENCE of two INTEGERs, the short and the one-byte long form of a length.\<close>

fun der_take :: "char \<Rightarrow> bytes \<Rightarrow> (bytes \<times> bytes) option" where
  "der_take tag (t # l # rest) =
     (if t \<noteq> tag then None
      else if (of_char l :: nat) < 128 then
        (if of_char l \<le> length rest then Some (take (of_char l) rest, drop (of_char l) rest) else None)
      else if (of_char l :: nat) = 129 then
        (case rest of [] \<Rightarrow> None
         | l' # rest' \<Rightarrow> if of_char l' \<le> length rest'
                        then Some (take (of_char l') rest', drop (of_char l') rest') else None)
      else None)"
| "der_take tag _ = None"

definition read_signature :: "bytes \<Rightarrow> (nat \<times> nat) option" where
  "read_signature der =
     (case der_take (CHR 0x30) der of
        Some (body, []) \<Rightarrow>
          (case der_take (CHR 0x02) body of
             Some (r, rest) \<Rightarrow> (case der_take (CHR 0x02) rest of
                 Some (s, []) \<Rightarrow> Some (be_nat r, be_nat s)
               | _ \<Rightarrow> None)
           | None \<Rightarrow> None)
      | _ \<Rightarrow> None)"

lemma der_take_length:
  assumes "length body < 256"
  shows "der_take tag (tag # der_length (length body) @ body @ rest) = Some (body, rest)"
proof (cases "length body < 128")
  case False
  have "nat_bytes (length body) = [char_of (length body)]"
    using False assms by (subst nat_bytes.simps) (auto simp: nat_bytes.simps)
  with False assms show ?thesis by (simp add: der_length_def)
qed (simp add: der_length_def)

lemma der_take_int:
  "length (der_int_body n) < 256 \<Longrightarrow> der_take (CHR 0x02) (der_int n @ rest) = Some (der_int_body n, rest)"
  using der_take_length [of "der_int_body n" "CHR 0x02" rest] by (simp add: der_int_def)

text \<open>
  C18: The two numbers of an HSM's raw signature survive the conversion to ASN.1: for
  every raw signature of an even length up to the 132 bytes of P-521, whatever its
  leading zeros and high bits, the encoding reads back as exactly the two halves; an
  empty signature or one of odd length is refused.
\<close>
theorem rawECDSAToASN1_roundtrip:
  assumes "length sig \<le> 132"
  shows "(if sig = [] \<or> odd (length sig) then \<not> is_ok (rawECDSAToASN1 sig)
     else \<exists>der. rawECDSAToASN1 sig = Inr der \<and> read_signature der =
       Some (be_nat (take (length sig div 2) sig), be_nat (drop (length sig div 2) sig)))"
proof (cases "sig = [] \<or> odd (length sig)")
  case False
  define half where "half = length sig div 2"
  define r where "r = be_nat (take half sig)"
  define s where "s = be_nat (drop half sig)"
  from False assms have half: "half \<le> 66" "length sig = 2 * half" by (auto simp: half_def)
  have "r < 256 ^ half" using be_nat_less [of "take half sig"] half by (simp add: r_def)
  then have r: "length (der_int_body r) \<le> 67" using length_der_int_body [of r half] half by simp
  have "s < 256 ^ half" using be_nat_less [of "drop half sig"] half by (simp add: s_def)
  then have s: "length (der_int_body s) \<le> 67" using length_der_int_body [of s half] half by simp
  have "length (der_int n) \<le> 2 + length (der_int_body n)" if "length (der_int_body n) \<le> 67" for n
    using that by (simp add: der_int_def der_length_def)
  from this [OF r] this [OF s] r s have "length (der_int r @ der_int s) < 256" by simp
  from der_take_length [OF this, of "CHR 0x30" "[]"] r s
  have "read_signature (der_sequence (der_int r @ der_int s)) = Some (r, s)"
    using der_take_int [of s "[]"] by (simp add: read_signature_def der_sequence_def der_take_int)
  moreover have "rawECDSAToASN1 sig = Inr (der_sequence (der_int r @ der_int s))"
    using False by (auto simp: rawECDSAToASN1_def Let_def r_def s_def half_def)
  ultimately show ?thesis using False by (simp add: r_def s_def half_def)
qed (auto simp: rawECDSAToASN1_def odd_iff_mod_2_eq_one)

theorem rawECDSAToASN1_roundtrip_witness:
  "\<exists>der. rawECDSAToASN1 [CHR 0x00, CHR 0xFF, CHR 0x01, CHR 0x00] = Inr der \<and>
    read_signature der = Some (255, 256)"
  using rawECDSAToASN1_roundtrip [of "[CHR 0x00, CHR 0xFF, CHR 0x01, CHR 0x00]"] by simp

section \<open>What may act as an issuer or a service\<close>

lemma loadCertPEM_Inr:
  "loadCertPEM lib ReadFile path = Inr cert \<Longrightarrow>
    \<exists>data block rest. ReadFile path = Inr data \<and> lib_pem_decode lib data = Some (block, rest) \<and> is_blank rest \<and>
      lib_parse_certificate lib block = Inr cert"
  by (auto simp: loadCertPEM_def bindR_def wrapR_def split: sum.splits option.splits if_splits prod.splits)

lemma checkIntermediateCert_Inr:
  "checkIntermediateCert lib cert now = Inr u \<longleftrightarrow>
    c_BasicConstraintsValid cert \<and> c_IsCA cert \<and> \<not> check_signature_from lib cert cert \<and> c_MaxPathLenZero cert \<and>
    c_KeyUsage cert AND KU_CertSign \<noteq> 0 \<and> c_KeyUsage cert AND KU_CRLSign \<noteq> 0 \<and>
    c_NotBefore cert \<le> now \<and> now \<le> c_NotAfter cert"
  by (auto simp: checkIntermediateCert_def)

lemma checkServiceCert_Inr:
  "checkServiceCert lib leaf issuer now = Inr u \<longleftrightarrow>
    \<not> c_IsCA leaf \<and> EKU_ServerAuth \<in> set (c_ExtKeyUsage leaf) \<and> c_NotBefore leaf \<le> now \<and> now \<le> c_NotAfter leaf \<and>
    check_signature_from lib leaf issuer"
  by (auto simp: checkServiceCert_def)

lemma checkKeyMatchesCert_Inr:
  "checkKeyMatchesCert pub cert = Inr u \<longleftrightarrow> is_ecdsa pub \<and> c_PublicKey cert = pub"
  by (auto simp: checkKeyMatchesCert_def)


end
