(* ===== verification/Ceremony_Props.thy ===== *)
theory Ceremony_Props
  imports Ceremony Signer_Props
begin

text \<open>
  What the ceremony, the re-issue and the loading of the intermediate guarantee,
  over the shared PKCS#11 adapter and any module: the facts of the locale
  \<open>vendor_adapter\<close> through its interpretation \<open>base\<close>.
\<close>

section \<open>What a result was signed over\<close>

lemma withTokenLogin_Inr:
  "withTokenLogin ad ws pin role fn s = (Inr (x, err), s') \<Longrightarrow>
    \<not> va_TokenLoggedIn ad s \<and> (\<exists>s1 s2. fn s1 = (Inr x, s2))"
  by (auto simp: withTokenLogin_def bindE_def deferE_def split: prod.splits sum.splits if_splits)

text \<open>A DER certificate the library made over a template, and that verifies.\<close>

definition signed_over ::
    "x509_lib \<Rightarrow> certificate \<Rightarrow> certificate \<Rightarrow> public_key \<Rightarrow> public_key \<Rightarrow> bytes \<Rightarrow> bool" where
  "signed_over lib template issuer subjectKey issuerKey der \<longleftrightarrow>
     (\<exists>tbs sig. lib_tbs_certificate lib template issuer subjectKey = Inr tbs \<and>
        lib_verify lib issuerKey tbs sig \<and> der = lib_assemble lib tbs sig)"

lemma create_certificate_signed:
  "create_certificate lib t issuer pub signer s = (Inr der, s') \<Longrightarrow>
    signed_over lib t issuer pub (sg_Public signer) der"
  unfolding signed_over_def by (rule create_certificate_Inr)

lemma signRootAndIntermediate_Inr:
  assumes "signRootAndIntermediate lib on_curve ad host opts p interPub s = (Inr res, s')"
  shows "\<exists>rootPub now rootSerial interSerial rootSKI interSKI rootCert.
    is_ecdsa rootPub \<and> 0 < rootSerial \<and> 0 < interSerial \<and>
    signed_over lib (root_template p now rootSerial rootSKI) (root_template p now rootSerial rootSKI)
      rootPub rootPub (res_RootCertDER res) \<and>
    lib_parse_certificate lib (res_RootCertDER res) = Inr rootCert \<and>
    signed_over lib (intermediate_template (cp_IntermediateSubject p) (cp_IntermediateValidity p)
        (cp_RootCRLURL p) (cp_RootCertURL p) now interSerial interSKI rootSKI)
      rootCert interPub rootPub (res_IntermediateCertDER res)"
  using assms
  by (auto simp: signRootAndIntermediate_def Let_def res_simps split: if_splits
      dest!: create_certificate_signed GenerateSerial_pos) blast

lemma signIntermediate_Inr:
  assumes "signIntermediateUnderExistingRoot lib on_curve ad host opts p root interPub s = (Inr der, s')"
  shows "\<exists>now serial ski. 0 < serial \<and> is_ecdsa (c_PublicKey root) \<and>
    checkRootMaySign lib root (rp_IntermediateValidity p) now = Inr () \<and>
    signed_over lib (intermediate_template (rp_IntermediateSubject p) (rp_IntermediateValidity p)
        (rp_RootCRLURL p) (rp_RootCertURL p) now serial ski (c_SubjectKeyId root))
      root interPub (c_PublicKey root) der"
  using assms
  by (auto simp: signIntermediateUnderExistingRoot_def res_simps checkKeyMatchesCert_def split: if_splits
      dest!: create_certificate_signed GenerateSerial_pos)

section \<open>A token for the evaluated examples\<close>

text \<open>Two tokens, the slots, each with its own labels; a session's handle is its slot.\<close>

definition template_label :: "attribute list \<Rightarrow> string" where
  "template_label tmpl = (case find (\<lambda>a. attr_Type a = AttrLabel) tmpl of Some a \<Rightarrow> attr_Value a | None \<Rightarrow> [])"

definition toy_hsm :: "((nat \<times> string) list \<times> nat list) p11_module" where
  "toy_hsm = dead_module
     \<lparr>C_OpenSession := (\<lambda>slot t. (Inr slot, t)),
      C_GenerateKeyPair := (\<lambda>h _ _ priv (objs, p). (Inr (0, 0), objs @ [(h, template_label priv)], p)),
      C_FindObjectsInit := (\<lambda>h tmpl (objs, p). (Inr (), objs, if (h, template_label tmpl) \<in> set objs then [1] else [])),
      C_FindObjects := (\<lambda>_ _ (objs, p). (Inr p, objs, [])),
      C_GetAttributeValue := (\<lambda>_ _ _ t. (Inr [\<lparr>attr_Type = AttrEcPoint,
        attr_Value = CHR 0x04 # replicate 63 (CHR 0x00) @ [CHR 0x01]\<rparr>], t)),
      C_Sign := (\<lambda>_ _ t. (Inr [CHR 0x01, CHR 0x01], t))\<rparr>"

abbreviation toy_adapter :: "((nat \<times> string) list \<times> nat list) world vendor_adapter" where
  "toy_adapter \<equiv> base_adapter toy_hsm softHSM2Capabilities"

definition slot_ws :: "nat \<Rightarrow> string \<Rightarrow> workspace" where
  "slot_ws slot serial = \<lparr>ws_SlotID = slot, ws_Label = serial, ws_Serial = serial, ws_Present = True\<rparr>"

definition toy_ceremony :: "'s ceremony_params" where
  "toy_ceremony = \<lparr>cp_RootWorkspace = slot_ws 1 ''R'', cp_RootPIN = returnE 0, cp_RootKeyLabel = ''r-v1'',
     cp_RootSubject = common_name ''r'', cp_RootCurve = P256, cp_RootValidity = 0, cp_RootCRLValidity = 0,
     cp_IntermediateWorkspace = slot_ws 2 ''I'', cp_IntermediatePIN = returnE 0,
     cp_IntermediateKeyLabel = ''i-v1'', cp_IntermediateSubject = common_name ''i'',
     cp_IntermediateCurve = P256, cp_IntermediateValidity = 0, cp_RootCRLURL = ''http://h/c'',
     cp_RootCertURL = ''http://h/r'', cp_Role = CryptoOfficer, cp_RootKeyExtractable = False\<rparr>"

definition toy_start :: "((nat \<times> string) list \<times> nat list) world" where
  "toy_start = start_world ([], [])"

lemma toy_ceremony_runs:
  "is_ok (fst (RunCeremony demo_lib (\<lambda>_ _ _. True) True toy_adapter base_host DefaultSessionOptions toy_ceremony toy_start))"
  by code_simp

section \<open>The hierarchy a ceremony leaves\<close>

text \<open>What a template of each tier has to say.\<close>

definition root_policy :: "certificate \<Rightarrow> bool" where
  "root_policy t \<longleftrightarrow> c_BasicConstraintsValid t \<and> c_IsCA t \<and> c_MaxPathLen t = 1 \<and>
     c_KeyUsage t = KU_CertSign OR KU_CRLSign \<and> c_AuthorityKeyId t = c_SubjectKeyId t \<and> 0 < c_SerialNumber t"

definition intermediate_policy :: "certificate \<Rightarrow> bool" where
  "intermediate_policy t \<longleftrightarrow> c_BasicConstraintsValid t \<and> c_IsCA t \<and> c_MaxPathLen t = 0 \<and> c_MaxPathLenZero t \<and>
     c_KeyUsage t = KU_CertSign OR KU_CRLSign \<and> 0 < c_SerialNumber t \<and>
     length (c_CRLDistributionPoints t) = 1 \<and> length (c_IssuingCertificateURL t) = 1 \<and> c_OCSPServer t = []"

lemma root_policy_template: "0 < serial \<Longrightarrow> root_policy (root_template p now serial ski)"
  by (simp add: root_policy_def root_template_def zero_cert_def)

lemma intermediate_policy_template:
  "0 < serial \<Longrightarrow> intermediate_policy (intermediate_template subject v crlURL certURL now serial ski rootSKI)"
  by (simp add: intermediate_policy_def intermediate_template_def zero_cert_def)

lemma ceremony_validate_Inr:
  "ceremony_validate lib rootFirst p = Inr u \<Longrightarrow>
    ws_Serial (cp_RootWorkspace p) \<noteq> ws_Serial (cp_IntermediateWorkspace p) \<and>
    cp_RootKeyLabel p \<noteq> cp_IntermediateKeyLabel p \<and>
    is_ok (ValidateVersionedLabel (cp_RootKeyLabel p)) \<and> is_ok (ValidateVersionedLabel (cp_IntermediateKeyLabel p)) \<and>
    cp_IntermediateValidity p \<le> cp_RootValidity p"
  by (auto simp: ceremony_validate_def res_simps is_ok_def split: if_splits sum.splits)

lemma RunCeremony_Inr:
  assumes "RunCeremony lib on_curve rootFirst ad host opts params s = (Inr (res, err), s')"
  obtains interPub s1 s2 where
    "is_ok (ceremony_validate lib rootFirst (ceremony_defaults params))"
    "signRootAndIntermediate lib on_curve ad host opts (ceremony_defaults params) interPub s1 = (Inr res, s2)"
  using assms
  by (auto simp: RunCeremony_def Let_def res_simps is_ok_def dest!: withTokenLogin_Inr split: if_splits)

text \<open>
  C15: A ceremony that returns a result has made a two-tier hierarchy. The root's
  certificate is self-signed over a CA template with path length one; the
  intermediate's is signed by that same root key over a CA template with path length
  zero, names the root's key as its issuer's, ends no later than the root, and says
  where its own revocation is published. The two tokens and key labels are different
  and both labels are versioned.
\<close>
theorem ceremony_hierarchy:
  assumes "RunCeremony lib on_curve rootFirst ad host opts params s = (Inr (res, err), s')"
  shows "(\<exists>rootT interT rootCert rootPub interPub.
      signed_over lib rootT rootT rootPub rootPub (res_RootCertDER res) \<and>
      lib_parse_certificate lib (res_RootCertDER res) = Inr rootCert \<and>
      signed_over lib interT rootCert interPub rootPub (res_IntermediateCertDER res) \<and>
      is_ecdsa rootPub \<and> root_policy rootT \<and> intermediate_policy interT \<and>
      c_AuthorityKeyId interT = c_SubjectKeyId rootT \<and> c_NotBefore interT = c_NotBefore rootT \<and>
      c_NotAfter interT \<le> c_NotAfter rootT) \<and>
    ws_Serial (cp_RootWorkspace params) \<noteq> ws_Serial (cp_IntermediateWorkspace params) \<and>
    cp_RootKeyLabel params \<noteq> cp_IntermediateKeyLabel params \<and>
    is_ok (ValidateVersionedLabel (cp_RootKeyLabel params)) \<and>
    is_ok (ValidateVersionedLabel (cp_IntermediateKeyLabel params))" (is "?signed \<and> ?params")
proof -
  let ?p = "ceremony_defaults params"
  obtain interPub s1 s2 where v: "is_ok (ceremony_validate lib rootFirst ?p)"
    and sign: "signRootAndIntermediate lib on_curve ad host opts ?p interPub s1 = (Inr res, s2)"
    using RunCeremony_Inr [OF assms] .
  from v obtain u where "ceremony_validate lib rootFirst ?p = Inr u" by (auto simp: is_ok_def split: sum.splits)
  note checked = ceremony_validate_Inr [OF this]
  then have ?params by (simp add: ceremony_defaults_def)
  from signRootAndIntermediate_Inr [OF sign] obtain rootPub now rootSerial interSerial rootSKI interSKI rootCert where
    made: "is_ecdsa rootPub" "0 < rootSerial" "0 < interSerial"
    "signed_over lib (root_template ?p now rootSerial rootSKI) (root_template ?p now rootSerial rootSKI)
      rootPub rootPub (res_RootCertDER res)"
    "lib_parse_certificate lib (res_RootCertDER res) = Inr rootCert"
    "signed_over lib (intermediate_template (cp_IntermediateSubject ?p) (cp_IntermediateValidity ?p)
        (cp_RootCRLURL ?p) (cp_RootCertURL ?p) now interSerial interSKI rootSKI)
      rootCert interPub rootPub (res_IntermediateCertDER res)" by blast
  let ?r = "root_template ?p now rootSerial rootSKI"
  let ?i = "intermediate_template (cp_IntermediateSubject ?p) (cp_IntermediateValidity ?p)
        (cp_RootCRLURL ?p) (cp_RootCertURL ?p) now interSerial interSKI rootSKI"
  have "c_AuthorityKeyId ?i = c_SubjectKeyId ?r \<and> c_NotBefore ?i = c_NotBefore ?r \<and> c_NotAfter ?i \<le> c_NotAfter ?r"
    using checked by (simp add: root_template_def intermediate_template_def zero_cert_def)
  with made root_policy_template [OF made(2)] intermediate_policy_template [OF made(3)] have ?signed by blast
  from this \<open>?params\<close> show ?thesis ..
qed

theorem ceremony_hierarchy_witness:
  "\<exists>res err s' rootT interT rootPub. RunCeremony demo_lib (\<lambda>_ _ _. True) True toy_adapter base_host
      DefaultSessionOptions toy_ceremony toy_start = (Inr (res, err), s') \<and>
    signed_over demo_lib rootT rootT rootPub rootPub (res_RootCertDER res) \<and>
    root_policy rootT \<and> intermediate_policy interT \<and> c_NotAfter interT \<le> c_NotAfter rootT"
proof -
  obtain res err s' where run: "RunCeremony demo_lib (\<lambda>_ _ _. True) True toy_adapter base_host
      DefaultSessionOptions toy_ceremony toy_start = (Inr (res, err), s')"
    using toy_ceremony_runs by (rule is_ok_fstE) (metis surj_pair)
  with ceremony_hierarchy [OF run] show ?thesis by blast
qed

section \<open>Logins and refusals\<close>



text \<open>
  A login that is refused stops the ceremony before anything irreversible: both
  logins are tried first, in the order root, intermediate, and when one fails the
  ceremony returns that error in the state the check left, with every property of the
  tokens that reading calls and logins keep still in place, so no key exists that did
  not exist before.
\<close>
theorem refused_login_creates_nothing:
  fixes m :: "'t p11_module"
  assumes "is_ok (ceremony_validate lib rootFirst (ceremony_defaults params))"
    and "checkLogins (base_adapter m caps) (cp_Role params)
       [(cp_RootWorkspace params, cp_RootPIN params), (cp_IntermediateWorkspace params, cp_IntermediatePIN params)] s =
         (Inl e, s1)"
    and "reading_calls_keep m Q" "Q (w_module s)"
    and "preserves (\<lambda>s. Q (w_module s)) (cp_RootPIN params)" "preserves (\<lambda>s. Q (w_module s)) (cp_IntermediatePIN params)"
  shows "RunCeremony lib on_curve rootFirst (base_adapter m caps) host opts params s = (Inl (Wrap ''ca: ceremony'' e), s1) \<and>
    Q (w_module s1)"
proof -
  let ?tokens = "[(cp_RootWorkspace params, cp_RootPIN params), (cp_IntermediateWorkspace params, cp_IntermediatePIN params)]"
  have "observed m Q = (\<lambda>s. Q (w_module s))"
    using assms(3) by (simp add: observed_def fun_eq_iff)
  then have "preserves (\<lambda>s. Q (w_module s)) (checkLogins (base_adapter m caps) (cp_Role params) ?tokens)"
    using base.frame_checkLogins [of ?tokens m Q] assms(5,6) by simp
  from preserves_snd [OF this, of s] assms(2,4) have "Q (w_module s1)" by simp
  moreover from assms(1) obtain u where "ceremony_validate lib rootFirst (ceremony_defaults params) = Inr u"
    by (auto simp: is_ok_def split: sum.splits)
  ultimately show ?thesis using assms(2)
    by (simp add: RunCeremony_def Let_def bindE_def liftE_def wrapE_def ceremony_defaults_def)
qed

text \<open>A module on which the intermediate's token refuses every login.\<close>

definition refusing_hsm :: "((nat \<times> string) list \<times> nat list) p11_module" where
  "refusing_hsm = toy_hsm\<lparr>C_Login := (\<lambda>h _ _. if h = 2 then throwE (Ckr 160) else returnE ())\<rparr>"

abbreviation toy_params :: "((nat \<times> string) list \<times> nat list) world ceremony_params" where
  "toy_params \<equiv> toy_ceremony"

abbreviation toy_tokens :: "(workspace \<times> ((nat \<times> string) list \<times> nat list) world pin_resolver) list" where
  "toy_tokens \<equiv> [(cp_RootWorkspace toy_params, cp_RootPIN toy_params),
     (cp_IntermediateWorkspace toy_params, cp_IntermediatePIN toy_params)]"

lemma refusing_hsm_refuses:
  "\<not> is_ok (fst (checkLogins (base_adapter refusing_hsm softHSM2Capabilities) (cp_Role toy_params) toy_tokens toy_start))"
  by code_simp

theorem refused_login_creates_nothing_witness:
  "\<exists>e s1. RunCeremony demo_lib (\<lambda>_ _ _. True) True (base_adapter refusing_hsm softHSM2Capabilities) base_host
      DefaultSessionOptions toy_params toy_start = (Inl (Wrap ''ca: ceremony'' e), s1) \<and> fst (w_module s1) = []"
proof -
  obtain r s1 where r: "checkLogins (base_adapter refusing_hsm softHSM2Capabilities) (cp_Role toy_params)
      toy_tokens toy_start = (r, s1)" by fastforce
  with refusing_hsm_refuses obtain e where "r = Inl e" by (cases r) auto
  note refused = r [unfolded this]
  have reads: "reading_calls_keep refusing_hsm (\<lambda>t. fst t = [])"
    by (auto simp: reading_calls_keep_def refusing_hsm_def toy_hsm_def dead_module_def preserves_def
        returnE_def throwE_def)
  have valid: "is_ok (ceremony_validate demo_lib True (ceremony_defaults toy_params))" by code_simp
  from refused_login_creates_nothing [OF valid refused reads] show ?thesis
    by (auto simp: toy_start_def start_world_def toy_ceremony_def preserves_def returnE_def)
qed

section \<open>Re-issuing the intermediate\<close>

lemma checkRootMaySign_Inr:
  "checkRootMaySign lib root v now = Inr u \<longleftrightarrow>
    c_BasicConstraintsValid root \<and> c_IsCA root \<and> c_KeyUsage root AND KU_CertSign \<noteq> 0 \<and>
    check_signature_from lib root root \<and> \<not> c_MaxPathLenZero root \<and>
    c_NotBefore root \<le> now \<and> now \<le> c_NotAfter root \<and>
    now + (if v = 0 then DefaultIntermediateValidity else v) \<le> c_NotAfter root"
  by (auto simp: checkRootMaySign_def Let_def)

lemma reissue_validate_Inr:
  "reissue_validate lib host p s = (Inr u, s') \<Longrightarrow>
    ws_Serial (rp_RootWorkspace p) \<noteq> ws_Serial (rp_IntermediateWorkspace p) \<and>
    rp_RootKeyLabel p \<noteq> rp_IntermediateKeyLabel p \<and>
    is_ok (ValidateVersionedLabel (rp_IntermediateKeyLabel p))"
  by (auto simp: reissue_validate_def res_simps split: if_splits option.splits)

lemma ReissueIntermediate_Inr:
  assumes "ReissueIntermediate lib on_curve ad host opts params s = (Inr (der, err), s')"
  obtains root p interPub s1 s2 s3 where
    "p = params\<lparr>rp_IntermediateValidity := (if rp_IntermediateValidity params = 0
                then DefaultIntermediateValidity else rp_IntermediateValidity params)\<rparr>"
    "reissue_validate lib host p s = (Inr (), s1)" "rp_RootCert params = Some root"
    "signIntermediateUnderExistingRoot lib on_curve ad host opts p root interPub s2 = (Inr der, s3)"
  using assms
  by (auto simp: ReissueIntermediate_def Let_def res_simps dest!: withTokenLogin_Inr split: if_splits option.splits)


text \<open>The re-issue under the toy root, whose certificate the example library reads back.\<close>

definition toy_root :: certificate where
  "toy_root = zero_cert\<lparr>c_BasicConstraintsValid := True, c_IsCA := True, c_KeyUsage := KU_CertSign,
     c_NotAfter := 20 * 365 * 24 * hour, c_PublicKey := EcdsaKey EC_P256 0 1\<rparr>"

definition toy_reissue :: "((nat \<times> string) list \<times> nat list) world reissue_params" where
  "toy_reissue = \<lparr>rp_RootWorkspace = slot_ws 1 ''R'', rp_RootPIN = returnE 0, rp_RootKeyLabel = ''r-v1'',
     rp_RootCurve = P256, rp_RootCert = Some toy_root, rp_Role = CryptoOfficer,
     rp_IntermediateWorkspace = slot_ws 2 ''I'', rp_IntermediatePIN = returnE 0,
     rp_IntermediateKeyLabel = ''i-v2'', rp_IntermediateSubject = common_name ''i'',
     rp_IntermediateCurve = P256, rp_IntermediateValidity = 0, rp_RootCRLURL = ''http://h/c'',
     rp_RootCertURL = ''http://h/r''\<rparr>"

lemma toy_reissue_runs:
  "is_ok (fst (ReissueIntermediate demo_lib (\<lambda>_ _ _. True) toy_adapter base_host DefaultSessionOptions toy_reissue
     (start_world ([(1, ''r-v1''), (2, ''i-v1'')], []))))"
  by code_simp


text \<open>
  A re-issue creates one thing: whatever else happens on the way, errors and
  failed logouts included, any property of the tokens that reading calls, logins and
  the creation of a key pair under the new intermediate's label keep is still in place
  afterwards. In particular no object is destroyed, no key is created under another
  label and the root's key is only used to sign.
\<close>
theorem reissue_creates_only_new_key:
  fixes m :: "'t p11_module"
  assumes "reading_calls_keep m Q"
    and new: "\<And>h mech pub priv. template_label priv = rp_IntermediateKeyLabel params \<Longrightarrow>
        preserves Q (C_GenerateKeyPair m h mech pub priv)"
    and "preserves (\<lambda>s. Q (w_module s)) (rp_RootPIN params)" "preserves (\<lambda>s. Q (w_module s)) (rp_IntermediatePIN params)"
    and "Q (w_module s)"
  shows "Q (w_module (snd (ReissueIntermediate lib on_curve (base_adapter m caps) base_host opts params s)))"
proof -
  have obs: "observed m Q = (\<lambda>s. Q (w_module s))"
    using assms(1) by (simp add: observed_def fun_eq_iff)
  have label: "template_label (private_template (key_request curve (rp_IntermediateKeyLabel params) False) kid) =
      rp_IntermediateKeyLabel params" for curve kid
    by (simp add: template_label_def private_template_def key_request_def NumericAttribute_def attr_bool_def
        attr_bytes_def AttrClass_def AttrKeyType_def AttrToken_def AttrPrivate_def AttrLabel_def)
  have "preserves (observed m Q) (base_GenerateKeyPair m r (key_request curve (rp_IntermediateKeyLabel params) False))"
    for r curve
    unfolding base_GenerateKeyPair_def resolveID_def
    by (intro pres_intros quiet.pres_in_session quiet.pres_rand_Read)
      (auto simp: obs intro!: preserves_onModule new label)
  then have "preserves (observed m Q) (ReissueIntermediate lib on_curve (base_adapter m caps) base_host opts params)"
    by (intro base.frame_ReissueIntermediate) (use assms(3,4) in \<open>simp_all add: obs base_adapter_def\<close>)
  from preserves_snd [OF this] assms(5) show ?thesis by (simp add: obs)
qed

theorem reissue_creates_only_new_key_witness:
  "(1, ''r-v1'') \<in> set (fst (w_module (snd (ReissueIntermediate demo_lib (\<lambda>_ _ _. True) toy_adapter base_host
      DefaultSessionOptions toy_reissue (start_world ([(1, ''r-v1''), (2, ''i-v1'')], []))))))"
proof (rule reissue_creates_only_new_key [where Q = "\<lambda>t. (1, ''r-v1'') \<in> set (fst t)"])
  show "reading_calls_keep toy_hsm (\<lambda>t. (1, ''r-v1'') \<in> set (fst t))"
    by (auto simp: reading_calls_keep_def toy_hsm_def dead_module_def preserves_def returnE_def throwE_def)
qed (auto simp: toy_hsm_def preserves_def returnE_def toy_reissue_def start_world_def)

section \<open>Loading, on the toy token\<close>

definition toy_intermediate :: certificate where
  "toy_intermediate = zero_cert\<lparr>c_BasicConstraintsValid := True, c_IsCA := True, c_MaxPathLenZero := True,
     c_KeyUsage := KU_CertSign OR KU_CRLSign, c_NotAfter := hour, c_PublicKey := EcdsaKey EC_P256 0 1\<rparr>"

definition loading_lib :: x509_lib where
  "loading_lib = demo_lib\<lparr>lib_parse_certificate := (\<lambda>_. Inr toy_intermediate), lib_signature_ok := (\<lambda>_ _. False)\<rparr>"

definition toy_load :: load_intermediate_params where
  "toy_load = \<lparr>li_KeyLabel = ''i-v1'', li_Role = CryptoOfficer, li_CertPath = ''c'', li_Curve = P256, li_CertTTL = 0,
     li_Distribution = \<lparr>ld_CRLURL = ''http://h/c'', ld_IssuerCertURL = ''http://h/r'', ld_OCSPURL = []\<rparr>\<rparr>"

lemma toy_load_runs:
  "is_ok (fst (LoadIntermediate loading_lib (\<lambda>_ _ _. True) toy_adapter base_host (\<lambda>_. Inr ''x'') (slot_ws 2 ''I'')
     DefaultSessionOptions (returnE 0) toy_load (start_world ([(2, ''i-v1'')], []))))"
  by code_simp


end
