(* ===== verification/Responder.thy ===== *)
theory Responder
  imports CA Store Entitlement
begin

text \<open>
  \<^verbatim>\<open>internal/responder\<close>: the delegated OCSP responder. The service state holds what the
  responder and the HTTP server change: the HSM side (adapter, clock, random source), the
  certificate store, the responder's certificate and response cache, and the server's
  cached CRL. \<open>Respond\<close> is split where the code releases its lock: looking up the
  cache, deciding and signing, storing the answer.
\<close>

section \<open>The library\<close>

record ocsp_request =
  oq_HashAlgorithm :: crypto_hash
  oq_IssuerNameHash :: bytes
  oq_IssuerKeyHash :: bytes
  oq_SerialNumber :: "int option"

record ocsp_response =
  op_Status :: int
  op_SerialNumber :: int
  op_ProducedAt :: time
  op_ThisUpdate :: time
  op_NextUpdate :: time
  op_IssuerHash :: crypto_hash
  op_RevokedAt :: time
  op_RevocationReason :: int

text \<open>
  \<^verbatim>\<open>x/crypto/ocsp\<close>, the request side of \<^verbatim>\<open>crypto/x509\<close>, \<^verbatim>\<open>encoding/asn1\<close> and the decoders
  the HTTP handlers call. \<open>sl_key_bits\<close> reads the BIT STRING of a SubjectPublicKeyInfo.
\<close>

record service_lib =
  sl_ocsp_parse_request :: "bytes \<Rightarrow> ocsp_request res"
  sl_ocsp_parse_status :: "bytes \<Rightarrow> int res"
  sl_ocsp_tbs :: "certificate \<Rightarrow> certificate \<Rightarrow> ocsp_response \<Rightarrow> bytes res"
  sl_ocsp_assemble :: "certificate \<Rightarrow> bytes \<Rightarrow> bytes \<Rightarrow> bytes"
  sl_MalformedRequestErrorResponse :: bytes
  sl_UnauthorizedErrorResponse :: bytes
  sl_TryLaterErrorResponse :: bytes
  sl_csr_tbs :: "pkix_name \<Rightarrow> public_key \<Rightarrow> bytes res"
  sl_parse_csr :: "bytes \<Rightarrow> csr res"
  sl_key_bits :: "bytes \<Rightarrow> bytes res"
  sl_pem_block :: "bytes \<Rightarrow> (string \<times> bytes) option"
  sl_json_reason :: "bytes \<Rightarrow> int res"
  sl_path_unescape :: "string \<Rightarrow> string res"
  sl_base64 :: "string \<Rightarrow> bytes res"
  sl_name_string :: "pkix_name \<Rightarrow> string"

definition ocsp_Good :: int where "ocsp_Good = 0"
definition ocsp_Revoked :: int where "ocsp_Revoked = 1"
definition ocsp_Unknown :: int where "ocsp_Unknown = 2"

lemma ocsp_status_neq [simp]:
  "ocsp_Revoked \<noteq> ocsp_Good" "ocsp_Unknown \<noteq> ocsp_Good" "ocsp_Revoked \<noteq> ocsp_Unknown" "ocsp_Good \<noteq> - 1"
  by (simp_all add: ocsp_Good_def ocsp_Revoked_def ocsp_Unknown_def)

text \<open>The library signs a response without checking the signature it got back.\<close>

definition create_response ::
    "service_lib \<Rightarrow> x509_lib \<Rightarrow> certificate \<Rightarrow> certificate \<Rightarrow> ocsp_response \<Rightarrow> 's crypto_signer \<Rightarrow> ('s, bytes) eff" where
  "create_response sl lib issuer cert tmpl signer =
     bindE (liftE (sl_ocsp_tbs sl issuer cert tmpl)) (\<lambda>tbs.
     (let h = lib_hash_for lib (sg_Public signer) in
      bindE (sg_Sign signer (lib_digest lib h tbs) h) (\<lambda>sig. returnE (sl_ocsp_assemble sl cert tbs sig))))"

definition create_request ::
    "service_lib \<Rightarrow> x509_lib \<Rightarrow> pkix_name \<Rightarrow> 's crypto_signer \<Rightarrow> ('s, bytes) eff" where
  "create_request sl lib subject signer =
     bindE (liftE (sl_csr_tbs sl subject (sg_Public signer))) (sign_tbs lib signer)"

section \<open>The service state\<close>

record cached =
  cd_der :: bytes
  cd_nextUpdate :: time

text \<open>\<open>sv_gen\<close> stands for the identity of the certificate pointer, which \<open>Renew\<close> replaces.\<close>

record ('s, 'd) service =
  sv_hsm :: 's
  sv_db :: 'd
  sv_cert :: "certificate option"
  sv_gen :: nat
  sv_cache :: "string \<Rightarrow> cached option"
  sv_cachedCRL :: "bytes option"
  sv_cachedNextUpdate :: time

definition onHsm :: "('s, 'a) eff \<Rightarrow> (('s, 'd) service, 'a) eff" where
  "onHsm f s = (case f (sv_hsm s) of (r, h) \<Rightarrow> (r, s\<lparr>sv_hsm := h\<rparr>))"

definition onStore :: "('d, 'a) eff \<Rightarrow> (('s, 'd) service, 'a) eff" where
  "onStore f s = (case f (sv_db s) of (r, d) \<Rightarrow> (r, s\<lparr>sv_db := d\<rparr>))"

text \<open>\<^verbatim>\<open>time.Now\<close>, which cannot fail.\<close>

definition clock :: "'s host \<Rightarrow> ('s, 'd) service \<Rightarrow> time \<times> ('s, 'd) service" where
  "clock host s = (case h_Now host (sv_hsm s) of (r, h) \<Rightarrow>
     (case r of Inr t \<Rightarrow> t | Inl _ \<Rightarrow> 0, s\<lparr>sv_hsm := h\<rparr>))"

section \<open>The responder\<close>

definition responder_clockSkewAllowance :: duration where
  "responder_clockSkewAllowance = 5 * minute"

record 's responder =
  rs_issuer :: "'s ca"
  rs_signer :: "'s crypto_signer"
  rs_profile :: profile
  rs_subject :: string
  rs_window :: duration
  rs_nameHash :: "crypto_hash \<Rightarrow> bytes option"
  rs_keyHash :: "crypto_hash \<Rightarrow> bytes option"

definition issuerHashes ::
    "service_lib \<Rightarrow> x509_lib \<Rightarrow> certificate \<Rightarrow> ((crypto_hash \<Rightarrow> bytes option) \<times> (crypto_hash \<Rightarrow> bytes option)) res" where
  "issuerHashes sl lib issuer =
     bindR (wrapR ''responder: parsing the issuer's public key info''
        (sl_key_bits sl (c_RawSubjectPublicKeyInfo issuer))) (\<lambda>bits.
     Inr ([SHA1 \<mapsto> lib_sha1 lib (c_RawSubject issuer), SHA256 \<mapsto> lib_sha256 lib (c_RawSubject issuer)],
          [SHA1 \<mapsto> lib_sha1 lib bits, SHA256 \<mapsto> lib_sha256 lib bits]))"

definition Renew ::
    "service_lib \<Rightarrow> x509_lib \<Rightarrow> 's host \<Rightarrow> san_type list \<Rightarrow> 'd store_ifc \<Rightarrow> 's responder \<Rightarrow> (('s, 'd) service, unit) eff" where
  "Renew sl lib host order ops r =
     bindE (wrapE ''creating the responder's request''
        (onHsm (create_request sl lib (common_name (rs_subject r)) (rs_signer r)))) (\<lambda>der.
     bindE (wrapE ''parsing the responder's request'' (liftE (sl_parse_csr sl der))) (\<lambda>csr.
     bindE (wrapE ''issuing the responder certificate''
        (onHsm (Issue lib host order (rs_issuer r) csr (Some (rs_profile r))))) (\<lambda>cert.
     bindE (wrapE ''recording the responder certificate'' (onStore (st_Record ops
        \<lparr>cr_Serial = c_SerialNumber cert, cr_Subject = c_Subject cert, cr_NotAfter = c_NotAfter cert,
         cr_Status = StatusValid, cr_RevokedAt = 0, cr_RevocationReason = 0\<rparr>))) (\<lambda>_.
     modifyE (\<lambda>s. s\<lparr>sv_cert := Some cert, sv_gen := Suc (sv_gen s), sv_cache := Map.empty\<rparr>)))))"

text \<open>\<open>New\<close>: the configuration is checked, then the first certificate is issued.\<close>

record 's responder_config =
  oc_Issuer :: "'s ca option"
  oc_hasRecords :: bool
  oc_Signer :: "'s crypto_signer option"
  oc_Profile :: "profile option"
  oc_Subject :: string
  oc_Validity :: duration

definition responder_New ::
    "service_lib \<Rightarrow> x509_lib \<Rightarrow> 's host \<Rightarrow> san_type list \<Rightarrow> 'd store_ifc \<Rightarrow> 's responder_config \<Rightarrow>
     (('s, 'd) service, 's responder) eff" where
  "responder_New sl lib host order ops cfg =
     (case (oc_Issuer cfg, oc_Signer cfg, oc_Profile cfg) of
        (Some issuer, Some signer, Some prof) \<Rightarrow>
          if \<not> oc_hasRecords cfg then throwE (Errorf ''issuer, records, signer and profile are all required'')
          else if \<not> InternalOnly (p_Name prof) then throwE (Errorf ''not the internal-only profile'')
          else if oc_Validity cfg \<le> 0 then throwE (Errorf ''response validity must be positive'')
          else bindE (liftE (issuerHashes sl lib (ca_cert issuer))) (\<lambda>(nameHash, keyHash).
            let r = \<lparr>rs_issuer = issuer, rs_signer = signer, rs_profile = prof,
                     rs_subject = (if oc_Subject cfg = []
                       then n_CommonName (c_Subject (ca_cert issuer)) @ '' OCSP Responder'' else oc_Subject cfg),
                     rs_window = oc_Validity cfg, rs_nameHash = nameHash, rs_keyHash = keyHash\<rparr> in
            bindE (modifyE (\<lambda>s. s\<lparr>sv_cert := None, sv_gen := 0, sv_cache := Map.empty\<rparr>)) (\<lambda>_.
            bindE (wrapE ''issuing the first responder certificate'' (Renew sl lib host order ops r)) (\<lambda>_.
            returnE r)))
      | _ \<Rightarrow> throwE (Errorf ''issuer, records, signer and profile are all required''))"

definition half_duration :: "duration \<Rightarrow> duration" where
  "half_duration d = (if d < 0 then - (- d div 2) else d div 2)"

definition dueForRenewal :: "certificate option \<Rightarrow> time \<Rightarrow> bool" where
  "dueForRenewal cert now =
     (case cert of
        None \<Rightarrow> True
      | Some c \<Rightarrow> now > c_NotBefore c + half_duration (time_sub (c_NotAfter c) (c_NotBefore c)))"

text \<open>One tick of \<open>RunRenewal\<close>: a failed renewal is logged, and the old certificate stays.\<close>

definition renewal_tick ::
    "service_lib \<Rightarrow> x509_lib \<Rightarrow> 's host \<Rightarrow> san_type list \<Rightarrow> 'd store_ifc \<Rightarrow> 's responder \<Rightarrow> (('s, 'd) service, unit) eff" where
  "renewal_tick sl lib host order ops r s =
     (case clock host s of (now, s1) \<Rightarrow>
        if dueForRenewal (sv_cert s1) now then tryE (Renew sl lib host order ops r) (\<lambda>_. returnE ()) s1
        else (Inr (), s1))"

definition Invalidate :: "('s, 'd) service \<Rightarrow> ('s, 'd) service" where
  "Invalidate s = s\<lparr>sv_cache := Map.empty\<rparr>"

section \<open>Answering\<close>

record outcome =
  oc_Status :: int
  oc_Error :: string
  oc_NextUpdate :: time
  oc_Cached :: bool

type_synonym answer = "bytes \<times> outcome"

definition error_outcome :: "string \<Rightarrow> outcome" where
  "error_outcome e = \<lparr>oc_Status = - 1, oc_Error = e, oc_NextUpdate = 0, oc_Cached = False\<rparr>"

definition malformed :: "service_lib \<Rightarrow> answer" where
  "malformed sl = (sl_MalformedRequestErrorResponse sl, error_outcome ''malformedRequest'')"

definition unauthorized :: "service_lib \<Rightarrow> answer" where
  "unauthorized sl = (sl_UnauthorizedErrorResponse sl, error_outcome ''unauthorized'')"

definition tryLater :: "service_lib \<Rightarrow> answer" where
  "tryLater sl = (sl_TryLaterErrorResponse sl, error_outcome ''tryLater'')"

definition equal_bytes :: "bytes \<Rightarrow> bytes \<Rightarrow> bool" where
  "equal_bytes a b \<longleftrightarrow> length a = length b \<and> list_all (\<lambda>i. a ! i = b ! i) [0..<length a]"

lemma equal_bytes_iff [simp]: "equal_bytes a b \<longleftrightarrow> a = b"
  by (auto simp: equal_bytes_def list_all_iff intro: nth_equalityI)

text \<open>The request itself: its form, its hash, and whose certificate it is about.\<close>

definition request_check :: "service_lib \<Rightarrow> 's responder \<Rightarrow> bytes \<Rightarrow> answer + int \<times> crypto_hash" where
  "request_check sl r reqDER =
     (case sl_ocsp_parse_request sl reqDER of
        Inl _ \<Rightarrow> Inl (malformed sl)
      | Inr req \<Rightarrow>
          (case oq_SerialNumber req of
             None \<Rightarrow> Inl (malformed sl)
           | Some serial \<Rightarrow>
               if serial \<le> 0 then Inl (malformed sl)
               else (case rs_nameHash r (oq_HashAlgorithm req) of
                   None \<Rightarrow> Inl (malformed sl)
                 | Some nameHash \<Rightarrow>
                     if \<not> equal_bytes nameHash (oq_IssuerNameHash req)
                        \<or> \<not> equal_bytes (case rs_keyHash r (oq_HashAlgorithm req) of Some k \<Rightarrow> k | None \<Rightarrow> [])
                             (oq_IssuerKeyHash req)
                     then Inl (unauthorized sl)
                     else Inr (serial, oq_HashAlgorithm req))))"

text \<open>Under the lock: the cached answer, or the certificate to sign under.\<close>

definition cache_lookup ::
    "service_lib \<Rightarrow> int \<Rightarrow> time \<Rightarrow> ('s, 'd) service \<Rightarrow> answer + certificate option \<times> nat" where
  "cache_lookup sl serial now s =
     (case sv_cache s (show_int serial) of
        Some c \<Rightarrow>
          if now < cd_nextUpdate c
          then Inl (cd_der c, \<lparr>oc_Status = (case sl_ocsp_parse_status sl (cd_der c) of Inr st \<Rightarrow> st | Inl _ \<Rightarrow> ocsp_Good),
                 oc_Error = [], oc_NextUpdate = cd_nextUpdate c, oc_Cached = True\<rparr>)
          else Inr (sv_cert s, sv_gen s)
      | None \<Rightarrow> Inr (sv_cert s, sv_gen s))"

definition response_template ::
    "'s responder \<Rightarrow> int \<Rightarrow> crypto_hash \<Rightarrow> time \<Rightarrow> cert_record option \<Rightarrow> ocsp_response" where
  "response_template r serial hash now rec =
     (let t = \<lparr>op_Status = ocsp_Good, op_SerialNumber = serial, op_ProducedAt = now,
               op_ThisUpdate = now - responder_clockSkewAllowance, op_NextUpdate = now + rs_window r,
               op_IssuerHash = hash, op_RevokedAt = 0, op_RevocationReason = 0\<rparr> in
      case rec of
        None \<Rightarrow> t\<lparr>op_Status := ocsp_Unknown\<rparr>
      | Some q \<Rightarrow>
          if cr_Status q = StatusRevoked
          then t\<lparr>op_Status := ocsp_Revoked, op_RevokedAt := cr_RevokedAt q,
                 op_RevocationReason := cr_RevocationReason q\<rparr>
          else t)"

text \<open>Without the lock: the certificate's own window, the store, the signature.\<close>

definition respond_sign ::
    "service_lib \<Rightarrow> x509_lib \<Rightarrow> 'd store_ifc \<Rightarrow> 's responder \<Rightarrow> int \<Rightarrow> crypto_hash \<Rightarrow> time \<Rightarrow> certificate option \<Rightarrow>
     ('s, 'd) service \<Rightarrow> (answer + bytes \<times> ocsp_response \<times> bool) \<times> ('s, 'd) service" where
  "respond_sign sl lib ops r serial hash now cert s =
     (case cert of
        None \<Rightarrow> (Inl (tryLater sl), s)
      | Some c \<Rightarrow>
          if now + responder_clockSkewAllowance < c_NotBefore c \<or> now > c_NotAfter c
          then (Inl (tryLater sl), s)
          else (case onStore (st_Get ops serial) s of
              (Inl _, s1) \<Rightarrow> (Inl (tryLater sl), s1)
            | (Inr rec, s1) \<Rightarrow>
                (let tmpl = response_template r serial hash now rec in
                 case onHsm (create_response sl lib (ca_cert (rs_issuer r)) c tmpl (rs_signer r)) s1 of
                   (Inl _, s2) \<Rightarrow> (Inl (tryLater sl), s2)
                 | (Inr der, s2) \<Rightarrow> (Inr (der, tmpl, rec \<noteq> None), s2))))"

text \<open>Under the lock again: keep the answer if the certificate is still the one it was signed under.\<close>

definition cache_store :: "nat \<Rightarrow> bytes \<Rightarrow> ocsp_response \<Rightarrow> ('s, 'd) service \<Rightarrow> ('s, 'd) service" where
  "cache_store gen der tmpl s =
     (if sv_gen s = gen
      then s\<lparr>sv_cache := (sv_cache s)(show_int (op_SerialNumber tmpl) \<mapsto>
             \<lparr>cd_der = der, cd_nextUpdate = op_NextUpdate tmpl\<rparr>)\<rparr>
      else s)"

definition signed_answer :: "bytes \<Rightarrow> ocsp_response \<Rightarrow> answer" where
  "signed_answer der tmpl = (der, \<lparr>oc_Status = op_Status tmpl, oc_Error = [],
     oc_NextUpdate = op_NextUpdate tmpl, oc_Cached = False\<rparr>)"

definition Respond ::
    "service_lib \<Rightarrow> x509_lib \<Rightarrow> 's host \<Rightarrow> 'd store_ifc \<Rightarrow> 's responder \<Rightarrow> bytes \<Rightarrow> ('s, 'd) service \<Rightarrow>
     answer \<times> ('s, 'd) service" where
  "Respond sl lib host ops r reqDER s =
     (case request_check sl r reqDER of
        Inl a \<Rightarrow> (a, s)
      | Inr (serial, hash) \<Rightarrow>
          (case clock host s of (now, s1) \<Rightarrow>
             (case cache_lookup sl serial now s1 of
                Inl a \<Rightarrow> (a, s1)
              | Inr (cert, gen) \<Rightarrow>
                  (case respond_sign sl lib ops r serial hash now cert s1 of
                     (Inl a, s2) \<Rightarrow> (a, s2)
                   | (Inr (der, tmpl, found), s2) \<Rightarrow>
                       (signed_answer der tmpl, if found then cache_store gen der tmpl s2 else s2)))))"

definition SerialOf :: "service_lib \<Rightarrow> bytes \<Rightarrow> int option res" where
  "SerialOf sl reqDER = bindR (sl_ocsp_parse_request sl reqDER) (\<lambda>req. Inr (oq_SerialNumber req))"

end
