(* ===== verification/Api.thy ===== *)
theory Api
  imports Responder
begin

text \<open>
  \<^verbatim>\<open>internal/api\<close>: the HTTP surface. A handler takes a request and the service state to
  a response and the next state; \<open>surface\<close> says which endpoints each of the two handlers
  routes. The transport, the router's pattern matching, logging and the request timeout
  are \<^verbatim>\<open>net/http\<close>'s. A handler that panics is answered with status 0: the server drops
  the connection.
\<close>

section \<open>Requests and responses\<close>

text \<open>A body as the connection delivers it: bytes, then the end or a read error.\<close>

type_synonym stream = "bytes \<times> go_error option"

datatype read_result = ReadAll bytes | TooLarge | ReadFailed

definition read_max :: "nat \<Rightarrow> stream \<Rightarrow> read_result" where
  "read_max n body =
     (if length (fst body) > n then TooLarge
      else case snd body of None \<Rightarrow> ReadAll (fst body) | Some _ \<Rightarrow> ReadFailed)"

definition read_limit :: "nat \<Rightarrow> stream \<Rightarrow> read_result" where
  "read_limit n body =
     (if length (fst body) \<ge> n then ReadAll (take n (fst body))
      else case snd body of None \<Rightarrow> ReadAll (fst body) | Some _ \<Rightarrow> ReadFailed)"

record http_request =
  rq_VerifiedChains :: "certificate list list option"
  rq_profile :: string
  rq_serial :: string
  rq_request :: string
  rq_ContentLength :: int
  rq_Body :: stream

datatype message = Message string | ErrorText go_error

datatype http_body = NoBody | TextBody string | ErrorBody message | DerBody bytes | PemBody "bytes list"

record http_response =
  hr_Status :: nat
  hr_ContentType :: string
  hr_CacheControl :: string
  hr_Body :: http_body

definition writeError :: "nat \<Rightarrow> message \<Rightarrow> http_response" where
  "writeError status msg = \<lparr>hr_Status = status, hr_ContentType = ''application/json'', hr_CacheControl = [],
     hr_Body = ErrorBody msg\<rparr>"

definition plain :: "nat \<Rightarrow> http_body \<Rightarrow> http_response" where
  "plain status body = \<lparr>hr_Status = status, hr_ContentType = [], hr_CacheControl = [], hr_Body = body\<rparr>"

definition panicked :: http_response where
  "panicked = plain 0 NoBody"

definition max_age :: "time \<Rightarrow> time \<Rightarrow> string" where
  "max_age next now = ''public, max-age='' @
     show_int (if time_sub next now < 0 then 0 else time_sub next now div second) @ '', must-revalidate''"

definition ContentTypeCert :: string where "ContentTypeCert = ''application/pkix-cert''"
definition ContentTypeCRL :: string where "ContentTypeCRL = ''application/pkix-crl''"
definition ContentTypeOCSPResponse :: string where "ContentTypeOCSPResponse = ''application/ocsp-response''"
definition maxCSRBodyBytes :: nat where "maxCSRBodyBytes = 64 * 1024"
definition maxOCSPRequestBytes :: nat where "maxOCSPRequestBytes = 4096"
definition crlClockSkewAllowance :: duration where "crlClockSkewAllowance = 5 * minute"
definition readyzProbeTimeout :: duration where "readyzProbeTimeout = 3 * second"

definition CRLPath :: string where "CRLPath = ''/crl''"
definition IntermediateCertPath :: string where "IntermediateCertPath = ''/intermediate.crt''"
definition OCSPPath :: string where "OCSPPath = ''/ocsp''"

definition trim_right_slashes :: "string \<Rightarrow> string" where
  "trim_right_slashes s = rev (dropWhile (\<lambda>c. c = CHR ''/'') (rev s))"

definition LeafDistributionFor :: "string \<Rightarrow> leaf_distribution" where
  "LeafDistributionFor baseURL =
     (let base = trim_right_slashes baseURL in
      \<lparr>ld_CRLURL = base @ CRLPath, ld_IssuerCertURL = base @ IntermediateCertPath, ld_OCSPURL = []\<rparr>)"

definition LeafDistributionWithOCSP :: "string \<Rightarrow> leaf_distribution" where
  "LeafDistributionWithOCSP baseURL =
     (LeafDistributionFor baseURL)\<lparr>ld_OCSPURL := trim_right_slashes baseURL @ OCSPPath\<rparr>"

section \<open>The server\<close>

record 's api_lib =
  al_sl :: service_lib
  al_lib :: x509_lib
  al_net :: net_lib
  al_host :: "'s host"
  al_order :: "san_type list"

record ('s, 'd) server =
  sr_ca :: "'s ca"
  sr_adapter :: "'s vendor_adapter"
  sr_workspace :: workspace
  sr_store :: "'d store_ifc"
  sr_profiles :: profile_set
  sr_issuers :: entitlement_map
  sr_revokers :: "string list"
  sr_responder :: "'s responder option"
  sr_crlValidity :: duration
  sr_rootCertDER :: bytes
  sr_rootCRLDER :: bytes
  sr_intermediateDER :: bytes

definition serveDERArtifact :: "bytes \<Rightarrow> string \<Rightarrow> string \<Rightarrow> http_response" where
  "serveDERArtifact der contentType what =
     (if der = [] then writeError 503 (Message (what @ '' is not available on this server''))
      else \<lparr>hr_Status = 200, hr_ContentType = contentType,
            hr_CacheControl = ''public, max-age=3600, must-revalidate'', hr_Body = DerBody der\<rparr>)"

section \<open>Who may write\<close>

datatype auth_result = Authorised string | Refused nat string | AuthFailed go_error

definition ClientIdentities :: "certificate \<Rightarrow> string list" where
  "ClientIdentities c =
     c_URIs c @ (if n_CommonName (c_Subject c) \<noteq> [] then [n_CommonName (c_Subject c)] else [])"

definition authenticate ::
    "'s api_lib \<Rightarrow> ('s, 'd) server \<Rightarrow> http_request \<Rightarrow> string list \<Rightarrow> ('s, 'd) service \<Rightarrow> auth_result \<times> ('s, 'd) service" where
  "authenticate al sr rq allowed s =
     (case rq_VerifiedChains rq of
        None \<Rightarrow> (Refused 401 ''this endpoint is served over mutual TLS only'', s)
      | Some ((leaf # _) # _) \<Rightarrow>
          (case onStore (st_Get (sr_store sr) (c_SerialNumber leaf)) s of
             (Inl err, s') \<Rightarrow> (AuthFailed (Wrap ''looking up the client certificate'' err), s')
           | (Inr None, s') \<Rightarrow> (Refused 403 ''the client certificate was not issued by this CA'', s')
           | (Inr (Some rec), s') \<Rightarrow>
               if sl_name_string (al_sl al) (cr_Subject rec) \<noteq> sl_name_string (al_sl al) (c_Subject leaf)
               then (Refused 403 ''the client certificate does not match this CA's record of it'', s')
               else if cr_Status rec = StatusRevoked
               then (Refused 403 ''the client certificate has been revoked'', s')
               else (case find (\<lambda>i. i \<in> set allowed) (ClientIdentities leaf) of
                       Some i \<Rightarrow> (Authorised i, s')
                     | None \<Rightarrow> (Refused 403 ''the client is not authorised for this operation'', s')))
      | Some _ \<Rightarrow> (Refused 401 ''a client certificate is required'', s))"

type_synonym ('s, 'd) handler = "http_request \<Rightarrow> ('s, 'd) service \<Rightarrow> http_response \<times> ('s, 'd) service"

definition requireClient ::
    "'s api_lib \<Rightarrow> ('s, 'd) server \<Rightarrow> string list \<Rightarrow> (string \<Rightarrow> ('s, 'd) handler) \<Rightarrow> ('s, 'd) handler" where
  "requireClient al sr allowed next_handler rq s =
     (case authenticate al sr rq allowed s of
        (Authorised identity, s') \<Rightarrow> next_handler identity rq s'
      | (Refused status msg, s') \<Rightarrow> (writeError status (Message msg), s')
      | (AuthFailed _, s') \<Rightarrow> (writeError 500 (Message ''client authentication failed''), s'))"

section \<open>Issuing\<close>

definition notEntitledMessage :: message where
  "notEntitledMessage = Message ''the client is not entitled to this request''"

definition issueErrorResponse :: "go_error \<Rightarrow> nat \<times> message" where
  "issueErrorResponse err =
     (if errors_is err (CaErr ErrInvalidCSRSignature) then (400, Message ''CSR signature is invalid'')
      else if errors_is err (CaErr ErrEmptySubject) then (400, Message ''CSR subject is empty'')
      else if errors_is err (CaErr ErrDisallowedKeyType) then (400, Message ''CSR public key type is not allowed'')
      else if errors_is err (CaErr ErrNameNotAllowed) \<or> errors_is err (CaErr ErrSubjectNotAllowed)
              \<or> errors_is err (CaErr ErrValidityExceedsPolicy) then (400, ErrorText err)
      else (500, Message ''certificate issuance failed''))"

definition parseCSR :: "service_lib \<Rightarrow> bytes \<Rightarrow> csr res" where
  "parseCSR sl body =
     (case sl_pem_block sl body of
        Some (typ, der) \<Rightarrow>
          if typ \<noteq> ''CERTIFICATE REQUEST'' \<and> typ \<noteq> ''NEW CERTIFICATE REQUEST''
          then Inl (Errorf ''unexpected PEM block type'') else sl_parse_csr sl der
      | None \<Rightarrow> sl_parse_csr sl body)"

definition issued_record :: "certificate \<Rightarrow> cert_record" where
  "issued_record cert = \<lparr>cr_Serial = c_SerialNumber cert, cr_Subject = c_Subject cert,
     cr_NotAfter = c_NotAfter cert, cr_Status = StatusValid, cr_RevokedAt = 0, cr_RevocationReason = 0\<rparr>"

definition handleIssueCertificate ::
    "'s api_lib \<Rightarrow> ('s, 'd) server \<Rightarrow> string \<Rightarrow> ('s, 'd) handler" where
  "handleIssueCertificate al sr identity rq s =
     (case set_Lookup (sr_profiles sr) (rq_profile rq) of
        Inl err \<Rightarrow> (writeError 400 (ErrorText err), s)
      | Inr prof \<Rightarrow>
     (case map_of (sr_issuers sr) identity of
        None \<Rightarrow> (writeError 403 notEntitledMessage, s)
      | Some ent \<Rightarrow>
     (case prof of
        None \<Rightarrow> (panicked, s)
      | Some p \<Rightarrow>
        if \<not> PermitsProfile ent (p_Name p) then (writeError 403 notEntitledMessage, s)
        else
     (case read_max maxCSRBodyBytes (rq_Body rq) of
        TooLarge \<Rightarrow> (writeError 413 (Message ''request body exceeds size limit''), s)
      | ReadFailed \<Rightarrow> (writeError 400 (Message ''reading request body''), s)
      | ReadAll body \<Rightarrow>
     (case parseCSR (al_sl al) body of
        Inl err \<Rightarrow> (writeError 400 (ErrorText (Wrap ''malformed CSR'' err)), s)
      | Inr csr \<Rightarrow>
     (case PermitsNames (al_net al) ent csr of
        Inl _ \<Rightarrow> (writeError 403 notEntitledMessage, s)
      | Inr _ \<Rightarrow>
     (case onHsm (Issue (al_lib al) (al_host al) (al_order al) (sr_ca sr) csr (Some p)) s of
        (Inl err, s1) \<Rightarrow> (case issueErrorResponse err of (status, msg) \<Rightarrow> (writeError status msg, s1))
      | (Inr cert, s1) \<Rightarrow>
     (case onStore (st_Record (sr_store sr) (issued_record cert)) s1 of
        (Inl _, s2) \<Rightarrow> (writeError 500 (Message ''certificate issuance failed''), s2)
      | (Inr _, s2) \<Rightarrow>
          (\<lparr>hr_Status = 201, hr_ContentType = ''application/x-pem-file'', hr_CacheControl = [],
            hr_Body = PemBody [c_Raw cert, c_Raw (ca_cert (sr_ca sr))]\<rparr>, s2)))))))))"

section \<open>Revoking\<close>

definition invalidateCRLCache :: "('s, 'd) service \<Rightarrow> ('s, 'd) service" where
  "invalidateCRLCache s = s\<lparr>sv_cachedCRL := None\<rparr>"

text \<open>The reason a body asks for: none is 0.\<close>

definition revoke_reason :: "service_lib \<Rightarrow> http_request \<Rightarrow> http_response + int" where
  "revoke_reason sl rq =
     (if rq_ContentLength rq = 0 then Inr 0
      else case read_limit 4096 (rq_Body rq) of
          ReadAll body \<Rightarrow>
            if body = [] then Inr 0
            else (case sl_json_reason sl body of
                    Inl _ \<Rightarrow> Inl (writeError 400 (Message ''malformed request body''))
                  | Inr reason \<Rightarrow> Inr reason)
        | _ \<Rightarrow> Inl (writeError 400 (Message ''reading request body'')))"

definition revoke_failure :: "go_error \<Rightarrow> http_response" where
  "revoke_failure err =
     (if errors_is err (StoreErr ErrCertNotFound) then writeError 404 (Message ''certificate not found'')
      else if errors_is err (StoreErr ErrInvalidRevocationReason)
      then writeError 400 (Message ''revocation reason is not a valid RFC 5280 CRLReason'')
      else writeError 500 (Message ''revocation failed''))"

text \<open>Both caches are dropped after the store has recorded the revocation.\<close>

definition drop_caches :: "('s, 'd) server \<Rightarrow> ('s, 'd) service \<Rightarrow> ('s, 'd) service" where
  "drop_caches sr s =
     (case sr_responder sr of None \<Rightarrow> invalidateCRLCache s | Some _ \<Rightarrow> Invalidate (invalidateCRLCache s))"

definition handleRevoke :: "'s api_lib \<Rightarrow> ('s, 'd) server \<Rightarrow> string \<Rightarrow> ('s, 'd) handler" where
  "handleRevoke al sr identity rq s =
     (case set_string (rq_serial rq) of
        None \<Rightarrow> (writeError 400 (Message ''serial must be a decimal integer''), s)
      | Some serial \<Rightarrow>
     (case revoke_reason (al_sl al) rq of
        Inl refusal \<Rightarrow> (refusal, s)
      | Inr reason \<Rightarrow>
     (case clock (al_host al) s of (now, s1) \<Rightarrow>
     (case onStore (st_Revoke (sr_store sr) serial reason now) s1 of
        (Inl err, s2) \<Rightarrow> (revoke_failure err, s2)
      | (Inr _, s2) \<Rightarrow> (plain 204 NoBody, drop_caches sr s2)))))"

section \<open>The CRL\<close>

definition revoked_cert_of :: "cert_record \<Rightarrow> revoked_cert" where
  "revoked_cert_of r = \<lparr>rc_Serial = cr_Serial r, rc_RevokedAt = cr_RevokedAt r, rc_ReasonCode = cr_RevocationReason r\<rparr>"

definition clamp_next :: "('s, 'd) server \<Rightarrow> time \<Rightarrow> time" where
  "clamp_next sr now =
     (let nextUpdate = now + sr_crlValidity sr; issuerNotAfter = c_NotAfter (ca_cert (sr_ca sr)) in
      if nextUpdate > issuerNotAfter then issuerNotAfter else nextUpdate)"

text \<open>What \<open>currentCRL\<close> does under its lock when the cache cannot answer.\<close>

definition regenerate ::
    "'s api_lib \<Rightarrow> ('s, 'd) server \<Rightarrow> time \<Rightarrow> (('s, 'd) service, bytes) eff" where
  "regenerate al sr now =
     bindE (onStore (st_Revoked (sr_store sr))) (\<lambda>records.
     bindE (\<lambda>s. case clock (al_host al) s of (t, s') \<Rightarrow> (Inr t, s')) (\<lambda>t.
     bindE (onStore (st_NextCRLNumber (sr_store sr) t)) (\<lambda>number.
     bindE (onHsm (BuildCRL (al_lib al) (sr_ca sr) (map revoked_cert_of records) (now - crlClockSkewAllowance)
        (clamp_next sr now) (Some number))) (\<lambda>der.
     bindE (modifyE (\<lambda>s. s\<lparr>sv_cachedCRL := Some der, sv_cachedNextUpdate := clamp_next sr now\<rparr>)) (\<lambda>_.
     returnE der)))))"

definition currentCRL :: "'s api_lib \<Rightarrow> ('s, 'd) server \<Rightarrow> (('s, 'd) service, bytes) eff" where
  "currentCRL al sr s =
     (case clock (al_host al) s of (now, s1) \<Rightarrow>
        (case sv_cachedCRL s1 of
           Some der \<Rightarrow> if now < sv_cachedNextUpdate s1 then (Inr der, s1) else regenerate al sr now s1
         | None \<Rightarrow> regenerate al sr now s1))"

definition handleCRL :: "'s api_lib \<Rightarrow> ('s, 'd) server \<Rightarrow> ('s, 'd) handler" where
  "handleCRL al sr rq s =
     (case currentCRL al sr s of
        (Inl _, s1) \<Rightarrow> (writeError 500 (Message ''CRL generation failed''), s1)
      | (Inr der, s1) \<Rightarrow>
          (case clock (al_host al) s1 of (now, s2) \<Rightarrow>
             (\<lparr>hr_Status = 200, hr_ContentType = ContentTypeCRL,
               hr_CacheControl = max_age (sv_cachedNextUpdate s2) now, hr_Body = DerBody der\<rparr>, s2)))"

section \<open>OCSP and probes\<close>

definition serveOCSP :: "'s api_lib \<Rightarrow> ('s, 'd) server \<Rightarrow> 's responder \<Rightarrow> bytes \<Rightarrow> ('s, 'd) service \<Rightarrow>
     http_response \<times> ('s, 'd) service" where
  "serveOCSP al sr resp reqDER s =
     (case Respond (al_sl al) (al_lib al) (al_host al) (sr_store sr) resp reqDER s of
        ((der, outcome), s1) \<Rightarrow>
          if oc_Error outcome \<noteq> []
          then (\<lparr>hr_Status = 200, hr_ContentType = ContentTypeOCSPResponse, hr_CacheControl = ''no-store'',
                 hr_Body = DerBody der\<rparr>, s1)
          else (case clock (al_host al) s1 of (now, s2) \<Rightarrow>
                 (\<lparr>hr_Status = 200, hr_ContentType = ContentTypeOCSPResponse,
                   hr_CacheControl = max_age (oc_NextUpdate outcome) now, hr_Body = DerBody der\<rparr>, s2)))"

definition handleOCSPPost :: "'s api_lib \<Rightarrow> ('s, 'd) server \<Rightarrow> 's responder \<Rightarrow> ('s, 'd) handler" where
  "handleOCSPPost al sr resp rq s =
     (case read_limit (maxOCSPRequestBytes + 1) (rq_Body rq) of
        ReadAll body \<Rightarrow>
          if length body > maxOCSPRequestBytes then (writeError 400 (Message ''reading the OCSP request''), s)
          else serveOCSP al sr resp body s
      | _ \<Rightarrow> (writeError 400 (Message ''reading the OCSP request''), s))"

definition handleOCSPGet :: "'s api_lib \<Rightarrow> ('s, 'd) server \<Rightarrow> 's responder \<Rightarrow> ('s, 'd) handler" where
  "handleOCSPGet al sr resp rq s =
     (let raw = (case sl_path_unescape (al_sl al) (rq_request rq) of Inr u \<Rightarrow> u | Inl _ \<Rightarrow> rq_request rq);
          der = (case sl_base64 (al_sl al) raw of Inr d \<Rightarrow> d | Inl _ \<Rightarrow> []) in
      serveOCSP al sr resp der s)"

definition handleReadyz :: "'s api_lib \<Rightarrow> ('s, 'd) server \<Rightarrow> ('s, 'd) handler" where
  "handleReadyz al sr rq s =
     (case onHsm (va_OpenSession (sr_adapter sr) (sr_workspace sr)
             \<lparr>so_IdleTimeout = readyzProbeTimeout, so_MaxTTL = readyzProbeTimeout\<rparr>) s of
        (Inl _, s1) \<Rightarrow> (writeError 503 (Message ''HSM adapter not ready''), s1)
      | (Inr session, s1) \<Rightarrow>
          (plain 200 (TextBody ''ready''), snd (onHsm (va_CloseSession (sr_adapter sr) session) s1)))"

section \<open>The two surfaces\<close>

datatype endpoint =
    Healthz | Readyz | GetCRL | GetIntermediateCert | GetRootCert | GetRootCRL | PostOCSP | GetOCSP
  | IssueCertificate | RevokeCertificate

definition routePublic :: "('s, 'd) server \<Rightarrow> endpoint list" where
  "routePublic sr = [Healthz, Readyz, GetCRL, GetIntermediateCert, GetRootCert, GetRootCRL] @
     (if sr_responder sr = None then [] else [PostOCSP, GetOCSP])"

datatype surface = Public | Authenticated

fun routes :: "('s, 'd) server \<Rightarrow> surface \<Rightarrow> endpoint list" where
  "routes sr Public = routePublic sr"
| "routes sr Authenticated = routePublic sr @ [IssueCertificate, RevokeCertificate]"

fun handle :: "'s api_lib \<Rightarrow> ('s, 'd) server \<Rightarrow> endpoint \<Rightarrow> ('s, 'd) handler" where
  "handle al sr Healthz rq s = (plain 200 (TextBody ''ok''), s)"
| "handle al sr Readyz rq s = handleReadyz al sr rq s"
| "handle al sr GetCRL rq s = handleCRL al sr rq s"
| "handle al sr GetIntermediateCert rq s =
     (serveDERArtifact (sr_intermediateDER sr) ContentTypeCert ''intermediate certificate'', s)"
| "handle al sr GetRootCert rq s = (serveDERArtifact (sr_rootCertDER sr) ContentTypeCert ''root certificate'', s)"
| "handle al sr GetRootCRL rq s = (serveDERArtifact (sr_rootCRLDER sr) ContentTypeCRL ''root CRL'', s)"
| "handle al sr PostOCSP rq s =
     (case sr_responder sr of None \<Rightarrow> (panicked, s) | Some resp \<Rightarrow> handleOCSPPost al sr resp rq s)"
| "handle al sr GetOCSP rq s =
     (case sr_responder sr of None \<Rightarrow> (panicked, s) | Some resp \<Rightarrow> handleOCSPGet al sr resp rq s)"
| "handle al sr IssueCertificate rq s =
     requireClient al sr (Identities (sr_issuers sr)) (handleIssueCertificate al sr) rq s"
| "handle al sr RevokeCertificate rq s = requireClient al sr (sr_revokers sr) (handleRevoke al sr) rq s"

definition serve :: "'s api_lib \<Rightarrow> ('s, 'd) server \<Rightarrow> surface \<Rightarrow> endpoint \<Rightarrow> ('s, 'd) handler" where
  "serve al sr side ep rq s =
     (if ep \<in> set (routes sr side) then handle al sr ep rq s else (plain 404 NoBody, s))"

end
