(* ===== verification/Api_Props.thy ===== *)
theory Api_Props
  imports Api Store_SQLite Store_Memory
begin

text \<open>
  What the HTTP service does to the certificate records and who may make it do so, proved
  once for any store that keeps the contract of \<open>cert_store\<close>.
\<close>

section \<open>The two sides of the service state\<close>

lemma onHsm_step: "f (sv_hsm s) = (r, h) \<Longrightarrow> onHsm f s = (r, s\<lparr>sv_hsm := h\<rparr>)"
  by (simp add: onHsm_def)

lemma onHsm_keeps:
  assumes "onHsm f s = (r, s')"
  shows "sv_db s' = sv_db s" "sv_cert s' = sv_cert s" "sv_gen s' = sv_gen s" "sv_cache s' = sv_cache s"
    "sv_cachedCRL s' = sv_cachedCRL s" "sv_cachedNextUpdate s' = sv_cachedNextUpdate s"
  using assms by (auto simp: onHsm_def split: prod.splits)

lemma onStore_eq:
  "onStore f s = (r, s') \<longleftrightarrow> (\<exists>d. f (sv_db s) = (r, d) \<and> s' = s\<lparr>sv_db := d\<rparr>)"
  by (auto simp: onStore_def split: prod.splits)

lemma clock_keeps:
  assumes "clock host s = (t, s')"
  shows "sv_db s' = sv_db s" "sv_cert s' = sv_cert s" "sv_gen s' = sv_gen s" "sv_cache s' = sv_cache s"
    "sv_cachedCRL s' = sv_cachedCRL s" "sv_cachedNextUpdate s' = sv_cachedNextUpdate s"
  using assms by (auto simp: clock_def split: prod.splits)

text \<open>A Go template asks the library for a list's bytes: which serials a signed CRL lists.\<close>

definition crl_made :: "x509_lib \<Rightarrow> 's ca \<Rightarrow> bytes \<Rightarrow> revocation_list \<Rightarrow> bool" where
  "crl_made lib c der t \<longleftrightarrow> (\<exists>tbs sig. lib_tbs_crl lib t (ca_cert c) = Inr tbs \<and>
     lib_verify lib (sg_Public (ca_signer c)) tbs sig \<and> der = lib_assemble lib tbs sig)"

definition listed :: "revocation_list \<Rightarrow> int set" where
  "listed t = re_SerialNumber ` set (rl_Entries t)"

lemma BuildCRL_made:
  "BuildCRL lib c revoked thisU nextU number s = (Inr der, s') \<Longrightarrow>
    \<exists>t. crl_made lib c der t \<and> listed t = rc_Serial ` set revoked"
  unfolding crl_made_def listed_def
  by (auto simp: BuildCRL_def crl_template_def wrapE_eq_Inr image_image split: option.splits if_splits
      dest!: create_revocation_list_Inr) force

text \<open>What makes a client one that may write, against the records a store shows.\<close>

definition authorised_client ::
    "service_lib \<Rightarrow> (int \<Rightarrow> cert_record option) \<Rightarrow> http_request \<Rightarrow> string list \<Rightarrow> string \<Rightarrow> bool" where
  "authorised_client sl recs rq allowed i \<longleftrightarrow>
     (\<exists>leaf rest chains rec. rq_VerifiedChains rq = Some ((leaf # rest) # chains) \<and>
        recs (c_SerialNumber leaf) = Some rec \<and> cr_Status rec \<noteq> StatusRevoked \<and>
        sl_name_string sl (cr_Subject rec) = sl_name_string sl (c_Subject leaf) \<and>
        i \<in> set (ClientIdentities leaf) \<and> i \<in> set allowed)"

section \<open>Effects on the records\<close>

context cert_store
begin

text \<open>The records a service shows.\<close>

abbreviation recs :: "('h, 's) service \<Rightarrow> int \<Rightarrow> cert_record option" where
  "recs s \<equiv> view (sv_db s)"

abbreviation ok :: "('h, 's) service \<Rightarrow> bool" where
  "ok s \<equiv> inv (sv_db s)"

text \<open>\<open>same s s'\<close>: the records are untouched and the store is still well-formed.\<close>

definition same :: "('h, 's) service \<Rightarrow> ('h, 's) service \<Rightarrow> bool" where
  "same s s' \<longleftrightarrow> (ok s \<longrightarrow> ok s' \<and> recs s' = recs s)"

lemma same_refl [simp]: "same s s"
  by (simp add: same_def)

lemma same_trans: "same s s' \<Longrightarrow> same s' s'' \<Longrightarrow> same s s''"
  by (simp add: same_def)

lemma same_db: "sv_db s' = sv_db s \<Longrightarrow> same s s'"
  by (simp add: same_def)

lemma same_Get: "onStore (st_Get ops k) s = (r, s') \<Longrightarrow> same s s'"
  using Get_any preservesD [OF inv_Get] unfolding same_def onStore_eq by fastforce

lemma same_Revoked: "onStore (st_Revoked ops) s = (r, s') \<Longrightarrow> same s s'"
  using Revoked_any preservesD [OF inv_Revoked] unfolding same_def onStore_eq by fastforce

lemma same_Next: "onStore (st_NextCRLNumber ops now) s = (r, s') \<Longrightarrow> same s s'"
  using Next_ok Next_err preservesD [OF inv_Next] unfolding same_def onStore_eq
  by (cases r) fastforce+

lemma same_clock: "clock host s = (t, s') \<Longrightarrow> same s s'"
  by (simp add: clock_keeps same_db)

lemma same_onHsm: "onHsm f s = (r, s') \<Longrightarrow> same s s'"
  by (simp add: onHsm_keeps same_db)

lemma onStore_Record:
  assumes "onStore (st_Record ops q) s = (r, s')" "ok s"
  shows "ok s'" "case r of Inl _ \<Rightarrow> recs s' = recs s
    | Inr _ \<Rightarrow> recs s (cr_Serial q) = None \<and> recs s' = (recs s)(cr_Serial q \<mapsto> stored q)"
  using assms Record_ok Record_err preservesD [OF inv_Record] unfolding onStore_eq
  by (auto split: sum.splits)

lemma onStore_Revoke:
  assumes "onStore (st_Revoke ops k reason now) s = (r, s')" "ok s"
  shows "ok s'" "case r of Inl _ \<Rightarrow> recs s' = recs s
    | Inr _ \<Rightarrow> \<exists>q. recs s k = Some q \<and> recs s' = (recs s)(k \<mapsto> revoke_record reason now q)"
  using assms Revoke_ok Revoke_err preservesD [OF inv_Revoke] unfolding onStore_eq
  by (auto split: sum.splits)

text \<open>Answering and publishing only read the records.\<close>

lemma same_respond_sign:
  assumes "respond_sign sl lib ops r serial hash now cert s = (a, s')"
  shows "same s s'"
proof (cases cert)
  case (Some c)
  obtain g s1 where g: "onStore (st_Get ops serial) s = (g, s1)" by fastforce
  note 1 = same_Get [OF g]
  show ?thesis
  proof (cases "now + responder_clockSkewAllowance < c_NotBefore c \<or> now > c_NotAfter c")
    case False
    show ?thesis
    proof (cases g)
      case (Inr rec)
      obtain d s2 where d: "onHsm (create_response sl lib (ca_cert (rs_issuer r)) c
          (response_template r serial hash now rec) (rs_signer r)) s1 = (d, s2)" by fastforce
      note 2 = same_trans [OF 1 same_onHsm [OF d]]
      from assms Some False g Inr d have "s' = s2"
        by (cases d) (simp_all add: respond_sign_def Let_def)
      with 2 show ?thesis by simp
    qed (use assms Some False g 1 in \<open>simp add: respond_sign_def\<close>)
  qed (use assms Some in \<open>simp add: respond_sign_def\<close>)
qed (use assms in \<open>simp add: respond_sign_def\<close>)

lemma cache_store_db [simp]: "sv_db (cache_store gen der tmpl s) = sv_db s"
  by (simp add: cache_store_def)

lemma same_Respond:
  assumes "Respond sl lib host ops r reqDER s = (a, s')"
  shows "same s s'"
proof (cases "request_check sl r reqDER")
  case (Inr p)
  obtain serial hash where p: "p = (serial, hash)" by fastforce
  obtain now s1 where now: "clock host s = (now, s1)" by fastforce
  show ?thesis
  proof (cases "cache_lookup sl serial now s1")
    case (Inr c)
    obtain cert gen where c: "c = (cert, gen)" by fastforce
    obtain b s2 where b: "respond_sign sl lib ops r serial hash now cert s1 = (b, s2)" by fastforce
    have 2: "same s s2" by (rule same_trans [OF same_clock [OF now] same_respond_sign [OF b]])
    have "sv_db s' = sv_db s2"
      using assms \<open>request_check sl r reqDER = Inr p\<close> p now Inr c b
      by (auto simp: Respond_def split: sum.splits prod.splits if_splits)
    with 2 show ?thesis by (simp add: same_def)
  qed (use assms Inr p now same_clock [OF now] in \<open>simp add: Respond_def\<close>)
qed (use assms in \<open>simp add: Respond_def\<close>)

lemma same_regenerate:
  assumes "regenerate al sr now s = (r, s')" "sr_store sr = ops"
  shows "same s s'"
proof -
  obtain r1 s1 where 1: "onStore (st_Revoked ops) s = (r1, s1)" by fastforce
  note m1 = same_Revoked [OF 1]
  show ?thesis
  proof (cases r1)
    case (Inr records)
    obtain t s2 where 2: "clock (al_host al) s1 = (t, s2)" by fastforce
    obtain r3 s3 where 3: "onStore (st_NextCRLNumber ops t) s2 = (r3, s3)" by fastforce
    have m3: "same s s3" by (rule same_trans [OF m1 same_trans [OF same_clock [OF 2] same_Next [OF 3]]])
    show ?thesis
    proof (cases r3)
      case (Inr number)
      obtain r4 s4 where 4: "onHsm (BuildCRL (al_lib al) (sr_ca sr) (map revoked_cert_of records)
          (now - crlClockSkewAllowance) (clamp_next sr now) (Some number)) s3 = (r4, s4)" by fastforce
      have m4: "same s s4" by (rule same_trans [OF m3 same_onHsm [OF 4]])
      have "sv_db s' = sv_db s4"
        using assms 1 2 3 4 \<open>r1 = Inr records\<close> Inr
        by (cases r4) (auto simp: regenerate_def bindE_def)
      with m4 show ?thesis by (simp add: same_def)
    qed (use assms 1 2 3 m3 \<open>r1 = Inr records\<close> in \<open>simp add: regenerate_def bindE_def\<close>)
  qed (use assms 1 m1 in \<open>simp add: regenerate_def bindE_def\<close>)
qed

lemma same_currentCRL:
  assumes "currentCRL al sr s = (r, s')" "sr_store sr = ops"
  shows "same s s'"
proof -
  obtain now s1 where now: "clock (al_host al) s = (now, s1)" by fastforce
  consider "s' = s1" | "regenerate al sr now s1 = (r, s')"
    using assms(1) now by (auto simp: currentCRL_def split: option.splits if_splits)
  then show ?thesis
    using same_clock [OF now] same_regenerate [OF _ assms(2)] same_trans by cases blast+
qed

text \<open>Authentication reads one record and accepts only a client it describes.\<close>

lemma authenticate_effect:
  assumes "authenticate al sr rq allowed s = (a, s')" "sr_store sr = ops" "ok s"
  shows "same s s' \<and> (\<forall>i. a = Authorised i \<longrightarrow> authorised_client (al_sl al) (recs s) rq allowed i)"
proof (cases "\<exists>leaf rest chains. rq_VerifiedChains rq = Some ((leaf # rest) # chains)")
  case True
  then obtain leaf rest chains where ch: "rq_VerifiedChains rq = Some ((leaf # rest) # chains)" by blast
  obtain g s1 where g: "onStore (st_Get ops (c_SerialNumber leaf)) s = (g, s1)" by fastforce
  have "s' = s1 \<and> (\<forall>i. a = Authorised i \<longrightarrow> (\<exists>rec. g = Inr (Some rec) \<and> cr_Status rec \<noteq> StatusRevoked \<and>
      sl_name_string (al_sl al) (cr_Subject rec) = sl_name_string (al_sl al) (c_Subject leaf) \<and>
      i \<in> set (ClientIdentities leaf) \<and> i \<in> set allowed))"
  proof (cases "\<exists>rec. g = Inr (Some rec) \<and> cr_Status rec \<noteq> StatusRevoked \<and>
      sl_name_string (al_sl al) (cr_Subject rec) = sl_name_string (al_sl al) (c_Subject leaf)")
    case True
    then obtain rec where "g = Inr (Some rec)" "cr_Status rec \<noteq> StatusRevoked"
      "sl_name_string (al_sl al) (cr_Subject rec) = sl_name_string (al_sl al) (c_Subject leaf)" by blast
    with assms(1,2) ch g show ?thesis
      by (cases "find (\<lambda>i. i \<in> set allowed) (ClientIdentities leaf)")
        (auto simp: authenticate_def find_Some_iff)
  next
    case False
    with assms(1,2) ch g show ?thesis
      by (cases g) (auto simp: authenticate_def split: option.splits if_splits)
  qed
  note s' = this [THEN conjunct1] and a = this [THEN conjunct2, rule_format]
  from g obtain d where "st_Get ops (c_SerialNumber leaf) (sv_db s) = (g, d)" by (auto simp: onStore_eq)
  from Get_any [OF assms(3) this] have shown: "g = Inr r \<Longrightarrow> recs s (c_SerialNumber leaf) = r" for r by simp
  have "authorised_client (al_sl al) (recs s) rq allowed i" if "a = Authorised i" for i
  proof -
    from a [OF that] obtain rec where "g = Inr (Some rec)" "cr_Status rec \<noteq> StatusRevoked"
      "sl_name_string (al_sl al) (cr_Subject rec) = sl_name_string (al_sl al) (c_Subject leaf)"
      "i \<in> set (ClientIdentities leaf)" "i \<in> set allowed" by blast
    with shown [of "Some rec"] ch show ?thesis
      unfolding authorised_client_def by (intro exI [of _ leaf] exI [of _ rest] exI [of _ chains] exI [of _ rec]) simp
  qed
  with same_Get [OF g] s' show ?thesis by simp
next
  case False
  show ?thesis
  proof (cases "rq_VerifiedChains rq")
    case None
    with assms(1) show ?thesis by (auto simp: authenticate_def)
  next
    case (Some chains)
    then show ?thesis using assms(1) False
      by (cases chains) (auto simp: authenticate_def split: list.splits)
  qed
qed

text \<open>A 201 carries a certificate that is in the records, for a client entitled to it.\<close>

definition issued_effect :: "('h, 's) server \<Rightarrow> 'h api_lib \<Rightarrow> string \<Rightarrow> http_request \<Rightarrow> http_response \<Rightarrow>
    (int \<Rightarrow> cert_record option) \<Rightarrow> (int \<Rightarrow> cert_record option) \<Rightarrow> bool" where
  "issued_effect sr al identity rq resp before after \<longleftrightarrow>
     (\<exists>cert p ent csr body h h'. hr_Body resp = PemBody [c_Raw cert, c_Raw (ca_cert (sr_ca sr))] \<and>
        set_Lookup (sr_profiles sr) (rq_profile rq) = Inr (Some p) \<and>
        map_of (sr_issuers sr) identity = Some ent \<and> PermitsProfile ent (p_Name p) \<and>
        parseCSR (al_sl al) body = Inr csr \<and> PermitsNames (al_net al) ent csr = Inr () \<and>
        Issue (al_lib al) (al_host al) (al_order al) (sr_ca sr) csr (Some p) h = (Inr cert, h') \<and>
        before (c_SerialNumber cert) = None \<and>
        after = before(c_SerialNumber cert \<mapsto> stored (issued_record cert)))"

lemma handleIssue_refusals:
  assumes "handleIssueCertificate al sr identity rq s = (resp, s')"
  shows "s' = s \<and> hr_Status resp \<noteq> 201 \<or>
    (\<exists>p ent body csr. set_Lookup (sr_profiles sr) (rq_profile rq) = Inr (Some p) \<and>
      map_of (sr_issuers sr) identity = Some ent \<and> PermitsProfile ent (p_Name p) \<and>
      read_max maxCSRBodyBytes (rq_Body rq) = ReadAll body \<and> parseCSR (al_sl al) body = Inr csr \<and>
      PermitsNames (al_net al) ent csr = Inr ())"
proof -
  define lk where "lk = set_Lookup (sr_profiles sr) (rq_profile rq)"
  define en where "en = map_of (sr_issuers sr) identity"
  define rd where "rd = read_max maxCSRBodyBytes (rq_Body rq)"
  note A = assms [unfolded handleIssueCertificate_def, folded lk_def en_def rd_def]
  show ?thesis
  proof (cases lk)
    case (Inl e)
    with A show ?thesis by (auto simp: writeError_def)
  next
    case L: (Inr prof)
    show ?thesis
    proof (cases "en = None \<or> prof = None \<or> \<not> PermitsProfile (the en) (p_Name (the prof))")
      case True
      with A L show ?thesis by (cases en; cases prof) (auto simp: writeError_def panicked_def plain_def)
    next
      case False
      then obtain ent p where E: "en = Some ent" "prof = Some p" "PermitsProfile ent (p_Name p)" by auto
      show ?thesis
      proof (cases rd)
        case R: (ReadAll body)
        show ?thesis
        proof (cases "parseCSR (al_sl al) body")
          case (Inl e)
          with A L E R show ?thesis by (auto simp: writeError_def)
        next
          case C: (Inr csr)
          show ?thesis
          proof (cases "PermitsNames (al_net al) ent csr")
            case (Inl e)
            with A L E R C show ?thesis by (auto simp: writeError_def)
          next
            case (Inr u)
            with L E R C show ?thesis by (auto simp: lk_def en_def rd_def)
          qed
        qed
      qed (use A L E in \<open>auto simp: writeError_def\<close>)
    qed
  qed
qed

lemma handleIssue_effect:
  assumes "handleIssueCertificate al sr identity rq s = (resp, s')" "sr_store sr = ops" "ok s"
  shows "ok s' \<and> (if hr_Status resp = 201 then issued_effect sr al identity rq resp (recs s) (recs s')
    else recs s' = recs s)"
proof -
  have err: "(issueErrorResponse e = (st, msg)) \<Longrightarrow> st \<noteq> 201" for e st msg
    by (auto simp: issueErrorResponse_def split: if_splits)
  consider (refused) "s' = s" "hr_Status resp \<noteq> 201"
    | (issue) p ent body csr where "set_Lookup (sr_profiles sr) (rq_profile rq) = Inr (Some p)"
      "map_of (sr_issuers sr) identity = Some ent" "PermitsProfile ent (p_Name p)"
      "read_max maxCSRBodyBytes (rq_Body rq) = ReadAll body" "parseCSR (al_sl al) body = Inr csr"
      "PermitsNames (al_net al) ent csr = Inr ()"
    using handleIssue_refusals [OF assms(1)] by blast
  then show ?thesis
  proof cases
    case refused
    with assms(3) show ?thesis by simp
  next
    case (issue p ent body csr)
    obtain i s1 where i: "onHsm (Issue (al_lib al) (al_host al) (al_order al) (sr_ca sr) csr (Some p)) s = (i, s1)"
      by fastforce
    with same_onHsm [OF i] assms(3) have s1: "ok s1" "recs s1 = recs s" by (simp_all add: same_def)
    show ?thesis
    proof (cases i)
      case (Inl e)
      with assms(1) issue i err s1 show ?thesis
        by (cases "issueErrorResponse e") (auto simp: handleIssueCertificate_def writeError_def)
    next
      case (Inr cert)
      obtain g s2 where g: "onStore (st_Record ops (issued_record cert)) s1 = (g, s2)" by fastforce
      note rec = onStore_Record [OF g s1(1)]
      from i Inr obtain h h' where h: "Issue (al_lib al) (al_host al) (al_order al) (sr_ca sr) csr (Some p) h = (Inr cert, h')"
        by (auto simp: onHsm_def split: prod.splits)
      show ?thesis
      proof (cases g)
        case (Inl e)
        with assms(1,2) issue i Inr g rec s1 show ?thesis
          by (auto simp: handleIssueCertificate_def writeError_def)
      next
        case G: (Inr u)
        with rec s1 have r: "recs s (c_SerialNumber cert) = None"
          "recs s2 = (recs s)(c_SerialNumber cert \<mapsto> stored (issued_record cert))"
          by (simp_all add: issued_record_def)
        from assms(1,2) issue i Inr g G have "s' = s2" "hr_Status resp = 201"
          "hr_Body resp = PemBody [c_Raw cert, c_Raw (ca_cert (sr_ca sr))]"
          by (auto simp: handleIssueCertificate_def)
        with r rec(1) issue h show ?thesis unfolding issued_effect_def by (simp del: split_paired_Ex) blast
      qed
    qed
  qed
qed

lemma drop_caches_db [simp]: "sv_db (drop_caches sr s) = sv_db s"
  by (simp add: drop_caches_def Invalidate_def invalidateCRLCache_def split: option.split)

lemma handleRevoke_effect:
  assumes "handleRevoke al sr identity rq s = (resp, s')" "sr_store sr = ops" "ok s"
  shows "ok s' \<and> (recs s' = recs s \<or>
    (\<exists>k reason now q. recs s k = Some q \<and> recs s' = (recs s)(k \<mapsto> revoke_record reason now q)))"
proof (cases "set_string (rq_serial rq)")
  case (Some k)
  show ?thesis
  proof (cases "revoke_reason (al_sl al) rq")
    case (Inr reason)
    obtain now s1 where c: "clock (al_host al) s = (now, s1)" by fastforce
    with same_clock [OF c] assms(3) have s1: "ok s1" "recs s1 = recs s" by (simp_all add: same_def)
    obtain g s2 where g: "onStore (st_Revoke ops k reason now) s1 = (g, s2)" by fastforce
    note r = onStore_Revoke [OF g s1(1)]
    from assms(1,2) Some Inr c g have "sv_db s' = sv_db s2"
      by (cases g) (auto simp: handleRevoke_def)
    with r s1 show ?thesis by (cases g) auto
  qed (use assms Some in \<open>simp add: handleRevoke_def\<close>)
qed (use assms in \<open>simp add: handleRevoke_def\<close>)

lemma same_serveOCSP:
  assumes "serveOCSP al sr resp reqDER s = (h, s')" "sr_store sr = ops"
  shows "same s s'"
proof -
  obtain der out s1 where 1: "Respond (al_sl al) (al_lib al) (al_host al) ops resp reqDER s = ((der, out), s1)"
    by (metis surj_pair)
  with same_Respond [OF 1] assms show ?thesis
    by (auto simp: serveOCSP_def clock_keeps same_def split: if_splits prod.splits)
qed

lemma same_handleCRL:
  assumes "handleCRL al sr rq s = (h, s')" "sr_store sr = ops"
  shows "same s s'"
proof -
  obtain r s1 where 1: "currentCRL al sr s = (r, s1)" by fastforce
  obtain now s2 where 2: "clock (al_host al) s1 = (now, s2)" by fastforce
  from same_currentCRL [OF 1 assms(2)] same_clock [OF 2] assms(1) 1 2 show ?thesis
    by (cases r) (auto simp: handleCRL_def same_def)
qed

lemma same_handleReadyz:
  assumes "handleReadyz al sr rq s = (h, s')"
  shows "same s s'"
proof -
  obtain r s1 where 1: "onHsm (va_OpenSession (sr_adapter sr) (sr_workspace sr)
      \<lparr>so_IdleTimeout = readyzProbeTimeout, so_MaxTTL = readyzProbeTimeout\<rparr>) s = (r, s1)" by fastforce
  show ?thesis
  proof (cases r)
    case (Inr session)
    obtain r' s2 where "onHsm (va_CloseSession (sr_adapter sr) session) s1 = (r', s2)" by fastforce
    with assms 1 Inr same_trans [OF same_onHsm [OF 1] same_onHsm [OF this]] show ?thesis
      by (simp add: handleReadyz_def)
  qed (use assms 1 same_onHsm [OF 1] in \<open>simp add: handleReadyz_def\<close>)
qed

text \<open>Every public endpoint only reads the records.\<close>

lemma same_public:
  assumes "handle al sr ep rq s = (resp, s')" "sr_store sr = ops" "ep \<notin> {IssueCertificate, RevokeCertificate}"
  shows "same s s'"
  using assms(1,3)
  by (cases ep) (auto simp: handleOCSPPost_def handleOCSPGet_def Let_def
      split: option.splits read_result.splits if_splits
      intro: same_handleCRL [OF _ assms(2)] same_handleReadyz same_serveOCSP [OF _ assms(2)])

lemma requireClient_effect:
  assumes "requireClient al sr allowed next_handler rq s = (resp, s')" "sr_store sr = ops" "ok s"
  shows "same s s' \<or> (\<exists>i s1. authorised_client (al_sl al) (recs s) rq allowed i \<and> ok s1 \<and> recs s1 = recs s \<and>
    next_handler i rq s1 = (resp, s'))"
proof -
  obtain a s1 where a: "authenticate al sr rq allowed s = (a, s1)" by fastforce
  note eff = authenticate_effect [OF a assms(2,3)]
  show ?thesis
  proof (cases a)
    case (Authorised i)
    with eff assms(1,3) a show ?thesis by (auto simp: requireClient_def same_def)
  qed (use eff assms(1) a in \<open>auto simp: requireClient_def\<close>)
qed

lemma serve_effect:
  assumes "serve al sr side ep rq s = (resp, s')" "sr_store sr = ops" "ok s" "recs s' \<noteq> recs s"
  shows "side = Authenticated \<and>
    (ep = IssueCertificate \<and>
       (\<exists>i cert. authorised_client (al_sl al) (recs s) rq (Identities (sr_issuers sr)) i \<and>
          recs s (c_SerialNumber cert) = None \<and> recs s' = (recs s)(c_SerialNumber cert \<mapsto> stored (issued_record cert))) \<or>
     ep = RevokeCertificate \<and>
       (\<exists>i k q reason now. authorised_client (al_sl al) (recs s) rq (sr_revokers sr) i \<and>
          recs s k = Some q \<and> recs s' = (recs s)(k \<mapsto> revoke_record reason now q)))"
proof -
  have h: "ep \<in> set (routes sr side)" "handle al sr ep rq s = (resp, s')"
    using assms(1,4) by (auto simp: serve_def split: if_splits)
  have "\<not> same s s'" using assms(3,4) by (simp add: same_def)
  with same_public [OF h(2) assms(2)] have ep: "ep = IssueCertificate \<or> ep = RevokeCertificate" by blast
  with h(1) have side: "side = Authenticated" by (cases side) (auto simp: routePublic_def split: if_splits)
  from ep show ?thesis
  proof
    assume E: "ep = IssueCertificate"
    with h have "requireClient al sr (Identities (sr_issuers sr)) (handleIssueCertificate al sr) rq s = (resp, s')"
      by simp
    from requireClient_effect [OF this assms(2,3)] \<open>\<not> same s s'\<close> obtain i s1 where
      i: "authorised_client (al_sl al) (recs s) rq (Identities (sr_issuers sr)) i" "ok s1" "recs s1 = recs s"
      "handleIssueCertificate al sr i rq s1 = (resp, s')" by blast
    from handleIssue_effect [OF i(4) assms(2) i(2)] i(3) assms(4) obtain cert where
      "recs s (c_SerialNumber cert) = None" "recs s' = (recs s)(c_SerialNumber cert \<mapsto> stored (issued_record cert))"
      by (auto simp: issued_effect_def split: if_splits)
    with i(1) E side show ?thesis by blast
  next
    assume E: "ep = RevokeCertificate"
    with h have "requireClient al sr (sr_revokers sr) (handleRevoke al sr) rq s = (resp, s')" by simp
    from requireClient_effect [OF this assms(2,3)] \<open>\<not> same s s'\<close> obtain i s1 where
      i: "authorised_client (al_sl al) (recs s) rq (sr_revokers sr) i" "ok s1" "recs s1 = recs s"
      "handleRevoke al sr i rq s1 = (resp, s')" by blast
    from handleRevoke_effect [OF i(4) assms(2) i(2)] i(3) assms(4) obtain k reason now q where
      "recs s k = Some q" "recs s' = (recs s)(k \<mapsto> revoke_record reason now q)" by auto
    with i(1) E side show ?thesis by blast
  qed
qed

end

section \<open>Who changes the records\<close>

text \<open>A service over the two stores for the evaluated examples; nothing answers OCSP on it.\<close>

definition plain_sl :: service_lib where
  "plain_sl = \<lparr>sl_ocsp_parse_request = (\<lambda>b. case b of [] \<Rightarrow> Inl (Errorf ''asn1'')
       | c # _ \<Rightarrow> Inr \<lparr>oq_HashAlgorithm = SHA1, oq_IssuerNameHash = [], oq_IssuerKeyHash = [], oq_SerialNumber = Some (of_char c)\<rparr>),
     sl_ocsp_parse_status = (\<lambda>b. Inr (case b of c # _ \<Rightarrow> of_char c | [] \<Rightarrow> 0)),
     sl_ocsp_tbs = (\<lambda>_ _ t. Inr (if op_Status t = 0 then [CHR 0x00] else if op_Status t = 1 then [CHR 0x01] else [CHR 0x02])),
     sl_ocsp_assemble = (\<lambda>_ tbs _. tbs), sl_MalformedRequestErrorResponse = [],
     sl_UnauthorizedErrorResponse = [], sl_TryLaterErrorResponse = [],
     sl_csr_tbs = (\<lambda>_ _. Inr []), sl_parse_csr = (\<lambda>_. Inr demo_csr), sl_key_bits = (\<lambda>_. Inr []),
     sl_pem_block = (\<lambda>_. None), sl_json_reason = (\<lambda>_. Inr 1), sl_path_unescape = Inr, sl_base64 = Inr,
     sl_name_string = n_CommonName\<rparr>"

definition plain_host :: "'s host" where
  "plain_host = \<lparr>h_Now = returnE (1000 * hour), h_Rand = (\<lambda>n. returnE (replicate (n - 1) (CHR 0x00) @ [CHR 0x07]))\<rparr>"

definition plain_api :: "'s api_lib" where
  "plain_api = \<lparr>al_sl = plain_sl, al_lib = demo_lib, al_net = no_net, al_host = plain_host, al_order = [SANDNS, SANIP, SANURI, SANEmail]\<rparr>"

definition plain_server :: "'d store_ifc \<Rightarrow> (unit, 'd) server" where
  "plain_server ops = \<lparr>sr_ca = demo_ca, sr_adapter = undefined, sr_workspace = zero_workspace, sr_store = ops,
     sr_profiles = [(''web'', Some demo_profile)], sr_issuers = [], sr_revokers = [''op''], sr_responder = None,
     sr_crlValidity = hour, sr_rootCertDER = [], sr_rootCRLDER = [], sr_intermediateDER = []\<rparr>"

definition plain_service :: "'d \<Rightarrow> (unit, 'd) service" where
  "plain_service d = \<lparr>sv_hsm = (), sv_db = d, sv_cert = None, sv_gen = 0, sv_cache = Map.empty,
     sv_cachedCRL = None, sv_cachedNextUpdate = 0\<rparr>"

text \<open>
  C20: The certificate records change in exactly two ways. Whatever request arrives on
  whichever surface, if it changes them, it came on the mutually authenticated surface
  from a client whose own certificate is in the records, under its name and not
  revoked, and one of whose identities the configuration lists for that operation; an
  issuance adds one record under a serial that was free, and a revocation marks one
  existing record.
\<close>
theorem records_change_only_by_authorised_clients:
  assumes "serve al sr side ep rq s = (resp, s')" "sr_store sr = sqlite_store codec" "sqlite_inv codec (sv_db s)"
    and "sqlite_view codec (sv_db s') \<noteq> sqlite_view codec (sv_db s)"
  shows "side = Authenticated \<and>
    (ep = IssueCertificate \<and>
       (\<exists>i cert. authorised_client (al_sl al) (sqlite_view codec (sv_db s)) rq (Identities (sr_issuers sr)) i \<and>
          sqlite_view codec (sv_db s) (c_SerialNumber cert) = None \<and>
          sqlite_view codec (sv_db s') =
            (sqlite_view codec (sv_db s))(c_SerialNumber cert \<mapsto> sqlite_stored (issued_record cert))) \<or>
     ep = RevokeCertificate \<and>
       (\<exists>i k q reason now. authorised_client (al_sl al) (sqlite_view codec (sv_db s)) rq (sr_revokers sr) i \<and>
          sqlite_view codec (sv_db s) k = Some q \<and>
          sqlite_view codec (sv_db s') = (sqlite_view codec (sv_db s))(k \<mapsto> revoke_record reason now q)))"
  using assms by (rule sql.serve_effect)

text \<open>An operator revoking serial 5.\<close>

definition op_record :: "int \<Rightarrow> cert_record" where
  "op_record k = (plain_record k)"

definition op_leaf :: certificate where
  "op_leaf = zero_cert\<lparr>c_SerialNumber := 9, c_URIs := [''op'']\<rparr>"

definition revoke_request :: http_request where
  "revoke_request = \<lparr>rq_VerifiedChains = Some [[op_leaf]], rq_profile = [], rq_serial = ''5'', rq_request = [],
     rq_ContentLength = 0, rq_Body = ([], None)\<rparr>"

definition two_records :: sqlite where
  "two_records = snd (sqlite_Record empty_codec (op_record 9) (snd (sqlite_Record empty_codec (op_record 5) quiet_db)))"

lemma two_records_inv: "sqlite_inv empty_codec two_records"
  unfolding two_records_def
  using preserves_snd [OF sql.inv_Record preserves_snd [OF sql.inv_Record quiet_db_inv]] by simp

theorem records_change_only_by_authorised_clients_witness:
  "\<exists>resp s' i. serve plain_api (plain_server (sqlite_store empty_codec)) Authenticated RevokeCertificate revoke_request
      (plain_service two_records) = (resp, s') \<and>
    authorised_client plain_sl (sqlite_view empty_codec two_records) revoke_request [''op''] i"
proof -
  let ?go = "serve plain_api (plain_server (sqlite_store empty_codec)) Authenticated RevokeCertificate revoke_request
      (plain_service two_records)"
  have "map_option cr_Status (sqlite_view empty_codec (sv_db (snd ?go)) 5) \<noteq>
      map_option cr_Status (sqlite_view empty_codec two_records 5)"
    by code_simp
  then have changed: "sqlite_view empty_codec (sv_db (snd ?go)) \<noteq> sqlite_view empty_codec (sv_db (plain_service two_records))"
    by (auto simp: plain_service_def)
  have inv: "sqlite_inv empty_codec (sv_db (plain_service two_records))"
    by (simp add: plain_service_def two_records_inv)
  have ops: "sr_store (plain_server (sqlite_store empty_codec)) = sqlite_store empty_codec"
    by (simp add: plain_server_def)
  from records_change_only_by_authorised_clients [OF prod.collapse [symmetric] ops inv changed]
  have "\<exists>i. authorised_client plain_sl (sqlite_view empty_codec two_records) revoke_request [''op''] i"
    by (auto simp: plain_api_def plain_server_def plain_service_def)
  moreover obtain resp s' where "?go = (resp, s')" by (cases ?go)
  ultimately show ?thesis by blast
qed

text \<open>
  C21: Nothing is handed out that is not on record. Over any store that keeps the
  contract (here SQLite, whatever statement fails), a request for a certificate changes
  the records exactly when it is answered 201, and then the certificate in the body was
  issued under the profile the request named, which exists and which the client's
  entitlement grants, for a request whose names it permits, and is recorded as valid
  under its serial, which was free.
\<close>
theorem issued_certificate_is_recorded:
  assumes "handleIssueCertificate al sr identity rq s = (resp, s')" "sr_store sr = sqlite_store codec"
    "sqlite_inv codec (sv_db s)"
  shows "if hr_Status resp = 201
    then \<exists>cert p ent csr body h h'. hr_Body resp = PemBody [c_Raw cert, c_Raw (ca_cert (sr_ca sr))] \<and>
        set_Lookup (sr_profiles sr) (rq_profile rq) = Inr (Some p) \<and>
        map_of (sr_issuers sr) identity = Some ent \<and> PermitsProfile ent (p_Name p) \<and>
        parseCSR (al_sl al) body = Inr csr \<and> PermitsNames (al_net al) ent csr = Inr () \<and>
        Issue (al_lib al) (al_host al) (al_order al) (sr_ca sr) csr (Some p) h = (Inr cert, h') \<and>
        sqlite_view codec (sv_db s) (c_SerialNumber cert) = None \<and>
        sqlite_view codec (sv_db s') =
          (sqlite_view codec (sv_db s))(c_SerialNumber cert \<mapsto> sqlite_stored (issued_record cert))
    else sqlite_view codec (sv_db s') = sqlite_view codec (sv_db s)"
  using sql.handleIssue_effect [OF assms] unfolding sql.issued_effect_def by presburger

text \<open>A client entitled to one profile and two names asks for them.\<close>

definition entitled_server :: "'d store_ifc \<Rightarrow> (unit, 'd) server" where
  "entitled_server ops = (plain_server ops)\<lparr>sr_issuers :=
     (case entitlement_Parse no_net [(''op'', \<lparr>es_Profiles = [''tls-server''], es_Names = [''cn:w'', ''dns:w.*'']\<rparr>)] of
        Inr m \<Rightarrow> m | Inl _ \<Rightarrow> [])\<rparr>"

definition issue_request :: http_request where
  "issue_request = revoke_request\<lparr>rq_profile := ''web'', rq_Body := (''x'', None)\<rparr>"


lemma issue_request_read: "read_max maxCSRBodyBytes (rq_Body issue_request) = ReadAll ''x''"
  by (simp add: read_max_def issue_request_def maxCSRBodyBytes_def)

lemma issue_runs: "is_ok (fst (Issue demo_lib plain_host [SANDNS, SANIP, SANURI, SANEmail] demo_ca demo_csr (Some demo_profile) ()))"
  by code_simp

lemma issue_entitled:
  "case map_of (sr_issuers (entitled_server (sqlite_store empty_codec))) ''op'' of None \<Rightarrow> False
    | Some e \<Rightarrow> PermitsProfile e (p_Name demo_profile) \<and> is_ok (PermitsNames no_net e demo_csr)"
  by code_simp

lemma issue_recorded: "is_ok (fst (sqlite_Record empty_codec (issued_record zero_cert) quiet_db))"
  by code_simp

theorem issued_certificate_is_recorded_witness:
  "\<exists>resp s' r. handleIssueCertificate plain_api (entitled_server (sqlite_store empty_codec)) ''op'' issue_request
      (plain_service quiet_db) = (resp, s') \<and> hr_Status resp = 201 \<and>
    sqlite_view empty_codec (sv_db s') 0 = Some r \<and> cr_Status r = StatusValid"
proof -
  let ?go = "handleIssueCertificate plain_api (entitled_server (sqlite_store empty_codec)) ''op'' issue_request
      (plain_service quiet_db)"
  have st: "hr_Status (fst ?go) = 201"
  proof -
    from issue_runs obtain cert where i: "Issue demo_lib plain_host [SANDNS, SANIP, SANURI, SANEmail] demo_ca demo_csr
        (Some demo_profile) () = (Inr cert, ())" by (rule is_ok_fstE) simp
    then have "cert = zero_cert" by (auto simp: Issue_def res_simps demo_lib_def)
    moreover from issue_entitled obtain e where "map_of (sr_issuers (entitled_server (sqlite_store empty_codec))) ''op'' = Some e"
      "PermitsProfile e (p_Name demo_profile)" "PermitsNames no_net e demo_csr = Inr ()"
      by (auto simp: is_ok_iff split: option.splits)
    moreover obtain d where "sqlite_Record empty_codec (issued_record zero_cert) quiet_db = (Inr (), d)"
      using issue_recorded by (rule is_ok_fstE) simp
    ultimately show ?thesis using i issue_request_read
      by (simp add: handleIssueCertificate_def set_Lookup_def plain_api_def entitled_server_def plain_server_def
          plain_service_def issue_request_def revoke_request_def parseCSR_def plain_sl_def onHsm_def onStore_def sqlite_store_def)
  qed
  have inv: "sqlite_inv empty_codec (sv_db (plain_service quiet_db))"
    by (simp add: plain_service_def quiet_db_inv)
  have ops: "sr_store (entitled_server (sqlite_store empty_codec)) = sqlite_store empty_codec"
    by (simp add: entitled_server_def plain_server_def)
  note all = issued_certificate_is_recorded [OF surjective_pairing ops inv, where al = plain_api and identity = "''op''"
      and rq = issue_request]
  from all [unfolded if_P [OF st]] obtain cert p h h' csr where
    "Issue (al_lib (plain_api :: unit api_lib)) (al_host plain_api) (al_order (plain_api :: unit api_lib))
       (sr_ca (entitled_server (sqlite_store empty_codec))) csr (Some p) h = (Inr cert, h')"
    "sqlite_view empty_codec (sv_db (snd ?go)) =
      (sqlite_view empty_codec (sv_db (plain_service quiet_db)))(c_SerialNumber cert \<mapsto> sqlite_stored (issued_record cert))"
    by blast
  moreover from this(1) have "cert = zero_cert"
    by (auto simp: Issue_def res_simps plain_api_def demo_lib_def)
  ultimately have "sqlite_view empty_codec (sv_db (snd ?go)) 0 = Some (sqlite_stored (issued_record zero_cert))"
    by (simp add: zero_cert_def)
  with st show ?thesis
    by (intro exI [of _ "fst ?go"] exI [of _ "snd ?go"] exI [of _ "sqlite_stored (issued_record zero_cert)"])
      (simp add: sqlite_stored_def issued_record_def)
qed

end
