(* ===== verification/Service_Steps.thy ===== *)
theory Service_Steps
  imports Api_Props
begin

text \<open>
  The service under concurrent requests. A handler runs as the atomic sections the code
  gives it: a store operation, a section under the CRL lock or under the responder's
  lock. \<open>currentCRL\<close> holds its lock across the store and the token; a revocation is three
  sections (the store, the CRL cache, the response cache), and so is an OCSP answer (look
  up the cache, read the store and sign, keep the answer).
\<close>

section \<open>Steps\<close>

datatype ocsp_thread =
    LookedUp int crypto_hash time "certificate option" nat
  | Signed nat bytes ocsp_response

record ('s, 'd) running =
  rn_service :: "('s, 'd) service"
  rn_revoking :: "int list"
  rn_dropped :: "int list"
  rn_revoked :: "int set"
  rn_ocsp :: "ocsp_thread list"

definition start_service :: "('s, 'd) service \<Rightarrow> ('s, 'd) running" where
  "start_service s = \<lparr>rn_service = s, rn_revoking = [], rn_dropped = [], rn_revoked = {}, rn_ocsp = []\<rparr>"

text \<open>
  \<open>rn_revoking\<close> holds the serials whose revocation is in the store while the handler has
  yet to drop the CRL cache, \<open>rn_dropped\<close> those that have yet to drop the response cache,
  \<open>rn_revoked\<close> those answered with 204.
\<close>

inductive service_step ::
    "'s api_lib \<Rightarrow> ('s, 'd) server \<Rightarrow> 's responder \<Rightarrow> ('s, 'd) running \<Rightarrow> ('s, 'd) running \<Rightarrow> bool"
  for al sr resp where
  revoke: "clock (al_host al) (rn_service c) = (now, s1) \<Longrightarrow>
      onStore (st_Revoke (sr_store sr) k reason now) s1 = (Inr u, s2) \<Longrightarrow>
      service_step al sr resp c (c\<lparr>rn_service := s2, rn_revoking := k # rn_revoking c\<rparr>)"
| revoke_fails: "clock (al_host al) (rn_service c) = (now, s1) \<Longrightarrow>
      onStore (st_Revoke (sr_store sr) k reason now) s1 = (Inl e, s2) \<Longrightarrow>
      service_step al sr resp c (c\<lparr>rn_service := s2\<rparr>)"
| drop_crl: "k \<in> set (rn_revoking c) \<Longrightarrow>
      service_step al sr resp c (c\<lparr>rn_service := invalidateCRLCache (rn_service c),
        rn_revoking := remove1 k (rn_revoking c), rn_dropped := k # rn_dropped c\<rparr>)"
| drop_ocsp: "k \<in> set (rn_dropped c) \<Longrightarrow>
      service_step al sr resp c (c\<lparr>rn_service := Invalidate (rn_service c),
        rn_dropped := remove1 k (rn_dropped c), rn_revoked := insert k (rn_revoked c)\<rparr>)"
| crl: "currentCRL al sr (rn_service c) = (r, s') \<Longrightarrow>
      service_step al sr resp c (c\<lparr>rn_service := s'\<rparr>)"
| authenticate: "authenticate al sr rq allowed (rn_service c) = (a, s') \<Longrightarrow>
      service_step al sr resp c (c\<lparr>rn_service := s'\<rparr>)"
| issue: "handleIssueCertificate al sr identity rq (rn_service c) = (h, s') \<Longrightarrow>
      service_step al sr resp c (c\<lparr>rn_service := s'\<rparr>)"
| renew: "Renew (al_sl al) (al_lib al) (al_host al) (al_order al) (sr_store sr) resp (rn_service c) = (r, s') \<Longrightarrow>
      service_step al sr resp c (c\<lparr>rn_service := s'\<rparr>)"
| ocsp_cached: "request_check (al_sl al) resp der = Inr (serial, hash) \<Longrightarrow>
      clock (al_host al) (rn_service c) = (now, s1) \<Longrightarrow> cache_lookup (al_sl al) serial now s1 = Inl a \<Longrightarrow>
      service_step al sr resp c (c\<lparr>rn_service := s1\<rparr>)"
| ocsp_lookup: "request_check (al_sl al) resp der = Inr (serial, hash) \<Longrightarrow>
      clock (al_host al) (rn_service c) = (now, s1) \<Longrightarrow>
      cache_lookup (al_sl al) serial now s1 = Inr (cert, gen) \<Longrightarrow>
      service_step al sr resp c (c\<lparr>rn_service := s1,
        rn_ocsp := LookedUp serial hash now cert gen # rn_ocsp c\<rparr>)"
| ocsp_sign: "LookedUp serial hash now cert gen \<in> set (rn_ocsp c) \<Longrightarrow>
      respond_sign (al_sl al) (al_lib al) (sr_store sr) resp serial hash now cert (rn_service c) =
        (Inr (der, tmpl, found), s') \<Longrightarrow>
      service_step al sr resp c (c\<lparr>rn_service := s',
        rn_ocsp := (if found then [Signed gen der tmpl] else []) @
          remove1 (LookedUp serial hash now cert gen) (rn_ocsp c)\<rparr>)"
| ocsp_later: "LookedUp serial hash now cert gen \<in> set (rn_ocsp c) \<Longrightarrow>
      respond_sign (al_sl al) (al_lib al) (sr_store sr) resp serial hash now cert (rn_service c) = (Inl a, s') \<Longrightarrow>
      service_step al sr resp c (c\<lparr>rn_service := s',
        rn_ocsp := remove1 (LookedUp serial hash now cert gen) (rn_ocsp c)\<rparr>)"
| ocsp_store: "Signed gen der tmpl \<in> set (rn_ocsp c) \<Longrightarrow>
      service_step al sr resp c (c\<lparr>rn_service := cache_store gen der tmpl (rn_service c),
        rn_ocsp := remove1 (Signed gen der tmpl) (rn_ocsp c)\<rparr>)"

section \<open>A completed revocation is on every CRL\<close>

context cert_store
begin

definition revoked_in :: "('h, 's) service \<Rightarrow> int set" where
  "revoked_in s = {k. \<exists>r. recs s k = Some r \<and> cr_Status r = StatusRevoked}"

lemma revoked_in_same: "same s s' \<Longrightarrow> ok s \<Longrightarrow> revoked_in s' = revoked_in s"
  by (simp add: same_def revoked_in_def)

definition crl_covers :: "'h api_lib \<Rightarrow> ('h, 's) server \<Rightarrow> bytes \<Rightarrow> int set \<Rightarrow> bool" where
  "crl_covers al sr der ks \<longleftrightarrow> (\<exists>t. crl_made (al_lib al) (sr_ca sr) der t \<and> ks \<subseteq> listed t)"

text \<open>A CRL made now lists everything the records say is revoked.\<close>

lemma regenerate_covers:
  assumes "regenerate al sr now s = (r, s')" "sr_store sr = ops" "ok s"
  shows "case r of Inl _ \<Rightarrow> sv_cachedCRL s' = sv_cachedCRL s
    | Inr der \<Rightarrow> sv_cachedCRL s' = Some der \<and> crl_covers al sr der (revoked_in s)"
proof -
  obtain r1 s1 where 1: "onStore (st_Revoked ops) s = (r1, s1)" by fastforce
  then have c1: "sv_cachedCRL s1 = sv_cachedCRL s" by (auto simp: onStore_eq)
  show ?thesis
  proof (cases r1)
    case R1: (Inr records)
    from 1 obtain d where "st_Revoked ops (sv_db s) = (Inr records, d)" by (auto simp: onStore_eq R1)
    from Revoked_any [OF assms(3) this] view_serial [OF assms(3)]
    have rec: "revoked_in s \<subseteq> cr_Serial ` set records" by (auto simp: revoked_in_def image_iff)
    obtain t s2 where 2: "clock (al_host al) s1 = (t, s2)" by fastforce
    obtain r3 s3 where 3: "onStore (st_NextCRLNumber ops t) s2 = (r3, s3)" by fastforce
    with clock_keeps(5) [OF 2] c1 have c3: "sv_cachedCRL s3 = sv_cachedCRL s" by (auto simp: onStore_eq)
    show ?thesis
    proof (cases r3)
      case R3: (Inr number)
      obtain r4 s4 where 4: "onHsm (BuildCRL (al_lib al) (sr_ca sr) (map revoked_cert_of records)
          (now - crlClockSkewAllowance) (clamp_next sr now) (Some number)) s3 = (r4, s4)" by fastforce
      show ?thesis
      proof (cases r4)
        case (Inl e)
        with assms(1,2) 1 2 3 4 R1 R3 c3 onHsm_keeps(5) [OF 4] show ?thesis
          by (auto simp: regenerate_def bindE_def)
      next
        case R4: (Inr der)
        from 4 R4 obtain h where "BuildCRL (al_lib al) (sr_ca sr) (map revoked_cert_of records)
          (now - crlClockSkewAllowance) (clamp_next sr now) (Some number) (sv_hsm s3) = (Inr der, h)"
          by (auto simp: onHsm_def split: prod.splits)
        from BuildCRL_made [OF this] rec have "crl_covers al sr der (revoked_in s)"
          by (auto simp: crl_covers_def revoked_cert_of_def image_image)
        moreover have "r = Inr der" "sv_cachedCRL s' = Some der"
          using assms(1,2) 1 2 3 4 R1 R3 R4 by (auto simp: regenerate_def bindE_def)
        ultimately show ?thesis by simp
      qed
    next
      case (Inl e)
      with assms(1,2) 1 2 3 R1 c3 show ?thesis by (auto simp: regenerate_def bindE_def)
    qed
  next
    case (Inl e)
    with assms(1,2) 1 c1 show ?thesis by (auto simp: regenerate_def bindE_def)
  qed
qed

lemma currentCRL_covers:
  assumes "currentCRL al sr s = (r, s')" "sr_store sr = ops" "ok s"
    and "\<forall>der. sv_cachedCRL s = Some der \<longrightarrow> crl_covers al sr der ks" "ks \<subseteq> revoked_in s"
  shows "(\<forall>der. r = Inr der \<longrightarrow> crl_covers al sr der ks) \<and>
    (\<forall>der. sv_cachedCRL s' = Some der \<longrightarrow> crl_covers al sr der ks)"
proof -
  obtain now s1 where now: "clock (al_host al) s = (now, s1)" by fastforce
  note k = clock_keeps [OF now]
  have s1: "ok s1" "revoked_in s1 = revoked_in s" using k assms(3) by (simp_all add: revoked_in_def)
  show ?thesis
  proof (cases "\<exists>der. sv_cachedCRL s1 = Some der \<and> now < sv_cachedNextUpdate s1")
    case True
    then obtain der where 1: "sv_cachedCRL s1 = Some der" "r = Inr der" "s' = s1"
      using assms(1) now by (auto simp: currentCRL_def)
    from k(5) assms(4) have "\<forall>der. sv_cachedCRL s1 = Some der \<longrightarrow> crl_covers al sr der ks" by simp
    with 1 show ?thesis by simp
  next
    case False
    then have 2: "regenerate al sr now s1 = (r, s')"
      using assms(1) now by (auto simp: currentCRL_def split: option.splits)
    have mono: "crl_covers al sr der (revoked_in s) \<Longrightarrow> crl_covers al sr der ks" for der
      using assms(5) unfolding crl_covers_def by blast
    note made = regenerate_covers [OF 2 assms(2) s1(1)]
    show ?thesis
    proof (cases r)
      case (Inl e)
      with made k(5) have "sv_cachedCRL s' = sv_cachedCRL s" by simp
      with Inl assms(4) show ?thesis by simp
    next
      case (Inr der)
      with made s1(2) mono show ?thesis by simp
    qed
  qed
qed

text \<open>The invariant of the interleaved service.\<close>

definition crl_inv :: "'h api_lib \<Rightarrow> ('h, 's) server \<Rightarrow> ('h, 's) running \<Rightarrow> bool" where
  "crl_inv al sr c \<longleftrightarrow> ok (rn_service c) \<and>
     set (rn_revoking c) \<union> set (rn_dropped c) \<union> rn_revoked c \<subseteq> revoked_in (rn_service c) \<and>
     (\<forall>der. sv_cachedCRL (rn_service c) = Some der \<longrightarrow>
        crl_covers al sr der (set (rn_dropped c) \<union> rn_revoked c))"

text \<open>Steps that read the records and leave the CRL cache alone.\<close>

lemma crl_inv_reads:
  assumes "crl_inv al sr c" "same (rn_service c) s'" "sv_cachedCRL s' = sv_cachedCRL (rn_service c)"
  shows "crl_inv al sr (c\<lparr>rn_service := s'\<rparr>)"
proof -
  have "ok (rn_service c)" using assms(1) by (simp add: crl_inv_def)
  with assms revoked_in_same [OF assms(2)] show ?thesis by (simp add: crl_inv_def same_def)
qed

text \<open>Records may be added: what is revoked stays revoked.\<close>

lemma crl_inv_grows:
  assumes "crl_inv al sr c" "ok s'" "revoked_in (rn_service c) \<subseteq> revoked_in s'"
    "sv_cachedCRL s' = sv_cachedCRL (rn_service c)"
  shows "crl_inv al sr (c\<lparr>rn_service := s'\<rparr>)"
  using assms by (auto simp: crl_inv_def)

lemma crl_inv_ocsp [simp]: "crl_inv al sr (c\<lparr>rn_ocsp := l\<rparr>) = crl_inv al sr c"
  by (simp add: crl_inv_def)

lemma revoked_in_upd:
  "recs s' = (recs s)(k \<mapsto> r) \<Longrightarrow> recs s k = None \<or> cr_Status r = StatusRevoked \<Longrightarrow>
    revoked_in s \<subseteq> revoked_in s'"
  by (auto simp: revoked_in_def)

lemma crl_inv_revoke:
  assumes "crl_inv al sr c" "clock (al_host al) (rn_service c) = (now, s1)"
    "onStore (st_Revoke ops k reason now) s1 = (r, s2)"
  shows "case r of Inl _ \<Rightarrow> crl_inv al sr (c\<lparr>rn_service := s2\<rparr>)
    | Inr _ \<Rightarrow> crl_inv al sr (c\<lparr>rn_service := s2, rn_revoking := k # rn_revoking c\<rparr>)"
proof -
  note ck = clock_keeps [OF assms(2)]
  have s1: "ok s1" using assms(1) ck by (simp add: crl_inv_def)
  note rv = onStore_Revoke [OF assms(3) s1]
  have cached: "sv_cachedCRL s2 = sv_cachedCRL (rn_service c)"
    using assms(3) ck by (auto simp: onStore_eq)
  show ?thesis
  proof (cases r)
    case (Inl e)
    with rv ck crl_inv_reads [OF assms(1) _ cached] show ?thesis by (simp add: same_def)
  next
    case (Inr u)
    with rv ck obtain q where "recs (rn_service c) k = Some q"
      and upd: "recs s2 = (recs (rn_service c))(k \<mapsto> revoke_record reason now q)" by auto
    from upd have "k \<in> revoked_in s2" by (simp add: revoked_in_def)
    moreover from revoked_in_upd [OF upd] have "revoked_in (rn_service c) \<subseteq> revoked_in s2" by simp
    ultimately show ?thesis using assms(1) rv(1) cached Inr by (auto simp: crl_inv_def)
  qed
qed

lemma crl_inv_crl:
  assumes "crl_inv al sr c" "currentCRL al sr (rn_service c) = (r, s')" "sr_store sr = ops"
  shows "crl_inv al sr (c\<lparr>rn_service := s'\<rparr>)"
    "r = Inr der \<Longrightarrow> crl_covers al sr der (set (rn_dropped c) \<union> rn_revoked c)"
proof -
  have c: "ok (rn_service c)" "set (rn_dropped c) \<union> rn_revoked c \<subseteq> revoked_in (rn_service c)"
    "\<forall>der. sv_cachedCRL (rn_service c) = Some der \<longrightarrow> crl_covers al sr der (set (rn_dropped c) \<union> rn_revoked c)"
    using assms(1) by (simp_all add: crl_inv_def)
  note cov = currentCRL_covers [OF assms(2,3) c(1,3,2)]
  note sm = same_currentCRL [OF assms(2,3)]
  from cov sm c(1) revoked_in_same [OF sm c(1)] assms(1) show "crl_inv al sr (c\<lparr>rn_service := s'\<rparr>)"
    by (simp add: crl_inv_def same_def)
  from cov show "r = Inr der \<Longrightarrow> crl_covers al sr der (set (rn_dropped c) \<union> rn_revoked c)" by blast
qed

lemma onStore_cached: "onStore f s = (r, s') \<Longrightarrow> sv_cachedCRL s' = sv_cachedCRL s"
  by (auto simp: onStore_eq)

lemma handleIssue_cached:
  assumes "handleIssueCertificate al sr identity rq s = (h, s')"
  shows "sv_cachedCRL s' = sv_cachedCRL s"
proof -
  consider "s' = s" | p ent body csr where "set_Lookup (sr_profiles sr) (rq_profile rq) = Inr (Some p)"
      "map_of (sr_issuers sr) identity = Some ent" "PermitsProfile ent (p_Name p)"
      "read_max maxCSRBodyBytes (rq_Body rq) = ReadAll body" "parseCSR (al_sl al) body = Inr csr"
      "PermitsNames (al_net al) ent csr = Inr ()"
    using handleIssue_refusals [OF assms] by blast
  then show ?thesis
  proof cases
    case (2 p ent body csr)
    obtain i s1 where i: "onHsm (Issue (al_lib al) (al_host al) (al_order al) (sr_ca sr) csr (Some p)) s = (i, s1)"
      by fastforce
    show ?thesis
    proof (cases i)
      case (Inl e)
      with assms 2 i onHsm_keeps(5) [OF i] show ?thesis
        by (cases "issueErrorResponse e") (auto simp: handleIssueCertificate_def)
    next
      case (Inr cert)
      obtain g s2 where g: "onStore (st_Record (sr_store sr) (issued_record cert)) s1 = (g, s2)" by fastforce
      with assms 2 i Inr onHsm_keeps(5) [OF i] onStore_cached [OF g] show ?thesis
        by (cases g) (auto simp: handleIssueCertificate_def)
    qed
  qed simp
qed

lemma crl_inv_issue:
  assumes "crl_inv al sr c" "handleIssueCertificate al sr identity rq (rn_service c) = (h, s')" "sr_store sr = ops"
  shows "crl_inv al sr (c\<lparr>rn_service := s'\<rparr>)"
proof -
  have ok: "ok (rn_service c)" using assms(1) by (simp add: crl_inv_def)
  note eff = handleIssue_effect [OF assms(2,3) ok]
  have "revoked_in (rn_service c) \<subseteq> revoked_in s'"
  proof (cases "hr_Status h = 201")
    case True
    with eff obtain cert where "recs (rn_service c) (c_SerialNumber cert) = None"
      "recs s' = (recs (rn_service c))(c_SerialNumber cert \<mapsto> stored (issued_record cert))"
      by (auto simp: issued_effect_def)
    with revoked_in_upd show ?thesis by blast
  qed (use eff in \<open>simp add: revoked_in_def\<close>)
  with crl_inv_grows [OF assms(1)] eff handleIssue_cached [OF assms(2)] show ?thesis by simp
qed

lemma authenticate_cached:
  assumes "authenticate al sr rq allowed s = (a, s')"
  shows "sv_cachedCRL s' = sv_cachedCRL s"
proof (cases "\<exists>leaf rest chains. rq_VerifiedChains rq = Some ((leaf # rest) # chains)")
  case True
  then obtain leaf rest chains where ch: "rq_VerifiedChains rq = Some ((leaf # rest) # chains)" by blast
  obtain g s1 where g: "onStore (st_Get (sr_store sr) (c_SerialNumber leaf)) s = (g, s1)" by fastforce
  have "s' = s1"
  proof (cases g)
    case (Inr x)
    with assms ch g show ?thesis
      by (cases x) (auto simp: authenticate_def split: if_splits option.splits)
  qed (use assms ch g in \<open>simp add: authenticate_def\<close>)
  with onStore_cached [OF g] show ?thesis by simp
next
  case False
  show ?thesis
  proof (cases "rq_VerifiedChains rq")
    case (Some chains)
    then show ?thesis using assms False
      by (cases chains) (auto simp: authenticate_def split: list.splits)
  qed (use assms in \<open>simp add: authenticate_def\<close>)
qed

lemma respond_sign_cached:
  assumes "respond_sign sl lib ops' r serial hash now cert s = (a, s')"
  shows "sv_cachedCRL s' = sv_cachedCRL s"
proof (cases cert)
  case (Some c)
  obtain g s1 where g: "onStore (st_Get ops' serial) s = (g, s1)" by fastforce
  show ?thesis
  proof (cases g)
    case (Inl e)
    with assms Some g onStore_cached [OF g] show ?thesis by (auto simp: respond_sign_def split: if_splits)
  next
    case (Inr rec)
    obtain d s2 where d: "onHsm (create_response sl lib (ca_cert (rs_issuer r)) c
        (response_template r serial hash now rec) (rs_signer r)) s1 = (d, s2)" by fastforce
    with assms Some g Inr onStore_cached [OF g] onHsm_keeps(5) [OF d] show ?thesis
      by (cases d) (auto simp: respond_sign_def Let_def split: if_splits)
  qed
qed (use assms in \<open>simp add: respond_sign_def\<close>)

text \<open>A renewal records one more certificate.\<close>

lemma Renew_effect:
  assumes "Renew sl lib host order ops r s = (res, s')" "ok s"
  shows "ok s' \<and> revoked_in s \<subseteq> revoked_in s' \<and> sv_cachedCRL s' = sv_cachedCRL s"
proof -
  obtain r1 s1 where 1: "onHsm (create_request sl lib (common_name (rs_subject r)) (rs_signer r)) s = (r1, s1)" by fastforce
  note k1 = onHsm_keeps [OF 1]
  show ?thesis
  proof (cases "is_ok r1 \<and> is_ok (sl_parse_csr sl (projr r1))")
    case False
    with assms 1 k1 show ?thesis
      by (cases r1) (auto simp: Renew_def bindE_def wrapE_def is_ok_def wrapR_def revoked_in_def split: sum.splits)
  next
    case True
    then obtain der csr where R1: "r1 = Inr der" "sl_parse_csr sl der = Inr csr"
      by (cases r1) (auto simp: is_ok_def split: sum.splits)
    obtain r2 s2 where 2: "onHsm (Issue lib host order (rs_issuer r) csr (Some (rs_profile r))) s1 = (r2, s2)" by fastforce
    note k2 = onHsm_keeps [OF 2]
    show ?thesis
    proof (cases r2)
      case (Inl e)
      with assms 1 2 k1 k2 R1 show ?thesis by (simp add: Renew_def revoked_in_def)
    next
      case R2: (Inr cert)
      obtain r3 s3 where 3: "onStore (st_Record ops (issued_record cert)) s2 = (r3, s3)" by fastforce
      have "ok s2" using assms(2) k1 k2 by simp
      note rec = onStore_Record [OF 3 this] and cached = onStore_cached [OF 3]
      have "revoked_in s \<subseteq> revoked_in s3"
        using rec(2) k1(1) k2(1) revoked_in_upd [of s3 s] by (cases r3) (auto simp: revoked_in_def issued_record_def)
      moreover have "sv_db s' = sv_db s3 \<and> sv_cachedCRL s' = sv_cachedCRL s3"
        using assms(1) 1 2 3 R1 R2 by (cases r3) (auto simp: Renew_def bindE_def wrapE_def issued_record_def)
      ultimately show ?thesis using rec(1) k1 k2 cached by (simp add: revoked_in_def)
    qed
  qed
qed

lemma crl_inv_step:
  assumes "service_step al sr resp c c'" "sr_store sr = ops" "crl_inv al sr c"
  shows "crl_inv al sr c'"
  using assms(1)
proof cases
  case (revoke now s1 k reason u s2)
  with crl_inv_revoke [OF assms(3) revoke(2), of k reason "Inr u" s2] assms(2) show ?thesis by simp
next
  case (revoke_fails now s1 k reason e s2)
  with crl_inv_revoke [OF assms(3) revoke_fails(2), of k reason "Inl e" s2] assms(2) show ?thesis by simp
next
  case (drop_crl k)
  with assms(3) set_remove1_subset [of k "rn_revoking c"] show ?thesis
    by (auto simp: crl_inv_def invalidateCRLCache_def revoked_in_def)
next
  case (drop_ocsp k)
  then have "set (remove1 k (rn_dropped c)) \<union> insert k (rn_revoked c) \<subseteq> set (rn_dropped c) \<union> rn_revoked c"
    using set_remove1_subset [of k "rn_dropped c"] by auto
  with drop_ocsp assms(3) show ?thesis
    unfolding crl_inv_def crl_covers_def by (auto simp: Invalidate_def revoked_in_def) blast+
next
  case (crl r s')
  with crl_inv_crl(1) [OF assms(3) _ assms(2)] show ?thesis by simp
next
  case (authenticate rq allowed a s')
  have "ok (rn_service c)" using assms(3) by (simp add: crl_inv_def)
  from authenticate_effect [OF authenticate(2) assms(2) this] authenticate_cached [OF authenticate(2)]
    crl_inv_reads [OF assms(3)] authenticate(1) show ?thesis by simp
next
  case (issue identity rq h s')
  with crl_inv_issue [OF assms(3) _ assms(2)] show ?thesis by simp
next
  case (renew r s')
  have "ok (rn_service c)" using assms(3) by (simp add: crl_inv_def)
  from Renew_effect [OF renew(2) [unfolded assms(2)] this] crl_inv_grows [OF assms(3)] renew(1) show ?thesis by simp
next
  case (ocsp_cached der serial hash now s1 a)
  from same_clock [OF ocsp_cached(3)] clock_keeps(5) [OF ocsp_cached(3)] crl_inv_reads [OF assms(3)] ocsp_cached(1)
  show ?thesis by simp
next
  case (ocsp_lookup der serial hash now s1 cert gen)
  from same_clock [OF ocsp_lookup(3)] clock_keeps(5) [OF ocsp_lookup(3)] crl_inv_reads [OF assms(3)] ocsp_lookup(1)
  show ?thesis by simp
next
  case (ocsp_sign serial hash now cert gen der tmpl found s')
  from same_respond_sign [OF ocsp_sign(3) [unfolded assms(2)]] respond_sign_cached [OF ocsp_sign(3)]
    crl_inv_reads [OF assms(3)] ocsp_sign(1) show ?thesis by simp
next
  case (ocsp_later serial hash now cert gen a s')
  from same_respond_sign [OF ocsp_later(3) [unfolded assms(2)]] respond_sign_cached [OF ocsp_later(3)]
    crl_inv_reads [OF assms(3)] ocsp_later(1) show ?thesis by simp
next
  case (ocsp_store gen der tmpl)
  have "sv_cachedCRL (cache_store gen der tmpl (rn_service c)) = sv_cachedCRL (rn_service c)"
    by (simp add: cache_store_def)
  from crl_inv_reads [OF assms(3) same_db [OF cache_store_db] this] ocsp_store(1) show ?thesis by simp
qed

lemma crl_inv_reachable:
  assumes "(service_step al sr resp)\<^sup>*\<^sup>* c c'" "sr_store sr = ops" "crl_inv al sr c"
  shows "crl_inv al sr c'"
  using assms(1) by (induction rule: rtranclp_induct) (auto intro: crl_inv_step [OF _ assms(2)] assms(3))

lemma crl_inv_start: "ok s \<Longrightarrow> sv_cachedCRL s = None \<Longrightarrow> crl_inv al sr (start_service s)"
  by (simp add: crl_inv_def start_service_def)

lemma served_crl_covers:
  assumes "(service_step al sr resp)\<^sup>*\<^sup>* (start_service s) c" "sr_store sr = ops" "ok s" "sv_cachedCRL s = None"
    "currentCRL al sr (rn_service c) = (Inr der, s')"
  shows "\<exists>t. crl_made (al_lib al) (sr_ca sr) der t \<and> rn_revoked c \<subseteq> listed t"
  using crl_inv_crl(2) [OF crl_inv_reachable [OF assms(1,2) crl_inv_start [OF assms(3,4)]] assms(5,2) refl]
  unfolding crl_covers_def by blast

end

text \<open>
  C22: A revocation that was answered is on every CRL served after it. However requests
  interleave (revocations at every stage, CRL requests, issuances, renewals, OCSP answers)
  and whatever fails, a CRL the service returns was signed over a list that contains every
  serial whose revocation has been answered with success, whether it comes from the cache
  or is made anew.
\<close>
theorem completed_revocation_is_on_every_CRL:
  assumes "(service_step al sr resp)\<^sup>*\<^sup>* (start_service s) c"
    "sr_store sr = sqlite_store codec" "sqlite_inv codec (sv_db s)" "sv_cachedCRL s = None"
    "currentCRL al sr (rn_service c) = (Inr der, s')"
  shows "\<exists>t. crl_made (al_lib al) (sr_ca sr) der t \<and> rn_revoked c \<subseteq> listed t"
  using assms by (rule sql.served_crl_covers)

section \<open>Two schedules\<close>

definition race_cert :: certificate where
  "race_cert = zero_cert\<lparr>c_NotAfter := 2000 * hour\<rparr>"

definition race_responder :: "unit responder" where
  "race_responder = \<lparr>rs_issuer = demo_ca, rs_signer = ca_signer demo_ca, rs_profile = demo_profile,
     rs_subject = ''r'', rs_window = hour, rs_nameHash = [SHA1 \<mapsto> []], rs_keyHash = [SHA1 \<mapsto> []]\<rparr>"

definition race_service :: "(unit, sqlite) service" where
  "race_service = (plain_service two_records)\<lparr>sv_cert := Some race_cert\<rparr>"

abbreviation race_server :: "(unit, sqlite) server" where
  "race_server \<equiv> plain_server (sqlite_store empty_codec)"

lemma plain_clock [simp]: "clock plain_host (s :: (unit, 'd) service) = (1000 * hour, s)"
  by (cases s) (simp add: clock_def plain_host_def)

text \<open>The two store operations of the schedules: a lookup of serial 5, then its revocation.\<close>

definition race_db1 :: sqlite where "race_db1 = snd (sqlite_Get empty_codec 5 two_records)"
definition race_db2 :: sqlite where "race_db2 = snd (sqlite_Revoke 5 1 (1000 * hour) race_db1)"

lemma race_get: "\<exists>r. sqlite_Get empty_codec 5 two_records = (Inr (Some r), race_db1) \<and> cr_Status r = StatusValid"
proof -
  have "case fst (sqlite_Get empty_codec 5 two_records) of Inr (Some r) \<Rightarrow> cr_Status r = StatusValid | _ \<Rightarrow> False"
    by code_simp
  then show ?thesis unfolding race_db1_def
    by (cases "sqlite_Get empty_codec 5 two_records") (auto split: sum.splits option.splits)
qed

lemma race_revoke: "sqlite_Revoke 5 1 (1000 * hour) race_db1 = (Inr (), race_db2)"
proof -
  have "is_ok (fst (sqlite_Revoke 5 1 (1000 * hour) race_db1))" by code_simp
  from is_ok_fst_unit [OF this] show ?thesis by (simp add: race_db2_def)
qed

lemma race_revoked: "\<exists>r. sqlite_view empty_codec race_db2 5 = Some r \<and> cr_Status r = StatusRevoked"
proof -
  have "sqlite_inv empty_codec race_db1"
    using preserves_snd [OF sql.inv_Get two_records_inv] by (simp add: race_db1_def)
  from sql.Revoke_ok [OF this, of 5 1 "1000 * hour" "()" race_db2] race_revoke show ?thesis by auto
qed

definition race_template :: ocsp_response where
  "race_template = (response_template race_responder 5 SHA1 (1000 * hour) None)\<lparr>op_Status := ocsp_Good\<rparr>"

lemma race_check: "request_check (al_sl (plain_api :: unit api_lib)) race_responder [CHR 0x05] = Inr (5, SHA1)"
  by (simp add: request_check_def plain_api_def plain_sl_def race_responder_def)

lemma race_sign:
  "respond_sign plain_sl demo_lib (sqlite_store empty_codec) race_responder 5 SHA1 (1000 * hour) (Some race_cert) race_service =
    (Inr ([CHR 0x00], race_template, True), race_service\<lparr>sv_db := race_db1\<rparr>)"
proof -
  obtain r where r: "sqlite_Get empty_codec 5 two_records = (Inr (Some r), race_db1)" "cr_Status r = StatusValid"
    using race_get by blast
  have t: "response_template race_responder 5 SHA1 (1000 * hour) (Some r) = race_template"
    using r(2) by (simp add: response_template_def race_template_def Let_def)
  have w: "\<not> (1000 * hour + responder_clockSkewAllowance < c_NotBefore race_cert \<or> 1000 * hour > c_NotAfter race_cert)"
    by (simp add: race_cert_def zero_cert_def responder_clockSkewAllowance_def hour_def minute_def second_def)
  have g: "onStore (st_Get (sqlite_store empty_codec) 5) race_service = (Inr (Some r), race_service\<lparr>sv_db := race_db1\<rparr>)"
    using r(1) by (simp add: onStore_def race_service_def plain_service_def sqlite_store_def)
  have st: "op_Status race_template = 0" by (simp add: race_template_def ocsp_Good_def)
  have h: "onHsm (create_response plain_sl demo_lib (ca_cert (rs_issuer race_responder)) race_cert race_template
      (rs_signer race_responder)) (race_service\<lparr>sv_db := race_db1\<rparr>) = (Inr [CHR 0x00], race_service\<lparr>sv_db := race_db1\<rparr>)"
    using st by (simp add: onHsm_def create_response_def plain_sl_def Let_def race_responder_def demo_ca_def NewCA_def
        race_service_def plain_service_def)
  show ?thesis using w g h t by (simp add: respond_sign_def Let_def)
qed

abbreviation race_steps :: "(unit, sqlite) running \<Rightarrow> (unit, sqlite) running \<Rightarrow> bool" where
  "race_steps \<equiv> service_step plain_api race_server race_responder"

lemma revoke_step:
  assumes "rn_service c = s\<lparr>sv_db := race_db1\<rparr>"
  shows "race_steps c (c\<lparr>rn_service := s\<lparr>sv_db := race_db2\<rparr>, rn_revoking := 5 # rn_revoking c\<rparr>)"
  by (rule service_step.revoke [where now = "1000 * hour" and ?s1.0 = "s\<lparr>sv_db := race_db1\<rparr>" and k = 5 and reason = 1])
    (simp_all add: assms plain_api_def plain_server_def onStore_def sqlite_store_def race_revoke)

text \<open>A lookup of serial 5 overtaken by its revocation, up to the answer being kept.\<close>

definition race_end :: "(unit, sqlite) running" where
  "race_end = \<lparr>rn_service = race_service\<lparr>sv_db := race_db2, sv_cachedCRL := None,
       sv_cache := [show_int 5 \<mapsto> \<lparr>cd_der = [CHR 0x00], cd_nextUpdate = op_NextUpdate race_template\<rparr>]\<rparr>,
     rn_revoking = [], rn_dropped = [], rn_revoked = {5}, rn_ocsp = []\<rparr>"

lemma race_reachable: "race_steps\<^sup>*\<^sup>* (start_service race_service) race_end"
proof -
  let ?n = "1000 * hour"
  let ?t = "LookedUp 5 SHA1 ?n (Some race_cert) 0"
  let ?c0 = "start_service race_service"
  let ?c1 = "?c0\<lparr>rn_service := race_service, rn_ocsp := ?t # rn_ocsp ?c0\<rparr>"
  let ?c2 = "?c1\<lparr>rn_service := race_service\<lparr>sv_db := race_db1\<rparr>,
    rn_ocsp := (if True then [Signed 0 [CHR 0x00] race_template] else []) @ remove1 ?t (rn_ocsp ?c1)\<rparr>"
  let ?c3 = "?c2\<lparr>rn_service := race_service\<lparr>sv_db := race_db2\<rparr>, rn_revoking := 5 # rn_revoking ?c2\<rparr>"
  let ?c4 = "?c3\<lparr>rn_service := invalidateCRLCache (rn_service ?c3),
    rn_revoking := remove1 5 (rn_revoking ?c3), rn_dropped := 5 # rn_dropped ?c3\<rparr>"
  let ?c5 = "?c4\<lparr>rn_service := Invalidate (rn_service ?c4),
    rn_dropped := remove1 5 (rn_dropped ?c4), rn_revoked := insert 5 (rn_revoked ?c4)\<rparr>"
  let ?s = "Signed 0 [CHR 0x00] race_template"
  let ?c6 = "?c5\<lparr>rn_service := cache_store 0 [CHR 0x00] race_template (rn_service ?c5),
    rn_ocsp := remove1 ?s (rn_ocsp ?c5)\<rparr>"
  have "race_steps ?c0 ?c1"
    by (rule service_step.ocsp_lookup [OF race_check])
      (simp_all add: plain_api_def start_service_def race_service_def plain_service_def cache_lookup_def)
  moreover have "race_steps ?c1 ?c2"
    by (rule service_step.ocsp_sign) (simp_all add: plain_api_def plain_server_def race_sign)
  moreover have "race_steps ?c2 ?c3"
    by (rule revoke_step) simp
  moreover have "race_steps ?c3 ?c4" by (rule service_step.drop_crl) simp
  moreover have "race_steps ?c4 ?c5" by (rule service_step.drop_ocsp) simp
  moreover have "race_steps ?c5 ?c6" by (rule service_step.ocsp_store) (simp add: start_service_def)
  ultimately have "race_steps\<^sup>*\<^sup>* ?c0 ?c6" by (meson rtranclp.rtrancl_into_rtrancl rtranclp.rtrancl_refl)
  moreover have "?c6 = race_end"
    by (simp add: race_end_def start_service_def invalidateCRLCache_def Invalidate_def cache_store_def
        race_service_def plain_service_def race_template_def response_template_def Let_def)
  ultimately show ?thesis by simp
qed

text \<open>
  C24: The response cache has no such guarantee. Answering reads the store, signs and
  keeps the answer in three separate steps, and dropping the cache on a revocation can
  fall between the last two: there is a schedule after which a revocation of serial 5 has
  been answered with success and the store says it is revoked, while the next OCSP request
  for it is answered "good" from the cache.
\<close>
theorem revoked_certificate_answered_good:
  "\<exists>c a s'. race_steps\<^sup>*\<^sup>* (start_service race_service) c \<and> 5 \<in> rn_revoked c \<and>
    (\<exists>r. sqlite_view empty_codec (sv_db (rn_service c)) 5 = Some r \<and> cr_Status r = StatusRevoked) \<and>
    Respond plain_sl demo_lib plain_host (sqlite_store empty_codec) race_responder [CHR 0x05] (rn_service c) = (a, s') \<and>
    oc_Status (snd a) = ocsp_Good \<and> oc_Cached (snd a)"
proof -
  have "request_check plain_sl race_responder [CHR 0x05] = Inr (5, SHA1)"
    using race_check by (simp add: plain_api_def)
  moreover have "1000 * hour < op_NextUpdate race_template"
    by (simp add: race_template_def response_template_def Let_def race_responder_def hour_def minute_def second_def)
  ultimately obtain a s' where "Respond plain_sl demo_lib plain_host (sqlite_store empty_codec) race_responder [CHR 0x05]
      (rn_service race_end) = (a, s')" "oc_Status (snd a) = ocsp_Good" "oc_Cached (snd a)"
    by (simp add: Respond_def cache_lookup_def race_end_def plain_sl_def ocsp_Good_def)
  with race_reachable race_revoked show ?thesis
    by (intro exI [of _ race_end] exI [of _ a] exI [of _ s']) (simp add: race_end_def)
qed

lemma race_crl: "is_ok (fst (currentCRL plain_api race_server (rn_service race_end)))"
  by code_simp

theorem completed_revocation_is_on_every_CRL_witness:
  "\<exists>der s' t. currentCRL plain_api race_server (rn_service race_end) = (Inr der, s') \<and>
    crl_made demo_lib (demo_ca :: unit ca) der t \<and> 5 \<in> listed t"
proof -
  from race_crl obtain der where der: "currentCRL plain_api race_server (rn_service race_end) =
      (Inr der, snd (currentCRL plain_api race_server (rn_service race_end)))" by (rule is_ok_fstE)
  have inv: "sqlite_inv empty_codec (sv_db race_service)" "sv_cachedCRL race_service = None"
    by (simp_all add: race_service_def plain_service_def two_records_inv)
  have "sr_store race_server = sqlite_store empty_codec" by (simp add: plain_server_def)
  from completed_revocation_is_on_every_CRL [OF race_reachable this inv der] obtain t where
    "crl_made demo_lib (demo_ca :: unit ca) der t" "5 \<in> listed t"
    by (auto simp: plain_api_def plain_server_def race_end_def)
  with der show ?thesis by blast
qed

section \<open>An answer that is not from the cache\<close>

context cert_store
begin

lemma fresh_answer:
  assumes "Respond sl lib host ops r reqDER s = ((der, out), s')" "ok s" "\<not> oc_Cached out" "oc_Error out = []"
  shows "\<exists>serial hash now cert tmpl h h'. request_check sl r reqDER = Inr (serial, hash) \<and> sv_cert s = Some cert \<and>
    now \<le> c_NotAfter cert \<and> c_NotBefore cert \<le> now + responder_clockSkewAllowance \<and>
    tmpl = response_template r serial hash now (recs s serial) \<and> oc_Status out = op_Status tmpl \<and>
    create_response sl lib (ca_cert (rs_issuer r)) cert tmpl (rs_signer r) h = (Inr der, h')"
proof (cases "request_check sl r reqDER")
  case (Inl a)
  with assms(1) have "a = (der, out)" by (simp add: Respond_def)
  with Inl assms(4) show ?thesis
    by (auto simp: request_check_def malformed_def unauthorized_def error_outcome_def
        split: sum.splits option.splits if_splits)
next
  case (Inr p)
  obtain serial hash where rq: "request_check sl r reqDER = Inr (serial, hash)" using Inr by (cases p) simp
  obtain now s1 where now: "clock host s = (now, s1)" by fastforce
  note k = clock_keeps [OF now]
  have "\<not> isl (cache_lookup sl serial now s1)"
    using assms(1,3) rq now
    by (auto simp: Respond_def cache_lookup_def split: option.splits if_splits)
  then obtain cert' gen where c: "cache_lookup sl serial now s1 = Inr (cert', gen)" "cert' = sv_cert s"
    using k(2) by (auto simp: cache_lookup_def split: option.splits if_splits)
  obtain b s2 where b: "respond_sign sl lib ops r serial hash now cert' s1 = (b, s2)" by fastforce
  from assms(1) rq now c b have ans: "case b of Inl a \<Rightarrow> a = (der, out)
      | Inr (d, t, f) \<Rightarrow> (der, out) = signed_answer d t"
    by (auto simp: Respond_def split: sum.splits prod.splits)
  have "b \<noteq> Inl (tryLater sl)"
    using ans assms(4) by (auto simp: tryLater_def error_outcome_def)
  with b obtain cert where cert: "cert' = Some cert"
    and win: "\<not> (now + responder_clockSkewAllowance < c_NotBefore cert \<or> now > c_NotAfter cert)"
    by (cases cert') (auto simp: respond_sign_def split: if_splits)
  obtain g s3 where g: "onStore (st_Get ops serial) s1 = (g, s3)" by fastforce
  with b cert win \<open>b \<noteq> Inl (tryLater sl)\<close> obtain rec where rec: "g = Inr rec"
    by (cases g) (auto simp: respond_sign_def)
  from g rec obtain d where "st_Get ops serial (sv_db s1) = (Inr rec, d)" by (auto simp: onStore_eq)
  from Get_any [OF _ this] assms(2) k(1) have shown: "rec = recs s serial" by simp
  obtain q s4 where q: "onHsm (create_response sl lib (ca_cert (rs_issuer r)) cert
      (response_template r serial hash now rec) (rs_signer r)) s3 = (q, s4)" by fastforce
  with b cert win g rec \<open>b \<noteq> Inl (tryLater sl)\<close> obtain d' where d': "q = Inr d'"
    "b = Inr (d', response_template r serial hash now rec, rec \<noteq> None)"
    by (cases q) (auto simp: respond_sign_def Let_def)
  from q d' obtain h where "create_response sl lib (ca_cert (rs_issuer r)) cert
      (response_template r serial hash now rec) (rs_signer r) (sv_hsm s3) = (Inr d', h)"
    by (auto simp: onHsm_def split: prod.splits)
  moreover from ans d' have "der = d'" "oc_Status out = op_Status (response_template r serial hash now rec)"
    by (simp_all add: signed_answer_def)
  moreover have "now \<le> c_NotAfter cert" "c_NotBefore cert \<le> now + responder_clockSkewAllowance"
    using win by simp_all
  moreover have "sv_cert s = Some cert" using c cert by simp
  ultimately show ?thesis using rq shown by blast
qed

end



end
