(* ===== verification/SigningKey.thy ===== *)
theory SigningKey
  imports Ceremony
begin

text \<open>
  \<^verbatim>\<open>internal/signingkey\<close>: provisioning, reading and destroying the supply-chain
  signing keys on their own token, over the \<^verbatim>\<open>VendorAdapter\<close> interface. \<open>rand_Read\<close>
  is the host's random source. A function that returns a value beside an error has a
  \<open>reported\<close> result.
\<close>

section \<open>Labels and keys\<close>

definition ValidateLabel :: "string \<Rightarrow> unit res" where
  "ValidateLabel label =
     (case ValidateVersionedLabel label of
        Inl _ \<Rightarrow> Inl (Errorf ''signingkey: not a versioned label'')
      | Inr _ \<Rightarrow> Inr ())"

record signing_params =
  sp_Label :: string
  sp_Curve :: ec_curve

record signing_key =
  key_Label :: string
  key_Public :: public_key
  key_Sensitive :: bool
  key_Extractable :: bool

text \<open>\<^verbatim>\<open>pem.EncodeToMemory\<close> is a parameter, as the PKIX encoding is.\<close>

definition signing_key_PEM ::
    "x509_lib \<Rightarrow> (string \<Rightarrow> bytes \<Rightarrow> bytes) \<Rightarrow> signing_key \<Rightarrow> bytes res" where
  "signing_key_PEM lib pem_encode k =
     bindR (wrapR ''signingkey: marshalling public key'' (lib_marshal_public_key lib (key_Public k)))
       (\<lambda>der. Inr (pem_encode ''PUBLIC KEY'' der))"

definition attrTrue :: "bytes \<Rightarrow> bool" where
  "attrTrue v \<longleftrightarrow> (\<exists>b \<in> set v. b \<noteq> CHR 0x00)"

text \<open>The value a loop over the returned attributes leaves: the last one of that type.\<close>

definition attr_value :: "attribute_type \<Rightarrow> attribute list \<Rightarrow> bytes option" where
  "attr_value t attrs = fold (\<lambda>a v. if attr_Type a = t then Some (attr_Value a) else v) attrs None"

definition attr_or_empty :: "attribute_type \<Rightarrow> attribute list \<Rightarrow> bytes" where
  "attr_or_empty t attrs = (case attr_value t attrs of None \<Rightarrow> [] | Some v \<Rightarrow> v)"

fun SameKey :: "public_key \<Rightarrow> public_key \<Rightarrow> bool" where
  "SameKey (EcdsaKey c x y) (EcdsaKey c' x' y') = (c = c' \<and> x = x' \<and> y = y')"
| "SameKey _ _ = False"

lemma SameKey_eq: "SameKey a b \<Longrightarrow> a = b"
  by (cases "(a, b)" rule: SameKey.cases) auto

lemma SameKey_iff: "is_ecdsa a \<Longrightarrow> SameKey a b \<longleftrightarrow> a = b"
  by (cases a; cases b) auto

definition verifyProtection :: "signing_key \<Rightarrow> unit res" where
  "verifyProtection k =
     (if \<not> key_Sensitive k then Inl (Errorf ''reports CKA_SENSITIVE=false on this token'')
      else if key_Extractable k then Inl (Errorf ''reports CKA_EXTRACTABLE=true on this token'')
      else Inr ())"

section \<open>Reading a key off the token\<close>

definition signingkey_Load ::
    "(elliptic \<Rightarrow> int \<Rightarrow> int \<Rightarrow> bool) \<Rightarrow> 's vendor_adapter \<Rightarrow> session_ref \<Rightarrow> string \<Rightarrow> ec_curve \<Rightarrow>
     ('s, signing_key) eff" where
  "signingkey_Load on_curve ad s label curve =
     (case ec_curve_Curve curve of
        None \<Rightarrow> throwE (Wrap ''signingkey'' (Sentinel (Pkcs11 ErrUnsupportedCurve)))
      | Some ellipticCurve \<Rightarrow>
          bindE (wrapE ''signingkey'' (FindKeyByLabel ad s ClassPublicKey label)) (\<lambda>pubHandle.
          bindE (wrapE ''signingkey: reading CKA_EC_POINT'' (va_GetAttributes ad s pubHandle [AttrEcPoint])) (\<lambda>pubAttrs.
          bindE (case pubAttrs of
               [] \<Rightarrow> throwE (Errorf ''signingkey: CKA_EC_POINT not returned'')
             | a # _ \<Rightarrow> liftE (wrapR ''signingkey: decoding public key''
                         (DecodeECPoint on_curve ellipticCurve (attr_Value a)))) (\<lambda>pub.
          bindE (wrapE ''signingkey'' (FindKeyByLabel ad s ClassPrivateKey label)) (\<lambda>privHandle.
          bindE (wrapE ''signingkey: reading protection attributes''
             (va_GetAttributes ad s privHandle [AttrSensitive, AttrExtractable])) (\<lambda>privAttrs.
          returnE \<lparr>key_Label = label, key_Public = pub,
             key_Sensitive = (case attr_value AttrSensitive privAttrs of None \<Rightarrow> False | Some v \<Rightarrow> attrTrue v),
             key_Extractable = (case attr_value AttrExtractable privAttrs of None \<Rightarrow> False | Some v \<Rightarrow> attrTrue v)\<rparr>))))))"

definition signingkey_Verify ::
    "(elliptic \<Rightarrow> int \<Rightarrow> int \<Rightarrow> bool) \<Rightarrow> 's vendor_adapter \<Rightarrow> session_ref \<Rightarrow> string \<Rightarrow> ec_curve \<Rightarrow>
     ('s, signing_key reported) eff" where
  "signingkey_Verify on_curve ad s label curve =
     bindE (signingkey_Load on_curve ad s label curve) (\<lambda>key.
     returnE (key, case verifyProtection key of Inl e \<Rightarrow> Some e | Inr _ \<Rightarrow> None))"

section \<open>A key the token already had\<close>

text \<open>The loop over the token's public keys; the empty string is "no duplicate".\<close>

fun duplicate_among ::
    "(elliptic \<Rightarrow> int \<Rightarrow> int \<Rightarrow> bool) \<Rightarrow> 's vendor_adapter \<Rightarrow> session_ref \<Rightarrow> string \<Rightarrow> public_key \<Rightarrow>
     elliptic \<Rightarrow> object_handle list \<Rightarrow> ('s, string) eff" where
  "duplicate_among on_curve ad s ownLabel pub curve [] = returnE []"
| "duplicate_among on_curve ad s ownLabel pub curve (h # hs) =
     bindE (wrapE ''signingkey: reading a public key while checking it is new''
        (va_GetAttributes ad s h [AttrLabel, AttrEcPoint])) (\<lambda>attrs.
     let label = attr_or_empty AttrLabel attrs; point = attr_or_empty AttrEcPoint attrs in
     if label = ownLabel \<or> point = [] then duplicate_among on_curve ad s ownLabel pub curve hs
     else case DecodeECPoint on_curve curve point of
         Inl _ \<Rightarrow> duplicate_among on_curve ad s ownLabel pub curve hs
       | Inr other \<Rightarrow> if SameKey pub other then returnE label
                     else duplicate_among on_curve ad s ownLabel pub curve hs)"

definition findDuplicatePoint ::
    "(elliptic \<Rightarrow> int \<Rightarrow> int \<Rightarrow> bool) \<Rightarrow> 's vendor_adapter \<Rightarrow> session_ref \<Rightarrow> string \<Rightarrow> public_key \<Rightarrow>
     elliptic \<Rightarrow> ('s, string) eff" where
  "findDuplicatePoint on_curve ad s ownLabel pub curve =
     bindE (wrapE ''signingkey: listing public keys'' (va_FindObjects ad s [NumericAttribute AttrClass ClassPublicKey]))
       (\<lambda>handles. duplicate_among on_curve ad s ownLabel pub curve handles)"

section \<open>Destroying a pair\<close>

definition destroy_class :: "'s vendor_adapter \<Rightarrow> session_ref \<Rightarrow> string \<Rightarrow> object_class \<Rightarrow> ('s, unit) eff" where
  "destroy_class ad s label class =
     tryE (FindKeyByLabel ad s class label) (\<lambda>r. case r of
         Inr handle \<Rightarrow> va_DestroyObject ad s handle
       | Inl err \<Rightarrow> if errors_is err (FindKey Pk11_ErrKeyNotFound) then returnE () else throwE err)"

definition destroyKeyPair :: "'s vendor_adapter \<Rightarrow> session_ref \<Rightarrow> string \<Rightarrow> ('s, unit) eff" where
  "destroyKeyPair ad s label = forE (destroy_class ad s label) [ClassPublicKey, ClassPrivateKey]"

record destroyed =
  ds_Public :: bool
  ds_Private :: bool

text \<open>
  \<open>Destroy\<close> reports which halves it removed beside any error. A half that was not
  found is skipped, one that could not be looked up refuses the whole.
\<close>

definition lookup_failure :: "object_handle res \<Rightarrow> go_error option" where
  "lookup_failure r = (case r of
       Inl e \<Rightarrow> if errors_is e (FindKey Pk11_ErrKeyNotFound) then None else Some e
     | Inr _ \<Rightarrow> None)"

definition destroy_half :: "'s vendor_adapter \<Rightarrow> session_ref \<Rightarrow> object_handle res \<Rightarrow> ('s, bool) eff" where
  "destroy_half ad s r = (case r of
       Inl _ \<Rightarrow> returnE False
     | Inr handle \<Rightarrow> bindE (va_DestroyObject ad s handle) (\<lambda>_. returnE True))"

definition none_destroyed :: destroyed where
  "none_destroyed = \<lparr>ds_Public = False, ds_Private = False\<rparr>"

definition Destroy :: "'s vendor_adapter \<Rightarrow> session_ref \<Rightarrow> string \<Rightarrow> ('s, destroyed reported) eff" where
  "Destroy ad s label =
     tryE (FindKeyByLabel ad s ClassPrivateKey label) (\<lambda>priv.
     case lookup_failure priv of
       Some e \<Rightarrow> returnE (none_destroyed, Some (Wrap ''locating the private half'' e))
     | None \<Rightarrow>
     tryE (FindKeyByLabel ad s ClassPublicKey label) (\<lambda>pub.
     case lookup_failure pub of
       Some e \<Rightarrow> returnE (none_destroyed, Some (Wrap ''locating the public half'' e))
     | None \<Rightarrow>
     (case (priv, pub) of
       (Inl e, Inl _) \<Rightarrow> returnE (none_destroyed, Some (Wrap ''nothing under label to destroy'' e))
     | _ \<Rightarrow>
     tryE (destroy_half ad s priv) (\<lambda>r1. case r1 of
       Inl e \<Rightarrow> returnE (none_destroyed, Some (Wrap ''destroying the private half'' e))
     | Inr privDone \<Rightarrow>
     tryE (destroy_half ad s pub) (\<lambda>r2. case r2 of
       Inl e \<Rightarrow> returnE (none_destroyed\<lparr>ds_Private := privDone\<rparr>, Some (Wrap ''destroying the public half'' e))
     | Inr pubDone \<Rightarrow> returnE (\<lparr>ds_Public = pubDone, ds_Private = privDone\<rparr>, None))))))"

section \<open>The token of the CA hierarchy\<close>

text \<open>\<^verbatim>\<open>(^|-)ca-(root|intermediate)-key-v[0-9]+$\<close>, anchored at the end only.\<close>

definition caKeyLabelPattern :: regex where
  "caKeyLabelPattern =
     Seq (Alt Eps (Seq (Star (Sym AnyByte)) (lits ''-'')))
       (seqs [lits ''ca-'', alts [lits ''root'', lits ''intermediate''], lits ''-key-v'', Plus (Sym digit)])"

fun check_no_ca_key :: "'s vendor_adapter \<Rightarrow> session_ref \<Rightarrow> object_handle list \<Rightarrow> ('s, unit) eff" where
  "check_no_ca_key ad s [] = returnE ()"
| "check_no_ca_key ad s (h # hs) =
     bindE (wrapE ''signingkey: reading the label of a private key'' (va_GetAttributes ad s h [AttrLabel])) (\<lambda>attrs.
     if \<exists>a \<in> set attrs. attr_Type a = AttrLabel \<and> rmatch caKeyLabelPattern (attr_Value a)
     then throwE (Wrap ''supply-chain signing keys live on their own token''
            (Sentinel (SigningKey ErrCAHierarchyKeyPresent)))
     else check_no_ca_key ad s hs)"

definition CheckNoCAHierarchyKey :: "'s vendor_adapter \<Rightarrow> session_ref \<Rightarrow> ('s, unit) eff" where
  "CheckNoCAHierarchyKey ad s =
     bindE (wrapE ''signingkey: listing private keys'' (va_FindObjects ad s [NumericAttribute AttrClass ClassPrivateKey]))
       (\<lambda>handles. check_no_ca_key ad s handles)"

section \<open>Provisioning\<close>

definition label_must_be_free :: "'s vendor_adapter \<Rightarrow> session_ref \<Rightarrow> string \<Rightarrow> object_class \<Rightarrow> ('s, unit) eff" where
  "label_must_be_free ad s label class =
     bindE (wrapE ''signingkey: checking label'' (LabelIsFree ad s class label)) (\<lambda>free.
     if free then returnE () else throwE (Wrap label (Sentinel (SigningKey ErrLabelTaken))))"

definition signing_request :: "signing_params \<Rightarrow> bytes \<Rightarrow> key_pair_request" where
  "signing_request p kid = \<lparr>kp_Curve = sp_Curve p, kp_Label = sp_Label p, kp_ID = kid,
     kp_Sign = True, kp_Verify = True, kp_Extractable = False\<rparr>"

text \<open>Undoing a generation that gave a key the token already had.\<close>

definition reject_duplicate :: "'s vendor_adapter \<Rightarrow> session_ref \<Rightarrow> string \<Rightarrow> string \<Rightarrow> ('s, 'a) eff" where
  "reject_duplicate ad s label duplicate =
     (let err = Wrap duplicate (Sentinel (SigningKey ErrDuplicateKey)) in
      tryE (destroyKeyPair ad s label) (\<lambda>r. case r of
          Inl _ \<Rightarrow> throwE (Wrap ''and removing it failed'' err)
        | Inr _ \<Rightarrow> throwE err))"

definition Provision ::
    "(elliptic \<Rightarrow> int \<Rightarrow> int \<Rightarrow> bool) \<Rightarrow> 's vendor_adapter \<Rightarrow> 's host \<Rightarrow> session_ref \<Rightarrow> signing_params \<Rightarrow>
     ('s, signing_key) eff" where
  "Provision on_curve ad host s p =
     bindE (liftE (ValidateLabel (sp_Label p))) (\<lambda>_.
     case ec_curve_Curve (sp_Curve p) of
       None \<Rightarrow> throwE (Wrap ''signingkey'' (Sentinel (Pkcs11 ErrUnsupportedCurve)))
     | Some ellipticCurve \<Rightarrow>
     bindE (forE (label_must_be_free ad s (sp_Label p)) [ClassPublicKey, ClassPrivateKey]) (\<lambda>_.
     bindE (wrapE ''signingkey: generating CKA_ID'' (h_Rand host 16)) (\<lambda>kid.
     bindE (wrapE ''signingkey: generating'' (va_GenerateKeyPair ad s (signing_request p kid))) (\<lambda>_.
     bindE (signingkey_Load on_curve ad s (sp_Label p) (sp_Curve p)) (\<lambda>key.
     bindE (liftE (verifyProtection key)) (\<lambda>_.
     bindE (findDuplicatePoint on_curve ad s (sp_Label p) (key_Public key) ellipticCurve) (\<lambda>duplicate.
     if duplicate \<noteq> [] then reject_duplicate ad s (sp_Label p) duplicate
     else returnE key)))))))"

section \<open>What the checks have seen\<close>

text \<open>A label of the CA hierarchy, with any prefix that ends in a dash.\<close>

definition ca_key_label :: "string \<Rightarrow> bool" where
  "ca_key_label l \<longleftrightarrow> (\<exists>pre tier ver. l = pre @ ''ca-'' @ tier @ ''-key-v'' @ ver \<and>
     (pre = [] \<or> last pre = CHR ''-'') \<and> tier \<in> {''root'', ''intermediate''} \<and>
     ver \<noteq> [] \<and> (\<forall>c \<in> set ver. in_cset digit c))"

lemma rmatch_caKeyLabelPattern: "rmatch caKeyLabelPattern l \<longleftrightarrow> ca_key_label l"
proof -
  have pre: "matches (Alt Eps (Seq (Star (Sym AnyByte)) (lits ''-''))) p \<longleftrightarrow> p = [] \<or> last p = CHR ''-''" for p
    by (cases p rule: rev_cases) (auto simp: matches_Seq_iff matches_Star_Sym simp del: lits.simps)
  have rest: "matches (seqs [lits ''ca-'', alts [lits ''root'', lits ''intermediate''], lits ''-key-v'', Plus (Sym digit)]) q
      \<longleftrightarrow> (\<exists>tier ver. q = ''ca-'' @ tier @ ''-key-v'' @ ver \<and> tier \<in> {''root'', ''intermediate''} \<and>
        ver \<noteq> [] \<and> (\<forall>c \<in> set ver. in_cset digit c))" for q
    by (auto simp: matches_Seq_iff matches_Plus_Sym simp del: lits.simps append_Cons)
  show ?thesis
    unfolding rmatch_correct caKeyLabelPattern_def matches_Seq_iff pre rest ca_key_label_def by blast
qed

definition saw_no_ca_key :: "'s vendor_adapter \<Rightarrow> session_ref \<Rightarrow> bool" where
  "saw_no_ca_key ad s \<longleftrightarrow> (\<exists>handles t t'.
     va_FindObjects ad s [NumericAttribute AttrClass ClassPrivateKey] t = (Inr handles, t') \<and>
     (\<forall>h \<in> set handles. \<exists>attrs u u'. va_GetAttributes ad s h [AttrLabel] u = (Inr attrs, u') \<and>
        (\<forall>a \<in> set attrs. attr_Type a = AttrLabel \<longrightarrow> \<not> ca_key_label (attr_Value a))))"

lemma check_no_ca_key_Inr:
  "check_no_ca_key ad s hs t = (Inr u, t') \<Longrightarrow> h \<in> set hs \<Longrightarrow>
    \<exists>attrs v v'. va_GetAttributes ad s h [AttrLabel] v = (Inr attrs, v') \<and>
      (\<forall>a \<in> set attrs. attr_Type a = AttrLabel \<longrightarrow> \<not> ca_key_label (attr_Value a))"
proof (induction hs arbitrary: t)
  case Nil
  then show ?case by simp
next
  case (Cons k hs)
  then obtain attrs v where get: "va_GetAttributes ad s k [AttrLabel] t = (Inr attrs, v)"
    by (auto simp: bindE_eq_Inr wrapE_eq_Inr)
  with Cons.prems(1) have none: "\<forall>a \<in> set attrs. attr_Type a = AttrLabel \<longrightarrow> \<not> ca_key_label (attr_Value a)"
    and rest: "check_no_ca_key ad s hs v = (Inr u, t')"
    by (auto simp: bindE_def wrapE_def rmatch_caKeyLabelPattern split: if_splits)
  show ?case
  proof (cases "h = k")
    case True
    with get none show ?thesis by blast
  next
    case False
    with Cons.prems(2) Cons.IH [OF rest] show ?thesis by simp
  qed
qed

lemma CheckNoCAHierarchyKey_Inr:
  assumes "CheckNoCAHierarchyKey ad s t = (Inr u, t')"
  shows "saw_no_ca_key ad s"
proof -
  from assms obtain handles t1 where
    "va_FindObjects ad s [NumericAttribute AttrClass ClassPrivateKey] t = (Inr handles, t1)"
    and check: "check_no_ca_key ad s handles t1 = (Inr u, t')"
    by (auto simp: CheckNoCAHierarchyKey_def bindE_eq_Inr wrapE_eq_Inr)
  with check_no_ca_key_Inr [OF check] show ?thesis unfolding saw_no_ca_key_def by blast
qed

text \<open>A public key object that reads as the point of \<open>pub\<close>.\<close>

definition same_point ::
    "(elliptic \<Rightarrow> int \<Rightarrow> int \<Rightarrow> bool) \<Rightarrow> elliptic \<Rightarrow> public_key \<Rightarrow> attribute list \<Rightarrow> bool" where
  "same_point on_curve curve pub attrs \<longleftrightarrow> attr_or_empty AttrEcPoint attrs \<noteq> [] \<and>
     DecodeECPoint on_curve curve (attr_or_empty AttrEcPoint attrs) = Inr pub"

definition reads_as :: "'s vendor_adapter \<Rightarrow> session_ref \<Rightarrow> object_handle \<Rightarrow> attribute list \<Rightarrow> bool" where
  "reads_as ad s h attrs \<longleftrightarrow> (\<exists>t t'. va_GetAttributes ad s h [AttrLabel, AttrEcPoint] t = (Inr attrs, t'))"

text \<open>
  The search for a duplicate ends without one: every public key read had this label or
  another point, or the search stopped at a duplicate that has no label.
\<close>

definition cleared_of ::
    "(elliptic \<Rightarrow> int \<Rightarrow> int \<Rightarrow> bool) \<Rightarrow> 's vendor_adapter \<Rightarrow> session_ref \<Rightarrow> string \<Rightarrow> public_key \<Rightarrow> elliptic \<Rightarrow>
     object_handle list \<Rightarrow> bool" where
  "cleared_of on_curve ad s ownLabel pub curve hs \<longleftrightarrow>
     (\<forall>h \<in> set hs. \<exists>attrs. reads_as ad s h attrs \<and>
        (attr_or_empty AttrLabel attrs = ownLabel \<or> \<not> same_point on_curve curve pub attrs)) \<or>
     (\<exists>h \<in> set hs. \<exists>attrs. reads_as ad s h attrs \<and> attr_or_empty AttrLabel attrs = [] \<and>
        same_point on_curve curve pub attrs)"

lemma duplicate_among_none:
  assumes "is_ecdsa pub"
  shows "duplicate_among on_curve ad s ownLabel pub curve hs t = (Inr [], t') \<Longrightarrow>
    cleared_of on_curve ad s ownLabel pub curve hs"
proof (induction hs arbitrary: t)
  case Nil
  then show ?case by (simp add: cleared_of_def)
next
  case (Cons h hs)
  then obtain attrs u where get: "va_GetAttributes ad s h [AttrLabel, AttrEcPoint] t = (Inr attrs, u)"
    by (auto simp: bindE_eq_Inr wrapE_eq_Inr)
  then have reads: "reads_as ad s h attrs" by (auto simp: reads_as_def)
  show ?case
  proof (cases "attr_or_empty AttrLabel attrs = ownLabel \<or> \<not> same_point on_curve curve pub attrs")
    case True
    then have "duplicate_among on_curve ad s ownLabel pub curve hs u = (Inr [], t') \<or>
        attr_or_empty AttrLabel attrs = [] \<and> same_point on_curve curve pub attrs"
      using Cons.prems get by (auto simp: Let_def same_point_def SameKey_iff assms bindE_def wrapE_def
          split: if_splits sum.splits)
    then have "cleared_of on_curve ad s ownLabel pub curve hs" using Cons.IH True Cons.prems get
      by (auto simp: Let_def same_point_def SameKey_iff assms bindE_def wrapE_def split: if_splits sum.splits)
    with True reads show ?thesis by (auto simp: cleared_of_def)
  next
    case False
    then have "attr_or_empty AttrLabel attrs = []"
      using Cons.prems get by (auto simp: Let_def same_point_def SameKey_iff assms bindE_def wrapE_def split: if_splits)
    with False reads show ?thesis by (auto simp: cleared_of_def)
  qed
qed

lemma signingkey_Load_Inr:
  "signingkey_Load on_curve ad s label curve t = (Inr key, t') \<Longrightarrow>
    key_Label key = label \<and> is_ecdsa (key_Public key)"
  by (auto simp: signingkey_Load_def bindE_eq_Inr wrapE_eq_Inr wrapR_eq_Inr DecodeECPoint_def
      split: option.splits list.splits)

lemma verifyProtection_Inr: "verifyProtection k = Inr u \<longleftrightarrow> key_Sensitive k \<and> \<not> key_Extractable k"
  by (auto simp: verifyProtection_def)

lemma Provision_Inr:
  assumes "Provision on_curve ad host s p t = (Inr key, t')"
  shows "is_ok (ValidateVersionedLabel (sp_Label p)) \<and> key_Label key = sp_Label p \<and> is_ecdsa (key_Public key) \<and>
    key_Sensitive key \<and> \<not> key_Extractable key \<and>
    (\<forall>class \<in> {ClassPublicKey, ClassPrivateKey}. \<exists>u u'. LabelIsFree ad s class (sp_Label p) u = (Inr True, u')) \<and>
    (\<exists>kid u h u'. va_GenerateKeyPair ad s (signing_request p kid) u = (Inr h, u')) \<and>
    (\<exists>curve handles u u'. ec_curve_Curve (sp_Curve p) = Some curve \<and>
       va_FindObjects ad s [NumericAttribute AttrClass ClassPublicKey] u = (Inr handles, u') \<and>
       cleared_of on_curve ad s (sp_Label p) (key_Public key) curve handles)"
proof -
  have reject: "reject_duplicate ad s label d u \<noteq> (Inr x, u')" for label d u x u'
    by (auto simp: reject_duplicate_def Let_def tryE_def split: prod.splits sum.splits)
  from assms obtain curve t1 kid t2 h t3 t4 t5 where v: "ValidateLabel (sp_Label p) = Inr ()"
    and curve: "ec_curve_Curve (sp_Curve p) = Some curve"
    and free: "forE (label_must_be_free ad s (sp_Label p)) [ClassPublicKey, ClassPrivateKey] t = (Inr (), t1)"
    and gen: "va_GenerateKeyPair ad s (signing_request p kid) t2 = (Inr h, t3)"
    and load: "signingkey_Load on_curve ad s (sp_Label p) (sp_Curve p) t3 = (Inr key, t4)"
    and prot: "verifyProtection key = Inr ()"
    and dup: "findDuplicatePoint on_curve ad s (sp_Label p) (key_Public key) curve t4 = (Inr [], t5)"
    by (auto simp: Provision_def bindE_eq_Inr wrapE_eq_Inr reject split: option.splits if_splits)
  have frees: "\<exists>u u'. LabelIsFree ad s cls (sp_Label p) u = (Inr True, u')"
    if "cls \<in> {ClassPublicKey, ClassPrivateKey}" for cls
    using that free by (auto simp: label_must_be_free_def bindE_eq_Inr wrapE_eq_Inr split: if_splits)
  from load have key: "key_Label key = sp_Label p" "is_ecdsa (key_Public key)"
    by (simp_all add: signingkey_Load_Inr)
  from dup obtain handles t6 where
    "va_FindObjects ad s [NumericAttribute AttrClass ClassPublicKey] t4 = (Inr handles, t6)"
    "cleared_of on_curve ad s (sp_Label p) (key_Public key) curve handles"
    by (auto simp: findDuplicatePoint_def bindE_eq_Inr wrapE_eq_Inr intro: duplicate_among_none [OF key(2)])
  with v curve frees gen key prot show ?thesis
    by (auto simp: ValidateLabel_def is_ok_def verifyProtection_Inr split: sum.splits)
qed

end
