(* ===== verification/Inventory.thy ===== *)
theory Inventory
  imports X509
begin

text \<open>
  \<^verbatim>\<open>internal/inventory\<close>: the published list of signing keys, its rules, its signature
  and the entries a verifier or a signer may use at an instant. Purposes and statuses
  are strings, as in Go. JSON, PEM, PKIX, SHA-256 and ECDSA verification are fields of
  \<open>inventory_lib\<close>; the JSON decoder returns the first value it reads and what follows
  it. \<^verbatim>\<open>Validate\<close> is proved equivalent to the declarative \<open>inventory_ok\<close>.
\<close>

section \<open>The document\<close>

definition Schema :: string where "Schema = ''hsm-pki-platform/key-inventory/v1''"

type_synonym purpose = string
definition PurposeImage :: purpose where "PurposeImage = ''image''"
definition PurposeArtifact :: purpose where "PurposeArtifact = ''artifact''"

type_synonym key_status = string
definition StatusActive :: key_status where "StatusActive = ''active''"
definition StatusVerifyOnly :: key_status where "StatusVerifyOnly = ''verify-only''"
definition StatusRetired :: key_status where "StatusRetired = ''retired''"

lemmas status_defs = StatusActive_def StatusVerifyOnly_def StatusRetired_def

record inv_entry =
  ie_Label :: string
  ie_Purpose :: purpose
  ie_Curve :: string
  ie_PublicKeyPEM :: string
  ie_ValidFrom :: time
  ie_RetiredAt :: "time option"
  ie_Status :: key_status

record key_inventory =
  inv_Schema :: string
  inv_Version :: int
  inv_GeneratedAt :: time
  inv_ValidUntil :: time
  inv_Keys :: "inv_entry list"

record inventory_lib =
  il_pem_decode :: "string \<Rightarrow> (string \<times> bytes \<times> string) option"
  il_parse_pkix :: "bytes \<Rightarrow> public_key res"
  il_json_encode :: "key_inventory \<Rightarrow> bytes res"
  il_json_decode :: "bytes \<Rightarrow> (key_inventory \<times> bytes) res"
  il_sha256 :: "bytes \<Rightarrow> bytes"
  il_verify_asn1 :: "public_key \<Rightarrow> bytes \<Rightarrow> bytes \<Rightarrow> bool"

abbreviation invalid :: "string \<Rightarrow> go_error" where
  "invalid msg \<equiv> Wrap msg (Sentinel (InventoryErr ErrInvalid))"

section \<open>Validation\<close>

definition entry_PublicKey :: "inventory_lib \<Rightarrow> inv_entry \<Rightarrow> public_key res" where
  "entry_PublicKey lib e =
     (case il_pem_decode lib (ie_PublicKeyPEM e) of
        None \<Rightarrow> Inl (invalid ''not exactly one PUBLIC KEY PEM block'')
      | Some (ty, der, rest) \<Rightarrow>
          if ty \<noteq> ''PUBLIC KEY'' \<or> rest \<noteq> [] then Inl (invalid ''not exactly one PUBLIC KEY PEM block'')
          else case il_parse_pkix lib der of
              Inl _ \<Rightarrow> Inl (invalid ''parsing public key'')
            | Inr pub \<Rightarrow> if is_ecdsa pub then Inr pub else Inl (invalid ''not an ECDSA key''))"

fun key_point :: "public_key \<Rightarrow> int \<times> int" where
  "key_point (EcdsaKey _ x y) = (x, y)"
| "key_point _ = (0, 0)"

definition check_entry :: "inv_entry \<Rightarrow> unit res" where
  "check_entry e =
     (if ie_Purpose e \<noteq> PurposeImage \<and> ie_Purpose e \<noteq> PurposeArtifact then Inl (invalid ''purpose'')
      else if ie_Status e \<noteq> StatusActive \<and> ie_Status e \<noteq> StatusVerifyOnly \<and> ie_Status e \<noteq> StatusRetired
      then Inl (invalid ''status'')
      else if ie_Curve e = [] then Inl (invalid ''states no curve'')
      else if ie_ValidFrom e = 0 then Inl (invalid ''no valid_from'')
      else if ie_Status e = StatusRetired \<and> ie_RetiredAt e = None then Inl (invalid ''retired without retired_at'')
      else if ie_Status e \<noteq> StatusRetired \<and> ie_RetiredAt e \<noteq> None then Inl (invalid ''carries a retired_at'')
      else case ie_RetiredAt e of
          Some t \<Rightarrow> if t < ie_ValidFrom e then Inl (invalid ''retired before it was valid'') else Inr ()
        | None \<Rightarrow> Inr ())"

fun validate_entries ::
    "inventory_lib \<Rightarrow> (string \<Rightarrow> bool) \<Rightarrow> (int \<times> int \<Rightarrow> string option) \<Rightarrow> inv_entry list \<Rightarrow> unit res" where
  "validate_entries lib seenLabel seenKey [] = Inr ()"
| "validate_entries lib seenLabel seenKey (e # es) =
     (if ie_Label e = [] then Inl (invalid ''an entry has no label'')
      else if seenLabel (ie_Label e) then Inl (invalid ''label appears twice'')
      else bindR (check_entry e) (\<lambda>_.
           bindR (entry_PublicKey lib e) (\<lambda>pub.
           case seenKey (key_point pub) of
             Some other \<Rightarrow> Inl (invalid ''the same key pair under two labels'')
           | None \<Rightarrow> validate_entries lib (seenLabel(ie_Label e := True))
                       (seenKey(key_point pub \<mapsto> ie_Label e)) es)))"

definition inventory_Validate :: "inventory_lib \<Rightarrow> key_inventory \<Rightarrow> unit res" where
  "inventory_Validate lib doc =
     (if inv_Schema doc \<noteq> Schema then Inl (invalid ''schema'')
      else if inv_Version doc < 1 then Inl (invalid ''version'')
      else if inv_GeneratedAt doc = 0 then Inl (invalid ''generated_at is unset'')
      else if \<not> inv_ValidUntil doc > inv_GeneratedAt doc then Inl (invalid ''valid_until is not after generated_at'')
      else if inv_Keys doc = [] then Inl (invalid ''no keys'')
      else validate_entries lib (\<lambda>_. False) (\<lambda>_. None) (inv_Keys doc))"

section \<open>Entries by purpose\<close>

definition Active :: "key_inventory \<Rightarrow> purpose \<Rightarrow> inv_entry list" where
  "Active doc p = filter (\<lambda>e. ie_Purpose e = p \<and> ie_Status e = StatusActive) (inv_Keys doc)"

definition Verifiable :: "key_inventory \<Rightarrow> purpose \<Rightarrow> inv_entry list" where
  "Verifiable doc p = filter (\<lambda>e. ie_Purpose e = p \<and>
     (ie_Status e = StatusActive \<or> ie_Status e = StatusVerifyOnly)) (inv_Keys doc)"

definition checkFresh :: "key_inventory \<Rightarrow> time \<Rightarrow> unit res" where
  "checkFresh doc now =
     (if now > inv_ValidUntil doc then Inl (Wrap ''the inventory expired'' (Sentinel (InventoryErr ErrExpired)))
      else Inr ())"

definition VerifiableAt :: "key_inventory \<Rightarrow> purpose \<Rightarrow> time \<Rightarrow> inv_entry list res" where
  "VerifiableAt doc p now =
     bindR (checkFresh doc now) (\<lambda>_. Inr (filter (\<lambda>e. \<not> ie_ValidFrom e > now) (Verifiable doc p)))"

definition ActiveAt :: "key_inventory \<Rightarrow> purpose \<Rightarrow> time \<Rightarrow> inv_entry list res" where
  "ActiveAt doc p now =
     bindR (checkFresh doc now) (\<lambda>_. Inr (filter (\<lambda>e. \<not> ie_ValidFrom e > now) (Active doc p)))"

section \<open>The published bytes\<close>

definition inventory_Marshal :: "inventory_lib \<Rightarrow> key_inventory \<Rightarrow> bytes res" where
  "inventory_Marshal lib doc =
     bindR (inventory_Validate lib doc) (\<lambda>_.
     bindR (wrapR ''inventory: encoding'' (il_json_encode lib doc)) (\<lambda>out. Inr (out @ [CHR 0x0A])))"

definition inventory_Parse :: "inventory_lib \<Rightarrow> bytes \<Rightarrow> key_inventory res" where
  "inventory_Parse lib data =
     (case il_json_decode lib data of
        Inl err \<Rightarrow> Inl (invalid ''decoding'')
      | Inr (doc, rest) \<Rightarrow> bindR (inventory_Validate lib doc) (\<lambda>_. Inr doc))"

definition inventory_Verify :: "inventory_lib \<Rightarrow> bytes \<Rightarrow> bytes \<Rightarrow> public_key option \<Rightarrow> unit res" where
  "inventory_Verify lib document signature pub =
     (case pub of
        None \<Rightarrow> Inl (Errorf ''inventory: no public key to verify against'')
      | Some k \<Rightarrow> if il_verify_asn1 lib k (il_sha256 lib document) signature then Inr ()
                 else Inl (Errorf ''inventory: signature does not verify''))"

section \<open>What validation decides\<close>

definition entry_ok :: "inventory_lib \<Rightarrow> inv_entry \<Rightarrow> bool" where
  "entry_ok lib e \<longleftrightarrow> ie_Label e \<noteq> [] \<and> ie_Purpose e \<in> {PurposeImage, PurposeArtifact} \<and>
     ie_Status e \<in> {StatusActive, StatusVerifyOnly, StatusRetired} \<and> ie_Curve e \<noteq> [] \<and> ie_ValidFrom e \<noteq> 0 \<and>
     (case ie_RetiredAt e of None \<Rightarrow> ie_Status e \<noteq> StatusRetired
      | Some t \<Rightarrow> ie_Status e = StatusRetired \<and> ie_ValidFrom e \<le> t) \<and>
     is_ok (entry_PublicKey lib e)"

text \<open>The point an entry publishes, where it publishes one.\<close>

definition entry_point :: "inventory_lib \<Rightarrow> inv_entry \<Rightarrow> (int \<times> int) option" where
  "entry_point lib e = (case entry_PublicKey lib e of Inl _ \<Rightarrow> None | Inr pub \<Rightarrow> Some (key_point pub))"

definition inventory_ok :: "inventory_lib \<Rightarrow> key_inventory \<Rightarrow> bool" where
  "inventory_ok lib doc \<longleftrightarrow> inv_Schema doc = Schema \<and> 1 \<le> inv_Version doc \<and> inv_GeneratedAt doc \<noteq> 0 \<and>
     inv_GeneratedAt doc < inv_ValidUntil doc \<and> inv_Keys doc \<noteq> [] \<and>
     (\<forall>e \<in> set (inv_Keys doc). entry_ok lib e) \<and>
     distinct (map ie_Label (inv_Keys doc)) \<and> distinct (map (entry_point lib) (inv_Keys doc))"

lemma check_entry_iff: "is_ok (check_entry e) \<longleftrightarrow>
    ie_Purpose e \<in> {PurposeImage, PurposeArtifact} \<and>
    ie_Status e \<in> {StatusActive, StatusVerifyOnly, StatusRetired} \<and> ie_Curve e \<noteq> [] \<and> ie_ValidFrom e \<noteq> 0 \<and>
    (case ie_RetiredAt e of None \<Rightarrow> ie_Status e \<noteq> StatusRetired
      | Some t \<Rightarrow> ie_Status e = StatusRetired \<and> ie_ValidFrom e \<le> t)"
  by (auto simp: check_entry_def split: option.splits)

lemma is_ok_bindR: "is_ok (bindR r f) \<longleftrightarrow> (\<exists>x. r = Inr x \<and> is_ok (f x))"
  by (cases r) simp_all

lemma is_ok_unit: "is_ok (r :: unit res) \<longleftrightarrow> r = Inr ()"
  by (cases r) simp_all

lemma validate_entries_iff:
  "is_ok (validate_entries lib seenLabel seenKey es) \<longleftrightarrow>
     (\<forall>e \<in> set es. entry_ok lib e \<and> \<not> seenLabel (ie_Label e) \<and> entry_point lib e \<notin> Some ` dom seenKey) \<and>
     distinct (map ie_Label es) \<and> distinct (map (entry_point lib) es)"
proof (induction es arbitrary: seenLabel seenKey)
  case Nil
  then show ?case by simp
next
  case (Cons e es)
  have head: "entry_ok lib e \<longleftrightarrow> ie_Label e \<noteq> [] \<and> check_entry e = Inr () \<and> (\<exists>pub. entry_PublicKey lib e = Inr pub)"
    using check_entry_iff [of e] by (simp add: entry_ok_def is_ok_unit) (auto simp: is_ok_iff)
  show ?case
  proof (cases "entry_ok lib e \<and> \<not> seenLabel (ie_Label e)")
    case False
    then show ?thesis
      by (auto simp: head is_ok_bindR)
  next
    case True
    then obtain pub where pub: "entry_PublicKey lib e = Inr pub" and ok: "ie_Label e \<noteq> []" "check_entry e = Inr ()"
      by (auto simp: head)
    have point: "entry_point lib e = Some (key_point pub)" by (simp add: entry_point_def pub)
    show ?thesis
    proof (cases "seenKey (key_point pub)")
      case (Some other)
      then show ?thesis using True pub ok point by auto
    next
      case None
      have step: "validate_entries lib seenLabel seenKey (e # es) =
          validate_entries lib (seenLabel(ie_Label e := True)) (seenKey(key_point pub \<mapsto> ie_Label e)) es"
        using True None pub ok by simp
      have labels: "(seenLabel(ie_Label e := True)) l \<longleftrightarrow> l = ie_Label e \<or> seenLabel l" for l by simp
      have keys: "q \<in> Some ` dom (seenKey(key_point pub \<mapsto> ie_Label e)) \<longleftrightarrow>
          q = entry_point lib e \<or> q \<in> Some ` dom seenKey" for q
        by (simp only: point dom_fun_upd option.distinct if_False image_insert insert_iff)
      show ?thesis
        unfolding step Cons.IH labels keys using True None point by (auto intro: rev_image_eqI)
    qed
  qed
qed

lemma validate_entries_error:
  "validate_entries lib seenLabel seenKey es = Inl err \<Longrightarrow> errors_is err (InventoryErr ErrInvalid)"
  by (induction lib seenLabel seenKey es rule: validate_entries.induct)
    (auto simp: res_simps check_entry_def entry_PublicKey_def split: if_splits option.splits sum.splits)

lemma inventory_Validate_Inr: "inventory_Validate lib doc = Inr u \<longleftrightarrow> inventory_ok lib doc"
proof -
  have "validate_entries lib (\<lambda>_. False) (\<lambda>_. None) (inv_Keys doc) = Inr () \<longleftrightarrow>
      (\<forall>e \<in> set (inv_Keys doc). entry_ok lib e) \<and> distinct (map ie_Label (inv_Keys doc)) \<and>
      distinct (map (entry_point lib) (inv_Keys doc))"
    using validate_entries_iff [of lib "\<lambda>_. False" "\<lambda>_. None" "inv_Keys doc"] by (simp add: is_ok_unit)
  then show ?thesis by (auto simp: inventory_Validate_def inventory_ok_def)
qed

lemma inventory_Marshal_Inr:
  "inventory_Marshal lib doc = Inr bytes \<longleftrightarrow>
     inventory_ok lib doc \<and> (\<exists>out. il_json_encode lib doc = Inr out \<and> bytes = out @ [CHR 0x0A])"
  by (auto simp: inventory_Marshal_def res_simps inventory_Validate_Inr)

lemma inventory_Parse_Inr:
  "inventory_Parse lib data = Inr doc \<longleftrightarrow> inventory_ok lib doc \<and> (\<exists>rest. il_json_decode lib data = Inr (doc, rest))"
  by (auto simp: inventory_Parse_def res_simps inventory_Validate_Inr split: sum.splits)

text \<open>
  C30: \<^verbatim>\<open>Validate\<close>, which walks the entries once with the labels and points seen so
  far, accepts exactly the documents the rules describe: every entry well-formed, its
  status agreeing with its retirement date, its key a single ECDSA key, no label and no
  public point listed twice. Every refusal is \<^verbatim>\<open>ErrInvalid\<close>.
\<close>
theorem inventory_Validate_decides:
  "(inventory_Validate lib doc = Inr () \<longleftrightarrow> inventory_ok lib doc) \<and>
   (case inventory_Validate lib doc of Inl err \<Rightarrow> errors_is err (InventoryErr ErrInvalid) | Inr _ \<Rightarrow> True)"
  using inventory_Validate_Inr [of lib doc "()"] validate_entries_error
  by (auto simp: inventory_Validate_def split: sum.splits if_splits)

text \<open>
  C31: What a verifier may accept at an instant: when the document is not past its
  expiry (otherwise the whole is refused with \<^verbatim>\<open>ErrExpired\<close>), exactly the entries of the
  purpose that have begun and are not retired; what a signer may use is a part of it.
  Given a valid document no two of them share a public point, so a signature names its key.
\<close>
theorem VerifiableAt_exact:
  assumes "inventory_ok lib doc"
  shows "(now \<le> inv_ValidUntil doc \<longrightarrow>
     (\<exists>vs as. VerifiableAt doc p now = Inr vs \<and> ActiveAt doc p now = Inr as \<and> set as \<subseteq> set vs \<and>
       set vs = {e \<in> set (inv_Keys doc). ie_Purpose e = p \<and> ie_ValidFrom e \<le> now \<and> ie_RetiredAt e = None} \<and>
       (\<forall>a \<in> set vs. \<forall>b \<in> set vs. entry_point lib a = entry_point lib b \<longrightarrow> a = b))) \<and>
   (inv_ValidUntil doc < now \<longrightarrow>
     (\<exists>err. VerifiableAt doc p now = Inl err \<and> ActiveAt doc p now = Inl err \<and> errors_is err (InventoryErr ErrExpired)))"
proof -
  have status: "ie_Status e = StatusActive \<or> ie_Status e = StatusVerifyOnly \<longleftrightarrow> ie_RetiredAt e = None"
    if "e \<in> set (inv_Keys doc)" for e
    using assms that by (auto simp: inventory_ok_def entry_ok_def status_defs split: option.splits)
  have inj: "inj_on (entry_point lib) (set (inv_Keys doc))"
    using assms by (simp add: inventory_ok_def distinct_map)
  show ?thesis
    using status by (auto simp: VerifiableAt_def ActiveAt_def checkFresh_def Verifiable_def Active_def
        intro: inj_onD [OF inj])
qed

text \<open>A library and a document for the evaluated examples: the text of a key is its point.\<close>

definition toy_inventory_lib :: inventory_lib where
  "toy_inventory_lib = \<lparr>il_pem_decode = (\<lambda>t. Some (''PUBLIC KEY'', t, [])),
     il_parse_pkix = (\<lambda>b. Inr (EcdsaKey EC_P256 (int (length b)) 0)), il_json_encode = (\<lambda>_. Inr ''{}''),
     il_json_decode = (\<lambda>_. Inl (Errorf ''unused'')), il_sha256 = id, il_verify_asn1 = (\<lambda>_ _ _. True)\<rparr>"

definition toy_entry :: "string \<Rightarrow> string \<Rightarrow> key_status \<Rightarrow> inv_entry" where
  "toy_entry label pem status = \<lparr>ie_Label = label, ie_Purpose = PurposeImage, ie_Curve = ''P-256'',
     ie_PublicKeyPEM = pem, ie_ValidFrom = 1, ie_RetiredAt = (if status = StatusRetired then Some 2 else None),
     ie_Status = status\<rparr>"

definition toy_inventory :: key_inventory where
  "toy_inventory = \<lparr>inv_Schema = Schema, inv_Version = 1, inv_GeneratedAt = 1, inv_ValidUntil = 9,
     inv_Keys = [toy_entry ''k-v1'' ''a'' StatusRetired, toy_entry ''k-v2'' ''ab'' StatusVerifyOnly,
       toy_entry ''k-v3'' ''abc'' StatusActive]\<rparr>"

lemma toy_inventory_ok: "inventory_ok toy_inventory_lib toy_inventory"
  by code_simp

theorem VerifiableAt_exact_witness:
  "\<exists>vs. VerifiableAt toy_inventory PurposeImage 5 = Inr vs \<and> length vs = 2 \<and>
     set vs = {e \<in> set (inv_Keys toy_inventory). ie_Purpose e = PurposeImage \<and> ie_ValidFrom e \<le> 5 \<and> ie_RetiredAt e = None}"
proof -
  have vs: "VerifiableAt toy_inventory PurposeImage 5 =
      Inr [toy_entry ''k-v2'' ''ab'' StatusVerifyOnly, toy_entry ''k-v3'' ''abc'' StatusActive]" by code_simp
  with VerifiableAt_exact [OF toy_inventory_ok, of 5 PurposeImage] show ?thesis
    by (auto simp: toy_inventory_def)
qed

end
