(* ===== verification/Config.thy ===== *)
theory Config
  imports Entitlement CA Pkcs11_Types Decimal
begin

text \<open>
  \<^verbatim>\<open>internal/config\<close>: the service's configuration and the checks \<^verbatim>\<open>Load\<close> makes before
  any token is opened. YAML decoding, \<^verbatim>\<open>time.ParseDuration\<close> and the query and fragment
  of a parsed URL are fields of \<open>config_lib\<close>; the environment is a function from names
  to values. Where the code ranges over a map of required fields, the first empty one
  in an unspecified order is named in the error; the model only says that one is empty.
\<close>

record tls_config =
  tc_ListenAddr :: string
  tc_KeyLabel :: string
  tc_CertPath :: string

record server_config =
  sc_ListenAddr :: string
  sc_TLS :: "tls_config option"

record api_config =
  ac_Issuers :: "(string \<times> entitlement_spec) list"
  ac_Entitlements :: entitlement_map
  ac_Revokers :: "string list"

record session_config =
  se_IdleTimeout :: string
  se_MaxTTL :: string

record vendor_config =
  vc_ModulePath :: string
  vc_WorkspaceLabel :: string
  vc_PINEnv :: string
  vc_Role :: string

record pkcs11_config =
  pc_Adapter :: string
  pc_Session :: session_config
  pc_SoftHSM2 :: "vendor_config option"
  pc_ProtectServer :: "vendor_config option"
  pc_Luna :: "vendor_config option"
  pc_SessionOptions :: session_options

record ocsp_config =
  oc_KeyLabel :: string
  oc_Subject :: string

record ca_config =
  cc_CurveName :: string
  cc_CertTTLHours :: int
  cc_Profiles :: "(string \<times> profile_spec) list option"
  cc_ProfileSet :: profile_set
  cc_OCSP :: "ocsp_config option"
  cc_IntermediateKeyLabel :: string
  cc_IntermediateCertPath :: string
  cc_RootCertPath :: string
  cc_RootCRLPath :: string
  cc_BaseURL :: string
  cc_CRLValidityHours :: int
  cc_StorePath :: string
  cc_CRLNumberFloor :: string

record config =
  cfg_Server :: server_config
  cfg_PKCS11 :: pkcs11_config
  cfg_CA :: ca_config
  cfg_API :: api_config

record config_lib =
  cl_x509 :: x509_lib
  cl_net :: net_lib
  cl_yaml :: "bytes \<Rightarrow> config res"
  cl_parse_duration :: "string \<Rightarrow> duration res"
  cl_url_suffix :: "string \<Rightarrow> (string \<times> string) res"
  cl_LookupEnv :: "string \<Rightarrow> string option"

definition defaultCRLValidityHours :: int where "defaultCRLValidityHours = 24"

section \<open>The parts of the file\<close>

definition ParseCurve :: "string \<Rightarrow> ec_curve res" where
  "ParseCurve s =
     (if s = ''P-256'' then Inr P256 else if s = ''P-384'' then Inr P384
      else if s = ''P-521'' then Inr P521 else Inl (Errorf ''config: unknown ca.curve''))"

definition selectedVendor :: "pkcs11_config \<Rightarrow> vendor_config res" where
  "selectedVendor p =
     (let pick = (\<lambda>v. case v of None \<Rightarrow> Inl (Errorf ''config: the adapter's section is not configured'')
                              | Some c \<Rightarrow> Inr c) in
      if pc_Adapter p = AdapterSoftHSM2 then pick (pc_SoftHSM2 p)
      else if pc_Adapter p = AdapterProtectServer then pick (pc_ProtectServer p)
      else if pc_Adapter p = AdapterLuna then pick (pc_Luna p)
      else Inl (Errorf ''config: unknown pkcs11.adapter''))"

definition positive_duration :: "config_lib \<Rightarrow> duration \<Rightarrow> string \<Rightarrow> duration res" where
  "positive_duration lib dflt s =
     (if s = [] then Inr dflt
      else bindR (wrapR ''config: pkcs11.session'' (cl_parse_duration lib s)) (\<lambda>v.
        if v \<le> 0 then Inl (Errorf ''config: must be positive'') else Inr v))"

definition session_parse :: "config_lib \<Rightarrow> session_config \<Rightarrow> session_options res" where
  "session_parse lib s =
     bindR (positive_duration lib (so_IdleTimeout DefaultSessionOptions) (se_IdleTimeout s)) (\<lambda>idle.
     bindR (positive_duration lib (so_MaxTTL DefaultSessionOptions) (se_MaxTTL s)) (\<lambda>maxTTL.
     Inr \<lparr>so_IdleTimeout = idle, so_MaxTTL = maxTTL\<rparr>))"

definition validateBaseURL :: "config_lib \<Rightarrow> string \<Rightarrow> unit res" where
  "validateBaseURL lib raw =
     bindR (wrapR ''config'' (ValidateDistributionURL (cl_x509 lib) ''ca.base_url'' raw)) (\<lambda>_.
     bindR (wrapR ''config: ca.base_url is not a valid URL'' (cl_url_suffix lib raw)) (\<lambda>(query, fragment).
     if query \<noteq> [] \<or> fragment \<noteq> [] then Inl (Errorf ''config: ca.base_url must not carry a query'') else Inr ()))"

definition loadProfiles :: "(string \<times> profile_spec) list option \<Rightarrow> duration \<Rightarrow> profile_set res" where
  "loadProfiles specs ceiling =
     bindR (case specs of
         None \<Rightarrow> Inr Builtin
       | Some s \<Rightarrow> wrapR ''config: ca.profiles'' (profile_Parse s)) (\<lambda>profs.
     bindR (wrapR ''config: ca.profiles'' (set_Validate profs ceiling)) (\<lambda>_. Inr profs))"

definition validateOCSP :: "config \<Rightarrow> unit res" where
  "validateOCSP c =
     (case cc_OCSP (cfg_CA c) of
        None \<Rightarrow> Inr ()
      | Some ocsp \<Rightarrow>
          if oc_KeyLabel ocsp = [] then Inl (Errorf ''config: ca.ocsp.key_label is empty'')
          else if oc_KeyLabel ocsp = cc_IntermediateKeyLabel (cfg_CA c)
          then Inl (Errorf ''config: ca.ocsp.key_label is the intermediate's key label'')
          else if (case sc_TLS (cfg_Server c) of None \<Rightarrow> False | Some t \<Rightarrow> oc_KeyLabel ocsp = tc_KeyLabel t)
          then Inl (Errorf ''config: ca.ocsp.key_label is the TLS key's label'')
          else case set_Lookup (cc_ProfileSet (cfg_CA c)) InternalOnlyProfile of
              Inl _ \<Rightarrow> Inl (Errorf ''config: ca.profiles does not define the responder's profile'')
            | Inr _ \<Rightarrow> Inr ())"

fun check_revokers :: "string set \<Rightarrow> string list \<Rightarrow> unit res" where
  "check_revokers seen [] = Inr ()"
| "check_revokers seen (i # is) =
     (if i = [] then Inl (Errorf ''config: api.revokers contains an empty identity'')
      else if i \<in> seen then Inl (Errorf ''config: api.revokers lists an identity twice'')
      else check_revokers (insert i seen) is)"

text \<open>The grants of every identity, in the order of the sorted names, checked against the set.\<close>

definition check_grants :: "profile_set \<Rightarrow> entitlement_map \<Rightarrow> unit res" where
  "check_grants profs ents =
     forR (\<lambda>identity. forR (\<lambda>name. case set_Lookup profs name of
           Inl _ \<Rightarrow> Inl (Errorf ''config: granted profile is not defined'')
         | Inr _ \<Rightarrow> Inr ()) (case map_of ents identity of None \<Rightarrow> [] | Some e \<Rightarrow> Profiles e)) (Identities ents)"

definition validateAuthenticatedSurface :: "config_lib \<Rightarrow> config \<Rightarrow> config res" where
  "validateAuthenticatedSurface lib c =
     (case sc_TLS (cfg_Server c) of
        None \<Rightarrow>
          if ac_Issuers (cfg_API c) \<noteq> [] \<or> ac_Revokers (cfg_API c) \<noteq> []
          then Inl (Errorf ''config: api is set but server.tls is not'') else Inr c
      | Some t \<Rightarrow>
          if tc_ListenAddr t = [] \<or> tc_KeyLabel t = [] \<or> tc_CertPath t = []
          then Inl (Errorf ''config: a server.tls field is empty'')
          else if tc_ListenAddr t = sc_ListenAddr (cfg_Server c)
          then Inl (Errorf ''config: the two surfaces need their own listeners'')
          else if tc_KeyLabel t = cc_IntermediateKeyLabel (cfg_CA c)
          then Inl (Errorf ''config: server.tls.key_label is the intermediate's key label'')
          else if ac_Issuers (cfg_API c) = [] then Inl (Errorf ''config: api.issuers is empty'')
          else
          bindR (wrapR ''config: api.issuers'' (entitlement_Parse (cl_net lib) (ac_Issuers (cfg_API c)))) (\<lambda>ents.
          bindR (check_grants (cc_ProfileSet (cfg_CA c)) ents) (\<lambda>_.
          if ac_Revokers (cfg_API c) = [] then Inl (Errorf ''config: api.revokers is empty'')
          else bindR (check_revokers {} (ac_Revokers (cfg_API c))) (\<lambda>_.
          Inr (c\<lparr>cfg_API := (cfg_API c)\<lparr>ac_Entitlements := ents\<rparr>\<rparr>)))))"

section \<open>Loading\<close>

definition check_vendor :: "config_lib \<Rightarrow> pkcs11_config \<Rightarrow> unit res" where
  "check_vendor lib p =
     bindR (selectedVendor p) (\<lambda>v.
     if vc_ModulePath v = [] then Inl (Errorf ''config: module_path is empty'')
     else if vc_WorkspaceLabel v = [] then Inl (Errorf ''config: workspace_label is empty'')
     else if vc_PINEnv v = [] then Inl (Errorf ''config: pin_env is empty'')
     else bindR (wrapR ''config: role'' (RoleByName (pc_Adapter p) (vc_Role v))) (\<lambda>_.
       case cl_LookupEnv lib (vc_PINEnv v) of
         None \<Rightarrow> Inl (Errorf ''config: environment variable is not set'')
       | Some pin \<Rightarrow> if pin = [] then Inl (Errorf ''config: environment variable is set but empty'') else Inr ()))"

definition check_floor :: "string \<Rightarrow> unit res" where
  "check_floor s =
     (if s = [] then Inr ()
      else case set_string s of
          None \<Rightarrow> Inl (Errorf ''config: ca.crl_number_floor is not a decimal integer'')
        | Some f \<Rightarrow> if f < 0 then Inl (Errorf ''config: ca.crl_number_floor is negative'') else Inr ())"

definition CRLFloor :: "ca_config \<Rightarrow> int option" where
  "CRLFloor c = (if cc_CRLNumberFloor c = [] then None else set_string (cc_CRLNumberFloor c))"

definition config_Load :: "config_lib \<Rightarrow> (string \<Rightarrow> bytes res) \<Rightarrow> string \<Rightarrow> config res" where
  "config_Load lib ReadFile path =
     bindR (wrapR ''config: reading'' (ReadFile path)) (\<lambda>data.
     bindR (wrapR ''config: parsing'' (cl_yaml lib data)) (\<lambda>c.
     bindR (check_vendor lib (cfg_PKCS11 c)) (\<lambda>_.
     bindR (session_parse lib (pc_Session (cfg_PKCS11 c))) (\<lambda>opts.
     bindR (ParseCurve (cc_CurveName (cfg_CA c))) (\<lambda>_.
     if cc_CertTTLHours (cfg_CA c) \<le> 0 then Inl (Errorf ''config: ca.cert_ttl_hours must be positive'')
     else
     bindR (loadProfiles (cc_Profiles (cfg_CA c)) (int64 (cc_CertTTLHours (cfg_CA c) * hour))) (\<lambda>profiles.
     if cc_IntermediateKeyLabel (cfg_CA c) = [] \<or> cc_IntermediateCertPath (cfg_CA c) = [] \<or>
        cc_RootCertPath (cfg_CA c) = [] \<or> cc_RootCRLPath (cfg_CA c) = [] \<or>
        cc_StorePath (cfg_CA c) = [] \<or> cc_BaseURL (cfg_CA c) = []
     then Inl (Errorf ''config: a required field of ca is empty'')
     else
     bindR (validateBaseURL lib (cc_BaseURL (cfg_CA c))) (\<lambda>_.
     bindR (check_floor (cc_CRLNumberFloor (cfg_CA c))) (\<lambda>_.
     let ca' = (cfg_CA c)\<lparr>cc_ProfileSet := profiles,
               cc_CRLValidityHours := (if cc_CRLValidityHours (cfg_CA c) = 0 then defaultCRLValidityHours
                                       else cc_CRLValidityHours (cfg_CA c))\<rparr>;
         c' = c\<lparr>cfg_PKCS11 := (cfg_PKCS11 c)\<lparr>pc_SessionOptions := opts\<rparr>, cfg_CA := ca'\<rparr> in
     bindR (validateAuthenticatedSurface lib c') (\<lambda>c''.
     bindR (validateOCSP c'') (\<lambda>_. Inr c''))))))))))"

text \<open>What the callers read back, which \<^verbatim>\<open>Load\<close> has validated.\<close>

definition LoginRole :: "config \<Rightarrow> login_role res" where
  "LoginRole c = bindR (selectedVendor (cfg_PKCS11 c)) (\<lambda>v. RoleByName (pc_Adapter (cfg_PKCS11 c)) (vc_Role v))"

definition ResolvePIN :: "config_lib \<Rightarrow> config \<Rightarrow> bytes res" where
  "ResolvePIN lib c =
     bindR (selectedVendor (cfg_PKCS11 c)) (\<lambda>v.
     case cl_LookupEnv lib (vc_PINEnv v) of
       None \<Rightarrow> Inl (Errorf ''config: environment variable is not set'')
     | Some pin \<Rightarrow> if pin = [] then Inl (Errorf ''config: environment variable is not set'') else Inr pin)"

definition config_Curve :: "ca_config \<Rightarrow> ec_curve" where
  "config_Curve c = (case ParseCurve (cc_CurveName c) of Inr curve \<Rightarrow> curve | Inl _ \<Rightarrow> P256)"

section \<open>What a loaded configuration has\<close>

lemma session_parse_Inr:
  "session_parse lib se = Inr opts \<Longrightarrow> 0 < so_IdleTimeout opts \<and> 0 < so_MaxTTL opts"
  by (auto simp: session_parse_def positive_duration_def DefaultSessionOptions_def minute_def hour_def second_def
      res_simps split: if_splits)

lemma check_vendor_Inr:
  "check_vendor lib p = Inr u \<Longrightarrow> \<exists>v r pin. selectedVendor p = Inr v \<and> RoleByName (pc_Adapter p) (vc_Role v) = Inr r \<and>
     cl_LookupEnv lib (vc_PINEnv v) = Some pin \<and> pin \<noteq> [] \<and> vc_ModulePath v \<noteq> [] \<and> vc_WorkspaceLabel v \<noteq> []"
  by (auto simp: check_vendor_def res_simps split: if_splits option.splits)

lemma check_vendor_budget [simp]: "check_vendor lib (p\<lparr>pc_SessionOptions := opts\<rparr>) = check_vendor lib p"
  by (simp add: check_vendor_def selectedVendor_def Let_def cong: if_cong)

lemma RoleByName_not_so: "RoleByName adapter name = Inr r \<Longrightarrow> role_Role r \<noteq> RoleSO"
  by (auto simp: RoleByName_def adapterRoles_def role_Role_def CryptoOfficer_def RoleUser_def RoleSO_def
      LunaRoleLimitedCryptoOfficer_def LunaRoleCryptoUser_def split: option.splits if_splits)

lemma check_revokers_Inr:
  "check_revokers seen is = Inr u \<longleftrightarrow> [] \<notin> set is \<and> distinct is \<and> seen \<inter> set is = {}"
  by (induction seen "is" rule: check_revokers.induct) auto

lemma check_grants_Inr:
  assumes "check_grants profs ents = Inr u" "map_of ents identity = Some e" "name \<in> set (ent_profiles e)"
  shows "\<exists>p. set_Lookup profs name = Inr p"
proof -
  from assms(2) have "identity \<in> set (Identities ents)"
    by (force simp: Identities_def dest: map_of_SomeD)
  with assms(1,2) have "\<forall>name \<in> set (Profiles e). (case set_Lookup profs name of
      Inl _ \<Rightarrow> Inl (Errorf ''config: granted profile is not defined'') | Inr _ \<Rightarrow> Inr ()) = (Inr () :: unit res)"
    by (simp add: check_grants_def forR_eq_Inr)
  with assms(3) show ?thesis by (cases "set_Lookup profs name") (auto simp: Profiles_def)
qed

lemma set_Lookup_valid:
  "set_Lookup profs name = Inr q \<Longrightarrow> set_Validate profs m = Inr u \<Longrightarrow> \<exists>p. (name, Some p) \<in> set profs"
  by (auto simp: set_Lookup_def set_Validate_iff split: if_splits option.splits dest!: map_of_SomeD)

lemma loadProfiles_Inr:
  "loadProfiles specs ceiling = Inr profs \<Longrightarrow> set_Validate profs ceiling = Inr ()"
  by (auto simp: loadProfiles_def res_simps)

lemma validateAuthenticatedSurface_Inr:
  assumes "validateAuthenticatedSurface lib c = Inr c'"
  shows "cfg_Server c' = cfg_Server c \<and> cfg_PKCS11 c' = cfg_PKCS11 c \<and> cfg_CA c' = cfg_CA c \<and>
    (case sc_TLS (cfg_Server c) of
       None \<Rightarrow> ac_Issuers (cfg_API c') = [] \<and> ac_Revokers (cfg_API c') = []
     | Some t \<Rightarrow> tc_KeyLabel t \<noteq> cc_IntermediateKeyLabel (cfg_CA c) \<and> tc_ListenAddr t \<noteq> sc_ListenAddr (cfg_Server c) \<and>
         ac_Issuers (cfg_API c') \<noteq> [] \<and> ac_Revokers (cfg_API c') \<noteq> [] \<and> distinct (ac_Revokers (cfg_API c')) \<and>
         entitlement_Parse (cl_net lib) (ac_Issuers (cfg_API c')) = Inr (ac_Entitlements (cfg_API c')) \<and>
         check_grants (cc_ProfileSet (cfg_CA c)) (ac_Entitlements (cfg_API c')) = Inr ())"
  using assms by (auto simp: validateAuthenticatedSurface_def res_simps check_revokers_Inr split: option.splits if_splits)

lemma validateOCSP_Inr:
  "validateOCSP c = Inr u \<Longrightarrow> cc_OCSP (cfg_CA c) = Some ocsp \<Longrightarrow>
    oc_KeyLabel ocsp \<noteq> cc_IntermediateKeyLabel (cfg_CA c) \<and>
    (\<forall>t. sc_TLS (cfg_Server c) = Some t \<longrightarrow> oc_KeyLabel ocsp \<noteq> tc_KeyLabel t) \<and>
    (\<exists>p. set_Lookup (cc_ProfileSet (cfg_CA c)) InternalOnlyProfile = Inr p)"
  by (auto simp: validateOCSP_def split: if_splits sum.splits option.splits)

lemma config_Load_Inr:
  assumes "config_Load lib ReadFile path = Inr c"
  obtains c0 where "check_vendor lib (cfg_PKCS11 c) = Inr ()" "is_ok (ParseCurve (cc_CurveName (cfg_CA c)))"
    "0 < so_IdleTimeout (pc_SessionOptions (cfg_PKCS11 c))" "0 < so_MaxTTL (pc_SessionOptions (cfg_PKCS11 c))"
    "set_Validate (cc_ProfileSet (cfg_CA c)) (int64 (cc_CertTTLHours (cfg_CA c) * hour)) = Inr ()"
    "check_floor (cc_CRLNumberFloor (cfg_CA c)) = Inr ()"
    "validateAuthenticatedSurface lib c0 = Inr c" "cfg_CA c0 = cfg_CA c" "cfg_Server c0 = cfg_Server c"
    "validateOCSP c = Inr ()"
proof -
  let ?c1 = "\<lambda>c opts profiles. c\<lparr>cfg_PKCS11 := (cfg_PKCS11 c)\<lparr>pc_SessionOptions := opts\<rparr>,
      cfg_CA := (cfg_CA c)\<lparr>cc_ProfileSet := profiles, cc_CRLValidityHours :=
        (if cc_CRLValidityHours (cfg_CA c) = 0 then defaultCRLValidityHours else cc_CRLValidityHours (cfg_CA c))\<rparr>\<rparr>"
  from assms obtain c1 opts profiles curve where v: "check_vendor lib (cfg_PKCS11 c1) = Inr ()"
    and o: "session_parse lib (pc_Session (cfg_PKCS11 c1)) = Inr opts"
    and k: "ParseCurve (cc_CurveName (cfg_CA c1)) = Inr curve"
    and p: "loadProfiles (cc_Profiles (cfg_CA c1)) (int64 (cc_CertTTLHours (cfg_CA c1) * hour)) = Inr profiles"
    and f: "check_floor (cc_CRLNumberFloor (cfg_CA c1)) = Inr ()"
    and s: "validateAuthenticatedSurface lib (?c1 c1 opts profiles) = Inr c"
    and ocsp: "validateOCSP c = Inr ()"
    by (auto simp: config_Load_def Let_def bindR_eq_Inr wrapR_eq_Inr split: if_splits)
  have same: "cfg_CA (?c1 c1 opts profiles) = cfg_CA c" "cfg_Server (?c1 c1 opts profiles) = cfg_Server c"
    "cfg_PKCS11 (?c1 c1 opts profiles) = cfg_PKCS11 c"
    using validateAuthenticatedSurface_Inr [OF s] by simp_all
  have vendor: "check_vendor lib (cfg_PKCS11 c) = check_vendor lib (cfg_PKCS11 c1)"
    by (simp add: same(3) [symmetric])
  show thesis
  proof (rule that [of "?c1 c1 opts profiles"])
    show "set_Validate (cc_ProfileSet (cfg_CA c)) (int64 (cc_CertTTLHours (cfg_CA c) * hour)) = Inr ()"
      using loadProfiles_Inr [OF p] by (simp add: same(1) [symmetric])
  qed (use v k f s ocsp session_parse_Inr [OF o] in
      \<open>simp_all add: vendor same(2), simp_all add: same(1,3) [symmetric]\<close>)
qed

text \<open>
  C29: A configuration the service starts from keeps its keys and its powers apart. The
  TLS key, the OCSP responder's key and the intermediate's key have three labels; the
  login role is one the adapter defines and never the security officer; the session
  budgets are positive and a PIN is there to be read. Every profile is a leaf profile
  within the configured ceiling, every granted profile exists and is never the
  responder's own, and without mutual TLS nobody is named as a writer.
\<close>
theorem config_Load_separates:
  assumes "config_Load lib ReadFile path = Inr c"
  shows "(\<exists>r pin. LoginRole c = Inr r \<and> role_Role r \<noteq> RoleSO \<and> ResolvePIN lib c = Inr pin \<and> pin \<noteq> []) \<and>
    0 < so_IdleTimeout (pc_SessionOptions (cfg_PKCS11 c)) \<and> 0 < so_MaxTTL (pc_SessionOptions (cfg_PKCS11 c)) \<and>
    (\<forall>f. CRLFloor (cfg_CA c) = Some f \<longrightarrow> 0 \<le> f) \<and>
    (\<forall>name entry. (name, entry) \<in> set (cc_ProfileSet (cfg_CA c)) \<longrightarrow>
       (\<exists>p. entry = Some p \<and> p_Name p = name \<and> p_KeyUsage p AND (KU_CertSign OR KU_CRLSign) = 0 \<and> 0 < p_Validity p \<and>
          (0 < int64 (cc_CertTTLHours (cfg_CA c) * hour) \<longrightarrow> p_Validity p \<le> int64 (cc_CertTTLHours (cfg_CA c) * hour)))) \<and>
    (case sc_TLS (cfg_Server c) of
       None \<Rightarrow> ac_Issuers (cfg_API c) = [] \<and> ac_Revokers (cfg_API c) = []
     | Some t \<Rightarrow> tc_KeyLabel t \<noteq> cc_IntermediateKeyLabel (cfg_CA c) \<and> distinct (ac_Revokers (cfg_API c)) \<and>
         (\<forall>identity e name. map_of (ac_Entitlements (cfg_API c)) identity = Some e \<and> PermitsProfile e name \<longrightarrow>
            name \<noteq> InternalOnlyProfile \<and> (\<exists>p. (name, Some p) \<in> set (cc_ProfileSet (cfg_CA c))))) \<and>
    (case cc_OCSP (cfg_CA c) of None \<Rightarrow> True
     | Some ocsp \<Rightarrow> oc_KeyLabel ocsp \<noteq> cc_IntermediateKeyLabel (cfg_CA c) \<and>
         (\<forall>t. sc_TLS (cfg_Server c) = Some t \<longrightarrow> oc_KeyLabel ocsp \<noteq> tc_KeyLabel t) \<and>
         (\<exists>p. (InternalOnlyProfile, Some p) \<in> set (cc_ProfileSet (cfg_CA c))))"
proof -
  from assms obtain c0 where v: "check_vendor lib (cfg_PKCS11 c) = Inr ()"
    and budget: "0 < so_IdleTimeout (pc_SessionOptions (cfg_PKCS11 c))" "0 < so_MaxTTL (pc_SessionOptions (cfg_PKCS11 c))"
    and profs: "set_Validate (cc_ProfileSet (cfg_CA c)) (int64 (cc_CertTTLHours (cfg_CA c) * hour)) = Inr ()"
    and f: "check_floor (cc_CRLNumberFloor (cfg_CA c)) = Inr ()"
    and surface: "validateAuthenticatedSurface lib c0 = Inr c" "cfg_CA c0 = cfg_CA c" "cfg_Server c0 = cfg_Server c"
    and ocsp: "validateOCSP c = Inr ()"
    by (rule config_Load_Inr)
  from check_vendor_Inr [OF v]
  have role: "\<exists>r pin. LoginRole c = Inr r \<and> role_Role r \<noteq> RoleSO \<and> ResolvePIN lib c = Inr pin \<and> pin \<noteq> []"
    by (auto simp: LoginRole_def ResolvePIN_def RoleByName_not_so)
  have floor: "0 \<le> f" if "CRLFloor (cfg_CA c) = Some f" for f
    using that f by (auto simp: CRLFloor_def check_floor_def split: if_splits option.splits)
  note s = validateAuthenticatedSurface_Inr [OF surface(1), unfolded surface(2,3)]
  have granted: "name \<noteq> InternalOnlyProfile \<and> (\<exists>p. (name, Some p) \<in> set (cc_ProfileSet (cfg_CA c)))"
    if "sc_TLS (cfg_Server c) = Some t" "map_of (ac_Entitlements (cfg_API c)) identity = Some e" "PermitsProfile e name"
    for t identity e name
    using s that check_grants_Inr [of "cc_ProfileSet (cfg_CA c)" "ac_Entitlements (cfg_API c)" "()" identity e name]
      set_Lookup_valid [OF _ profs] by (auto simp: PermitsProfile_def InternalOnly_def)
  have responder: "oc_KeyLabel k \<noteq> cc_IntermediateKeyLabel (cfg_CA c) \<and>
      (\<forall>t. sc_TLS (cfg_Server c) = Some t \<longrightarrow> oc_KeyLabel k \<noteq> tc_KeyLabel t) \<and>
      (\<exists>p. (InternalOnlyProfile, Some p) \<in> set (cc_ProfileSet (cfg_CA c)))" if "cc_OCSP (cfg_CA c) = Some k" for k
    using validateOCSP_Inr [OF ocsp that] set_Lookup_valid [OF _ profs] by blast
  show ?thesis
    using role budget floor s granted responder profs
    by (intro conjI) (auto simp: set_Validate_iff profile_Validate_iff split: option.splits)
qed

definition toy_config :: config where
  "toy_config = \<lparr>cfg_Server = \<lparr>sc_ListenAddr = ''a'', sc_TLS = Some \<lparr>tc_ListenAddr = ''b'', tc_KeyLabel = ''t-v1'',
       tc_CertPath = ''p''\<rparr>\<rparr>,
     cfg_PKCS11 = \<lparr>pc_Adapter = AdapterSoftHSM2, pc_Session = \<lparr>se_IdleTimeout = [], se_MaxTTL = []\<rparr>,
       pc_SoftHSM2 = Some \<lparr>vc_ModulePath = ''m'', vc_WorkspaceLabel = ''w'', vc_PINEnv = ''E'', vc_Role = []\<rparr>,
       pc_ProtectServer = None, pc_Luna = None, pc_SessionOptions = DefaultSessionOptions\<rparr>,
     cfg_CA = \<lparr>cc_CurveName = ''P-256'', cc_CertTTLHours = 8760, cc_Profiles = None, cc_ProfileSet = [],
       cc_OCSP = Some \<lparr>oc_KeyLabel = ''o-v1'', oc_Subject = []\<rparr>, cc_IntermediateKeyLabel = ''i-v1'',
       cc_IntermediateCertPath = ''i'', cc_RootCertPath = ''r'', cc_RootCRLPath = ''c'', cc_BaseURL = ''http://h'',
       cc_CRLValidityHours = -1, cc_StorePath = ''s'', cc_CRLNumberFloor = ''12''\<rparr>,
     cfg_API = \<lparr>ac_Issuers = [(''op'', \<lparr>es_Profiles = [''tls-server''], es_Names = [''dns:*'']\<rparr>)],
       ac_Entitlements = [], ac_Revokers = [''op'']\<rparr>\<rparr>"

definition toy_config_lib :: config_lib where
  "toy_config_lib = \<lparr>cl_x509 = demo_lib, cl_net = no_net, cl_yaml = (\<lambda>_. Inr toy_config),
     cl_parse_duration = (\<lambda>_. Inr 1), cl_url_suffix = (\<lambda>_. Inr ([], [])), cl_LookupEnv = (\<lambda>_. Some ''1'')\<rparr>"

lemma toy_config_grants:
  "\<exists>ents. entitlement_Parse no_net (ac_Issuers (cfg_API toy_config)) = Inr ents \<and> check_grants Builtin ents = Inr ()"
proof -
  have "case entitlement_Parse no_net (ac_Issuers (cfg_API toy_config)) of Inl _ \<Rightarrow> False
      | Inr ents \<Rightarrow> is_ok (check_grants Builtin ents)"
    by code_simp
  then show ?thesis by (auto simp: is_ok_iff split: sum.splits)
qed

lemma toy_config_profiles: "loadProfiles None (int64 (8760 * hour)) = Inr Builtin"
proof -
  have "int64 (8760 * hour) = 31536000000000000" by (simp add: int64_def hour_def minute_def second_def)
  moreover have "set_Validate Builtin 31536000000000000 = Inr ()" by code_simp
  ultimately show ?thesis by (simp add: loadProfiles_def)
qed

lemma toy_config_loads:
  "\<exists>c. config_Load toy_config_lib (\<lambda>_. Inr []) ''f'' = Inr c \<and> cc_CRLValidityHours (cfg_CA c) = -1 \<and>
     cc_OCSP (cfg_CA c) = cc_OCSP (cfg_CA toy_config) \<and> cfg_Server c = cfg_Server toy_config"
proof -
  have v: "check_vendor toy_config_lib (cfg_PKCS11 toy_config) = Inr ()"
    by (simp add: check_vendor_def selectedVendor_def toy_config_def toy_config_lib_def Let_def RoleByName_def
        adapterRoles_def AdapterSoftHSM2_def RoleCryptoOfficer_def)
  have se: "session_parse toy_config_lib (pc_Session (cfg_PKCS11 toy_config)) = Inr DefaultSessionOptions"
    by (simp add: session_parse_def positive_duration_def toy_config_def)
  have f: "check_floor ''12'' = Inr ()" by code_simp
  have u: "validateBaseURL toy_config_lib ''http://h'' = Inr ()"
    by (simp add: validateBaseURL_def ValidateDistributionURL_def toy_config_lib_def demo_lib_def)
  obtain ents where e: "entitlement_Parse no_net (ac_Issuers (cfg_API toy_config)) = Inr ents"
    "check_grants Builtin ents = Inr ()" using toy_config_grants by blast
  define c where "c = toy_config\<lparr>cfg_PKCS11 := (cfg_PKCS11 toy_config)\<lparr>pc_SessionOptions := DefaultSessionOptions\<rparr>,
    cfg_CA := (cfg_CA toy_config)\<lparr>cc_ProfileSet := Builtin\<rparr>\<rparr>"
  have s: "validateAuthenticatedSurface toy_config_lib c = Inr (c\<lparr>cfg_API := (cfg_API c)\<lparr>ac_Entitlements := ents\<rparr>\<rparr>)"
    using e by (simp add: validateAuthenticatedSurface_def c_def) (simp add: toy_config_def toy_config_lib_def)
  have lookup: "\<exists>p. set_Lookup Builtin InternalOnlyProfile = Inr p"
    by (simp add: set_Lookup_def Builtin_def InternalOnlyProfile_def Let_def)
  have o: "validateOCSP (c\<lparr>cfg_API := (cfg_API c)\<lparr>ac_Entitlements := ents\<rparr>\<rparr>) = Inr ()"
    using lookup by (auto simp: validateOCSP_def c_def toy_config_def)
  have "config_Load toy_config_lib (\<lambda>_. Inr []) ''f'' = Inr (c\<lparr>cfg_API := (cfg_API c)\<lparr>ac_Entitlements := ents\<rparr>\<rparr>)"
    using v se f u s o toy_config_profiles
    by (simp add: config_Load_def c_def toy_config_lib_def) (simp add: toy_config_def ParseCurve_def)
  then show ?thesis by (intro exI) (auto simp: c_def toy_config_def)
qed

theorem config_Load_separates_witness:
  "\<exists>c t. config_Load toy_config_lib (\<lambda>_. Inr []) ''f'' = Inr c \<and> sc_TLS (cfg_Server c) = Some t \<and>
     tc_KeyLabel t \<noteq> cc_IntermediateKeyLabel (cfg_CA c) \<and> distinct (ac_Revokers (cfg_API c))"
proof -
  obtain c where c: "config_Load toy_config_lib (\<lambda>_. Inr []) ''f'' = Inr c" "cfg_Server c = cfg_Server toy_config"
    using toy_config_loads by blast
  with config_Load_separates [OF c(1)] show ?thesis by (auto simp: toy_config_def)
qed

text \<open>The window of the CRLs is not checked here: a negative one loads, and is never a CRL.\<close>

lemma negative_crl_validity_loads:
  "\<exists>lib c. config_Load lib (\<lambda>_. Inr []) ''f'' = Inr c \<and> cc_CRLValidityHours (cfg_CA c) < 0"
  using toy_config_loads by (metis neg_less_0_iff_less zero_less_one)

end
