(* ===== verification/Keytool.thy ===== *)
theory Keytool
  imports SigningKey Inventory Config
begin

text \<open>
  \<^verbatim>\<open>cmd/hsm-pki-keytool\<close>: the commands that provision, retire and publish the
  supply-chain signing keys (\<^verbatim>\<open>provision.go\<close>, \<^verbatim>\<open>retire.go\<close>, \<^verbatim>\<open>inventory.go\<close>, \<^verbatim>\<open>role.go\<close>
  and the helpers of \<^verbatim>\<open>main.go\<close>), and the two of \<^verbatim>\<open>main.go\<close> and \<^verbatim>\<open>reissue.go\<close> that run
  \<open>RunCeremony\<close> and \<open>ReissueIntermediate\<close>. A command is a function of its parsed flags on
  the state behind the adapter, the files and the environment; what it prints is left
  out. \<open>os\<close> is the part of package \<^verbatim>\<open>os\<close> the commands call.
\<close>

record 's os =
  os_Stat :: "string \<Rightarrow> ('s, bool) eff"
  os_ReadFile :: "string \<Rightarrow> ('s, bytes) eff"
  os_WriteFile :: "string \<Rightarrow> bytes \<Rightarrow> ('s, unit) eff"
  os_Getenv :: "string \<Rightarrow> ('s, buffer option) eff"

text \<open>
  What every command works with. \<open>tl_NewAdapter\<close> is \<^verbatim>\<open>NewAdapterByName\<close> on an adapter's
  name and a module's path.
\<close>

record 's tool =
  tl_x509 :: x509_lib
  tl_inv :: inventory_lib
  tl_pem_encode :: "string \<Rightarrow> bytes \<Rightarrow> bytes"
  tl_on_curve :: "elliptic \<Rightarrow> int \<Rightarrow> int \<Rightarrow> bool"
  tl_host :: "'s host"
  tl_os :: "'s os"
  tl_NewAdapter :: "string \<Rightarrow> string \<Rightarrow> ('s, 's vendor_adapter) eff"

section \<open>Helpers\<close>

definition refuseExistingFile :: "'s os \<Rightarrow> string \<Rightarrow> ('s, unit) eff" where
  "refuseExistingFile os path =
     bindE (wrapE ''checking output path'' (os_Stat os path)) (\<lambda>exists.
     if exists then throwE (Errorf ''refusing to overwrite existing file'') else returnE ())"

definition required :: "string list \<Rightarrow> unit res" where
  "required flags = (if [] \<in> set flags then Inl (Errorf ''flag is required'') else Inr ())"

definition findWorkspace :: "'s vendor_adapter \<Rightarrow> string \<Rightarrow> string \<Rightarrow> ('s, workspace) eff" where
  "findWorkspace ad label serial =
     bindE (va_Workspaces ad) (\<lambda>workspaces.
     case filter (\<lambda>w. ws_Label w = label \<and> (serial = [] \<or> ws_Serial w = serial)) workspaces of
       [] \<Rightarrow> throwE (Errorf ''token not found'')
     | [w] \<Rightarrow> returnE w
     | _ \<Rightarrow> throwE (Errorf ''label matches more than one token''))"

text \<open>An unset variable and an empty one are the same to \<^verbatim>\<open>os.Getenv\<close>.\<close>

definition pinResolver :: "'s os \<Rightarrow> string \<Rightarrow> 's pin_resolver" where
  "pinResolver os envVar =
     bindE (os_Getenv os envVar) (\<lambda>pin.
     case pin of None \<Rightarrow> throwE (Errorf ''environment variable is not set'') | Some b \<Rightarrow> returnE b)"

definition writePEM :: "'s tool \<Rightarrow> string \<Rightarrow> string \<Rightarrow> bytes \<Rightarrow> ('s, unit) eff" where
  "writePEM kt ty path der = wrapE ''writing'' (os_WriteFile (tl_os kt) path (tl_pem_encode kt ty der))"

definition writeCertPEM :: "'s tool \<Rightarrow> string \<Rightarrow> bytes \<Rightarrow> ('s, unit) eff" where
  "writeCertPEM kt = writePEM kt ''CERTIFICATE''"

definition writeCRLPEM :: "'s tool \<Rightarrow> string \<Rightarrow> bytes \<Rightarrow> ('s, unit) eff" where
  "writeCRLPEM kt = writePEM kt ''X509 CRL''"

definition loginAs :: "'s vendor_adapter \<Rightarrow> workspace \<Rightarrow> buffer \<Rightarrow> login_role \<Rightarrow> ('s, unit) eff" where
  "loginAs ad ws pin role =
     tryE (va_LoginToken ad ws pin (role_Role role)) (\<lambda>r. case r of
         Inl err \<Rightarrow> throwE (Wrap ''logging in'' (role_Explain role err))
       | Inr _ \<Rightarrow> returnE ())"

text \<open>
  \<^verbatim>\<open>defer\<close> of a clean-up in a function with named results: its error is reported beside
  the result where there was none, and never hides an earlier one.
\<close>

definition deferR :: "('s, unit) eff \<Rightarrow> string \<Rightarrow> ('s, 'a reported) eff \<Rightarrow> ('s, 'a reported) eff" where
  "deferR cleanup msg f s =
     (case f s of (r, s1) \<Rightarrow> (case cleanup s1 of (c, s2) \<Rightarrow>
        (case (r, c) of
           (Inr (x, None), Inl e) \<Rightarrow> (Inr (x, Some (Wrap msg e)), s2)
         | _ \<Rightarrow> (r, s2))))"

text \<open>One login, given back on every path; and one session inside it.\<close>

definition with_login ::
    "'s vendor_adapter \<Rightarrow> workspace \<Rightarrow> 's pin_resolver \<Rightarrow> login_role \<Rightarrow> ('s, 'a reported) eff \<Rightarrow> ('s, 'a reported) eff" where
  "with_login ad ws resolvePIN role body =
     bindE (getsE (va_TokenLoggedIn ad)) (\<lambda>logged_in.
     if logged_in then throwE (Errorf ''a token is already authenticated'')
     else bindE (wrapE ''resolving PIN'' resolvePIN) (\<lambda>pin.
          bindE (loginAs ad ws pin role) (\<lambda>_.
          deferR (va_LogoutToken ad) ''logging out failed'' body)))"

definition in_one_session ::
    "'s vendor_adapter \<Rightarrow> workspace \<Rightarrow> (session_ref \<Rightarrow> ('s, 'a reported) eff) \<Rightarrow> ('s, 'a reported) eff" where
  "in_one_session ad ws body =
     bindE (wrapE ''opening a session'' (va_OpenSession ad ws DefaultSessionOptions)) (\<lambda>s.
     deferR (va_CloseSession ad s) ''closing the session failed'' (body s))"

definition unreported :: "('s, 'a) eff \<Rightarrow> ('s, 'a reported) eff" where
  "unreported f = bindE f (\<lambda>x. returnE (x, None))"

section \<open>Provisioning a signing key\<close>

definition provisionSigningKey ::
    "'s tool \<Rightarrow> 's vendor_adapter \<Rightarrow> workspace \<Rightarrow> 's pin_resolver \<Rightarrow> login_role \<Rightarrow> signing_params \<Rightarrow>
     ('s, signing_key reported) eff" where
  "provisionSigningKey kt ad ws resolvePIN role params =
     with_login ad ws resolvePIN role (in_one_session ad ws (\<lambda>s.
       bindE (CheckNoCAHierarchyKey ad s) (\<lambda>_.
       unreported (Provision (tl_on_curve kt) ad (tl_host kt) s params))))"

definition writePublicKeyPEM :: "'s tool \<Rightarrow> string \<Rightarrow> signing_key \<Rightarrow> ('s, unit) eff" where
  "writePublicKeyPEM kt path key =
     bindE (liftE (signing_key_PEM (tl_x509 kt) (tl_pem_encode kt) key)) (\<lambda>pem.
     wrapE ''writing'' (os_WriteFile (tl_os kt) path pem))"

record provision_flags =
  pf_Adapter :: string
  pf_Role :: string
  pf_Module :: string
  pf_Curve :: string
  pf_Workspace :: string
  pf_WorkspaceSerial :: string
  pf_PINEnv :: string
  pf_KeyLabel :: string
  pf_PublicKeyOut :: string

definition runProvisionSigningKeyCmd :: "'s tool \<Rightarrow> provision_flags \<Rightarrow> ('s, unit) eff" where
  "runProvisionSigningKeyCmd kt f =
     bindE (liftE (RoleByName (pf_Adapter f) (pf_Role f))) (\<lambda>role.
     bindE (liftE (ParseCurve (pf_Curve f))) (\<lambda>curve.
     bindE (liftE (required [pf_Module f, pf_Workspace f, pf_PINEnv f, pf_KeyLabel f, pf_PublicKeyOut f])) (\<lambda>_.
     bindE (liftE (ValidateLabel (pf_KeyLabel f))) (\<lambda>_.
     bindE (refuseExistingFile (tl_os kt) (pf_PublicKeyOut f)) (\<lambda>_.
     bindE (tl_NewAdapter kt (pf_Adapter f) (pf_Module f)) (\<lambda>ad.
     finallyE (va_Close ad)
       (bindE (findWorkspace ad (pf_Workspace f) (pf_WorkspaceSerial f)) (\<lambda>ws.
        bindE (provisionSigningKey kt ad ws (pinResolver (tl_os kt) (pf_PINEnv f)) role
           \<lparr>sp_Label = pf_KeyLabel f, sp_Curve = curve\<rparr>) (\<lambda>(key, err).
        bindE (writePublicKeyPEM kt (pf_PublicKeyOut f) key) (\<lambda>_.
        case err of None \<Rightarrow> returnE () | Some e \<Rightarrow> throwE e))))))))))"

section \<open>Retiring a signing key\<close>

definition listed_retirable :: "string \<Rightarrow> key_inventory \<Rightarrow> inv_entry res" where
  "listed_retirable label doc =
     (case find (\<lambda>e. ie_Label e = label) (inv_Keys doc) of
        None \<Rightarrow> Inl (Errorf ''not listed: a key the inventory never vouched for is removed, not retired'')
      | Some e \<Rightarrow>
          if ie_Status e = StatusVerifyOnly then Inr e
          else if ie_Status e = StatusActive then Inl (Errorf ''listed as active: an active key is rotated'')
          else if ie_Status e = StatusRetired then Inl (Errorf ''already listed as retired'')
          else Inl (Errorf ''status this command does not know how to retire''))"

definition retirableEntry :: "'s tool \<Rightarrow> string \<Rightarrow> string \<Rightarrow> ('s, inv_entry) eff" where
  "retirableEntry kt path label =
     bindE (wrapE ''reading the inventory'' (os_ReadFile (tl_os kt) path)) (\<lambda>data.
     bindE (liftE (wrapR ''parsing the inventory'' (inventory_Parse (tl_inv kt) data))) (\<lambda>doc.
     liftE (listed_retirable label doc)))"

definition retireSigningKey ::
    "'s tool \<Rightarrow> 's vendor_adapter \<Rightarrow> workspace \<Rightarrow> 's pin_resolver \<Rightarrow> login_role \<Rightarrow> string \<Rightarrow> ec_curve \<Rightarrow>
     public_key \<Rightarrow> ('s, destroyed reported) eff" where
  "retireSigningKey kt ad ws resolvePIN role label curve listed =
     with_login ad ws resolvePIN role (in_one_session ad ws (\<lambda>s.
       bindE (wrapE ''reading the key off the token'' (signingkey_Load (tl_on_curve kt) ad s label curve)) (\<lambda>onToken.
       if \<not> SameKey (key_Public onToken) listed
       then throwE (Errorf ''not the key the inventory lists under that label'')
       else Destroy ad s label)))"

record retire_flags =
  rf_Adapter :: string
  rf_Role :: string
  rf_Module :: string
  rf_Workspace :: string
  rf_WorkspaceSerial :: string
  rf_PINEnv :: string
  rf_KeyLabel :: string
  rf_Inventory :: string

definition runRetireSigningKeyCmd :: "'s tool \<Rightarrow> retire_flags \<Rightarrow> ('s, unit) eff" where
  "runRetireSigningKeyCmd kt f =
     bindE (liftE (RoleByName (rf_Adapter f) (rf_Role f))) (\<lambda>role.
     bindE (liftE (required [rf_Module f, rf_Workspace f, rf_PINEnv f, rf_KeyLabel f, rf_Inventory f])) (\<lambda>_.
     bindE (liftE (ValidateLabel (rf_KeyLabel f))) (\<lambda>_.
     bindE (retirableEntry kt (rf_Inventory f) (rf_KeyLabel f)) (\<lambda>entry.
     bindE (liftE (wrapR ''the inventory lists the key on curve'' (ParseCurve (ie_Curve entry)))) (\<lambda>curve.
     bindE (liftE (entry_PublicKey (tl_inv kt) entry)) (\<lambda>listed.
     bindE (tl_NewAdapter kt (rf_Adapter f) (rf_Module f)) (\<lambda>ad.
     finallyE (va_Close ad)
       (bindE (findWorkspace ad (rf_Workspace f) (rf_WorkspaceSerial f)) (\<lambda>ws.
        bindE (strict (retireSigningKey kt ad ws (pinResolver (tl_os kt) (rf_PINEnv f)) role (rf_KeyLabel f) curve listed))
          (\<lambda>_. returnE ()))))))))))"

section \<open>Publishing the inventory\<close>

record key_spec =
  ks_purpose :: purpose
  ks_label :: string
  ks_status :: key_status

definition keySpecs_Set :: "key_spec list \<Rightarrow> string \<Rightarrow> key_spec list res" where
  "keySpecs_Set k v =
     (case Split (CHR '':'') v of
        [p, l, st] \<Rightarrow>
          if p = [] \<or> l = [] \<or> st = [] then Inl (Errorf ''want purpose:label:status'')
          else Inr (k @ [\<lparr>ks_purpose = p, ks_label = l, ks_status = st\<rparr>])
      | _ \<Rightarrow> Inl (Errorf ''want purpose:label:status''))"

fun curveName :: "ec_curve \<Rightarrow> string" where
  "curveName P384 = ''P-384''"
| "curveName P521 = ''P-521''"
| "curveName _ = ''P-256''"

definition prior_entries :: "key_inventory option \<Rightarrow> string \<Rightarrow> inv_entry option" where
  "prior_entries previous = (case previous of None \<Rightarrow> (\<lambda>_. None)
     | Some doc \<Rightarrow> map_of (rev (map (\<lambda>e. (ie_Label e, e)) (inv_Keys doc))))"

definition retired_entry :: "time \<Rightarrow> inv_entry \<Rightarrow> inv_entry \<Rightarrow> inv_entry" where
  "retired_entry now previous base = base
     \<lparr>ie_PublicKeyPEM := ie_PublicKeyPEM previous,
      ie_RetiredAt := Some (case ie_RetiredAt previous of None \<Rightarrow> now | Some t \<Rightarrow> t)\<rparr>"

definition read_entry ::
    "'s tool \<Rightarrow> 's vendor_adapter \<Rightarrow> session_ref \<Rightarrow> ec_curve \<Rightarrow> (string \<Rightarrow> inv_entry option) \<Rightarrow> time \<Rightarrow>
     key_spec \<Rightarrow> ('s, inv_entry) eff" where
  "read_entry kt ad s curve prior now spec =
     bindE (liftE (ValidateLabel (ks_label spec))) (\<lambda>_.
     let base = \<lparr>ie_Label = ks_label spec, ie_Purpose = ks_purpose spec, ie_Curve = curveName curve,
                 ie_PublicKeyPEM = [],
                 ie_ValidFrom = (case prior (ks_label spec) of None \<Rightarrow> now | Some e \<Rightarrow> ie_ValidFrom e),
                 ie_RetiredAt = None, ie_Status = ks_status spec\<rparr> in
     if ks_status spec = StatusRetired then
       (case prior (ks_label spec) of
          None \<Rightarrow> throwE (Errorf ''listed as retired but not in the current inventory'')
        | Some previous \<Rightarrow>
            bindE (wrapE ''checking whether the retired key is gone''
               (LabelIsFree ad s ClassPrivateKey (ks_label spec))) (\<lambda>stillFree.
            if \<not> stillFree then throwE (Errorf ''listed as retired but its private key is still on the token'')
            else returnE (retired_entry now previous base)))
     else
       bindE (wrapE ''reading the key off the token''
          (strict (signingkey_Verify (tl_on_curve kt) ad s (ks_label spec) curve))) (\<lambda>key.
       bindE (liftE (signing_key_PEM (tl_x509 kt) (tl_pem_encode kt) key)) (\<lambda>pem.
       returnE (base\<lparr>ie_PublicKeyPEM := pem\<rparr>))))"

definition readEntries ::
    "'s tool \<Rightarrow> 's vendor_adapter \<Rightarrow> workspace \<Rightarrow> 's pin_resolver \<Rightarrow> login_role \<Rightarrow> ec_curve \<Rightarrow> key_spec list \<Rightarrow>
     key_inventory option \<Rightarrow> string \<Rightarrow> ('s, inv_entry list reported) eff" where
  "readEntries kt ad ws resolvePIN role curve specs previous invKeyLabel =
     with_login ad ws resolvePIN role (in_one_session ad ws (\<lambda>s.
       bindE (wrapE ''checking that the inventory key is absent'' (LabelIsFree ad s ClassPrivateKey invKeyLabel)) (\<lambda>free.
       if \<not> free then throwE (Errorf ''the inventory signing key is present on the supply-chain token'')
       else bindE (h_Now (tl_host kt)) (\<lambda>t.
            bindE (mapE (read_entry kt ad s curve (prior_entries previous) (truncate_second t)) specs) (\<lambda>entries.
            returnE (sort_key ie_Label entries, None))))))"

definition signInventory ::
    "'s tool \<Rightarrow> 's vendor_adapter \<Rightarrow> workspace \<Rightarrow> 's pin_resolver \<Rightarrow> login_role \<Rightarrow> string \<Rightarrow> bytes \<Rightarrow>
     ('s, (bytes \<times> public_key) reported) eff" where
  "signInventory kt ad ws resolvePIN role keyLabel document =
     with_login ad ws resolvePIN role
       (bindE (wrapE ''opening the inventory signing key''
          (NewSigner (tl_on_curve kt) ad ws DefaultSessionOptions keyLabel P256)) (\<lambda>signer.
        if \<not> is_ecdsa (sg_Public signer) then throwE (Errorf ''the inventory signing key is not an ECDSA key'')
        else bindE (wrapE ''signing the inventory''
               (sg_Sign signer (il_sha256 (tl_inv kt) document) SHA256)) (\<lambda>sig.
             returnE ((sig, sg_Public signer), None))))"

record generate_flags =
  gf_Adapter :: string
  gf_Role :: string
  gf_Module :: string
  gf_Curve :: string
  gf_Workspace :: string
  gf_WorkspaceSerial :: string
  gf_PINEnv :: string
  gf_InvWorkspace :: string
  gf_InvWorkspaceSerial :: string
  gf_InvPINEnv :: string
  gf_InvKeyLabel :: string
  gf_Keys :: "key_spec list"
  gf_Validity :: duration
  gf_In :: string
  gf_Out :: string
  gf_Sig :: string

text \<open>The previous document, which has to be named when the output exists already.\<close>

definition previousInventory :: "'s tool \<Rightarrow> generate_flags \<Rightarrow> ('s, key_inventory option) eff" where
  "previousInventory kt f =
     (if gf_In f = [] then
        bindE (wrapE ''checking output path'' (os_Stat (tl_os kt) (gf_Out f))) (\<lambda>exists.
        if exists then throwE (Errorf ''already exists: pass -in to regenerate from it'') else returnE None)
      else
        bindE (wrapE ''reading the current inventory'' (os_ReadFile (tl_os kt) (gf_In f))) (\<lambda>data.
        bindE (liftE (wrapR ''parsing the current inventory'' (inventory_Parse (tl_inv kt) data))) (\<lambda>doc.
        returnE (Some doc))))"

definition next_document :: "key_inventory option \<Rightarrow> time \<Rightarrow> duration \<Rightarrow> inv_entry list \<Rightarrow> key_inventory" where
  "next_document previous now validity entries =
     \<lparr>inv_Schema = Schema,
      inv_Version = (case previous of None \<Rightarrow> 1 | Some doc \<Rightarrow> int64 (inv_Version doc + 1)),
      inv_GeneratedAt = now, inv_ValidUntil = now + validity, inv_Keys = entries\<rparr>"

definition publish_inventory ::
    "'s tool \<Rightarrow> 's vendor_adapter \<Rightarrow> generate_flags \<Rightarrow> login_role \<Rightarrow> ec_curve \<Rightarrow> key_inventory option \<Rightarrow> ('s, unit) eff" where
  "publish_inventory kt ad f role curve previous =
     bindE (wrapE ''supply-chain token'' (findWorkspace ad (gf_Workspace f) (gf_WorkspaceSerial f))) (\<lambda>keyWS.
     bindE (wrapE ''inventory signing token'' (findWorkspace ad (gf_InvWorkspace f) (gf_InvWorkspaceSerial f))) (\<lambda>invWS.
     if ws_Serial keyWS = ws_Serial invWS then throwE (Errorf ''the two tokens are one token'')
     else
     bindE (strict (readEntries kt ad keyWS (pinResolver (tl_os kt) (gf_PINEnv f)) role curve (gf_Keys f) previous
        (gf_InvKeyLabel f))) (\<lambda>entries.
     bindE (h_Now (tl_host kt)) (\<lambda>t.
     bindE (liftE (inventory_Marshal (tl_inv kt)
        (next_document previous (truncate_second t) (gf_Validity f) entries))) (\<lambda>document.
     bindE (strict (signInventory kt ad invWS (pinResolver (tl_os kt) (gf_InvPINEnv f)) role (gf_InvKeyLabel f) document))
        (\<lambda>(signature, signerPub).
     bindE (liftE (wrapR ''the signature does not verify''
        (inventory_Verify (tl_inv kt) document signature (Some signerPub)))) (\<lambda>_.
     bindE (wrapE ''writing'' (os_WriteFile (tl_os kt) (gf_Out f) document)) (\<lambda>_.
     wrapE ''writing'' (os_WriteFile (tl_os kt) (gf_Sig f) signature)))))))))"

definition runGenerateInventoryCmd :: "'s tool \<Rightarrow> generate_flags \<Rightarrow> ('s, unit) eff" where
  "runGenerateInventoryCmd kt f =
     bindE (liftE (RoleByName (gf_Adapter f) (gf_Role f))) (\<lambda>role.
     bindE (liftE (ParseCurve (gf_Curve f))) (\<lambda>curve.
     bindE (liftE (required [gf_Module f, gf_Workspace f, gf_PINEnv f, gf_InvWorkspace f, gf_InvPINEnv f,
        gf_InvKeyLabel f, gf_Out f, gf_Sig f])) (\<lambda>_.
     if gf_Keys f = [] then throwE (Errorf ''at least one -key is required'')
     else
     bindE (liftE (ValidateLabel (gf_InvKeyLabel f))) (\<lambda>_.
     if gf_Validity f \<le> 0 then throwE (Errorf ''-validity must be positive'')
     else
     bindE (previousInventory kt f) (\<lambda>previous.
     bindE (tl_NewAdapter kt (gf_Adapter f) (gf_Module f)) (\<lambda>ad.
     finallyE (va_Close ad) (publish_inventory kt ad f role curve previous)))))))"

section \<open>The ceremony commands\<close>

record ceremony_flags =
  cf_Adapter :: string
  cf_Role :: string
  cf_Module :: string
  cf_Curve :: string
  cf_RootWorkspace :: string
  cf_RootWorkspaceSerial :: string
  cf_RootPINEnv :: string
  cf_RootKeyLabel :: string
  cf_RootCN :: string
  cf_RootCertOut :: string
  cf_RootCRLOut :: string
  cf_RootCRLURL :: string
  cf_RootCertURL :: string
  cf_RootKeyExtractable :: bool
  cf_InterWorkspace :: string
  cf_InterWorkspaceSerial :: string
  cf_InterPINEnv :: string
  cf_InterKeyLabel :: string
  cf_InterCN :: string
  cf_InterCertOut :: string

definition write_ceremony :: "'s tool \<Rightarrow> ceremony_flags \<Rightarrow> ceremony_result \<Rightarrow> ('s, unit) eff" where
  "write_ceremony kt f result =
     bindE (writeCertPEM kt (cf_RootCertOut f) (res_RootCertDER result)) (\<lambda>_.
     bindE (writeCertPEM kt (cf_InterCertOut f) (res_IntermediateCertDER result)) (\<lambda>_.
     writeCRLPEM kt (cf_RootCRLOut f) (res_RootCRLDER result)))"

definition runCeremonyCmd :: "'s tool \<Rightarrow> bool \<Rightarrow> ceremony_flags \<Rightarrow> ('s, unit) eff" where
  "runCeremonyCmd kt rootFirst f =
     bindE (liftE (RoleByName (cf_Adapter f) (cf_Role f))) (\<lambda>role.
     bindE (liftE (ParseCurve (cf_Curve f))) (\<lambda>curve.
     bindE (liftE (required [cf_Module f, cf_RootWorkspace f, cf_RootPINEnv f, cf_RootKeyLabel f, cf_RootCertOut f,
        cf_RootCRLOut f, cf_RootCRLURL f, cf_RootCertURL f, cf_InterWorkspace f, cf_InterPINEnv f, cf_InterKeyLabel f,
        cf_InterCertOut f])) (\<lambda>_.
     bindE (forE (refuseExistingFile (tl_os kt)) [cf_RootCertOut f, cf_RootCRLOut f, cf_InterCertOut f]) (\<lambda>_.
     bindE (tl_NewAdapter kt (cf_Adapter f) (cf_Module f)) (\<lambda>ad.
     finallyE (va_Close ad)
       (bindE (wrapE ''root'' (findWorkspace ad (cf_RootWorkspace f) (cf_RootWorkspaceSerial f))) (\<lambda>rootWS.
        bindE (wrapE ''intermediate'' (findWorkspace ad (cf_InterWorkspace f) (cf_InterWorkspaceSerial f))) (\<lambda>interWS.
        bindE (wrapE ''ceremony'' (RunCeremony (tl_x509 kt) (tl_on_curve kt) rootFirst ad (tl_host kt) DefaultSessionOptions
           \<lparr>cp_RootWorkspace = rootWS, cp_RootPIN = pinResolver (tl_os kt) (cf_RootPINEnv f),
            cp_RootKeyLabel = cf_RootKeyLabel f, cp_RootSubject = common_name (cf_RootCN f), cp_RootCurve = curve,
            cp_RootValidity = 0, cp_RootCRLValidity = 0, cp_IntermediateWorkspace = interWS,
            cp_IntermediatePIN = pinResolver (tl_os kt) (cf_InterPINEnv f),
            cp_IntermediateKeyLabel = cf_InterKeyLabel f, cp_IntermediateSubject = common_name (cf_InterCN f),
            cp_IntermediateCurve = curve, cp_IntermediateValidity = 0, cp_RootCRLURL = cf_RootCRLURL f,
            cp_RootCertURL = cf_RootCertURL f, cp_Role = role, cp_RootKeyExtractable = cf_RootKeyExtractable f\<rparr>))
          (\<lambda>(result, err).
        bindE (write_ceremony kt f result) (\<lambda>_.
        case err of None \<Rightarrow> returnE () | Some e \<Rightarrow> throwE (Wrap ''ceremony'' e)))))))))))"

definition readCertPEM :: "'s tool \<Rightarrow> string \<Rightarrow> ('s, certificate) eff" where
  "readCertPEM kt path =
     bindE (wrapE ''reading'' (os_ReadFile (tl_os kt) path)) (\<lambda>data.
     case il_pem_decode (tl_inv kt) data of
       None \<Rightarrow> throwE (Errorf ''does not contain a PEM block'')
     | Some (ty, der, rest) \<Rightarrow>
         if \<not> is_blank rest then throwE (Errorf ''contains more than one PEM block'')
         else if ty \<noteq> ''CERTIFICATE'' then throwE (Errorf ''want CERTIFICATE'')
         else liftE (wrapR ''parsing'' (lib_parse_certificate (tl_x509 kt) der)))"

record reissue_flags =
  if_Adapter :: string
  if_Role :: string
  if_Module :: string
  if_Curve :: string
  if_RootCurve :: string
  if_RootWorkspace :: string
  if_RootWorkspaceSerial :: string
  if_RootPINEnv :: string
  if_RootKeyLabel :: string
  if_RootCert :: string
  if_RootCRLURL :: string
  if_RootCertURL :: string
  if_InterWorkspace :: string
  if_InterWorkspaceSerial :: string
  if_InterPINEnv :: string
  if_InterKeyLabel :: string
  if_InterCN :: string
  if_InterCertOut :: string
  if_InterValidity :: duration

definition runReissueIntermediateCmd :: "'s tool \<Rightarrow> reissue_flags \<Rightarrow> ('s, unit) eff" where
  "runReissueIntermediateCmd kt f =
     bindE (liftE (RoleByName (if_Adapter f) (if_Role f))) (\<lambda>role.
     bindE (liftE (ParseCurve (if_Curve f))) (\<lambda>curve.
     bindE (if if_RootCurve f = [] then returnE curve
            else liftE (wrapR ''-root-curve'' (ParseCurve (if_RootCurve f)))) (\<lambda>rootCurve.
     bindE (liftE (required [if_Module f, if_RootWorkspace f, if_RootPINEnv f, if_RootKeyLabel f, if_RootCert f,
        if_RootCRLURL f, if_RootCertURL f, if_InterWorkspace f, if_InterPINEnv f, if_InterKeyLabel f,
        if_InterCertOut f])) (\<lambda>_.
     bindE (refuseExistingFile (tl_os kt) (if_InterCertOut f)) (\<lambda>_.
     bindE (readCertPEM kt (if_RootCert f)) (\<lambda>rootCert.
     bindE (tl_NewAdapter kt (if_Adapter f) (if_Module f)) (\<lambda>ad.
     finallyE (va_Close ad)
       (bindE (wrapE ''root'' (findWorkspace ad (if_RootWorkspace f) (if_RootWorkspaceSerial f))) (\<lambda>rootWS.
        bindE (wrapE ''intermediate'' (findWorkspace ad (if_InterWorkspace f) (if_InterWorkspaceSerial f))) (\<lambda>interWS.
        bindE (wrapE ''reissue-intermediate'' (ReissueIntermediate (tl_x509 kt) (tl_on_curve kt) ad (tl_host kt)
           DefaultSessionOptions
           \<lparr>rp_RootWorkspace = rootWS, rp_RootPIN = pinResolver (tl_os kt) (if_RootPINEnv f),
            rp_RootKeyLabel = if_RootKeyLabel f, rp_RootCurve = rootCurve, rp_RootCert = Some rootCert, rp_Role = role,
            rp_IntermediateWorkspace = interWS, rp_IntermediatePIN = pinResolver (tl_os kt) (if_InterPINEnv f),
            rp_IntermediateKeyLabel = if_InterKeyLabel f, rp_IntermediateSubject = common_name (if_InterCN f),
            rp_IntermediateCurve = curve, rp_IntermediateValidity = if_InterValidity f,
            rp_RootCRLURL = if_RootCRLURL f, rp_RootCertURL = if_RootCertURL f\<rparr>)) (\<lambda>(der, err).
        bindE (writeCertPEM kt (if_InterCertOut f) der) (\<lambda>_.
        case err of None \<Rightarrow> returnE () | Some e \<Rightarrow> throwE (Wrap ''reissue-intermediate'' e)))))))))))))"

end
