(* ===== verification/Credentials.thy ===== *)
theory Credentials
  imports Keytool Api
begin

text \<open>
  \<^verbatim>\<open>cmd/hsm-pki-keytool/credentials.go\<close>: the commands that mint the service's TLS
  identity, an operator's first client certificate and the responder's key, while the
  service is stopped. They issue through \<open>Issue\<close>, record in the service's store and write
  the certificate whatever the record did. What they need besides \<open>'s tool\<close> is \<open>issuing\<close>.
\<close>

record 's issuing =
  it_tool :: "'s tool"
  it_sl :: service_lib
  it_order :: "san_type list"
  it_OpenStore :: "string \<Rightarrow> ('s, 's store_ifc) eff"
  it_CloseStore :: "('s, unit) eff"
  it_ParseIP :: "string \<Rightarrow> string option"
  it_csr_tbs :: "pkix_name \<Rightarrow> string list \<Rightarrow> string list \<Rightarrow> public_key \<Rightarrow> bytes res"

record issuer_flags =
  is_adapterName :: string
  is_modulePath :: string
  is_workspaceLabel :: string
  is_workspaceSerial :: string
  is_pinEnv :: string
  is_keyLabel :: string
  is_certPath :: string
  is_curveName :: string
  is_baseURL :: string
  is_storePath :: string
  is_validity :: duration
  is_roleName :: string

definition defaultCredentialValidity :: duration where
  "defaultCredentialValidity = 90 * 24 * hour"

section \<open>The issuer\<close>

definition issuer_check :: "x509_lib \<Rightarrow> issuer_flags \<Rightarrow> string list \<Rightarrow> ec_curve res" where
  "issuer_check lib f extra =
     bindR (RoleByName (is_adapterName f) (is_roleName f)) (\<lambda>_.
     bindR (required ([is_modulePath f, is_workspaceLabel f, is_pinEnv f, is_keyLabel f, is_certPath f,
        is_baseURL f, is_storePath f] @ extra)) (\<lambda>_.
     if is_validity f \<le> 0 then Inl (Errorf ''-validity must be positive'')
     else bindR (wrapR ''-base-url'' (LeafDistribution_Validate lib (LeafDistributionFor (is_baseURL f)))) (\<lambda>_.
          ParseCurve (is_curveName f))))"

definition load_issuer ::
    "'s issuing \<Rightarrow> 's vendor_adapter \<Rightarrow> issuer_flags \<Rightarrow> ec_curve \<Rightarrow> ('s, 's ca \<times> workspace) eff" where
  "load_issuer it ad f curve =
     (let kt = it_tool it in
      bindE (findWorkspace ad (is_workspaceLabel f) (is_workspaceSerial f)) (\<lambda>ws.
      bindE (liftE (RoleByName (is_adapterName f) (is_roleName f))) (\<lambda>role.
      bindE (getsE (\<lambda>s path. fst (os_ReadFile (tl_os kt) path s))) (\<lambda>ReadFile.
      bindE (LoadIntermediate (tl_x509 kt) (tl_on_curve kt) ad (tl_host kt) ReadFile ws DefaultSessionOptions
         (pinResolver (tl_os kt) (is_pinEnv f))
         \<lparr>li_KeyLabel = is_keyLabel f, li_Role = role, li_CertPath = is_certPath f, li_Curve = curve,
          li_CertTTL = is_validity f, li_Distribution = LeafDistributionFor (is_baseURL f)\<rparr>) (\<lambda>issuer.
      returnE (issuer, ws))))))"

text \<open>On a failure everything opened so far is closed again.\<close>

definition openIssuer ::
    "'s issuing \<Rightarrow> issuer_flags \<Rightarrow> ec_curve \<Rightarrow> ('s, 's ca \<times> 's store_ifc \<times> 's vendor_adapter \<times> workspace) eff" where
  "openIssuer it f curve =
     bindE (it_OpenStore it (is_storePath f)) (\<lambda>records.
     tryE (tl_NewAdapter (it_tool it) (is_adapterName f) (is_modulePath f)) (\<lambda>r. case r of
       Inl err \<Rightarrow> tryE (it_CloseStore it) (\<lambda>_. throwE err)
     | Inr ad \<Rightarrow>
         tryE (load_issuer it ad f curve) (\<lambda>r. case r of
           Inl err \<Rightarrow> tryE (va_Close ad) (\<lambda>_. tryE (it_CloseStore it) (\<lambda>_. throwE err))
         | Inr (issuer, ws) \<Rightarrow> returnE (issuer, records, ad, ws))))"

definition builtinProfile :: "string \<Rightarrow> duration \<Rightarrow> profile option" where
  "builtinProfile name validity =
     (case map_of Builtin name of Some (Some p) \<Rightarrow> Some (p\<lparr>p_Validity := validity\<rparr>) | _ \<Rightarrow> None)"

section \<open>Requests and records\<close>

definition readCSRPEM :: "'s issuing \<Rightarrow> string \<Rightarrow> ('s, csr) eff" where
  "readCSRPEM it path =
     bindE (wrapE ''reading'' (os_ReadFile (tl_os (it_tool it)) path)) (\<lambda>data.
     case il_pem_decode (tl_inv (it_tool it)) data of
       None \<Rightarrow> throwE (Errorf ''does not contain a PEM block'')
     | Some (ty, der, rest) \<Rightarrow>
         if \<not> is_blank rest then throwE (Errorf ''contains more than one PEM block'')
         else if ty \<noteq> ''CERTIFICATE REQUEST'' then throwE (Errorf ''want CERTIFICATE REQUEST'')
         else liftE (wrapR ''parsing'' (sl_parse_csr (it_sl it) der)))"

fun parse_ips :: "(string \<Rightarrow> string option) \<Rightarrow> string list \<Rightarrow> string list res" where
  "parse_ips parseIP [] = Inr []"
| "parse_ips parseIP (raw # raws) =
     (let t = TrimSpace raw in
      if t = [] then parse_ips parseIP raws
      else case parseIP t of
          None \<Rightarrow> Inl (Errorf ''-ip: not an IP address'')
        | Some ip \<Rightarrow> bindR (parse_ips parseIP raws) (\<lambda>ips. Inr (ip # ips)))"

definition parseSANs :: "(string \<Rightarrow> string option) \<Rightarrow> string \<Rightarrow> string \<Rightarrow> (string list \<times> string list) res" where
  "parseSANs parseIP dnsNames ipAddresses =
     (let names = filter (\<lambda>n. n \<noteq> []) (map TrimSpace (Split (CHR '','') dnsNames)) in
      bindR (parse_ips parseIP (Split (CHR '','') ipAddresses)) (\<lambda>ips. Inr (names, ips)))"

definition recordAndWrite :: "'s issuing \<Rightarrow> 's store_ifc \<Rightarrow> certificate \<Rightarrow> string \<Rightarrow> ('s, unit) eff" where
  "recordAndWrite it records cert certOut =
     tryE (st_Record records (issued_record cert)) (\<lambda>recErr.
     tryE (writeCertPEM (it_tool it) certOut (c_Raw cert)) (\<lambda>r. case r of
       Inl err \<Rightarrow> (case recErr of
           Inl _ \<Rightarrow> throwE (Wrap ''it exists nowhere and its serial is spent'' err)
         | Inr _ \<Rightarrow> throwE err)
     | Inr _ \<Rightarrow> (case recErr of
           Inl e \<Rightarrow> throwE (Wrap ''issued and written, but recording it failed'' e)
         | Inr _ \<Rightarrow> returnE ())))"

definition csrOverTokenKey ::
    "'s issuing \<Rightarrow> 's vendor_adapter \<Rightarrow> workspace \<Rightarrow> string \<Rightarrow> ec_curve \<Rightarrow> pkix_name \<Rightarrow> string list \<Rightarrow> string list \<Rightarrow>
     ('s, csr) eff" where
  "csrOverTokenKey it ad ws label curve subject dnsNames ips =
     (let kt = it_tool it in
      bindE (wrapE ''loading the key to sign its own request''
         (NewSigner (tl_on_curve kt) ad ws DefaultSessionOptions label curve)) (\<lambda>signer.
      bindE (wrapE ''creating the request'' (bindE (liftE (it_csr_tbs it subject dnsNames ips (sg_Public signer)))
         (sign_tbs (tl_x509 kt) signer))) (\<lambda>der.
      wrapE ''parsing the request just created'' (liftE (sl_parse_csr (it_sl it) der)))))"

definition provisionServiceKey ::
    "'s tool \<Rightarrow> 's vendor_adapter \<Rightarrow> workspace \<Rightarrow> signing_params \<Rightarrow> ('s, signing_key reported) eff" where
  "provisionServiceKey kt ad ws params =
     in_one_session ad ws (\<lambda>s. unreported (Provision (tl_on_curve kt) ad (tl_host kt) s params))"

section \<open>The commands\<close>

record client_cert_flags =
  ic_issuer :: issuer_flags
  ic_csr :: string
  ic_certOut :: string

definition runIssueClientCertCmd :: "'s issuing \<Rightarrow> client_cert_flags \<Rightarrow> ('s, unit) eff" where
  "runIssueClientCertCmd it f =
     (let kt = it_tool it in
      bindE (liftE (issuer_check (tl_x509 kt) (ic_issuer f) [ic_csr f, ic_certOut f])) (\<lambda>curve.
      bindE (refuseExistingFile (tl_os kt) (ic_certOut f)) (\<lambda>_.
      bindE (readCSRPEM it (ic_csr f)) (\<lambda>csr.
      if csr_URIs csr = [] \<and> n_CommonName (csr_Subject csr) = []
      then throwE (Errorf ''neither a URI SAN nor a subject common name'')
      else
      bindE (openIssuer it (ic_issuer f) curve) (\<lambda>(issuer, records, ad, ws).
      finallyE (va_Close ad) (finallyE (it_CloseStore it)
        (bindE (wrapE ''issuing the client certificate'' (Issue (tl_x509 kt) (tl_host kt) (it_order it) issuer csr
           (builtinProfile ''tls-client'' (is_validity (ic_issuer f))))) (\<lambda>cert.
         recordAndWrite it records cert (ic_certOut f)))))))))"

record tls_flags =
  tf_issuer :: issuer_flags
  tf_tlsKeyLabel :: string
  tf_tlsCurve :: string
  tf_dns :: string
  tf_ip :: string
  tf_cn :: string
  tf_certOut :: string

text \<open>Everything the TLS identity needs that can be checked without the token.\<close>

definition tls_checks :: "'s issuing \<Rightarrow> tls_flags \<Rightarrow> ('s, ec_curve \<times> ec_curve \<times> string \<times> string list \<times> string list) eff" where
  "tls_checks it f =
     (let kt = it_tool it in
      bindE (liftE (issuer_check (tl_x509 kt) (tf_issuer f) [tf_tlsKeyLabel f, tf_certOut f])) (\<lambda>curve.
      bindE (liftE (wrapR ''-curve'' (ParseCurve (tf_tlsCurve f)))) (\<lambda>tlsCurve.
      bindE (liftE (ValidateLabel (tf_tlsKeyLabel f))) (\<lambda>_.
      if tf_tlsKeyLabel f = is_keyLabel (tf_issuer f)
      then throwE (Errorf ''-tls-key-label is the intermediate's own label'')
      else
      bindE (refuseExistingFile (tl_os kt) (tf_certOut f)) (\<lambda>_.
      bindE (liftE (parseSANs (it_ParseIP it) (tf_dns f) (tf_ip f))) (\<lambda>(names, ips).
      if names = [] \<and> ips = [] then throwE (Errorf ''-dns or -ip is required'')
      else let cn = (if tf_cn f = [] \<and> names \<noteq> [] then hd names else tf_cn f) in
           if cn = [] then throwE (Errorf ''-cn is required when only -ip is given'')
           else returnE (curve, tlsCurve, cn, names, ips)))))))"

definition runProvisionTLSIdentityCmd :: "'s issuing \<Rightarrow> tls_flags \<Rightarrow> ('s, unit) eff" where
  "runProvisionTLSIdentityCmd it f =
     (let kt = it_tool it in
      bindE (tls_checks it f) (\<lambda>(curve, tlsCurve, cn, names, ips).
      bindE (openIssuer it (tf_issuer f) curve) (\<lambda>(issuer, records, ad, ws).
      finallyE (va_Close ad) (finallyE (it_CloseStore it)
        (bindE (strict (provisionServiceKey kt ad ws \<lparr>sp_Label = tf_tlsKeyLabel f, sp_Curve = tlsCurve\<rparr>)) (\<lambda>key.
         bindE (wrapE ''building a CSR over it failed''
            (csrOverTokenKey it ad ws (tf_tlsKeyLabel f) tlsCurve (common_name cn) names ips)) (\<lambda>csr.
         bindE (wrapE ''issuing a certificate over it failed'' (Issue (tl_x509 kt) (tl_host kt) (it_order it) issuer csr
            (builtinProfile ''tls-server'' (is_validity (tf_issuer f))))) (\<lambda>cert.
         recordAndWrite it records cert (tf_certOut f)))))))))"

record ocsp_key_flags =
  ok_adapterName :: string
  ok_roleName :: string
  ok_modulePath :: string
  ok_workspaceLabel :: string
  ok_workspaceSerial :: string
  ok_pinEnv :: string
  ok_intermediateKeyLabel :: string
  ok_keyLabel :: string
  ok_curveName :: string

definition runProvisionOCSPKeyCmd :: "'s tool \<Rightarrow> ocsp_key_flags \<Rightarrow> ('s, unit) eff" where
  "runProvisionOCSPKeyCmd kt f =
     bindE (liftE (RoleByName (ok_adapterName f) (ok_roleName f))) (\<lambda>role.
     bindE (liftE (required [ok_modulePath f, ok_workspaceLabel f, ok_pinEnv f, ok_intermediateKeyLabel f, ok_keyLabel f])) (\<lambda>_.
     bindE (liftE (ParseCurve (ok_curveName f))) (\<lambda>curve.
     bindE (liftE (ValidateLabel (ok_keyLabel f))) (\<lambda>_.
     if ok_keyLabel f = ok_intermediateKeyLabel f then throwE (Errorf ''-key-label is the intermediate's own label'')
     else
     bindE (tl_NewAdapter kt (ok_adapterName f) (ok_modulePath f)) (\<lambda>ad.
     finallyE (va_Close ad)
       (bindE (findWorkspace ad (ok_workspaceLabel f) (ok_workspaceSerial f)) (\<lambda>ws.
        bindE (getsE (va_TokenLoggedIn ad)) (\<lambda>logged_in.
        if logged_in then throwE (Errorf ''a token is already authenticated'')
        else
        bindE (pinResolver (tl_os kt) (ok_pinEnv f)) (\<lambda>pin.
        bindE (loginAs ad ws pin role) (\<lambda>_.
        finallyE (va_LogoutToken ad)
          (bindE (strict (provisionServiceKey kt ad ws \<lparr>sp_Label = ok_keyLabel f, sp_Curve = curve\<rparr>)) (\<lambda>_.
           returnE ()))))))))))))"

section \<open>What a minted credential is\<close>

lemma issuer_check_Inr:
  "issuer_check lib f extra = Inr curve \<Longrightarrow> 0 < is_validity f \<and> ParseCurve (is_curveName f) = Inr curve"
  by (auto simp: issuer_check_def bindR_eq_Inr wrapR_eq_Inr split: if_splits)

lemma recordAndWrite_Inr:
  "recordAndWrite it records cert certOut s = (Inr u, s') \<Longrightarrow> \<exists>t1. st_Record records (issued_record cert) s = (Inr (), t1) \<and>
     writeCertPEM (it_tool it) certOut (c_Raw cert) t1 = (Inr (), s')"
  by (auto simp: recordAndWrite_def tryE_def split: prod.splits sum.splits)

end
