(* ===== verification/Keytool_Props.thy ===== *)
theory Keytool_Props
  imports Keytool Ceremony_Props
begin

text \<open>
  What the signing-key commands guarantee. The adapter is any that meets the contract
  \<open>vendor_adapter\<close>; a statement about what a command leaves alone is over any observation
  \<open>frame\<close> of the state that the adapter's reading operations keep.
\<close>

section \<open>Frames\<close>

lemma preserves_deferR [pres_intros]:
  "preserves P f \<Longrightarrow> preserves P c \<Longrightarrow> preserves P (deferR c m f)"
  by (auto simp: preserves_def deferR_def split: prod.splits sum.splits option.splits)

lemma preserves_unreported [pres_intros]: "preserves P f \<Longrightarrow> preserves P (unreported f)"
  unfolding unreported_def by (intro pres_intros)

text \<open>What follows an operation has to keep the predicate only for the results it can have.\<close>

lemma preserves_bindE_dep:
  "preserves P f \<Longrightarrow> (\<And>s x s'. f s = (Inr x, s') \<Longrightarrow> preserves P (g x)) \<Longrightarrow> preserves P (bindE f g)"
  by (fastforce simp: preserves_def bindE_def split: prod.splits sum.splits)

context vendor_adapter
begin

lemma frame_loginAs: "preserves frame (loginAs ad ws pin role)"
  unfolding loginAs_def by (intro pres_intros frame_ops)

lemma frame_with_login:
  "preserves frame resolvePIN \<Longrightarrow> preserves frame body \<Longrightarrow> preserves frame (with_login ad ws resolvePIN role body)"
  unfolding with_login_def by (intro pres_intros frame_loginAs frame_ops)

lemma frame_in_one_session:
  "(\<And>s. preserves frame (body s)) \<Longrightarrow> preserves frame (in_one_session ad ws body)"
  unfolding in_one_session_def by (intro pres_intros frame_ops)

lemma frame_Load: "preserves frame (signingkey_Load on_curve ad s label curve)"
  unfolding signingkey_Load_def by (intro pres_intros frame_ops)

lemma frame_findWorkspace: "preserves frame (findWorkspace ad label serial)"
  unfolding findWorkspace_def by (intro pres_intros frame_ops)

lemma frame_retireSigningKey:
  assumes "preserves frame resolvePIN"
    and other: "\<And>s t key t'. signingkey_Load (tl_on_curve kt) ad s label curve t = (Inr key, t') \<Longrightarrow>
        key_Public key \<noteq> listed"
  shows "preserves frame (retireSigningKey kt ad ws resolvePIN role label curve listed)"
  unfolding retireSigningKey_def
proof (intro frame_with_login frame_in_one_session assms(1) preserves_bindE_dep)
  fix s t key t'
  assume "wrapE ''reading the key off the token'' (signingkey_Load (tl_on_curve kt) ad s label curve) t = (Inr key, t')"
  then have "\<not> SameKey (key_Public key) listed"
    by (auto simp: wrapE_eq_Inr dest!: other SameKey_eq)
  then show "preserves frame (if \<not> SameKey (key_Public key) listed
      then throwE (Errorf ''not the key the inventory lists under that label'') else Destroy ad s label)"
    by (simp add: preserves_throwE)
qed (intro pres_intros frame_Load)

end

lemma preserves_pinResolver: "(\<And>v. preserves P (os_Getenv os v)) \<Longrightarrow> preserves P (pinResolver os v)"
  unfolding pinResolver_def by (intro pres_intros)

lemma listed_retirable_Inr:
  "listed_retirable label doc = Inr e \<Longrightarrow>
    e \<in> set (inv_Keys doc) \<and> ie_Label e = label \<and> ie_Status e = StatusVerifyOnly"
  by (auto simp: listed_retirable_def find_Some_iff split: option.splits if_splits)

lemma retirableEntry_Inr:
  "retirableEntry kt path label t = (Inr e, t') \<Longrightarrow> \<exists>data doc s s'. os_ReadFile (tl_os kt) path s = (Inr data, s') \<and>
     inventory_Parse (tl_inv kt) data = Inr doc \<and> e \<in> set (inv_Keys doc) \<and> ie_Label e = label \<and>
     ie_Status e = StatusVerifyOnly"
  by (auto simp: retirableEntry_def bindE_eq_Inr wrapE_eq_Inr wrapR_eq_Inr dest!: listed_retirable_Inr)

lemma frame_retire_tail:
  assumes "vendor_adapter ad host frame" "preserves frame (va_Close ad)" "\<And>v. preserves frame (os_Getenv (tl_os kt) v)"
    and "\<And>s t key t'. signingkey_Load (tl_on_curve kt) ad s (rf_KeyLabel f) curve t = (Inr key, t') \<Longrightarrow>
        key_Public key \<noteq> listed"
  shows "preserves frame (finallyE (va_Close ad) (bindE (findWorkspace ad (rf_Workspace f) (rf_WorkspaceSerial f))
     (\<lambda>ws. bindE (strict (retireSigningKey kt ad ws (pinResolver (tl_os kt) (rf_PINEnv f)) role (rf_KeyLabel f) curve
        listed)) (\<lambda>_. returnE ()))))"
  by (intro pres_intros preserves_pinResolver vendor_adapter.frame_retireSigningKey [OF assms(1)]
      vendor_adapter.frame_findWorkspace [OF assms(1)] assms(2-4))


section \<open>Two tokens for the evaluated examples\<close>

text \<open>
  The supply-chain token (slot 1) and the offline token (slot 2). Every key on them is
  the point (0, 1) and protected; destroying an object clears the tokens. In the
  inventory library the text of a key is as long as its first coordinate.
\<close>

definition key_hsm :: "((nat \<times> string) list \<times> nat list) p11_module" where
  "key_hsm = toy_hsm
     \<lparr>C_GetSlotList := (\<lambda>t. (Inr [1, 2], t)),
      C_GetTokenInfo := (\<lambda>slot t. (Inr (if slot = 1 then \<lparr>ti_Label = ''s'', ti_SerialNumber = ''1''\<rparr>
         else \<lparr>ti_Label = ''o'', ti_SerialNumber = ''2''\<rparr>), t)),
      C_GetAttributeValue := (\<lambda>_ _ _ t. (Inr [\<lparr>attr_Type = AttrEcPoint,
         attr_Value = CHR 0x04 # replicate 63 (CHR 0x00) @ [CHR 0x01]\<rparr>,
         \<lparr>attr_Type = AttrSensitive, attr_Value = [CHR 0x01]\<rparr>], t)),
      C_DestroyObject := (\<lambda>_ _ (objs, p). (Inr (), [], p))\<rparr>"

definition key_inv_lib :: inventory_lib where
  "key_inv_lib = toy_inventory_lib
     \<lparr>il_sha256 := (\<lambda>_. replicate 32 (CHR 0x02)),
      il_parse_pkix := (\<lambda>b. Inr (EcdsaKey EC_P256 (int (length b)) 1)),
      il_json_decode := (\<lambda>_. Inr (\<lparr>inv_Schema = Schema, inv_Version = 1, inv_GeneratedAt = 1, inv_ValidUntil = 9,
         inv_Keys = [toy_entry ''k-v1'' [] StatusVerifyOnly]\<rparr>, []))\<rparr>"

definition key_tool :: "((nat \<times> string) list \<times> nat list) world tool" where
  "key_tool = \<lparr>tl_x509 = demo_lib, tl_inv = key_inv_lib, tl_pem_encode = (\<lambda>_ der. der), tl_on_curve = (\<lambda>_ _ _. True),
     tl_host = base_host,
     tl_os = \<lparr>os_Stat = (\<lambda>_. returnE False), os_ReadFile = (\<lambda>_. returnE []), os_WriteFile = (\<lambda>_ _. returnE ()),
       os_Getenv = (\<lambda>_. returnE (Some 0))\<rparr>,
     tl_NewAdapter = (\<lambda>_ _. returnE (base_adapter key_hsm softHSM2Capabilities))\<rparr>"

definition retire_example :: retire_flags where
  "retire_example = \<lparr>rf_Adapter = AdapterSoftHSM2, rf_Role = [], rf_Module = ''m'', rf_Workspace = ''s'',
     rf_WorkspaceSerial = [], rf_PINEnv = ''E'', rf_KeyLabel = ''k-v1'', rf_Inventory = ''i''\<rparr>"

lemma key_hsm_reads: "reading_calls_keep key_hsm (\<lambda>t. fst t \<noteq> [])"
  by (auto simp: reading_calls_keep_def key_hsm_def toy_hsm_def dead_module_def preserves_def returnE_def throwE_def)

lemma observed_key_hsm: "observed key_hsm (\<lambda>t. fst t \<noteq> []) s \<longleftrightarrow> fst (w_module s) \<noteq> []"
  by (simp add: observed_def key_hsm_reads)

lemma preserves_observed_call:
  "preserves Q f \<Longrightarrow> preserves (observed m Q) (onModule f)"
  by (auto simp: observed_def [abs_def] intro!: preserves_imp preserves_onModule)

lemma observed_DestroyObject:
  "(\<And>h. preserves Q (C_DestroyObject m h obj)) \<Longrightarrow> preserves (observed m Q) (base_DestroyObject m r obj)"
  unfolding base_DestroyObject_def by (intro pres_intros quiet.pres_in_session preserves_observed_call)

lemma observed_Close:
  assumes "preserves Q (C_Finalize m)"
  shows "preserves (observed m Q) (base_Close m)"
proof (rule preservesI)
  fix s assume s: "observed m Q s"
  obtain r s1 where 1: "base_LogoutToken m s = (r, s1)" by fastforce
  from preservesD [OF quiet.pres_LogoutToken s 1] have s1: "observed m Q (mark_all_closed s1)"
    by (simp add: observed_def mark_all_closed_def)
  have "preserves (observed m Q) (finalize_module m)"
    unfolding finalize_module_def onModule_tryE
    using assms by (intro pres_intros preserves_observed_call) (simp add: onModule_returnE preserves_returnE)
  then have "preserves (observed m Q) (bindE (close_handles m (map fst (w_sessions s1))) (\<lambda>_.
      bindE (finalize_module m) (\<lambda>_. modifyE (\<lambda>s. s\<lparr>w_closed := True\<rparr>))))"
    by (intro pres_intros quiet.pres_close_handles) (simp_all add: observed_def)
  from preserves_snd [OF this s1] s 1 show "observed m Q (snd (base_Close m s))"
    by (simp add: base_Close_def tryE_def Let_def)
qed

lemma observed_key_hsm_Close: "preserves (observed key_hsm (\<lambda>t. fst t \<noteq> [])) (base_Close key_hsm)"
  by (intro observed_Close) (auto simp: preserves_def key_hsm_def toy_hsm_def dead_module_def)

lemma key_tool_ops:
  "tl_NewAdapter key_tool name path s = (Inr (base_adapter key_hsm softHSM2Capabilities), s)"
  "preserves P (tl_NewAdapter key_tool name path)"
  "preserves P (os_ReadFile (tl_os key_tool) path)" "preserves P (os_Getenv (tl_os key_tool) v)"
  "tl_host key_tool = base_host"
  by (simp_all add: key_tool_def preserves_returnE)


section \<open>Provisioning\<close>

lemma deferR_Inr: "deferR c m f s = (Inr (x, err), s') \<Longrightarrow> \<exists>err' t'. f s = (Inr (x, err'), t')"
  by (auto simp: deferR_def split: prod.splits sum.splits option.splits)

lemma with_login_Inr:
  "with_login ad ws pin role body s = (Inr (x, err), s') \<Longrightarrow> \<exists>err' t t'. body t = (Inr (x, err'), t')"
  by (auto simp: with_login_def bindE_eq_Inr split: if_splits dest!: deferR_Inr)

lemma in_one_session_Inr:
  "in_one_session ad ws body s = (Inr (x, err), s') \<Longrightarrow> \<exists>sref err' t t'. body sref t = (Inr (x, err'), t')"
  by (auto simp: in_one_session_def bindE_eq_Inr dest!: deferR_Inr)

lemma login_session_Inr:
  "with_login ad ws pin role (in_one_session ad ws body) s = (Inr (x, err), s') \<Longrightarrow>
    \<exists>sref err' t t'. body sref t = (Inr (x, err'), t')"
  by (blast dest: with_login_Inr in_one_session_Inr)


text \<open>A run of it: an empty token, and the offline token beside it.\<close>

definition new_key_hsm :: "((nat \<times> string) list \<times> nat list) p11_module" where
  "new_key_hsm = key_hsm
     \<lparr>C_FindObjectsInit := (\<lambda>h tmpl (objs, p). (Inr (), objs,
        if (h, template_label tmpl) \<in> set objs \<or> template_label tmpl = [] \<and> h \<in> fst ` set objs then [1] else []))\<rparr>"

abbreviation new_key_adapter :: "((nat \<times> string) list \<times> nat list) world vendor_adapter" where
  "new_key_adapter \<equiv> base_adapter new_key_hsm softHSM2Capabilities"

definition new_key :: signing_key where
  "new_key = \<lparr>key_Label = ''k-v1'', key_Public = EcdsaKey EC_P256 0 1, key_Sensitive = True, key_Extractable = False\<rparr>"


text \<open>
  The search for a duplicate reports the duplicate's label, and the empty label means
  there is none: on a token that already holds the same key pair without a label the new
  key is accepted.
\<close>

lemma unlabelled_duplicate_accepted:
  "case Provision (\<lambda>_ _ _. True) new_key_adapter base_host 0 \<lparr>sp_Label = ''k-v1'', sp_Curve = P256\<rparr>
      (snd (base_OpenSession new_key_hsm (slot_ws 1 ''s'') DefaultSessionOptions (start_world ([(1, [])], [])))) of
    (r, s') \<Rightarrow> r = Inr new_key \<and>
     (case fst (base_GetAttributes new_key_hsm 0 1 [AttrLabel, AttrEcPoint] s') of
        Inr attrs \<Rightarrow> attr_or_empty AttrLabel attrs = [] \<and> same_point (\<lambda>_ _ _. True) EC_P256 (key_Public new_key) attrs
      | Inl _ \<Rightarrow> False)"
  by code_simp

section \<open>Publishing\<close>

text \<open>What stands behind an entry: the token, or the previous document and the key's absence.\<close>

definition entry_backed ::
    "'s tool \<Rightarrow> 's vendor_adapter \<Rightarrow> ec_curve \<Rightarrow> (string \<Rightarrow> inv_entry option) \<Rightarrow> inv_entry \<Rightarrow> bool" where
  "entry_backed kt ad curve prior e \<longleftrightarrow>
     (if ie_Status e = StatusRetired
      then (\<exists>old. prior (ie_Label e) = Some old \<and> ie_PublicKeyPEM e = ie_PublicKeyPEM old) \<and>
        (\<exists>sref t t'. LabelIsFree ad sref ClassPrivateKey (ie_Label e) t = (Inr True, t'))
      else \<exists>key sref t t'. signingkey_Load (tl_on_curve kt) ad sref (ie_Label e) curve t = (Inr key, t') \<and>
        key_Sensitive key \<and> \<not> key_Extractable key \<and>
        signing_key_PEM (tl_x509 kt) (tl_pem_encode kt) key = Inr (ie_PublicKeyPEM e)) \<and>
     (\<forall>old. prior (ie_Label e) = Some old \<longrightarrow> ie_ValidFrom e = ie_ValidFrom old)"

definition spec_of :: "inv_entry \<Rightarrow> key_spec" where
  "spec_of e = \<lparr>ks_purpose = ie_Purpose e, ks_label = ie_Label e, ks_status = ie_Status e\<rparr>"

lemma signingkey_Verify_Inr:
  "strict (signingkey_Verify on_curve ad s label curve) t = (Inr key, t') \<Longrightarrow>
    signingkey_Load on_curve ad s label curve t = (Inr key, t') \<and> key_Sensitive key \<and> \<not> key_Extractable key"
  by (auto simp: strict_def signingkey_Verify_def bindE_eq_Inr verifyProtection_Inr split: option.splits sum.splits)

lemma read_entry_Inr:
  assumes "read_entry kt ad s curve prior now spec t = (Inr e, t')"
  shows "spec_of e = spec \<and> entry_backed kt ad curve prior e"
proof (cases "ks_status spec = StatusRetired")
  case True
  with assms obtain old u where "prior (ks_label spec) = Some old"
    "LabelIsFree ad s ClassPrivateKey (ks_label spec) t = (Inr True, u)"
    "e = retired_entry now old \<lparr>ie_Label = ks_label spec, ie_Purpose = ks_purpose spec, ie_Curve = curveName curve,
       ie_PublicKeyPEM = [], ie_ValidFrom = ie_ValidFrom old, ie_RetiredAt = None, ie_Status = ks_status spec\<rparr>"
    by (auto simp: read_entry_def bindE_eq_Inr wrapE_eq_Inr Let_def split: option.splits if_splits)
  with True show ?thesis by (auto simp: spec_of_def entry_backed_def retired_entry_def)
next
  case False
  with assms obtain key u pem where
    "strict (signingkey_Verify (tl_on_curve kt) ad s (ks_label spec) curve) t = (Inr key, u)"
    "signing_key_PEM (tl_x509 kt) (tl_pem_encode kt) key = Inr pem"
    "e = \<lparr>ie_Label = ks_label spec, ie_Purpose = ks_purpose spec, ie_Curve = curveName curve,
       ie_PublicKeyPEM = pem, ie_ValidFrom = (case prior (ks_label spec) of None \<Rightarrow> now | Some e \<Rightarrow> ie_ValidFrom e),
       ie_RetiredAt = None, ie_Status = ks_status spec\<rparr>"
    by (auto simp: read_entry_def bindE_eq_Inr wrapE_eq_Inr Let_def)
  with False signingkey_Verify_Inr [OF this(1)] show ?thesis
    by (auto simp: spec_of_def entry_backed_def)
qed

lemma mapE_read_entry:
  "mapE (read_entry kt ad s curve prior now) specs t = (Inr es, t') \<Longrightarrow>
    map spec_of es = specs \<and> (\<forall>e \<in> set es. entry_backed kt ad curve prior e)"
proof (induction specs arbitrary: es t)
  case Nil
  then show ?case by simp
next
  case (Cons spec specs)
  then obtain e t1 es' where "read_entry kt ad s curve prior now spec t = (Inr e, t1)"
    "mapE (read_entry kt ad s curve prior now) specs t1 = (Inr es', t')" "es = e # es'"
    by (auto simp: bindE_eq_Inr)
  with Cons.IH read_entry_Inr [OF this(1)] show ?case by simp
qed

lemma strict_Inr: "strict f s = (Inr x, s') \<longleftrightarrow> f s = (Inr (x, None), s')"
  by (auto simp: strict_def bindE_eq_Inr split: option.splits)

lemma readEntries_Inr:
  assumes "strict (readEntries kt ad ws pin role curve specs previous invKeyLabel) s = (Inr entries, s')"
  shows "mset (map spec_of entries) = mset specs \<and> sorted (map ie_Label entries) \<and>
    (\<forall>e \<in> set entries. entry_backed kt ad curve (prior_entries previous) e) \<and>
    (\<exists>sref t t'. LabelIsFree ad sref ClassPrivateKey invKeyLabel t = (Inr True, t'))"
proof -
  from login_session_Inr [OF assms [unfolded strict_Inr readEntries_def]]
  obtain sref t u es now v w where "LabelIsFree ad sref ClassPrivateKey invKeyLabel t = (Inr True, u)"
    and es: "mapE (read_entry kt ad sref curve (prior_entries previous) now) specs v = (Inr es, w)"
    and entries: "entries = sort_key ie_Label es"
    by (auto simp: bindE_eq_Inr wrapE_eq_Inr split: if_splits)
  moreover have "mset (map spec_of entries) = mset (map spec_of es)" by (simp add: entries)
  ultimately show ?thesis using mapE_read_entry [OF es] by auto
qed

lemma signInventory_Inr:
  "strict (signInventory kt ad ws pin role label document) s = (Inr (sig, pub), s') \<Longrightarrow>
    \<exists>signer t t'. NewSigner (tl_on_curve kt) ad ws DefaultSessionOptions label P256 t = (Inr signer, t') \<and>
      pub = sg_Public signer \<and> is_ecdsa pub"
  by (auto simp: strict_Inr signInventory_def bindE_eq_Inr wrapE_eq_Inr split: if_splits dest!: with_login_Inr) blast

lemma previousInventory_Inr:
  "previousInventory kt f s = (Inr previous, s') \<Longrightarrow>
    (case previous of None \<Rightarrow> gf_In f = [] \<and> (\<exists>t t'. os_Stat (tl_os kt) (gf_Out f) t = (Inr False, t'))
     | Some old \<Rightarrow> \<exists>data t t'. os_ReadFile (tl_os kt) (gf_In f) t = (Inr data, t') \<and>
         inventory_Parse (tl_inv kt) data = Inr old)"
  unfolding previousInventory_def
  by (auto simp: bindE_eq_Inr wrapE_eq_Inr wrapR_eq_Inr split: if_splits option.splits intro!: exI)


text \<open>A regeneration: \<open>k-v1\<close> has gone from the token and is retired, \<open>k-v2\<close> is active.\<close>

definition generate_example :: generate_flags where
  "generate_example = \<lparr>gf_Adapter = AdapterSoftHSM2, gf_Role = [], gf_Module = ''m'', gf_Curve = ''P-256'',
     gf_Workspace = ''s'', gf_WorkspaceSerial = [], gf_PINEnv = ''E'', gf_InvWorkspace = ''o'',
     gf_InvWorkspaceSerial = [], gf_InvPINEnv = ''F'', gf_InvKeyLabel = ''n-v1'',
     gf_Keys = [\<lparr>ks_purpose = PurposeImage, ks_label = ''k-v2'', ks_status = StatusActive\<rparr>,
       \<lparr>ks_purpose = PurposeImage, ks_label = ''k-v1'', ks_status = StatusRetired\<rparr>],
     gf_Validity = hour, gf_In = ''i'', gf_Out = ''i'', gf_Sig = ''g''\<rparr>"

definition two_token_world :: "((nat \<times> string) list \<times> nat list) world" where
  "two_token_world = (start_world ([(1, ''k-v2''), (2, ''n-v1'')], []))
     \<lparr>w_env := calm_env\<lparr>env_Now := (\<lambda>n. second * (int n + 1))\<rparr>\<rparr>"


end
