(* ===== verification/Credentials_Props.thy ===== *)
theory Credentials_Props
  imports Credentials Keytool_Props Api_Props
begin

text \<open>
  What the minting of the service's TLS identity guarantees, with a run of it on one
  token.
\<close>

lemma builtinProfile_tls_server:
  "builtinProfile ''tls-server'' v = Some p \<Longrightarrow> p_Validity p = v \<and> p_ExtKeyUsages p = [EKU_ServerAuth] \<and> p_Name p = ''tls-server''"
  by (auto simp: builtinProfile_def Builtin_def Let_def)

lemma tls_checks_Inr:
  "tls_checks it f s = (Inr (curve, tlsCurve, cn, names, ips), s') \<Longrightarrow>
    0 < is_validity (tf_issuer f) \<and> tf_tlsKeyLabel f \<noteq> is_keyLabel (tf_issuer f) \<and>
    parseSANs (it_ParseIP it) (tf_dns f) (tf_ip f) = Inr (names, ips) \<and> (names \<noteq> [] \<or> ips \<noteq> [])"
  by (auto simp: tls_checks_def Let_def bindE_eq_Inr dest!: issuer_check_Inr split: if_splits)

lemma provisionServiceKey_Inr:
  assumes "strict (provisionServiceKey kt ad ws p) s = (Inr key, s')"
  shows "\<exists>sref t t'. Provision (tl_on_curve kt) ad (tl_host kt) sref p t = (Inr key, t')"
proof -
  from in_one_session_Inr [OF assms [unfolded strict_Inr provisionServiceKey_def]]
  obtain sref err t t' where
    "unreported (Provision (tl_on_curve kt) ad (tl_host kt) sref p) t = (Inr (key, err), t')" by blast
  then have "Provision (tl_on_curve kt) ad (tl_host kt) sref p t = (Inr key, t')"
    by (auto simp: unreported_def bindE_eq_Inr)
  then show ?thesis by blast
qed


section \<open>A run\<close>

definition mint :: "((nat \<times> string) list \<times> nat list) world issuing" where
  "mint = \<lparr>it_tool = key_tool\<lparr>tl_x509 := loading_lib\<rparr>,
     it_sl = plain_sl\<lparr>sl_parse_csr := (\<lambda>_. Inr web_csr)\<rparr>, it_order = [SANDNS, SANIP, SANURI, SANEmail],
     it_OpenStore = (\<lambda>_. returnE \<lparr>st_Record = (\<lambda>_. returnE ()), st_Get = (\<lambda>_. returnE None),
        st_Revoke = (\<lambda>_ _ _. returnE ()), st_Revoked = returnE [], st_NextCRLNumber = (\<lambda>_. returnE 1)\<rparr>),
     it_CloseStore = returnE (), it_ParseIP = (\<lambda>_. None), it_csr_tbs = (\<lambda>_ _ _ _. Inr ''csr'')\<rparr>"

definition mint_flags :: tls_flags where
  "mint_flags = \<lparr>tf_issuer = \<lparr>is_adapterName = AdapterSoftHSM2, is_modulePath = ''m'', is_workspaceLabel = ''s'',
       is_workspaceSerial = [], is_pinEnv = ''E'', is_keyLabel = ''i-v1'', is_certPath = ''c'', is_curveName = ''P-256'',
       is_baseURL = ''http://h'', is_storePath = ''d'', is_validity = 60 * second, is_roleName = []\<rparr>,
     tf_tlsKeyLabel = ''t-v1'', tf_tlsCurve = ''P-256'', tf_dns = '' a.e,'', tf_ip = [], tf_cn = [], tf_certOut = ''o''\<rparr>"


end
