(* ===== verification/Startup.thy ===== *)
theory Startup
  imports Config Api Signer_Props
begin

text \<open>
  \<^verbatim>\<open>cmd/hsm-pki-server\<close>: from the configuration file to the surfaces that are served. The
  state is the service's (\<open>service\<close>: HSM, store, caches). \<open>launch\<close> holds what the process
  gets from outside: the file system, \<^verbatim>\<open>NewAdapterByName\<close>, \<^verbatim>\<open>OpenSQLite\<close>, \<^verbatim>\<open>pem.Decode\<close>
  with the block's type, and the buffer a PIN is read into. The listeners themselves are
  \<^verbatim>\<open>net/http\<close>; \<open>await\<close> is the decision taken when one of them, or a signal, reports.
\<close>

section \<open>The process\<close>

record ('s, 'd) launch =
  lc_config :: config_lib
  lc_api :: "'s api_lib"
  lc_on_curve :: "elliptic \<Rightarrow> int \<Rightarrow> int \<Rightarrow> bool"
  lc_ReadFile :: file_reader
  lc_NewAdapter :: "string \<Rightarrow> string \<Rightarrow> ('s, 's vendor_adapter) eff"
  lc_PINBuffer :: "bytes \<Rightarrow> ('s, buffer) eff"
  lc_OpenSQLite :: "string \<Rightarrow> int option \<Rightarrow> ('d, 'd store_ifc) eff"
  lc_CloseSQLite :: "('d, unit) eff"
  lc_pem_decode :: "bytes \<Rightarrow> (string \<times> bytes \<times> bytes) option"
  lc_parse_crl :: "bytes \<Rightarrow> unit res"

definition NewVendorAdapter :: "('s, 'd) launch \<Rightarrow> config \<Rightarrow> ('s, 's vendor_adapter) eff" where
  "NewVendorAdapter lc cfg =
     bindE (liftE (selectedVendor (cfg_PKCS11 cfg))) (\<lambda>v.
     lc_NewAdapter lc (pc_Adapter (cfg_PKCS11 cfg)) (vc_ModulePath v))"

definition config_PIN :: "('s, 'd) launch \<Rightarrow> config \<Rightarrow> 's pin_resolver" where
  "config_PIN lc cfg = bindE (liftE (ResolvePIN (lc_config lc) cfg)) (lc_PINBuffer lc)"

text \<open>The anchor login: exactly one token may carry the label.\<close>

definition verifyHSMConnection :: "('s, 'd) launch \<Rightarrow> config \<Rightarrow> 's vendor_adapter \<Rightarrow> ('s, workspace) eff" where
  "verifyHSMConnection lc cfg ad =
     bindE (liftE (selectedVendor (cfg_PKCS11 cfg))) (\<lambda>v.
     bindE (va_Workspaces ad) (\<lambda>workspaces.
     case filter (\<lambda>w. ws_Label w = vc_WorkspaceLabel v) workspaces of
       [] \<Rightarrow> throwE (Errorf ''workspace not found'')
     | [ws] \<Rightarrow>
         bindE (liftE (LoginRole cfg)) (\<lambda>role.
         bindE (config_PIN lc cfg) (\<lambda>pin.
         tryE (va_LoginToken ad ws pin (role_Role role)) (\<lambda>r. case r of
             Inl err \<Rightarrow> throwE (Wrap ''token login'' (role_Explain role err))
           | Inr _ \<Rightarrow> returnE ws)))
     | _ \<Rightarrow> throwE (Errorf ''workspace label matches more than one token'')))"

definition readPEMFile :: "('s, 'd) launch \<Rightarrow> string \<Rightarrow> string \<Rightarrow> bytes res" where
  "readPEMFile lc path wantType =
     bindR (lc_ReadFile lc path) (\<lambda>data.
     case lc_pem_decode lc data of
       None \<Rightarrow> Inl (Errorf ''does not contain a PEM block'')
     | Some (ty, block, rest) \<Rightarrow>
         if ty \<noteq> wantType then Inl (Errorf ''contains another PEM block'')
         else if \<not> is_blank rest then Inl (Errorf ''contains more than one PEM block'')
         else Inr block)"

definition loadRootArtifacts :: "('s, 'd) launch \<Rightarrow> config \<Rightarrow> (bytes \<times> bytes) res" where
  "loadRootArtifacts lc cfg =
     bindR (readPEMFile lc (cc_RootCertPath (cfg_CA cfg)) ''CERTIFICATE'') (\<lambda>certDER.
     bindR (readPEMFile lc (cc_RootCRLPath (cfg_CA cfg)) ''X509 CRL'') (\<lambda>crlDER.
     case lib_parse_certificate (al_lib (lc_api lc)) certDER of
       Inl _ \<Rightarrow> Inl (Errorf ''is not a parseable certificate'')
     | Inr _ \<Rightarrow> (case lc_parse_crl lc crlDER of
           Inl _ \<Rightarrow> Inl (Errorf ''is not a parseable CRL'')
         | Inr _ \<Rightarrow> Inr (certDER, crlDER))))"

section \<open>The surfaces\<close>

text \<open>\<^verbatim>\<open>tls.Config\<close>, as far as \<^verbatim>\<open>TLSConfig\<close> sets it.\<close>

datatype client_auth = NoClientCert | RequireAndVerifyClientCert

record 's tls_settings =
  ts_MinVersion :: nat
  ts_Identity :: "'s tls_certificate"
  ts_ClientAuth :: client_auth
  ts_ClientCAs :: "certificate list"

definition VersionTLS13 :: nat where "VersionTLS13 = 0x0304"

definition TLSConfig :: "'s tls_certificate \<Rightarrow> certificate \<Rightarrow> 's tls_settings" where
  "TLSConfig identity trustAnchor = \<lparr>ts_MinVersion = VersionTLS13, ts_Identity = identity,
     ts_ClientAuth = RequireAndVerifyClientCert, ts_ClientCAs = [trustAnchor]\<rparr>"

record ('s, 'd) running =
  rn_server :: "('s, 'd) server"
  rn_public :: string
  rn_authenticated :: "(string \<times> 's tls_settings) option"

definition start_responder ::
    "('s, 'd) launch \<Rightarrow> config \<Rightarrow> 's vendor_adapter \<Rightarrow> workspace \<Rightarrow> 's ca \<Rightarrow> 'd store_ifc \<Rightarrow>
     (('s, 'd) service, 's responder option) eff" where
  "start_responder lc cfg ad ws issuer records =
     (let al = lc_api lc; c = cfg_CA cfg in
      case cc_OCSP c of
        None \<Rightarrow> returnE None
      | Some ocsp \<Rightarrow>
          bindE (wrapE ''loading the OCSP responder key''
            (onHsm (NewSigner (lc_on_curve lc) ad ws (pc_SessionOptions (cfg_PKCS11 cfg)) (oc_KeyLabel ocsp) (config_Curve c)))) (\<lambda>signer.
          bindE (responder_New (al_sl al) (al_lib al) (al_host al) (al_order al) records
            \<lparr>oc_Issuer = Some issuer, oc_hasRecords = True, oc_Signer = Some signer,
             oc_Profile = (case map_of (cc_ProfileSet c) InternalOnlyProfile of None \<Rightarrow> None | Some p \<Rightarrow> p),
             oc_Subject = Config.oc_Subject ocsp, oc_Validity = int64 (cc_CRLValidityHours c * hour)\<rparr>) (\<lambda>r.
          returnE (Some r))))"

definition start_tls ::
    "('s, 'd) launch \<Rightarrow> config \<Rightarrow> 's vendor_adapter \<Rightarrow> workspace \<Rightarrow> 's ca \<Rightarrow> bytes \<Rightarrow>
     ('s, (string \<times> 's tls_settings) option) eff" where
  "start_tls lc cfg ad ws issuer rootDER =
     (let lib = al_lib (lc_api lc) in
      case sc_TLS (cfg_Server cfg) of
        None \<Rightarrow> returnE None
      | Some t \<Rightarrow>
          bindE (LoadServiceCertificate lib (lc_on_curve lc) ad (al_host (lc_api lc)) (lc_ReadFile lc) ws
            (pc_SessionOptions (cfg_PKCS11 cfg)) (Some (ca_cert issuer))
            \<lparr>sc_KeyLabel = tc_KeyLabel t, sc_CertPath = tc_CertPath t, sc_Curve = config_Curve (cfg_CA cfg)\<rparr>) (\<lambda>identity.
          bindE (liftE (lib_parse_certificate lib rootDER)) (\<lambda>trustAnchor.
          returnE (Some (tc_ListenAddr t, TLSConfig identity trustAnchor)))))"

text \<open>\<^verbatim>\<open>NewServer\<close> with empty caches.\<close>

definition build_server ::
    "config \<Rightarrow> 's vendor_adapter \<Rightarrow> workspace \<Rightarrow> 's ca \<Rightarrow> 'd store_ifc \<Rightarrow> bytes \<times> bytes \<Rightarrow> 's responder option \<Rightarrow>
     ('s, 'd) server" where
  "build_server cfg ad ws issuer records root responder =
     \<lparr>sr_ca = issuer, sr_adapter = ad, sr_workspace = ws, sr_store = records, sr_profiles = cc_ProfileSet (cfg_CA cfg),
      sr_issuers = ac_Entitlements (cfg_API cfg), sr_revokers = ac_Revokers (cfg_API cfg), sr_responder = responder,
      sr_crlValidity = int64 (cc_CRLValidityHours (cfg_CA cfg) * hour), sr_rootCertDER = fst root,
      sr_rootCRLDER = snd root, sr_intermediateDER = c_Raw (ca_cert issuer)\<rparr>"

definition leaf_distribution_of :: "ca_config \<Rightarrow> leaf_distribution" where
  "leaf_distribution_of c =
     (if cc_OCSP c = None then LeafDistributionFor (cc_BaseURL c) else LeafDistributionWithOCSP (cc_BaseURL c))"

text \<open>A cleanup that a later failure triggers: Go's \<^verbatim>\<open>defer\<close>, before the service is up.\<close>

definition unless_started :: "('s, unit) eff \<Rightarrow> ('s, 'a) eff \<Rightarrow> ('s, 'a) eff" where
  "unless_started cleanup f = tryE f (\<lambda>r. case r of Inl err \<Rightarrow> tryE cleanup (\<lambda>_. throwE err) | Inr x \<Rightarrow> returnE x)"

definition start_surfaces ::
    "('s, 'd) launch \<Rightarrow> config \<Rightarrow> 's vendor_adapter \<Rightarrow> workspace \<Rightarrow> 's ca \<Rightarrow> bytes \<times> bytes \<Rightarrow> 'd store_ifc \<Rightarrow>
     (('s, 'd) service, ('s, 'd) running) eff" where
  "start_surfaces lc cfg ad ws issuer root records =
     bindE (start_responder lc cfg ad ws issuer records) (\<lambda>responder.
     bindE (modifyE (\<lambda>s. s\<lparr>sv_cachedCRL := None, sv_cachedNextUpdate := 0\<rparr>)) (\<lambda>_.
     bindE (onHsm (start_tls lc cfg ad ws issuer (fst root))) (\<lambda>authenticated.
     returnE \<lparr>rn_server = build_server cfg ad ws issuer records root responder,
       rn_public = sc_ListenAddr (cfg_Server cfg), rn_authenticated = authenticated\<rparr>)))"

definition server_run :: "('s, 'd) launch \<Rightarrow> string \<Rightarrow> (('s, 'd) service, ('s, 'd) running) eff" where
  "server_run lc configPath =
     bindE (liftE (config_Load (lc_config lc) (lc_ReadFile lc) configPath)) (\<lambda>cfg.
     bindE (onHsm (NewVendorAdapter lc cfg)) (\<lambda>ad.
     unless_started (onHsm (va_Close ad))
       (bindE (onHsm (verifyHSMConnection lc cfg ad)) (\<lambda>ws.
        bindE (liftE (LoginRole cfg)) (\<lambda>role.
        bindE (onHsm (LoadIntermediate (al_lib (lc_api lc)) (lc_on_curve lc) ad (al_host (lc_api lc)) (lc_ReadFile lc) ws
           (pc_SessionOptions (cfg_PKCS11 cfg)) (config_PIN lc cfg)
           \<lparr>li_KeyLabel = cc_IntermediateKeyLabel (cfg_CA cfg), li_Role = role,
            li_CertPath = cc_IntermediateCertPath (cfg_CA cfg), li_Curve = config_Curve (cfg_CA cfg),
            li_CertTTL = int64 (cc_CertTTLHours (cfg_CA cfg) * hour),
            li_Distribution = leaf_distribution_of (cfg_CA cfg)\<rparr>)) (\<lambda>issuer.
        bindE (liftE (loadRootArtifacts lc cfg)) (\<lambda>root.
        bindE (onStore (lc_OpenSQLite lc (cc_StorePath (cfg_CA cfg)) (CRLFloor (cfg_CA cfg)))) (\<lambda>records.
        unless_started (onStore (lc_CloseSQLite lc)) (start_surfaces lc cfg ad ws issuer root records)))))))))"

section \<open>Serving and the health probe\<close>

datatype serve_event = ShutdownSignal | ListenerEnded "go_error option"

definition await :: "serve_event \<Rightarrow> unit res list \<Rightarrow> unit res" where
  "await ev shutdowns =
     (case ev of
        ListenerEnded (Some err) \<Rightarrow> Inl err
      | ListenerEnded None \<Rightarrow> Inr ()
      | ShutdownSignal \<Rightarrow> forR id shutdowns)"

definition probeAddress ::
    "(string \<Rightarrow> (string \<times> string) res) \<Rightarrow> (string \<Rightarrow> string \<Rightarrow> string) \<Rightarrow> string \<Rightarrow> string res" where
  "probeAddress SplitHostPort JoinHostPort listenAddr =
     bindR (wrapR ''server.listen_addr'' (SplitHostPort listenAddr)) (\<lambda>(host, port).
     if port = [] then Inl (Errorf ''server.listen_addr names no port'')
     else Inr (JoinHostPort (if host \<in> set [[], ''0.0.0.0'', ''::'', ''[::]''] then ''127.0.0.1'' else host) port))"

definition runHealthcheck ::
    "(string \<Rightarrow> (string \<times> string) res) \<Rightarrow> (string \<Rightarrow> string \<Rightarrow> string) \<Rightarrow> (string \<Rightarrow> nat res) \<Rightarrow> string \<Rightarrow> unit res" where
  "runHealthcheck SplitHostPort JoinHostPort Get listenAddr =
     bindR (probeAddress SplitHostPort JoinHostPort listenAddr) (\<lambda>addr.
     bindR (wrapR ''probing'' (Get (''http://'' @ addr @ ''/healthz''))) (\<lambda>status.
     if status \<noteq> 200 then Inl (Errorf ''probing: /healthz returned another status'') else Inr ()))"

end
