(* ===== verification/Startup_Props.thy ===== *)
theory Startup_Props
  imports Startup Ceremony_Props Store_Memory Api_Props
begin

text \<open>
  What it means that the service is up: each lemma says what a successful step has
  checked, and the property puts them together over the configuration that was loaded.
\<close>

lemma onHsm_Inr: "onHsm f s = (Inr x, s') \<longleftrightarrow> (\<exists>h. f (sv_hsm s) = (Inr x, h) \<and> s' = s\<lparr>sv_hsm := h\<rparr>)"
  by (auto simp: onHsm_def split: prod.splits)

lemma onStore_Inr: "onStore f s = (Inr x, s') \<longleftrightarrow> (\<exists>d. f (sv_db s) = (Inr x, d) \<and> s' = s\<lparr>sv_db := d\<rparr>)"
  by (auto simp: onStore_def split: prod.splits)

lemma unless_started_Inr: "unless_started c f s = (Inr x, s') \<longleftrightarrow> f s = (Inr x, s')"
  by (cases "f s"; cases "fst (f s)") (auto simp: unless_started_def tryE_def throwE_def split: prod.splits)

text \<open>A start is a chain of such steps; each rule takes one off.\<close>

lemma onHsm_stepE:
  assumes "bindE (onHsm f) g s = (Inr x, s')"
  obtains a s1 where "f (sv_hsm s) = (Inr a, sv_hsm s1)" "sv_cert s1 = sv_cert s" "g a s1 = (Inr x, s')"
  using assms that [of _ "s\<lparr>sv_hsm := _\<rparr>"] by (auto simp: bindE_eq_Inr onHsm_Inr)

lemma onStore_stepE:
  assumes "bindE (onStore f) g s = (Inr x, s')"
  obtains a s1 where "f (sv_db s) = (Inr a, sv_db s1)" "sv_cert s1 = sv_cert s" "g a s1 = (Inr x, s')"
  using assms that [of _ "s\<lparr>sv_db := _\<rparr>"] by (auto simp: bindE_eq_Inr onStore_Inr)

lemma liftE_stepE:
  assumes "bindE (liftE r) g s = (Inr x, s')"
  obtains a where "r = Inr a" "g a s = (Inr x, s')"
  using assms by (auto simp: bindE_eq_Inr)

lemma forget_crl_stepE:
  assumes "bindE (modifyE (\<lambda>s. s\<lparr>sv_cachedCRL := None, sv_cachedNextUpdate := 0\<rparr>)) g s = (Inr x, s')"
  obtains s1 where "sv_cert s1 = sv_cert s" "g () s1 = (Inr x, s')"
  using assms that [of "s\<lparr>sv_cachedCRL := None, sv_cachedNextUpdate := 0\<rparr>"] by (simp add: bindE_def modifyE_def)

lemma bindE_stepE:
  assumes "bindE f g s = (Inr x, s')"
  obtains a s1 where "f s = (Inr a, s1)" "g a s1 = (Inr x, s')"
  using assms by (auto simp: bindE_eq_Inr)

text \<open>The signer a key was loaded into: which token, which label, which curve.\<close>

definition signer_for ::
    "'s vendor_adapter \<Rightarrow> workspace \<Rightarrow> config \<Rightarrow> string \<Rightarrow> 's crypto_signer \<Rightarrow> bool" where
  "signer_for ad ws cfg label signer \<longleftrightarrow>
     (\<exists>hash ec x y. hashForCurve (config_Curve (cfg_CA cfg)) = Inr hash \<and>
        sg_Sign signer = signer_Sign ad ws (pc_SessionOptions (cfg_PKCS11 cfg)) label hash \<and>
        sg_Public signer = EcdsaKey ec x y \<and> ec_curve_Curve (config_Curve (cfg_CA cfg)) = Some ec)"

lemma NewSigner_for:
  fixes s :: 's
  assumes "NewSigner on_curve ad ws (pc_SessionOptions (cfg_PKCS11 cfg)) label (config_Curve (cfg_CA cfg)) s = (Inr signer, s')"
  shows "signer_for ad ws cfg label signer"
  using NewSigner_Inr [OF assms] unfolding signer_for_def .

lemma verifyHSMConnection_Inr:
  assumes "verifyHSMConnection lc cfg ad s = (Inr ws, s')"
  shows "\<exists>v workspaces role pin t t' u u'. selectedVendor (cfg_PKCS11 cfg) = Inr v \<and>
     va_Workspaces ad t = (Inr workspaces, t') \<and> filter (\<lambda>w. ws_Label w = vc_WorkspaceLabel v) workspaces = [ws] \<and>
     LoginRole cfg = Inr role \<and> va_LoginToken ad ws pin (role_Role role) u = (Inr (), u')"
proof -
  from assms obtain v workspaces t where v: "selectedVendor (cfg_PKCS11 cfg) = Inr v"
    and w: "va_Workspaces ad s = (Inr workspaces, t)"
    and rest: "(case filter (\<lambda>w. ws_Label w = vc_WorkspaceLabel v) workspaces of
       [] \<Rightarrow> throwE (Errorf ''workspace not found'')
     | [ws] \<Rightarrow> bindE (liftE (LoginRole cfg)) (\<lambda>role. bindE (config_PIN lc cfg) (\<lambda>pin.
         tryE (va_LoginToken ad ws pin (role_Role role)) (\<lambda>r. case r of
             Inl err \<Rightarrow> throwE (Wrap ''token login'' (role_Explain role err)) | Inr _ \<Rightarrow> returnE ws)))
     | _ \<Rightarrow> throwE (Errorf ''workspace label matches more than one token'')) t = (Inr ws, s')"
    by (auto simp: verifyHSMConnection_def bindE_eq_Inr)
  from rest obtain w' where one: "filter (\<lambda>w. ws_Label w = vc_WorkspaceLabel v) workspaces = [w']"
    by (auto split: list.splits)
  with rest obtain role pin u where role: "LoginRole cfg = Inr role"
    and login: "tryE (va_LoginToken ad w' pin (role_Role role)) (\<lambda>r. case r of
         Inl err \<Rightarrow> throwE (Wrap ''token login'' (role_Explain role err)) | Inr _ \<Rightarrow> returnE w') u = (Inr ws, s')"
    by (auto simp: bindE_eq_Inr)
  obtain r u' where run: "va_LoginToken ad w' pin (role_Role role) u = (r, u')" by fastforce
  from login run have "r = Inr ()" "w' = ws"
    by (cases r; simp add: tryE_def throwE_def)+
  with v w one role run show ?thesis by blast
qed

lemma LoadIntermediate_checked:
  assumes "LoadIntermediate lib on_curve ad host ReadFile ws (pc_SessionOptions (cfg_PKCS11 cfg)) resolvePIN params s = (Inr c, s')"
    and "li_Curve params = config_Curve (cfg_CA cfg)"
  shows "c_IsCA (ca_cert c) \<and> c_MaxPathLenZero (ca_cert c) \<and> \<not> check_signature_from lib (ca_cert c) (ca_cert c) \<and>
     sg_Public (ca_signer c) = c_PublicKey (ca_cert c) \<and> signer_for ad ws cfg (li_KeyLabel params) (ca_signer c) \<and>
     ca_dist c = li_Distribution params \<and> ca_maxTTL c = li_CertTTL params \<and> is_ok (LeafDistribution_Validate lib (ca_dist c))"
  using assms
  by (auto simp: LoadIntermediate_def res_simps checkIntermediateCert_Inr checkKeyMatchesCert_Inr dest!: NewSigner_for)

lemma LoadServiceCertificate_checked:
  assumes "LoadServiceCertificate lib on_curve ad host ReadFile ws (pc_SessionOptions (cfg_PKCS11 cfg)) (Some issuer) params s = (Inr c, s')"
    and "sc_Curve params = config_Curve (cfg_CA cfg)"
  shows "\<not> c_IsCA (tls_Leaf c) \<and> EKU_ServerAuth \<in> set (c_ExtKeyUsage (tls_Leaf c)) \<and>
     check_signature_from lib (tls_Leaf c) issuer \<and> sg_Public (tls_PrivateKey c) = c_PublicKey (tls_Leaf c) \<and>
     signer_for ad ws cfg (sc_KeyLabel params) (tls_PrivateKey c)"
  using assms
  by (auto simp: LoadServiceCertificate_def res_simps checkServiceCert_Inr checkKeyMatchesCert_Inr dest!: NewSigner_for)

lemma responder_New_Inr:
  assumes "responder_New sl lib host order ops cfg s = (Inr r, s')"
  shows "oc_Issuer cfg = Some (rs_issuer r) \<and> oc_Signer cfg = Some (rs_signer r) \<and> oc_Profile cfg = Some (rs_profile r) \<and>
     InternalOnly (p_Name (rs_profile r)) \<and> 0 < oc_Validity cfg \<and> sv_cert s' \<noteq> None"
  using assms by (auto simp: responder_New_def Renew_def Let_def res_simps split: option.splits if_splits)

lemma start_responder_Inr:
  assumes "start_responder lc cfg ad ws issuer records s = (Inr r, s')"
  shows "case cc_OCSP (cfg_CA cfg) of None \<Rightarrow> r = None
     | Some ocsp \<Rightarrow> \<exists>rs. r = Some rs \<and> rs_issuer rs = issuer \<and> signer_for ad ws cfg (oc_KeyLabel ocsp) (rs_signer rs) \<and>
         InternalOnly (p_Name (rs_profile rs)) \<and> 0 < int64 (cc_CRLValidityHours (cfg_CA cfg) * hour) \<and> sv_cert s' \<noteq> None"
  using assms
  by (auto simp: start_responder_def Let_def res_simps onHsm_Inr split: option.splits
      dest!: responder_New_Inr NewSigner_for)

lemma start_tls_Inr:
  assumes "start_tls lc cfg ad ws issuer rootDER s = (Inr a, s')"
  shows "case sc_TLS (cfg_Server cfg) of None \<Rightarrow> a = None
     | Some t \<Rightarrow> \<exists>ts root. a = Some (tc_ListenAddr t, ts) \<and> ts_MinVersion ts = VersionTLS13 \<and>
         ts_ClientAuth ts = RequireAndVerifyClientCert \<and> ts_ClientCAs ts = [root] \<and>
         lib_parse_certificate (al_lib (lc_api lc)) rootDER = Inr root \<and>
         \<not> c_IsCA (tls_Leaf (ts_Identity ts)) \<and> EKU_ServerAuth \<in> set (c_ExtKeyUsage (tls_Leaf (ts_Identity ts))) \<and>
         check_signature_from (al_lib (lc_api lc)) (tls_Leaf (ts_Identity ts)) (ca_cert issuer) \<and>
         sg_Public (tls_PrivateKey (ts_Identity ts)) = c_PublicKey (tls_Leaf (ts_Identity ts)) \<and>
         signer_for ad ws cfg (tc_KeyLabel t) (tls_PrivateKey (ts_Identity ts))"
  using assms
  by (auto simp: start_tls_def Let_def res_simps TLSConfig_def split: option.splits dest!: LoadServiceCertificate_checked)

section \<open>The service that is up\<close>

text \<open>The steps of a start that succeeded, in the order they were taken.\<close>

lemma start_surfaces_Inr:
  assumes "start_surfaces lc cfg ad ws issuer root records s = (Inr rn, s')"
  obtains responder v authenticated h h' where
    "start_responder lc cfg ad ws issuer records s = (Inr responder, v)"
    "start_tls lc cfg ad ws issuer (fst root) h = (Inr authenticated, h')" "sv_cert s' = sv_cert v"
    "rn = \<lparr>rn_server = build_server cfg ad ws issuer records root responder,
       rn_public = sc_ListenAddr (cfg_Server cfg), rn_authenticated = authenticated\<rparr>"
  using assms unfolding start_surfaces_def
  by (elim bindE_stepE [of "start_responder _ _ _ _ _ _"] forget_crl_stepE onHsm_stepE) (auto simp: returnE_def intro: that)

lemma server_run_Inr:
  fixes s :: "('s, 'd) service"
  assumes "server_run lc path s = (Inr rn, s')"
  obtains cfg and ad :: "'s vendor_adapter" and ws role issuer root records
    and h h1 h2 h3 :: 's and u :: "('s, 'd) service"
  where "config_Load (lc_config lc) (lc_ReadFile lc) path = Inr cfg"
    "NewVendorAdapter lc cfg h = (Inr ad, h1)"
    "verifyHSMConnection lc cfg ad h1 = (Inr ws, h2)" "LoginRole cfg = Inr role"
    "LoadIntermediate (al_lib (lc_api lc)) (lc_on_curve lc) ad (al_host (lc_api lc)) (lc_ReadFile lc) ws
       (pc_SessionOptions (cfg_PKCS11 cfg)) (config_PIN lc cfg)
       \<lparr>li_KeyLabel = cc_IntermediateKeyLabel (cfg_CA cfg), li_Role = role,
        li_CertPath = cc_IntermediateCertPath (cfg_CA cfg), li_Curve = config_Curve (cfg_CA cfg),
        li_CertTTL = int64 (cc_CertTTLHours (cfg_CA cfg) * hour),
        li_Distribution = leaf_distribution_of (cfg_CA cfg)\<rparr> h2 = (Inr issuer, h3)"
    "loadRootArtifacts lc cfg = Inr root" "start_surfaces lc cfg ad ws issuer root records u = (Inr rn, s')"
  using assms unfolding server_run_def unless_started_Inr
  apply (elim liftE_stepE onHsm_stepE)
  apply (unfold unless_started_Inr)
  apply (elim liftE_stepE onHsm_stepE onStore_stepE)
  apply (unfold unless_started_Inr)
  apply (rule that, assumption+)
  done

text \<open>What the configuration adds to what the two optional surfaces checked when they started.\<close>

lemma started_responder:
  fixes v :: "('s, 'd) service"
  assumes load: "config_Load (lc_config lc) (lc_ReadFile lc) path = Inr cfg"
    and resp: "start_responder lc cfg ad ws issuer records u = (Inr responder, v)"
  shows "case cc_OCSP (cfg_CA cfg) of None \<Rightarrow> responder = None
      | Some ocsp \<Rightarrow> \<exists>rs. responder = Some rs \<and> rs_issuer rs = issuer \<and>
          oc_KeyLabel ocsp \<noteq> cc_IntermediateKeyLabel (cfg_CA cfg) \<and>
          signer_for ad ws cfg (oc_KeyLabel ocsp) (rs_signer rs) \<and> sv_cert v \<noteq> None"
proof (cases "cc_OCSP (cfg_CA cfg)")
  case None
  with start_responder_Inr [OF resp] show ?thesis by simp
next
  case (Some ocsp)
  with start_responder_Inr [OF resp] obtain rs where "responder = Some rs" "rs_issuer rs = issuer"
    "signer_for ad ws cfg (oc_KeyLabel ocsp) (rs_signer rs)" "sv_cert v \<noteq> None" by auto
  moreover from load have "validateOCSP cfg = Inr ()" by (rule config_Load_Inr) blast
  from validateOCSP_Inr [OF this] Some have "oc_KeyLabel ocsp \<noteq> cc_IntermediateKeyLabel (cfg_CA cfg)" by blast
  ultimately show ?thesis using Some by (simp only: option.case) blast
qed

lemma started_tls:
  assumes load: "config_Load (lc_config lc) (lc_ReadFile lc) path = Inr cfg"
    and tls: "start_tls lc cfg ad ws issuer root_der k = (Inr authenticated, k')"
  shows "case sc_TLS (cfg_Server cfg) of None \<Rightarrow> authenticated = None \<and> ac_Revokers (cfg_API cfg) = []
      | Some tls_cfg \<Rightarrow> \<exists>ts anchor. authenticated = Some (tc_ListenAddr tls_cfg, ts) \<and>
          tc_ListenAddr tls_cfg \<noteq> sc_ListenAddr (cfg_Server cfg) \<and> ts_MinVersion ts = VersionTLS13 \<and>
          ts_ClientAuth ts = RequireAndVerifyClientCert \<and> ts_ClientCAs ts = [anchor] \<and>
          lib_parse_certificate (al_lib (lc_api lc)) root_der = Inr anchor \<and>
          tc_KeyLabel tls_cfg \<noteq> cc_IntermediateKeyLabel (cfg_CA cfg) \<and>
          (\<forall>ocsp. cc_OCSP (cfg_CA cfg) = Some ocsp \<longrightarrow> oc_KeyLabel ocsp \<noteq> tc_KeyLabel tls_cfg) \<and>
          \<not> c_IsCA (tls_Leaf (ts_Identity ts)) \<and>
          check_signature_from (al_lib (lc_api lc)) (tls_Leaf (ts_Identity ts)) (ca_cert issuer) \<and>
          signer_for ad ws cfg (tc_KeyLabel tls_cfg) (tls_PrivateKey (ts_Identity ts))"
proof -
  from load obtain c0 where surf: "validateAuthenticatedSurface (lc_config lc) c0 = Inr cfg" "cfg_CA c0 = cfg_CA cfg"
    "cfg_Server c0 = cfg_Server cfg" and ocsp: "validateOCSP cfg = Inr ()" by (rule config_Load_Inr) blast
  note surface = validateAuthenticatedSurface_Inr [OF surf(1), unfolded surf(2,3)]
  note started = start_tls_Inr [OF tls]
  show ?thesis
  proof (cases "sc_TLS (cfg_Server cfg)")
    case None
    with started have "authenticated = None" by (simp only: option.case)
    moreover from None surface have "ac_Revokers (cfg_API cfg) = []" by auto
    ultimately show ?thesis using None by (simp only: option.case)
  next
    case (Some t)
    with started obtain ts anchor where "authenticated = Some (tc_ListenAddr t, ts)" "ts_MinVersion ts = VersionTLS13"
      "ts_ClientAuth ts = RequireAndVerifyClientCert" "ts_ClientCAs ts = [anchor]"
      "lib_parse_certificate (al_lib (lc_api lc)) root_der = Inr anchor" "\<not> c_IsCA (tls_Leaf (ts_Identity ts))"
      "check_signature_from (al_lib (lc_api lc)) (tls_Leaf (ts_Identity ts)) (ca_cert issuer)"
      "signer_for ad ws cfg (tc_KeyLabel t) (tls_PrivateKey (ts_Identity ts))"
      by auto
    moreover from Some surface have "tc_KeyLabel t \<noteq> cc_IntermediateKeyLabel (cfg_CA cfg)"
      "tc_ListenAddr t \<noteq> sc_ListenAddr (cfg_Server cfg)" by auto
    moreover from Some validateOCSP_Inr [OF ocsp]
    have "\<forall>ocsp. cc_OCSP (cfg_CA cfg) = Some ocsp \<longrightarrow> oc_KeyLabel ocsp \<noteq> tc_KeyLabel t" by blast
    ultimately show ?thesis using Some by (simp only: option.case) blast
  qed
qed


text \<open>A token and a configuration without the optional surfaces, and the service started on them.\<close>

definition plain_config :: config where
  "plain_config = \<lparr>cfg_Server = \<lparr>sc_ListenAddr = ''a'', sc_TLS = None\<rparr>,
     cfg_PKCS11 = cfg_PKCS11 toy_config,
     cfg_CA = (cfg_CA toy_config)\<lparr>cc_OCSP := None\<rparr>,
     cfg_API = \<lparr>ac_Issuers = [], ac_Entitlements = [], ac_Revokers = []\<rparr>\<rparr>"

definition slotted_hsm :: "((nat \<times> string) list \<times> nat list) p11_module" where
  "slotted_hsm = toy_hsm\<lparr>C_GetSlotList := (\<lambda>t. (Inr [2], t)),
     C_GetTokenInfo := (\<lambda>_ t. (Inr \<lparr>ti_Label = ''w '', ti_SerialNumber = ''1''\<rparr>, t))\<rparr>"

definition add_pin :: "bytes \<Rightarrow> ('t world, buffer) eff" where
  "add_pin b s = (Inr (length (go_bufs (w_bufs s))), s\<lparr>w_bufs := (w_bufs s)\<lparr>go_bufs := go_bufs (w_bufs s) @ [b]\<rparr>\<rparr>)"

definition plain_launch :: "(((nat \<times> string) list \<times> nat list) world, memory) launch" where
  "plain_launch = \<lparr>lc_config = toy_config_lib\<lparr>cl_yaml := (\<lambda>_. Inr plain_config)\<rparr>,
     lc_api = plain_api\<lparr>al_lib := loading_lib, al_host := base_host\<rparr>, lc_on_curve = (\<lambda>_ _ _. True), lc_ReadFile = (\<lambda>path. Inr path),
     lc_NewAdapter = (\<lambda>_ _. returnE (base_adapter slotted_hsm softHSM2Capabilities)), lc_PINBuffer = add_pin,
     lc_OpenSQLite = (\<lambda>_ _. returnE memory_store), lc_CloseSQLite = returnE (),
     lc_pem_decode = (\<lambda>b. Some (if b = ''r'' then ''CERTIFICATE'' else ''X509 CRL'', b, [])), lc_parse_crl = (\<lambda>_. Inr ())\<rparr>"

definition plain_process :: "(((nat \<times> string) list \<times> nat list) world, memory) service" where
  "plain_process = \<lparr>sv_hsm = start_world ([(2, ''i-v1'')], []), sv_db = new_memory, sv_cert = None, sv_gen = 0,
     sv_cache = Map.empty, sv_cachedCRL = None, sv_cachedNextUpdate = 0\<rparr>"

lemma plain_launch_starts: "is_ok (fst (server_run plain_launch ''f'' plain_process))"
  by code_simp

lemma plain_config_loads:
  "case config_Load (lc_config plain_launch) (lc_ReadFile plain_launch) ''f'' of Inl _ \<Rightarrow> False
   | Inr cfg \<Rightarrow> cc_OCSP (cfg_CA cfg) = None \<and> sc_TLS (cfg_Server cfg) = None"
  by code_simp


text \<open>
  The curve is the issuing key's for every key the service loads: a responder or TLS key
  that was provisioned on another curve is refused at start-up, although the tool that
  provisions them takes a curve of its own.
\<close>

lemma responder_key_on_the_issuing_curve:
  assumes "start_responder lc cfg ad ws issuer records s = (Inr (Some r), s')"
  shows "\<exists>ec x y. sg_Public (rs_signer r) = EcdsaKey ec x y \<and> ec_curve_Curve (config_Curve (cfg_CA cfg)) = Some ec"
  using start_responder_Inr [OF assms] by (auto simp: signer_for_def split: option.splits)

end
