(* ===== verification/Base64.thy ===== *)
theory Base64
  imports Prelude
begin

text \<open>
  The base64 encoding of the Go standard library (\<^verbatim>\<open>encoding/base64.StdEncoding\<close>), which
  the signature bundles use: the encoder, the decoder with its tolerance of line breaks
  and its demand for padding, and their round trip. A sextet is a natural below 64.
\<close>

definition alphabet :: string where
  "alphabet = ''ABCDEFGHIJKLMNOPQRSTUVWXYZabcdefghijklmnopqrstuvwxyz0123456789+/''"

definition enc6 :: "nat \<Rightarrow> char" where "enc6 n = alphabet ! n"

definition dec6 :: "char \<Rightarrow> nat option" where "dec6 c = map_of (zip alphabet [0..<64]) c"

definition byte :: "nat \<Rightarrow> char" where "byte n = char_of (n mod 256)"

fun encode64 :: "string \<Rightarrow> string" where
  "encode64 [] = []"
| "encode64 [a] =
     (let n = of_char a * 65536 in
      [enc6 (n div 262144), enc6 (n div 4096 mod 64), CHR ''='', CHR ''=''])"
| "encode64 [a, b] =
     (let n = of_char a * 65536 + of_char b * 256 in
      [enc6 (n div 262144), enc6 (n div 4096 mod 64), enc6 (n div 64 mod 64), CHR ''=''])"
| "encode64 (a # b # c # rest) =
     (let n = of_char a * 65536 + of_char b * 256 + of_char c in
      [enc6 (n div 262144), enc6 (n div 4096 mod 64), enc6 (n div 64 mod 64), enc6 (n mod 64)] @
      encode64 rest)"

text \<open>
  Four characters at a time. Padding ends the text and is never left out; the bits that
  do not reach a whole byte are not looked at.
\<close>

fun decode_quads :: "string \<Rightarrow> string option" where
  "decode_quads [] = Some []"
| "decode_quads (a # b # c # d # rest) =
     (case (dec6 a, dec6 b, dec6 c, dec6 d) of
        (Some w, Some x, Some y, Some z) \<Rightarrow>
          (let n = w * 262144 + x * 4096 + y * 64 + z in
           map_option (\<lambda>out. [byte (n div 65536), byte (n div 256), byte n] @ out) (decode_quads rest))
      | (Some w, Some x, Some y, None) \<Rightarrow>
          (if d = CHR ''='' \<and> rest = []
           then let n = w * 262144 + x * 4096 + y * 64 in Some [byte (n div 65536), byte (n div 256)]
           else None)
      | (Some w, Some x, None, None) \<Rightarrow>
          (if c = CHR ''='' \<and> d = CHR ''='' \<and> rest = []
           then Some [byte ((w * 262144 + x * 4096) div 65536)]
           else None)
      | _ \<Rightarrow> None)"
| "decode_quads _ = None"

definition line_break :: "char \<Rightarrow> bool" where
  "line_break c \<longleftrightarrow> c = CHR 0x0A \<or> c = CHR 0x0D"

definition decode64 :: "string \<Rightarrow> string res" where
  "decode64 text =
     (case decode_quads (filter (\<lambda>c. \<not> line_break c) text) of
        None \<Rightarrow> Inl (Errorf ''illegal base64 data'')
      | Some out \<Rightarrow> Inr out)"

section \<open>Round trip\<close>

lemma alphabet_facts: "length alphabet = 64" "distinct alphabet" "CHR ''='' \<notin> set alphabet"
  "CHR 0x0A \<notin> set alphabet" "CHR 0x0D \<notin> set alphabet"
  by (simp_all add: alphabet_def)

lemma dec6_enc6 [simp]: "n < 64 \<Longrightarrow> dec6 (enc6 n) = Some n"
  using map_of_zip_nth [of alphabet "[0..<64]" n] by (simp add: dec6_def enc6_def alphabet_facts)

lemma dec6_pad [simp]: "dec6 (CHR ''='') = None"
  using alphabet_facts(1,3) by (simp add: dec6_def map_of_zip_is_None)

lemma enc6_in: "n < 64 \<Longrightarrow> enc6 n \<in> set alphabet"
  by (simp add: enc6_def alphabet_facts)

lemma enc6_no_break [simp]: "n < 64 \<Longrightarrow> \<not> line_break (enc6 n)"
  using enc6_in [of n] alphabet_facts(4,5) unfolding line_break_def by metis

lemma byte_of_char [simp]: "byte (of_char c) = c"
  by (simp add: byte_def)

lemma byte_add [simp]: "byte (n * 256 + m) = byte m" "byte (n * 65536 + m) = byte m"
proof -
  show "byte (n * 256 + m) = byte m" by (simp add: byte_def mod_simps)
  have "n * 65536 + m = (n * 256) * 256 + m" by simp
  then show "byte (n * 65536 + m) = byte m" by (simp only: byte_def) (metis mod_mult_self3)
qed

lemma byte_add' [simp]: "byte (256 * n + m) = byte m"
  by (simp add: byte_def mod_simps)

lemma of_char_256 [simp]: "of_char c < (256 :: nat)"
  by (rule nat_of_char_less_256)

lemma radix64: "n = a * 64 + r \<Longrightarrow> a = b * 64 + s \<Longrightarrow> b = c * 64 + t \<Longrightarrow>
  c * 262144 + t * 4096 + s * 64 + r = (n :: nat)"
  by simp

lemma digits64:
  assumes "n < (16777216 :: nat)"
  shows "n div 262144 < 64" "n div 262144 * 262144 + n div 4096 mod 64 * 4096 + n div 64 mod 64 * 64 + n mod 64 = n"
proof -
  show "n div 262144 < 64" using assms by (intro less_mult_imp_div_less) simp
  have "n div 4096 = n div 64 div 64" "n div 262144 = n div 64 div 64 div 64"
    using div_mult2_eq [of n 64 64] div_mult2_eq [of n 4096 64] by simp_all
  then show "n div 262144 * 262144 + n div 4096 mod 64 * 4096 + n div 64 mod 64 * 64 + n mod 64 = n"
    by (simp only:) (rule radix64; simp only: div_mult_mod_eq)
qed

lemma triple_facts:
  assumes "a < 256" "b < 256" "c < (256 :: nat)"
  shows "a * 65536 + b * 256 + c < 16777216" "(a * 65536 + b * 256 + c) div 256 = a * 256 + b"
    "(a * 65536 + b * 256 + c) div 65536 = a"
proof -
  show "a * 65536 + b * 256 + c < 16777216" using assms by linarith
  have "a * 65536 + b * 256 + c = c + (a * 256 + b) * 256" by simp
  then show byte: "(a * 65536 + b * 256 + c) div 256 = a * 256 + b"
    using assms by simp
  have "(a * 65536 + b * 256 + c) div 65536 = (a * 256 + b) div 256"
    using div_mult2_eq [of "a * 65536 + b * 256 + c" 256 256] byte by simp
  also have "\<dots> = (b + a * 256) div 256" by (simp add: add.commute)
  also have "\<dots> = a" using assms by simp
  finally show "(a * 65536 + b * 256 + c) div 65536 = a" .
qed

lemma triple_mod: "(a * 65536 + b * 256) mod (64 :: nat) = 0" "(a * 65536) div 64 mod (64 :: nat) = 0"
  "(a * 65536) mod (64 :: nat) = 0"
proof -
  have "a * 65536 + b * 256 = (a * 1024 + b * 4) * 64" by simp
  then show "(a * 65536 + b * 256) mod (64 :: nat) = 0" by (simp only: mod_mult_self2_is_0)
  have "a * 65536 = (a * 16 * 64) * 64" by simp
  then show "(a * 65536) div 64 mod (64 :: nat) = 0" "(a * 65536) mod (64 :: nat) = 0"
    by (simp_all only: mod_mult_self2_is_0 nonzero_mult_div_cancel_right)
qed

lemma decode_quad:
  assumes "w < 64" "x < 64" "y < 64" "z < 64"
  shows "decode_quads (enc6 w # enc6 x # enc6 y # enc6 z # rest) =
     map_option ((@) [byte ((w * 262144 + x * 4096 + y * 64 + z) div 65536),
       byte ((w * 262144 + x * 4096 + y * 64 + z) div 256), byte (w * 262144 + x * 4096 + y * 64 + z)])
       (decode_quads rest)"
  using assms by (simp add: Let_def)

lemma mod64: "n mod 64 < (64 :: nat)"
  by simp

lemma bytes_of_triple:
  "byte ((of_char a * 65536 + of_char b * 256 + of_char c) div 65536) = a"
  "byte ((of_char a * 65536 + of_char b * 256 + of_char c) div 256) = b"
  "byte (of_char a * 65536 + of_char b * 256 + of_char c) = c"
proof -
  have last: "of_char a * 65536 + of_char b * 256 + of_char c = (of_char a * 256 + of_char b) * 256 + (of_char c :: nat)"
    by simp
  show "byte (of_char a * 65536 + of_char b * 256 + of_char c) = c"
    unfolding last byte_add byte_of_char ..
qed (simp_all only: triple_facts of_char_256 byte_add byte_of_char)

lemma decode_quads_encode64 [simp]: "decode_quads (encode64 inp) = Some inp"
proof (induction inp rule: encode64.induct)
  case (2 a)
  then show ?case
    using digits64 [of "of_char a * 65536"] triple_facts [of "of_char a" 0 0] triple_mod(2,3) [of "of_char a"]
    by (simp add: Let_def)
next
  case (3 a b)
  then show ?case
    using digits64 [of "of_char a * 65536 + of_char b * 256"] triple_facts [of "of_char a" "of_char b" 0]
      triple_mod(1) [of "of_char b" "of_char a"]
    by (simp add: Let_def)
next
  case (4 a b c rest)
  then show ?case
    using decode_quad [OF digits64(1) mod64 mod64 mod64, OF triple_facts(1) [OF of_char_256 [of a] of_char_256 [of b] of_char_256 [of c]]]
    by (simp only: encode64.simps Let_def append.simps bytes_of_triple
        digits64(2) [OF triple_facts(1) [OF of_char_256 [of a] of_char_256 [of b] of_char_256 [of c]]]) simp
qed simp

lemma encode64_no_break: "filter (\<lambda>c. \<not> line_break c) (encode64 inp) = encode64 inp"
proof (induction inp rule: encode64.induct)
  case (2 a)
  show ?case using digits64(1) [of "of_char a * 65536"] triple_facts(1) [of "of_char a" 0 0]
    by (simp add: Let_def) (simp add: line_break_def)
next
  case (3 a b)
  show ?case using digits64(1) [of "of_char a * 65536 + of_char b * 256"] triple_facts(1) [of "of_char a" "of_char b" 0]
    by (simp add: Let_def) (simp add: line_break_def)
next
  case (4 a b c rest)
  then show ?case using digits64(1) [of "of_char a * 65536 + of_char b * 256 + of_char c"]
      triple_facts(1) [of "of_char a" "of_char b" "of_char c"]
    by (simp add: Let_def)
qed simp

lemma decode64_encode64 [simp]: "decode64 (encode64 inp) = Inr inp"
  by (simp add: decode64_def encode64_no_break)

lemma encode64_Nil_iff [simp]: "encode64 x = [] \<longleftrightarrow> x = []"
  by (cases x rule: encode64.cases) (simp_all add: Let_def)

lemma inj_encode64: "encode64 x = encode64 y \<longleftrightarrow> x = y"
  by (metis decode64_encode64 sum.inject(2))

text \<open>From here on only the round trip is used.\<close>

declare encode64.simps [simp del] decode_quads.simps [simp del]

end
