(* ===== verification/Artifactsig.thy ===== *)
theory Artifactsig
  imports Inventory Base64 Strings
begin

text \<open>
  \<^verbatim>\<open>internal/artifactsig\<close> and \<^verbatim>\<open>ci/verify-artifact\<close>: the check of a keyed Sigstore bundle
  over an artifact. The JSON decoder gives the arms of the two oneofs as raw values
  (absent, or present whatever they hold); SHA-256, PKIX and ECDSA are those of
  \<open>inventory_lib\<close>. What reading the artifact yields is a result of its own, since the
  code streams it into the digest. \<open>keyed_bundle\<close> and \<open>speaks_for\<close> state, without the
  order of the checks, what the gate accepts.
\<close>

section \<open>Bundles\<close>

definition MediaTypePrefix :: string where
  "MediaTypePrefix = ''application/vnd.dev.sigstore.bundle''"

record sig_bundle =
  bd_MediaType :: string
  bd_KeyHint :: string
  bd_Digest :: bytes
  bd_Signature :: bytes

record wire_bundle =
  wb_MediaType :: string
  wb_PublicKey :: "bytes option"
  wb_X509CertificateChain :: "bytes option"
  wb_Certificate :: "bytes option"
  wb_MessageSignature :: "bytes option"
  wb_DSSEEnvelope :: "bytes option"

record wire_message_signature =
  wm_Algorithm :: string
  wm_Digest :: string
  wm_Signature :: string

record artifact_lib =
  af_keys :: inventory_lib
  af_json_bundle :: "bytes \<Rightarrow> wire_bundle res"
  af_json_hint :: "bytes \<Rightarrow> string res"
  af_json_message :: "bytes \<Rightarrow> wire_message_signature res"
  af_marshal_pkix :: "public_key \<Rightarrow> bytes res"

definition namesPresent :: "(string \<Rightarrow> bool) \<Rightarrow> string list" where
  "namesPresent arms =
     filter arms [''publicKey'', ''x509CertificateChain'', ''certificate'', ''messageSignature'', ''dsseEnvelope'']"

definition material_arms :: "wire_bundle \<Rightarrow> string \<Rightarrow> bool" where
  "material_arms w = (\<lambda>_. False)(''publicKey'' := wb_PublicKey w \<noteq> None,
     ''x509CertificateChain'' := wb_X509CertificateChain w \<noteq> None, ''certificate'' := wb_Certificate w \<noteq> None)"

definition content_arms :: "wire_bundle \<Rightarrow> string \<Rightarrow> bool" where
  "content_arms w = (\<lambda>_. False)(''messageSignature'' := wb_MessageSignature w \<noteq> None,
     ''dsseEnvelope'' := wb_DSSEEnvelope w \<noteq> None)"

definition sha256_size :: nat where "sha256_size = 32"

text \<open>The first oneof: what authenticates the signature.\<close>

definition key_material :: "wire_bundle \<Rightarrow> bytes res" where
  "key_material w =
     (let present = namesPresent (material_arms w) in
      if present = [] then Inl (Errorf ''artifactsig: bundle carries no verification material'')
      else if length present > 1 then Inl (Errorf ''artifactsig: two contradictory claims'')
      else case wb_PublicKey w of None \<Rightarrow> Inl (Sentinel ErrKeylessBundle) | Some raw \<Rightarrow> Inr raw)"

text \<open>The second: what is signed.\<close>

definition message_content :: "wire_bundle \<Rightarrow> bytes res" where
  "message_content w =
     (let content = namesPresent (content_arms w) in
      if content = [] then Inl (Errorf ''artifactsig: bundle carries no content'')
      else if length content > 1 then Inl (Errorf ''artifactsig: two contents'')
      else case wb_MessageSignature w of
          None \<Rightarrow> Inl (Errorf ''artifactsig: bundle carries a DSSE envelope'') | Some raw \<Rightarrow> Inr raw)"

definition parse_message :: "artifact_lib \<Rightarrow> bytes \<Rightarrow> (bytes \<times> bytes) res" where
  "parse_message lib raw =
     bindR (wrapR ''artifactsig: parsing message signature'' (af_json_message lib raw)) (\<lambda>ms.
     if wm_Algorithm ms \<noteq> ''SHA2_256'' then Inl (Errorf ''artifactsig: digest algorithm is not SHA2_256'')
     else bindR (wrapR ''artifactsig: decoding message digest'' (decode64 (wm_Digest ms))) (\<lambda>digest.
     if length digest \<noteq> sha256_size then Inl (Errorf ''artifactsig: message digest has another length'')
     else if wm_Signature ms = [] then Inl (Errorf ''artifactsig: bundle carries no signature'')
     else bindR (wrapR ''artifactsig: decoding signature'' (decode64 (wm_Signature ms))) (\<lambda>signature.
     Inr (digest, signature))))"

definition artifact_Parse :: "artifact_lib \<Rightarrow> bytes \<Rightarrow> sig_bundle res" where
  "artifact_Parse lib data =
     bindR (wrapR ''artifactsig: parsing bundle'' (af_json_bundle lib data)) (\<lambda>w.
     if \<not> HasPrefix (wb_MediaType w) MediaTypePrefix
     then Inl (Errorf ''artifactsig: unexpected media type'')
     else
     bindR (key_material w) (\<lambda>rawKey.
     bindR (message_content w) (\<lambda>rawMessage.
     bindR (wrapR ''artifactsig: parsing verification material'' (af_json_hint lib rawKey)) (\<lambda>hint.
     if hint = [] then Inl (Errorf ''artifactsig: bundle names no public key'')
     else
     bindR (parse_message lib rawMessage) (\<lambda>(digest, signature).
     Inr \<lparr>bd_MediaType = wb_MediaType w, bd_KeyHint = hint, bd_Digest = digest, bd_Signature = signature\<rparr>)))))"

section \<open>Verification\<close>

definition artifact_Verify :: "artifact_lib \<Rightarrow> sig_bundle \<Rightarrow> bytes res \<Rightarrow> public_key option \<Rightarrow> unit res" where
  "artifact_Verify lib b artifact pub =
     (case pub of
        None \<Rightarrow> Inl (Errorf ''artifactsig: no public key supplied'')
      | Some k \<Rightarrow>
          bindR (wrapR ''artifactsig: encoding public key'' (af_marshal_pkix lib k)) (\<lambda>spki.
          let wantHint = encode64 (il_sha256 (af_keys lib) spki) in
          if bd_KeyHint b \<noteq> wantHint then Inl (Errorf ''artifactsig: bundle names another key'')
          else
          bindR (wrapR ''artifactsig: reading artifact'' artifact) (\<lambda>content.
          let actual = il_sha256 (af_keys lib) content in
          if bd_Digest b \<noteq> actual then Inl (Errorf ''artifactsig: the bundle is for a different artifact'')
          else if \<not> il_verify_asn1 (af_keys lib) k actual (bd_Signature b)
          then Inl (Errorf ''artifactsig: signature does not verify'')
          else Inr ())))"

definition PublicKeyFromPEM :: "artifact_lib \<Rightarrow> bytes \<Rightarrow> public_key res" where
  "PublicKeyFromPEM lib pemBytes =
     (case il_pem_decode (af_keys lib) pemBytes of
        None \<Rightarrow> Inl (Errorf ''artifactsig: no PEM block found'')
      | Some (ty, der, rest) \<Rightarrow>
          if ty \<noteq> ''PUBLIC KEY'' then Inl (Errorf ''artifactsig: not a PUBLIC KEY block'')
          else bindR (wrapR ''artifactsig: parsing public key'' (il_parse_pkix (af_keys lib) der)) (\<lambda>parsed.
               if is_ecdsa parsed then Inr parsed else Inl (Errorf ''artifactsig: not an ECDSA key'')))"

section \<open>The gate\<close>

record verify_flags =
  vf_Key :: string
  vf_Bundle :: string
  vf_Args :: "string list"

text \<open>
  The files are read through \<open>ReadFile\<close>; \<open>Open\<close> yields what streaming the artifact gives.
\<close>

definition verify_artifact ::
    "artifact_lib \<Rightarrow> (string \<Rightarrow> bytes res) \<Rightarrow> (string \<Rightarrow> bytes res res) \<Rightarrow> verify_flags \<Rightarrow> unit res" where
  "verify_artifact lib ReadFile Open f =
     (if vf_Key f = [] \<or> vf_Bundle f = [] \<or> length (vf_Args f) \<noteq> 1
      then Inl (Errorf ''need -key, -bundle and exactly one artifact path'')
      else
      bindR (wrapR ''reading public key'' (ReadFile (vf_Key f))) (\<lambda>keyPEM.
      bindR (PublicKeyFromPEM lib keyPEM) (\<lambda>pub.
      bindR (wrapR ''reading bundle'' (ReadFile (vf_Bundle f))) (\<lambda>bundleData.
      bindR (artifact_Parse lib bundleData) (\<lambda>b.
      bindR (wrapR ''opening artifact'' (Open (hd (vf_Args f)))) (\<lambda>artifact.
      artifact_Verify lib b artifact (Some pub)))))))"

section \<open>What the gate accepts\<close>

text \<open>A published key over a message digest, and no other claim beside it.\<close>

definition keyed_bundle :: "artifact_lib \<Rightarrow> bytes \<Rightarrow> sig_bundle \<Rightarrow> bool" where
  "keyed_bundle lib data b \<longleftrightarrow>
     (\<exists>rawKey rawMessage ms.
        af_json_bundle lib data = Inr \<lparr>wb_MediaType = bd_MediaType b, wb_PublicKey = Some rawKey,
          wb_X509CertificateChain = None, wb_Certificate = None, wb_MessageSignature = Some rawMessage,
          wb_DSSEEnvelope = None\<rparr> \<and>
        (\<exists>version. bd_MediaType b = MediaTypePrefix @ version) \<and>
        af_json_hint lib rawKey = Inr (bd_KeyHint b) \<and> bd_KeyHint b \<noteq> [] \<and>
        af_json_message lib rawMessage = Inr ms \<and> wm_Algorithm ms = ''SHA2_256'' \<and>
        decode64 (wm_Digest ms) = Inr (bd_Digest b) \<and> length (bd_Digest b) = 32 \<and>
        wm_Signature ms \<noteq> [] \<and> decode64 (wm_Signature ms) = Inr (bd_Signature b))"

definition speaks_for :: "artifact_lib \<Rightarrow> sig_bundle \<Rightarrow> bytes \<Rightarrow> public_key \<Rightarrow> bool" where
  "speaks_for lib b content k \<longleftrightarrow>
     (\<exists>spki. af_marshal_pkix lib k = Inr spki \<and>
        bd_KeyHint b = encode64 (il_sha256 (af_keys lib) spki)) \<and>
     bd_Digest b = il_sha256 (af_keys lib) content \<and>
     il_verify_asn1 (af_keys lib) k (bd_Digest b) (bd_Signature b)"

lemma key_material_Inr:
  "key_material w = Inr raw \<longleftrightarrow>
     wb_PublicKey w = Some raw \<and> wb_X509CertificateChain w = None \<and> wb_Certificate w = None"
  by (auto simp: key_material_def namesPresent_def material_arms_def Let_def split: option.splits)

lemma message_content_Inr:
  "message_content w = Inr raw \<longleftrightarrow> wb_MessageSignature w = Some raw \<and> wb_DSSEEnvelope w = None"
  by (auto simp: message_content_def namesPresent_def content_arms_def Let_def split: option.splits)

lemma parse_message_Inr:
  "parse_message lib raw = Inr (digest, signature) \<longleftrightarrow>
     (\<exists>ms. af_json_message lib raw = Inr ms \<and> wm_Algorithm ms = ''SHA2_256'' \<and>
        decode64 (wm_Digest ms) = Inr digest \<and> length digest = 32 \<and> wm_Signature ms \<noteq> [] \<and>
        decode64 (wm_Signature ms) = Inr signature)"
  by (auto simp: parse_message_def sha256_size_def res_simps)

lemma artifact_Parse_Inr: "artifact_Parse lib data = Inr b \<longleftrightarrow> keyed_bundle lib data b"
proof (cases "af_json_bundle lib data")
  case (Inr w)
  obtain mt pk chain cert ms dsse where w: "w = \<lparr>wb_MediaType = mt, wb_PublicKey = pk,
      wb_X509CertificateChain = chain, wb_Certificate = cert, wb_MessageSignature = ms, wb_DSSEEnvelope = dsse\<rparr>"
    by (cases w)
  obtain bmt hint digest sg where b: "b = \<lparr>bd_MediaType = bmt, bd_KeyHint = hint, bd_Digest = digest, bd_Signature = sg\<rparr>"
    by (cases b)
  have "artifact_Parse lib data = Inr b \<longleftrightarrow>
     (\<exists>rawKey rawMessage. mt = bmt \<and> (\<exists>version. mt = MediaTypePrefix @ version) \<and> pk = Some rawKey \<and> chain = None \<and>
        cert = None \<and> ms = Some rawMessage \<and> dsse = None \<and> af_json_hint lib rawKey = Inr hint \<and> hint \<noteq> [] \<and>
        parse_message lib rawMessage = Inr (digest, sg))"
    using Inr by (auto simp: artifact_Parse_def w b res_simps key_material_Inr message_content_Inr HasPrefix_iff)
  then show ?thesis
    using Inr by (auto simp: keyed_bundle_def w b parse_message_Inr)
qed (simp add: artifact_Parse_def keyed_bundle_def)

lemma artifact_Verify_Inr:
  "artifact_Verify lib b artifact (Some k) = Inr () \<longleftrightarrow> (\<exists>content. artifact = Inr content \<and> speaks_for lib b content k)"
  by (cases artifact; cases "af_marshal_pkix lib k") (auto simp: artifact_Verify_def speaks_for_def res_simps Let_def)


text \<open>A bundle the gate accepts: the bundle and the key file are read back by toy decoders.\<close>

definition toy_artifact_lib :: artifact_lib where
  "toy_artifact_lib = \<lparr>
     af_keys = \<lparr>il_pem_decode = (\<lambda>p. Some (''PUBLIC KEY'', p, [])), il_parse_pkix = (\<lambda>_. Inr (EcdsaKey EC_P256 3 5)),
       il_json_encode = (\<lambda>_. Inr []), il_json_decode = (\<lambda>_. Inl (Errorf [])),
       il_sha256 = (\<lambda>b. take 32 (b @ replicate 32 CHR ''0'')), il_verify_asn1 = (\<lambda>_ d sg. d = sg)\<rparr>,
     af_json_bundle = (\<lambda>_. Inr \<lparr>wb_MediaType = MediaTypePrefix @ ''.v0.3+json'', wb_PublicKey = Some [],
       wb_X509CertificateChain = None, wb_Certificate = None, wb_MessageSignature = Some ''server'', wb_DSSEEnvelope = None\<rparr>),
     af_json_hint = (\<lambda>_. Inr (encode64 (''spki'' @ replicate 28 CHR ''0''))),
     af_json_message = (\<lambda>m. Inr \<lparr>wm_Algorithm = ''SHA2_256'', wm_Digest = encode64 (take 32 (m @ replicate 32 CHR ''0'')),
       wm_Signature = encode64 (take 32 (m @ replicate 32 CHR ''0''))\<rparr>),
     af_marshal_pkix = (\<lambda>_. Inr ''spki'')\<rparr>"

lemma gate_examples:
  defines "flags \<equiv> \<lparr>vf_Key = ''k.pub'', vf_Bundle = ''b.bundle'', vf_Args = [''server'']\<rparr>"
  shows "verify_artifact toy_artifact_lib Inr (\<lambda>p. Inr (Inr p)) flags = Inr ()"
    "verify_artifact toy_artifact_lib Inr (\<lambda>p. Inr (Inr ''tampered'')) flags =
       Inl (Errorf ''artifactsig: the bundle is for a different artifact'')"
  by (simp_all add: flags_def verify_artifact_def toy_artifact_lib_def PublicKeyFromPEM_def artifact_Parse_def
      key_material_def message_content_def namesPresent_def material_arms_def content_arms_def parse_message_def
      sha256_size_def artifact_Verify_def HasPrefix_def MediaTypePrefix_def)

text \<open>One bundle does not speak for two artifacts or two keys, short of a collision.\<close>

lemma bundle_names_one_artifact:
  assumes "speaks_for lib b content k" "speaks_for lib b content' k'"
  shows "il_sha256 (af_keys lib) content = il_sha256 (af_keys lib) content'"
    "\<exists>spki spki'. af_marshal_pkix lib k = Inr spki \<and> af_marshal_pkix lib k' = Inr spki' \<and>
       il_sha256 (af_keys lib) spki = il_sha256 (af_keys lib) spki'"
  using assms by (auto simp: speaks_for_def inj_encode64)

lemma keyless_bundle_refused:
  assumes "af_json_bundle lib data = Inr w" "HasPrefix (wb_MediaType w) MediaTypePrefix"
    "wb_PublicKey w = None" "(wb_X509CertificateChain w = None) \<noteq> (wb_Certificate w = None)"
  shows "artifact_Parse lib data = Inl (Sentinel ErrKeylessBundle)"
  using assms
  by (auto simp: artifact_Parse_def key_material_def namesPresent_def material_arms_def Let_def)

end
