(* ===== verification/CI_Tools.thy ===== *)
theory CI_Tools
  imports Keytool_Props
begin

text \<open>
  Two operator tools: \<^verbatim>\<open>ci/select-key\<close>, the one place that selects the keys a verifier or
  a signer may use, and \<^verbatim>\<open>ci/token-cleanup\<close>, which destroys what a test run left on a
  token. Printing to standard output is an effect of \<open>select_os\<close> and left out of the
  cleanup, where nothing depends on it.
\<close>

section \<open>Selecting keys\<close>

record 's select_os =
  so_ReadFile :: "string \<Rightarrow> ('s, bytes) eff"
  so_MkdirAll :: "string \<Rightarrow> ('s, unit) eff"
  so_WriteFile :: "string \<Rightarrow> string \<Rightarrow> ('s, unit) eff"
  so_Print :: "string \<times> string \<times> string \<Rightarrow> ('s, unit) eff"
  so_Join :: "string \<Rightarrow> string \<Rightarrow> string"
  so_ParseTime :: "string \<Rightarrow> time res"

record select_flags =
  sf_Inventory :: string
  sf_Purpose :: string
  sf_At :: string
  sf_OutDir :: string
  sf_ActiveOnly :: bool

definition selected_keys :: "bool \<Rightarrow> key_inventory \<Rightarrow> purpose \<Rightarrow> time \<Rightarrow> inv_entry list res" where
  "selected_keys activeOnly doc p now =
     bindR (if activeOnly then ActiveAt doc p now else VerifiableAt doc p now) (\<lambda>selected.
     if selected = [] then Inl (Errorf ''the inventory lists no usable key'') else Inr selected)"

definition emit_key :: "'s select_os \<Rightarrow> string \<Rightarrow> inv_entry \<Rightarrow> ('s, unit) eff" where
  "emit_key os outDir e =
     (if outDir = [] then so_Print os (ie_Label e, ie_Status e, ''-'')
      else let path = so_Join os outDir (ie_Label e @ ''.pub'') in
        bindE (wrapE ''writing'' (so_WriteFile os path (ie_PublicKeyPEM e))) (\<lambda>_.
        so_Print os (ie_Label e, ie_Status e, path)))"

definition select_key :: "inventory_lib \<Rightarrow> 's select_os \<Rightarrow> time \<Rightarrow> select_flags \<Rightarrow> ('s, unit) eff" where
  "select_key lib os now f =
     (if sf_Purpose f = [] then throwE (Errorf ''-purpose is required'')
      else
      bindE (if sf_At f = [] then returnE now else liftE (wrapR ''-at is not RFC 3339'' (so_ParseTime os (sf_At f)))) (\<lambda>now.
      bindE (wrapE ''reading the inventory'' (so_ReadFile os (sf_Inventory f))) (\<lambda>raw.
      bindE (liftE (inventory_Parse lib raw)) (\<lambda>doc.
      bindE (liftE (selected_keys (sf_ActiveOnly f) doc (sf_Purpose f) now)) (\<lambda>selected.
      bindE (if sf_OutDir f = [] then returnE () else wrapE ''creating'' (so_MkdirAll os (sf_OutDir f))) (\<lambda>_.
      forE (emit_key os (sf_OutDir f)) selected))))))"

lemma selected_keys_Inr:
  assumes "selected_keys activeOnly doc p now = Inr es"
  shows "es \<noteq> []" "now \<le> inv_ValidUntil doc"
    "set es = {e \<in> set (inv_Keys doc). ie_Purpose e = p \<and> ie_ValidFrom e \<le> now \<and>
       (ie_Status e = StatusActive \<or> \<not> activeOnly \<and> ie_Status e = StatusVerifyOnly)}"
  using assms
  by (auto simp: selected_keys_def ActiveAt_def VerifiableAt_def checkFresh_def Active_def Verifiable_def res_simps
      split: if_splits)

section \<open>Clearing a token of test objects\<close>

record cleanup_flags =
  cf_Adapter :: string
  cf_Module :: string
  cf_Workspace :: string
  cf_WorkspaceSerial :: string
  cf_PINEnv :: string
  cf_Prefix :: string
  cf_Confirm :: bool

record candidate =
  cd_handle :: object_handle
  cd_class :: object_class
  cd_label :: string

definition cleanup_findWorkspace :: "'s vendor_adapter \<Rightarrow> string \<Rightarrow> string \<Rightarrow> ('s, workspace) eff" where
  "cleanup_findWorkspace ad label serial =
     bindE (va_Workspaces ad) (\<lambda>workspaces.
     case filter (\<lambda>w. ws_Label w = label \<and> (serial = [] \<or> ws_Serial w = serial)) workspaces of
       [w] \<Rightarrow> returnE w
     | [] \<Rightarrow> throwE (Errorf ''token not found'')
     | _ \<Rightarrow> throwE (Errorf ''refusing to guess which one to clean''))"

text \<open>An object whose label cannot be read is left alone.\<close>

definition matching :: "string \<Rightarrow> object_class \<Rightarrow> object_handle \<Rightarrow> attribute list \<Rightarrow> candidate list" where
  "matching prefix class h attrs =
     map (\<lambda>a. \<lparr>cd_handle = h, cd_class = class, cd_label = attr_Value a\<rparr>)
       (filter (\<lambda>a. attr_Type a = AttrLabel \<and> HasPrefix (attr_Value a) prefix) attrs)"

definition survey_object ::
    "'s vendor_adapter \<Rightarrow> session_ref \<Rightarrow> string \<Rightarrow> object_class \<Rightarrow> object_handle \<Rightarrow> ('s, candidate list) eff" where
  "survey_object ad s prefix class h =
     tryE (va_GetAttributes ad s h [AttrLabel]) (\<lambda>r. case r of
         Inl _ \<Rightarrow> returnE []
       | Inr attrs \<Rightarrow> returnE (matching prefix class h attrs))"

definition survey_class ::
    "'s vendor_adapter \<Rightarrow> session_ref \<Rightarrow> string \<Rightarrow> object_class \<Rightarrow> ('s, nat \<times> candidate list) eff" where
  "survey_class ad s prefix class =
     bindE (wrapE ''listing objects'' (va_FindObjects ad s [NumericAttribute AttrClass class])) (\<lambda>handles.
     bindE (mapE (survey_object ad s prefix class) handles) (\<lambda>found.
     returnE (length handles, concat found)))"

definition survey :: "'s vendor_adapter \<Rightarrow> session_ref \<Rightarrow> string \<Rightarrow> ('s, nat \<times> candidate list) eff" where
  "survey ad s prefix =
     bindE (mapE (survey_class ad s prefix) [ClassPublicKey, ClassPrivateKey]) (\<lambda>rs.
     returnE (sum_list (map fst rs), concat (map snd rs)))"

text \<open>Every candidate is tried; the failures are counted.\<close>

fun destroy_all :: "'s vendor_adapter \<Rightarrow> session_ref \<Rightarrow> candidate list \<Rightarrow> ('s, nat) eff" where
  "destroy_all ad s [] = returnE 0"
| "destroy_all ad s (c # cs) =
     tryE (va_DestroyObject ad s (cd_handle c)) (\<lambda>r.
     bindE (destroy_all ad s cs) (\<lambda>failures.
     returnE (case r of Inl _ \<Rightarrow> Suc failures | Inr _ \<Rightarrow> failures)))"

definition clean_session :: "'s vendor_adapter \<Rightarrow> cleanup_flags \<Rightarrow> session_ref \<Rightarrow> ('s, unit) eff" where
  "clean_session ad f s =
     bindE (survey ad s (cf_Prefix f)) (\<lambda>(total, matched).
     if matched = [] \<or> \<not> cf_Confirm f then returnE ()
     else bindE (destroy_all ad s matched) (\<lambda>failures.
          if failures > 0 then throwE (Errorf ''objects could not be destroyed'') else returnE ()))"

definition token_cleanup :: "'s tool \<Rightarrow> cleanup_flags \<Rightarrow> ('s, unit) eff" where
  "token_cleanup kt f =
     bindE (liftE (required [cf_Module f, cf_Workspace f, cf_PINEnv f])) (\<lambda>_.
     if cf_Prefix f = [] then throwE (Errorf ''-prefix is empty'')
     else
     bindE (tl_NewAdapter kt (cf_Adapter f) (cf_Module f)) (\<lambda>ad.
     finallyE (va_Close ad)
       (bindE (cleanup_findWorkspace ad (cf_Workspace f) (cf_WorkspaceSerial f)) (\<lambda>ws.
        bindE (pinResolver (tl_os kt) (cf_PINEnv f)) (\<lambda>pin.
        bindE (wrapE ''logging in'' (va_LoginToken ad ws pin RoleUser)) (\<lambda>_.
        finallyE (va_LogoutToken ad)
          (bindE (wrapE ''opening a session'' (va_OpenSession ad ws DefaultSessionOptions)) (\<lambda>s.
           finallyE (va_CloseSession ad s) (clean_session ad f s)))))))))"

section \<open>What the cleanup destroys\<close>

text \<open>The later steps may rely on the state in which an earlier one answered.\<close>

lemma preserves_bindE_when:
  "preserves P f \<Longrightarrow> (\<And>s x s'. P s \<Longrightarrow> f s = (Inr x, s') \<Longrightarrow> preserves P (g x)) \<Longrightarrow> preserves P (bindE f g)"
  by (fastforce simp: preserves_def bindE_def split: prod.splits sum.splits)

lemma mapE_Inr_set:
  "mapE f xs s = (Inr ys, s') \<Longrightarrow> y \<in> set ys \<Longrightarrow> P s \<Longrightarrow> (\<And>x. preserves P (f x)) \<Longrightarrow>
     \<exists>x t t'. P t \<and> x \<in> set xs \<and> f x t = (Inr y, t')"
proof (induction xs arbitrary: ys s)
  case (Cons x xs)
  then obtain y' ys' t where t: "f x s = (Inr y', t)" "mapE f xs t = (Inr ys', s')" "ys = y' # ys'"
    by (auto simp: bindE_eq_Inr)
  have "P t" using preservesD [OF Cons.prems(4) Cons.prems(3) t(1)] .
  then show ?case
    using Cons.IH [OF t(2) _ _ Cons.prems(4)] Cons.prems(2,3) t(1,3) by auto
qed simp

lemma preserves_destroy_all:
  "(\<And>c. c \<in> set cs \<Longrightarrow> preserves P (va_DestroyObject ad s (cd_handle c))) \<Longrightarrow> preserves P (destroy_all ad s cs)"
  by (induction cs) (auto intro!: pres_intros)

context vendor_adapter
begin

lemma frame_survey_object: "preserves frame (survey_object ad s prefix cl h)"
  unfolding survey_object_def by (intro pres_intros frame_ops)

lemma frame_survey_class: "preserves frame (survey_class ad s prefix cl)"
  unfolding survey_class_def by (intro pres_intros frame_ops frame_survey_object)

lemma frame_survey: "preserves frame (survey ad s prefix)"
  unfolding survey_def by (intro pres_intros frame_survey_class)

text \<open>Every candidate was read with a label that carries the prefix.\<close>

lemma survey_matched:
  assumes "survey ad s prefix t = (Inr (n, cs), t')" "c \<in> set cs" "frame t"
  shows "\<exists>u u' attrs a. frame u \<and> va_GetAttributes ad s (cd_handle c) [AttrLabel] u = (Inr attrs, u') \<and>
     a \<in> set attrs \<and> attr_Type a = AttrLabel \<and> HasPrefix (attr_Value a) prefix"
proof -
  from assms obtain rs where rs: "mapE (survey_class ad s prefix) [ClassPublicKey, ClassPrivateKey] t = (Inr rs, t')"
      "cs = concat (map snd rs)"
    by (auto simp: survey_def bindE_eq_Inr simp del: mapE.simps)
  with assms(2) obtain r where r: "r \<in> set rs" "c \<in> set (snd r)" by auto
  from mapE_Inr_set [OF rs(1) r(1) assms(3) frame_survey_class]
  obtain cl u u' where u: "frame u" "survey_class ad s prefix cl u = (Inr r, u')" by blast
  then obtain handles found v where
    found: "wrapE ''listing objects'' (va_FindObjects ad s [NumericAttribute AttrClass cl]) u = (Inr handles, v)"
      "mapE (survey_object ad s prefix cl) handles v = (Inr found, u')" "snd r = concat found"
    by (auto simp: survey_class_def bindE_eq_Inr)
  have "frame v" using preservesD [OF preserves_wrapE [OF frame_FindObjects] u(1) found(1)] .
  from r(2) found(3) obtain cs' where cs': "cs' \<in> set found" "c \<in> set cs'" by auto
  from mapE_Inr_set [OF found(2) cs'(1) \<open>frame v\<close> frame_survey_object]
  obtain h w w' where w: "frame w" "survey_object ad s prefix cl h w = (Inr cs', w')" by blast
  show ?thesis
  proof (cases "va_GetAttributes ad s h [AttrLabel] w")
    case (Pair res w1)
    with w(2) cs'(2) obtain attrs a where "res = Inr attrs" "cd_handle c = h" "a \<in> set attrs" "attr_Type a = AttrLabel"
      "HasPrefix (attr_Value a) prefix"
      by (cases res) (auto simp: survey_object_def tryE_def matching_def)
    then show ?thesis using w(1) Pair by blast
  qed
qed

lemma frame_clean_session:
  assumes "\<And>h attrs a t t'. cf_Confirm f \<Longrightarrow> frame t \<Longrightarrow>
     va_GetAttributes ad s h [AttrLabel] t = (Inr attrs, t') \<Longrightarrow>
     a \<in> set attrs \<Longrightarrow> attr_Type a = AttrLabel \<Longrightarrow> HasPrefix (attr_Value a) (cf_Prefix f) \<Longrightarrow>
     preserves frame (va_DestroyObject ad s h)"
  shows "preserves frame (clean_session ad f s)"
  unfolding clean_session_def
proof (rule preserves_bindE_when [OF frame_survey])
  fix t r t'
  assume "frame t" "survey ad s (cf_Prefix f) t = (Inr r, t')"
  then have "preserves frame (va_DestroyObject ad s (cd_handle c))" if "c \<in> set (snd r)" "cf_Confirm f" for c
    using survey_matched [of s "cf_Prefix f" t "fst r" "snd r" t' c] that assms by auto
  then show "preserves frame (case r of (n, matched) \<Rightarrow>
      if matched = [] \<or> \<not> cf_Confirm f then returnE ()
      else bindE (destroy_all ad s matched) (\<lambda>failures.
        if failures > 0 then throwE (Errorf ''objects could not be destroyed'') else returnE ()))"
    by (cases r; cases "cf_Confirm f") (auto intro!: pres_intros preserves_destroy_all)
qed

lemma frame_cleanup_tail:
  assumes "preserves frame (va_Close ad)" "preserves frame resolvePIN" "\<And>s. preserves frame (clean_session ad f s)"
  shows "preserves frame (finallyE (va_Close ad)
       (bindE (cleanup_findWorkspace ad label serial) (\<lambda>ws.
        bindE resolvePIN (\<lambda>pin.
        bindE (wrapE m (va_LoginToken ad ws pin RoleUser)) (\<lambda>_.
        finallyE (va_LogoutToken ad)
          (bindE (wrapE m' (va_OpenSession ad ws DefaultSessionOptions)) (\<lambda>s.
           finallyE (va_CloseSession ad s) (clean_session ad f s))))))))"
  unfolding cleanup_findWorkspace_def by (intro pres_intros frame_ops assms)

end

text \<open>
  C37: The cleanup touches only test objects. Whatever can be said of the token that
  reading, logging in and closing the module keep, and that destroying an object keeps
  when the token, in a state where it is so, reports a label with the given prefix for
  that object, is still so after the command, however it ends. Without \<^verbatim>\<open>-confirm\<close>, or
  with an empty prefix, nothing at all has to be known about destroying.
\<close>
theorem cleanup_destroys_only_prefixed:
  assumes adapter: "\<And>name path s ad s'. tl_NewAdapter kt name path s = (Inr ad, s') \<Longrightarrow>
      vendor_adapter ad (tl_host kt) frame \<and> preserves frame (va_Close ad)"
    and "\<And>name path. preserves frame (tl_NewAdapter kt name path)"
    and "\<And>v. preserves frame (os_Getenv (tl_os kt) v)"
    and test_object: "\<And>name path s ad s' sref h attrs a t t'. cf_Confirm f \<Longrightarrow> cf_Prefix f \<noteq> [] \<Longrightarrow>
      tl_NewAdapter kt name path s = (Inr ad, s') \<Longrightarrow> frame t \<Longrightarrow>
      va_GetAttributes ad sref h [AttrLabel] t = (Inr attrs, t') \<Longrightarrow> a \<in> set attrs \<Longrightarrow>
      attr_Type a = AttrLabel \<Longrightarrow> HasPrefix (attr_Value a) (cf_Prefix f) \<Longrightarrow>
      preserves frame (va_DestroyObject ad sref h)"
    and "frame s"
  shows "frame (snd (token_cleanup kt f s))"
proof (cases "cf_Prefix f = []")
  case True
  then show ?thesis
    using \<open>frame s\<close> by (auto simp: token_cleanup_def bindE_def liftE_def throwE_def split: sum.splits)
next
  case False
  have "preserves frame (token_cleanup kt f)"
    unfolding token_cleanup_def if_not_P [OF False]
  proof (intro preserves_bindE_dep preserves_liftE assms(2), goal_cases)
    case (1 _ _ _ name ad)
    then show ?case
      using adapter test_object False
      by (intro vendor_adapter.frame_cleanup_tail [where host = "tl_host kt"] vendor_adapter.frame_clean_session
          [where host = "tl_host kt"] preserves_pinResolver assms(3)) blast+
  qed
  then show ?thesis using \<open>frame s\<close> by (rule preserves_snd)
qed

text \<open>A token with one object of a test run and one signing key.\<close>

definition cleanup_hsm :: "((nat \<times> string) list \<times> nat list) p11_module" where
  "cleanup_hsm = key_hsm
     \<lparr>C_FindObjectsInit := (\<lambda>_ _ (objs, p). (Inr (), objs, map fst objs)),
      C_GetAttributeValue := (\<lambda>_ obj _ t. (Inr [\<lparr>attr_Type = AttrLabel,
        attr_Value = (case map_of (fst t) obj of None \<Rightarrow> [] | Some l \<Rightarrow> l)\<rparr>], t)),
      C_DestroyObject := (\<lambda>_ obj (objs, p). (Inr (), filter (\<lambda>o'. fst o' \<noteq> obj) objs, p))\<rparr>"

definition cleanup_tool :: "((nat \<times> string) list \<times> nat list) world tool" where
  "cleanup_tool = key_tool\<lparr>tl_NewAdapter := (\<lambda>_ _. returnE (base_adapter cleanup_hsm softHSM2Capabilities))\<rparr>"

definition cleanup_example :: cleanup_flags where
  "cleanup_example = \<lparr>cf_Adapter = AdapterSoftHSM2, cf_Module = ''m'', cf_Workspace = ''s'', cf_WorkspaceSerial = [],
     cf_PINEnv = ''E'', cf_Prefix = ''t-'', cf_Confirm = True\<rparr>"

definition keeps_signing_key :: "(nat \<times> string) list \<times> nat list \<Rightarrow> bool" where
  "keeps_signing_key t \<longleftrightarrow> map_of (fst t) 2 = Some ''k-v1''"

lemma cleanup_hsm_reads: "reading_calls_keep cleanup_hsm keeps_signing_key"
  by (auto simp: reading_calls_keep_def keeps_signing_key_def cleanup_hsm_def key_hsm_def toy_hsm_def dead_module_def
      preserves_def returnE_def throwE_def)

lemma map_of_filter_key: "map_of (filter (\<lambda>o'. fst o' \<noteq> k) xs) j = (if j = k then None else map_of xs j)"
  by (induction xs) auto

lemma cleanup_hsm_label:
  assumes "observed cleanup_hsm keeps_signing_key t"
    and "base_GetAttributes cleanup_hsm sref 2 types t = (Inr attrs, t')"
  shows "attrs = [\<lparr>attr_Type = AttrLabel, attr_Value = ''k-v1''\<rparr>]"
proof -
  let ?frame = "observed cleanup_hsm keeps_signing_key"
  from assms(2) obtain u v w h where calls: "checkCtx t = (Inr (), u)" "touch_session sref u = (Inr (), v)"
      "handle_of sref v = (Inr h, w)"
    and last: "withReadLock (wrapE ''C_GetAttributeValue'' (onModule (C_GetAttributeValue cleanup_hsm h 2 types))) w = (Inr attrs, t')"
    by (auto simp: base_GetAttributes_def in_session_def bindE_eq_Inr)
  have "?frame u" by (rule preservesD [OF quiet.pres_checkCtx assms(1) calls(1)])
  then have "?frame v" by (rule preservesD [OF quiet.pres_touch_session _ calls(2)])
  then have "?frame w" by (rule preservesD [OF quiet.pres_handle_of _ calls(3)])
  then show ?thesis
    using last by (auto simp: withReadLock_def wrapE_eq_Inr onModule_def cleanup_hsm_def observed_def
        cleanup_hsm_reads [unfolded cleanup_hsm_def] keeps_signing_key_def split: if_splits)
qed

lemma cleanup_destroys_only_prefixed_witness:
  "map_of (fst (w_module (snd (token_cleanup cleanup_tool cleanup_example
      (start_world ([(1, ''t-run''), (2, ''k-v1'')], [])))))) 2 = Some ''k-v1''"
proof -
  let ?frame = "observed cleanup_hsm keeps_signing_key" and ?s = "start_world ([(1, ''t-run''), (2, ''k-v1'')], [])"
  have frame_iff: "?frame s \<longleftrightarrow> keeps_signing_key (w_module s)" for s
    by (simp add: observed_def cleanup_hsm_reads)
  have start: "?frame ?s" unfolding frame_iff by (simp add: start_world_def keeps_signing_key_def)
  have "?frame (snd (token_cleanup cleanup_tool cleanup_example ?s))"
  proof (rule cleanup_destroys_only_prefixed)
    fix name path s ad s'
    assume "tl_NewAdapter cleanup_tool name path s = (Inr ad, s')"
    then have "ad = base_adapter cleanup_hsm softHSM2Capabilities" by (simp add: cleanup_tool_def)
    moreover have "preserves keeps_signing_key (C_Finalize cleanup_hsm)"
      by (auto simp: preserves_def cleanup_hsm_def key_hsm_def toy_hsm_def dead_module_def)
    ultimately show "vendor_adapter ad (tl_host cleanup_tool) ?frame \<and> preserves ?frame (va_Close ad)"
      using base.vendor_adapter_axioms by (simp add: cleanup_tool_def key_tool_ops base_adapter_def observed_Close)
  next
    fix name path s ad s' sref h attrs a t t'
    assume ad: "tl_NewAdapter cleanup_tool name path s = (Inr ad, s')" and "?frame t"
      and attrs: "va_GetAttributes ad sref h [AttrLabel] t = (Inr attrs, t')" "a \<in> set attrs"
      and prefix: "HasPrefix (attr_Value a) (cf_Prefix cleanup_example)"
    have "h \<noteq> 2"
      using cleanup_hsm_label [OF \<open>?frame t\<close>, of sref "[AttrLabel]" attrs t'] ad attrs prefix
      by (auto simp: cleanup_tool_def base_adapter_def cleanup_example_def HasPrefix_def)
    then have "preserves keeps_signing_key (C_DestroyObject cleanup_hsm h' h)" for h'
      by (auto simp: cleanup_hsm_def preserves_def keeps_signing_key_def map_of_filter_key)
    then have "preserves ?frame (base_DestroyObject cleanup_hsm sref h)" by (rule observed_DestroyObject)
    then show "preserves ?frame (va_DestroyObject ad sref h)"
      using ad by (auto simp: cleanup_tool_def base_adapter_def)
  qed (simp_all only: start, simp_all add: cleanup_tool_def key_tool_ops preserves_returnE)
  then show ?thesis by (simp add: frame_iff keeps_signing_key_def)
qed

end
