(* ===== verification/Keyaudit.thy ===== *)
theory Keyaudit
  imports Inventory Regex Strings "HOL-Library.Product_Lexorder"
begin

text \<open>
  \<^verbatim>\<open>internal/keyaudit\<close>: the check of a repository against the key inventory it publishes.
  A repository is a tree of names with a function that reads a path relative to its
  root, where \<^verbatim>\<open>filepath.WalkDir\<close> visits the tree in the order given and an \<open>Unlistable\<close>
  directory is one whose entries cannot be read. Paths use forward slashes.
  \<open>clean_file\<close> and \<open>published\<close> say what the audit wants of a file and of an entry.
\<close>

section \<open>Labels and findings\<close>

definition caKeyLabel :: regex where
  "caKeyLabel = seqs [lits ''ca-'', alts [lits ''root'', lits ''intermediate''], lits ''-key-v'', Plus (Sym digit)]"

definition signingKeyLabel :: regex where
  "signingKeyLabel =
     seqs [alts [lits ''image'', lits ''artifact'', lits ''audit'', lits ''inventory''],
       lits ''-signing-key-v'', Plus (Sym digit)]"

definition inventorySigningPrefix :: string where
  "inventorySigningPrefix = ''inventory-signing-key-v''"

text \<open>The rule that broke, with the label the message quotes.\<close>

datatype audit_rule =
    NamesCAKey string
  | UnlistedSigningKey string
  | NoPublishedKey string key_status
  | PublishedKeyDiffers string

record finding =
  fd_Path :: string
  fd_Line :: nat
  fd_Rule :: audit_rule
  fd_Text :: string

definition scannedExtensions :: "string list" where
  "scannedExtensions = [''.sh'', ''.yaml'', ''.yml'', ''.json'', ''.bash'', ''.env'', ''.conf'', ''.tf'']"

definition skippedDirs :: "string list" where
  "skippedDirs = [''.git'', ''.local'', ''vendor'', ''node_modules'']"

text \<open>\<^verbatim>\<open>filepath.Ext\<close> of a name: from its last dot.\<close>

definition Ext :: "string \<Rightarrow> string" where
  "Ext name = (if CHR ''.'' \<in> set name then CHR ''.'' # rev (takeWhile (\<lambda>c. c \<noteq> CHR ''.'') (rev name)) else [])"

definition isWorkflow :: "string \<Rightarrow> bool" where
  "isWorkflow rel = HasPrefix rel ''.github/''"

definition isDockerfile :: "string \<Rightarrow> bool" where
  "isDockerfile name \<longleftrightarrow> name = ''Dockerfile'' \<or> HasSuffix name ''.Dockerfile'' \<or> HasPrefix name ''Dockerfile.''"

section \<open>One file\<close>

definition FindString :: "regex \<Rightarrow> string \<Rightarrow> string" where
  "FindString r s = (case find_all r s of [] \<Rightarrow> [] | m # _ \<Rightarrow> m)"

definition signing_surface :: "string list \<Rightarrow> bool" where
  "signing_surface ls = list_ex (\<lambda>line. Contains line ''cosign'' \<or> search signingKeyLabel line) ls"

definition ca_findings :: "string \<Rightarrow> bool \<Rightarrow> nat \<Rightarrow> string \<Rightarrow> finding list" where
  "ca_findings rel surface n line =
     (let m = FindString caKeyLabel line in
      if surface \<and> m \<noteq> [] then [\<lparr>fd_Path = rel, fd_Line = n, fd_Rule = NamesCAKey m, fd_Text = line\<rparr>] else [])"

definition label_findings :: "string \<Rightarrow> string set \<Rightarrow> nat \<Rightarrow> string \<Rightarrow> finding list" where
  "label_findings rel listed n line =
     map (\<lambda>label. \<lparr>fd_Path = rel, fd_Line = n, fd_Rule = UnlistedSigningKey label, fd_Text = line\<rparr>)
       (filter (\<lambda>label. \<not> HasPrefix label inventorySigningPrefix \<and> label \<notin> listed) (find_all signingKeyLabel line))"

fun line_findings :: "string \<Rightarrow> string set \<Rightarrow> bool \<Rightarrow> nat \<Rightarrow> string list \<Rightarrow> finding list" where
  "line_findings rel listed surface n [] = []"
| "line_findings rel listed surface n (line # ls) =
     ca_findings rel surface n line @ label_findings rel listed n line @ line_findings rel listed surface (Suc n) ls"

definition auditFile :: "string \<Rightarrow> string \<Rightarrow> string set \<Rightarrow> finding list" where
  "auditFile rel content listed =
     (let ls = Split (CHR 0x0A) content in line_findings rel listed (signing_surface ls) 1 ls)"

section \<open>The repository\<close>

datatype node = File string | Dir string "node list" | Unlistable string

record repository =
  rp_Name :: string
  rp_Entries :: "node list"
  rp_ReadFile :: "string \<Rightarrow> bytes res"
  rp_Clean :: "string \<Rightarrow> string"

definition inventory_path :: string where "inventory_path = ''docs/keys/key-inventory.json''"

definition below :: "string \<Rightarrow> string \<Rightarrow> string" where
  "below dir name = (if dir = [] then name else dir @ ''/'' @ name)"

definition is_scanned :: "string \<Rightarrow> string \<Rightarrow> bool" where
  "is_scanned rel name \<longleftrightarrow> Ext name \<in> set scannedExtensions \<or> isWorkflow rel \<or> isDockerfile name"

fun walk :: "repository \<Rightarrow> string set \<Rightarrow> string \<Rightarrow> node \<Rightarrow> finding list res"
and walk_entries :: "repository \<Rightarrow> string set \<Rightarrow> string \<Rightarrow> node list \<Rightarrow> finding list res" where
  "walk rp listed dir (File name) =
     (let rel = below dir name in
      if \<not> is_scanned rel name then Inr []
      else if rel = inventory_path then Inr []
      else bindR (rp_ReadFile rp rel) (\<lambda>data. Inr (auditFile rel data listed)))"
| "walk rp listed dir (Dir name es) =
     (if name \<in> set skippedDirs then Inr [] else walk_entries rp listed (below dir name) es)"
| "walk rp listed dir (Unlistable name) =
     (if name \<in> set skippedDirs then Inr [] else Inl (Errorf ''reading a directory''))"
| "walk_entries rp listed dir [] = Inr []"
| "walk_entries rp listed dir (e # es) =
     bindR (walk rp listed dir e) (\<lambda>found. bindR (walk_entries rp listed dir es) (\<lambda>more. Inr (found @ more)))"

definition loadInventory :: "inventory_lib \<Rightarrow> repository \<Rightarrow> key_inventory res" where
  "loadInventory lib rp =
     bindR (wrapR ''keyaudit: reading the published inventory'' (rp_ReadFile rp inventory_path)) (\<lambda>data.
     wrapR ''keyaudit: the published inventory is not valid'' (inventory_Parse lib data))"

definition public_key_path :: "repository \<Rightarrow> inv_entry \<Rightarrow> string" where
  "public_key_path rp e = rp_Clean rp (''docs/keys/'' @ ie_Label e @ ''.pub'')"

definition entry_findings :: "repository \<Rightarrow> inv_entry \<Rightarrow> finding list" where
  "entry_findings rp e =
     (let rel = public_key_path rp e;
          at = (\<lambda>rule. \<lparr>fd_Path = rel, fd_Line = 0, fd_Rule = rule, fd_Text = []\<rparr>) in
      case rp_ReadFile rp rel of
        Inl _ \<Rightarrow> if ie_Status e = StatusRetired then [] else [at (NoPublishedKey (ie_Label e) (ie_Status e))]
      | Inr data \<Rightarrow>
          if TrimSpace data \<noteq> TrimSpace (ie_PublicKeyPEM e) then [at (PublishedKeyDiffers (ie_Label e))] else [])"

definition auditPublishedKeys :: "repository \<Rightarrow> key_inventory \<Rightarrow> finding list" where
  "auditPublishedKeys rp doc = concat (map (entry_findings rp) (inv_Keys doc))"

text \<open>
  The findings come ordered by path and line. Go's sort is not stable, so the order of
  two findings on one line is the code's only up to exchange.
\<close>

definition Audit :: "inventory_lib \<Rightarrow> repository \<Rightarrow> finding list res" where
  "Audit lib rp =
     bindR (loadInventory lib rp) (\<lambda>doc.
     let listed = set (map ie_Label (inv_Keys doc)) in
     bindR (if rp_Name rp \<in> set skippedDirs then Inr [] else walk_entries rp listed [] (rp_Entries rp)) (\<lambda>found.
     Inr (sort_key (\<lambda>f. (fd_Path f, fd_Line f)) (found @ auditPublishedKeys rp doc))))"

definition anchor_entry :: "string \<Rightarrow> inv_entry" where
  "anchor_entry pem = \<lparr>ie_Label = ''inventory-signing-key-v1'', ie_Purpose = [], ie_Curve = [], ie_PublicKeyPEM = pem,
     ie_ValidFrom = 0, ie_RetiredAt = None, ie_Status = []\<rparr>"

definition VerifyPublishedInventory :: "inventory_lib \<Rightarrow> repository \<Rightarrow> unit res" where
  "VerifyPublishedInventory lib rp =
     bindR (rp_ReadFile rp ''docs/keys/key-inventory.json'') (\<lambda>document.
     bindR (rp_ReadFile rp ''docs/keys/key-inventory.json.sig'') (\<lambda>signature.
     bindR (rp_ReadFile rp ''docs/keys/inventory-signing-key-v1.pub'') (\<lambda>anchorPEM.
     bindR (entry_PublicKey lib (anchor_entry anchorPEM)) (\<lambda>anchor.
     inventory_Verify lib document signature (Some anchor)))))"

section \<open>What the audit wants\<close>

definition clean_file :: "string set \<Rightarrow> string \<Rightarrow> bool" where
  "clean_file listed content \<longleftrightarrow>
     (let ls = set (Split (CHR 0x0A) content) in
      (\<forall>line \<in> ls. \<forall>label \<in> set (find_all signingKeyLabel line).
         label \<in> listed \<or> (\<exists>version. label = inventorySigningPrefix @ version)) \<and>
      \<not> ((\<exists>line \<in> ls. (\<exists>a b. line = a @ ''cosign'' @ b) \<or>
             (\<exists>a label b. line = a @ label @ b \<and> matches signingKeyLabel label)) \<and>
         (\<exists>line \<in> ls. \<exists>a label b. line = a @ label @ b \<and> matches caKeyLabel label)))"

text \<open>The files the walk reads: none in a skipped directory, and not the inventory.\<close>

fun scanned_files :: "string \<Rightarrow> node \<Rightarrow> string list" where
  "scanned_files dir (File name) =
     (let rel = below dir name in if is_scanned rel name \<and> rel \<noteq> inventory_path then [rel] else [])"
| "scanned_files dir (Dir name es) =
     (if name \<in> set skippedDirs then [] else concat (map (scanned_files (below dir name)) es))"
| "scanned_files dir (Unlistable name) = []"

fun listable :: "node \<Rightarrow> bool" where
  "listable (File name) = True"
| "listable (Dir name es) = (name \<in> set skippedDirs \<or> list_all listable es)"
| "listable (Unlistable name) = (name \<in> set skippedDirs)"

definition published :: "repository \<Rightarrow> inv_entry \<Rightarrow> bool" where
  "published rp e \<longleftrightarrow>
     (case rp_ReadFile rp (public_key_path rp e) of
        Inl _ \<Rightarrow> ie_Status e = StatusRetired
      | Inr data \<Rightarrow> TrimSpace data = TrimSpace (ie_PublicKeyPEM e))"

lemma patterns_not_empty: "\<not> matches caKeyLabel []" "\<not> matches signingKeyLabel []"
  by (simp_all flip: rmatch_correct) code_simp+

lemma FindString_Nil: "FindString caKeyLabel line = [] \<longleftrightarrow> \<not> search caKeyLabel line"
  using find_all_Nil_iff [OF patterns_not_empty(1)] find_all_sound [of _ caKeyLabel line] patterns_not_empty(1)
  by (force simp: FindString_def split: list.splits)

lemma line_findings_Nil:
  "line_findings rel listed surface n ls = [] \<longleftrightarrow>
     (\<forall>line \<in> set ls. \<not> (surface \<and> search caKeyLabel line) \<and>
        (\<forall>label \<in> set (find_all signingKeyLabel line). label \<in> listed \<or> HasPrefix label inventorySigningPrefix))"
  by (induction ls arbitrary: n)
    (auto simp: ca_findings_def label_findings_def Let_def FindString_Nil filter_empty_conv)

lemma auditFile_Nil: "auditFile rel content listed = [] \<longleftrightarrow> clean_file listed content"
  by (auto simp: auditFile_def clean_file_def line_findings_Nil signing_surface_def list_ex_iff Let_def
      HasPrefix_iff Contains_iff search_iff) blast+

lemma walk_Nil:
  "walk rp listed dir e = Inr [] \<longleftrightarrow>
     listable e \<and> (\<forall>rel \<in> set (scanned_files dir e). \<exists>content. rp_ReadFile rp rel = Inr content \<and> clean_file listed content)"
  "walk_entries rp listed dir es = Inr [] \<longleftrightarrow>
     list_all listable es \<and> (\<forall>rel \<in> set (concat (map (scanned_files dir) es)).
        \<exists>content. rp_ReadFile rp rel = Inr content \<and> clean_file listed content)"
  by (induction rp listed dir e and rp listed dir es rule: walk_walk_entries.induct)
    (auto simp: Let_def res_simps auditFile_Nil)

lemma entry_findings_Nil: "entry_findings rp e = [] \<longleftrightarrow> published rp e"
  by (auto simp: entry_findings_def published_def Let_def split: sum.splits)


text \<open>A release workflow that signs with a listed key, and the same naming a key of the CA.\<close>

definition audit_lib :: inventory_lib where
  "audit_lib = toy_inventory_lib\<lparr>il_json_decode := (\<lambda>_. Inr (toy_inventory, []))\<rparr>"

definition audit_repository :: "string \<Rightarrow> repository" where
  "audit_repository workflow = \<lparr>rp_Name = ''r'',
     rp_Entries = [Dir ''.git'' [Unlistable ''x''], Dir ''.github'' [File ''w'']],
     rp_ReadFile = (\<lambda>path. if path = ''.github/w'' then Inr workflow
        else if path = ''docs/keys/k-v2.pub'' then Inr ''ab'' else if path = ''docs/keys/k-v3.pub'' then Inr ''abc ''
        else if path = ''docs/keys/k-v1.pub'' then Inl (Errorf ''not found'') else Inr []),
     rp_Clean = (\<lambda>p. p)\<rparr>"

lemma audit_examples:
  "Audit audit_lib (audit_repository ''cosign sign'') = Inr []"
  "map_sum id (map fd_Rule) (Audit audit_lib (audit_repository (''cosign'' @ [CHR 0x0A] @ ''key=ca-root-key-v1''))) =
     Inr [NamesCAKey ''ca-root-key-v1'']"
  by code_simp+


end
