(* ===== verification/Pins.thy ===== *)
theory Pins
  imports Strings Regex Decimal "HOL-Library.Product_Lexorder"
begin

text \<open>
  \<^verbatim>\<open>ci/check-pin-freshness\<close>: which pinned references have fallen behind upstream. The
  pins file is parsed from its text; the capturing patterns are written as the
  decompositions they describe. \<open>upstream\<close> is the pair of Go interfaces the check calls,
  over a state in which every answer may differ from the last; \<open>http\<close> is the transport
  below their implementation. \<^verbatim>\<open>strconv.Atoi\<close> of digits saturates at the largest 64-bit
  integer.
\<close>

section \<open>Pins\<close>

record pin =
  pn_Variable :: string
  pn_Ref :: string
  pn_Registry :: string
  pn_Repo :: string
  pn_Tag :: string
  pn_Digest :: string
  pn_Module :: string
  pn_Version :: string

definition IsModule :: "pin \<Rightarrow> bool" where
  "IsModule p \<longleftrightarrow> pn_Module p \<noteq> []"

definition upper :: cset where "upper = Range (CHR ''A'') (CHR ''Z'')"

text \<open>\<^verbatim>\<open>^([A-Z][A-Z0-9_]*)="([^"]*)"$\<close>.\<close>

definition assignment :: "string \<Rightarrow> (string \<times> string) option" where
  "assignment line =
     (case Cut (CHR ''='') line of
        (name, CHR 0x22 # rest, True) \<Rightarrow>
          (case Cut (CHR 0x22) rest of
             (v, [], True) \<Rightarrow>
               if rmatch (Seq (Sym upper) (Star (Alt (Sym upper) (Alt (Sym digit) (Sym (Lit (CHR ''_''))))))) name
               then Some (name, v) else None
           | _ \<Rightarrow> None)
      | _ \<Rightarrow> None)"

definition hex :: "char \<Rightarrow> bool" where
  "hex c \<longleftrightarrow> in_cset digit c \<or> in_cset (Range (CHR ''a'') (CHR ''f'')) c"

text \<open>\<^verbatim>\<open>^(.+)@(sha256:[0-9a-f]{64})$\<close>: the digest has a fixed length.\<close>

definition digested :: "string \<Rightarrow> (string \<times> string) option" where
  "digested v =
     (let n = length v - 72; img = take n v; rest = drop n v in
      if n > 0 \<and> CHR 0x0A \<notin> set img \<and> HasPrefix rest ''@sha256:'' \<and> list_all hex (drop 8 rest)
      then Some (img, drop 1 rest) else None)"

text \<open>\<^verbatim>\<open>^[A-Za-z0-9_][A-Za-z0-9_.-]{0,127}$\<close>, the tag grammar of the OCI distribution API.\<close>

definition word_char :: "char \<Rightarrow> bool" where
  "word_char c \<longleftrightarrow> in_cset upper c \<or> in_cset (Range (CHR ''a'') (CHR ''z'')) c \<or> in_cset digit c \<or> c = CHR ''_''"

fun valid_tag :: "string \<Rightarrow> bool" where
  "valid_tag [] = False"
| "valid_tag (c # cs) =
     (word_char c \<and> length cs \<le> 127 \<and> list_all (\<lambda>d. word_char d \<or> d = CHR ''.'' \<or> d = CHR ''-'') cs)"

definition splitImage :: "string \<Rightarrow> string \<times> string" where
  "splitImage img =
     (let (host, rest, ok) = Cut (CHR ''/'') img;
          (registry, repo) = (if \<not> ok \<or> \<not> (CHR ''.'' \<in> set host \<or> CHR '':'' \<in> set host)
                              then (''docker.io'', img) else (host, rest)) in
      (registry, if registry = ''docker.io'' \<and> \<not> Contains repo ''/'' then ''library/'' @ repo else repo))"

definition pinFrom :: "string \<Rightarrow> string \<Rightarrow> string list \<Rightarrow> pin res" where
  "pinFrom name v block =
     (case block of
        [] \<Rightarrow> Inl (Errorf ''no comment above the pin'')
      | first # _ \<Rightarrow>
         (case Fields first of
            [] \<Rightarrow> Inl panic
          | field # _ \<Rightarrow>
             (let ref = TrimSuffix field ''.'' in
              case digested v of
                Some (img, digest) \<Rightarrow>
                  (let (named, tag, ok) = Cut (CHR '':'') ref in
                   if \<not> ok then Inl (Errorf ''the comment names no tag'')
                   else if named \<noteq> img then Inl (Errorf ''the comment names another image'')
                   else if \<not> valid_tag tag then Inl (Errorf ''not a valid image tag'')
                   else let (registry, repo) = splitImage img in
                     Inr \<lparr>pn_Variable = name, pn_Ref = ref, pn_Registry = registry, pn_Repo = repo, pn_Tag = tag,
                       pn_Digest = digest, pn_Module = [], pn_Version = []\<rparr>)
              | None \<Rightarrow>
                  if \<not> Contains ref ''/'' \<or> Contains ref '':'' then Inl (Errorf ''the comment is not a module path'')
                  else Inr \<lparr>pn_Variable = name, pn_Ref = ref, pn_Registry = [], pn_Repo = [], pn_Tag = [],
                       pn_Digest = [], pn_Module = ref, pn_Version = v\<rparr>)))"

text \<open>The comment block above a line is carried along; anything but a comment ends it.\<close>

fun parse_lines :: "string list \<Rightarrow> string list \<Rightarrow> pin list res" where
  "parse_lines block [] = Inr []"
| "parse_lines block (raw # lines) =
     (let line = TrimRight (\<lambda>c. c = CHR '' '' \<or> c = CHR 0x09) raw in
      if HasPrefix line ''#'' then parse_lines (block @ [TrimSpace (TrimPrefix line ''#'')]) lines
      else if line = [] then parse_lines [] lines
      else case assignment line of
          None \<Rightarrow> parse_lines [] lines
        | Some (name, v) \<Rightarrow>
            if HasPrefix v ''$'' then parse_lines [] lines
            else bindR (pinFrom name v block) (\<lambda>p. bindR (parse_lines [] lines) (\<lambda>pins. Inr (p # pins))))"

definition ParsePins :: "string \<Rightarrow> pin list res" where
  "ParsePins src = parse_lines [] (Split (CHR 0x0A) src)"

section \<open>Versions\<close>

record version =
  vr_prefix :: string
  vr_maj :: int
  vr_min :: int
  vr_patc :: int

definition Atoi_digits :: "string \<Rightarrow> int option" where
  "Atoi_digits s = map_option (\<lambda>n. min (int n) 9223372036854775807) (parse_nat s)"

text \<open>\<^verbatim>\<open>^(v?)(\d+)\.(\d+)\.(\d+)$\<close>.\<close>

definition parseVersion :: "string \<Rightarrow> version option" where
  "parseVersion tag =
     (let pre = (if HasPrefix tag ''v'' then ''v'' else []) in
      case map Atoi_digits (Split (CHR ''.'') (drop (length pre) tag)) of
        [Some a, Some b, Some c] \<Rightarrow> Some \<lparr>vr_prefix = pre, vr_maj = a, vr_min = b, vr_patc = c\<rparr>
      | _ \<Rightarrow> None)"

definition version_less :: "version \<Rightarrow> version \<Rightarrow> bool" where
  "version_less v w =
     (if vr_maj v \<noteq> vr_maj w then vr_maj v < vr_maj w
      else if vr_min v \<noteq> vr_min w then vr_min v < vr_min w
      else vr_patc v < vr_patc w)"

fun newest_loop :: "version \<Rightarrow> version option \<Rightarrow> string list \<Rightarrow> version option" where
  "newest_loop want best [] = best"
| "newest_loop want best (t # ts) =
     (case parseVersion t of
        None \<Rightarrow> newest_loop want best ts
      | Some v \<Rightarrow>
          if vr_prefix v \<noteq> vr_prefix want then newest_loop want best ts
          else if (case best of None \<Rightarrow> True | Some b \<Rightarrow> version_less b v) then newest_loop want (Some v) ts
          else newest_loop want best ts)"

definition newest :: "string list \<Rightarrow> version \<Rightarrow> version option" where
  "newest tags want = newest_loop want None tags"

section \<open>The check\<close>

record 's upstream =
  up_Tags :: "string \<Rightarrow> string \<Rightarrow> ('s, string list) eff"
  up_Digest :: "string \<Rightarrow> string \<Rightarrow> string \<Rightarrow> ('s, string) eff"
  up_Latest :: "string \<Rightarrow> ('s, string) eff"

datatype upstream_latest = LatestVersion version | LatestDigest string

record result =
  rs_Pin :: pin
  rs_Behind :: bool
  rs_Latest :: upstream_latest

definition version_result :: "pin \<Rightarrow> version \<Rightarrow> version \<Rightarrow> result" where
  "version_result p have_v want = \<lparr>rs_Pin = p, rs_Behind = version_less have_v want, rs_Latest = LatestVersion want\<rparr>"

definition Check :: "'s upstream \<Rightarrow> pin \<Rightarrow> ('s, result) eff" where
  "Check up p =
     (if IsModule p then
        bindE (wrapE (pn_Variable p) (up_Latest up (pn_Module p))) (\<lambda>latest.
        case parseVersion (pn_Version p) of
          None \<Rightarrow> throwE (Errorf ''the pin is not a MAJOR.MINOR.PATCH version'')
        | Some have_v \<Rightarrow>
            (case parseVersion latest of
               None \<Rightarrow> throwE (Errorf ''the proxy's answer is not a MAJOR.MINOR.PATCH version'')
             | Some want \<Rightarrow> returnE (version_result p have_v want)))
      else case parseVersion (pn_Tag p) of
          Some have_v \<Rightarrow>
            bindE (wrapE (pn_Variable p) (up_Tags up (pn_Registry p) (pn_Repo p))) (\<lambda>tags.
            case newest tags have_v of
              None \<Rightarrow> throwE (Errorf ''the pinned tag cannot be compared'')
            | Some want \<Rightarrow> returnE (version_result p have_v want))
        | None \<Rightarrow>
            bindE (wrapE (pn_Variable p) (up_Digest up (pn_Registry p) (pn_Repo p) (pn_Tag p))) (\<lambda>digest.
            returnE \<lparr>rs_Pin = p, rs_Behind = digest \<noteq> pn_Digest p, rs_Latest = LatestDigest digest\<rparr>))"

text \<open>Every pin is tried; an error is counted and the next pin is checked.\<close>

fun check_all :: "'s upstream \<Rightarrow> pin list \<Rightarrow> ('s, result list \<times> go_error list) eff" where
  "check_all up [] = returnE ([], [])"
| "check_all up (p # ps) =
     tryE (Check up p) (\<lambda>r.
     bindE (check_all up ps) (\<lambda>(rs, errs).
     returnE (case r of Inl e \<Rightarrow> (rs, e # errs) | Inr x \<Rightarrow> (x # rs, errs))))"

record freshness_flags =
  ff_Pins :: string
  ff_ReportOnly :: bool

definition check_pin_freshness ::
    "(string \<Rightarrow> ('s, string) eff) \<Rightarrow> 's upstream \<Rightarrow> freshness_flags \<Rightarrow> ('s, unit) eff" where
  "check_pin_freshness ReadFile up f =
     bindE (ReadFile (ff_Pins f)) (\<lambda>src.
     bindE (liftE (ParsePins src)) (\<lambda>pins.
     if pins = [] then throwE (Errorf ''declares no pins'')
     else
     bindE (check_all up pins) (\<lambda>(results, errs).
     if errs \<noteq> [] then throwE (Errorf ''pins could not be checked'')
     else if filter rs_Behind results = [] then returnE ()
     else if ff_ReportOnly f then returnE ()
     else throwE (Errorf ''pinned references have fallen behind''))))"

section \<open>The upstream clients\<close>

datatype http_method = GET | HEAD

record http_answer =
  ha_Status :: nat
  ha_ContentDigest :: string
  ha_Body :: string

record 's http =
  ht_Do :: "http_method \<Rightarrow> string \<Rightarrow> string \<Rightarrow> ('s, http_answer) eff"
  ht_json_token :: "string \<Rightarrow> string res"
  ht_json_tags :: "string \<Rightarrow> string list res"
  ht_json_version :: "string \<Rightarrow> string res"

definition bodyLimit :: nat where "bodyLimit = 8388608"

definition getJSON :: "'s http \<Rightarrow> (string \<Rightarrow> 'a res) \<Rightarrow> string \<Rightarrow> string \<Rightarrow> ('s, 'a) eff" where
  "getJSON ht decode url token =
     bindE (ht_Do ht GET url token) (\<lambda>resp.
     if ha_Status resp \<noteq> 200 then throwE (Errorf ''GET: unexpected status'')
     else liftE (decode (take bodyLimit (ha_Body resp))))"

definition tokenFor :: "'s http \<Rightarrow> string \<Rightarrow> string \<Rightarrow> ('s, string) eff" where
  "tokenFor ht registry repo =
     (let url = (if registry = ''docker.io''
        then ''https://auth.docker.io/token?service=registry.docker.io&scope=repository:'' @ repo @ '':pull''
        else ''https://'' @ registry @ ''/token?service='' @ registry @ ''&scope=repository:'' @ repo @ '':pull'') in
      bindE (getJSON ht (ht_json_token ht) url []) (\<lambda>token.
      if token = [] then throwE (Errorf ''issued an empty pull token'') else returnE token))"

definition registryHost :: "string \<Rightarrow> string" where
  "registryHost registry = (if registry = ''docker.io'' then ''registry-1.docker.io'' else registry)"

definition escape_spaces :: "string \<Rightarrow> string" where
  "escape_spaces s = concat (map (\<lambda>c. if c = CHR '' '' then ''%20'' else [c]) s)"

definition pageSize :: nat where "pageSize = 1000"
definition maxPages :: nat where "maxPages = 50"

text \<open>One page of the tag list, after the tag \<open>continue\<close> unless that is empty.\<close>

definition tags_page :: "'s http \<Rightarrow> string \<Rightarrow> string \<Rightarrow> string \<Rightarrow> string \<Rightarrow> ('s, string list) eff" where
  "tags_page ht host repo token continue =
     (let url = ''https://'' @ host @ ''/v2/'' @ repo @ ''/tags/list?n=1000'' in
      getJSON ht (ht_json_tags ht)
        (if continue \<noteq> [] then url @ ''&last='' @ escape_spaces continue else url) token)"

fun tags_pages :: "(string \<Rightarrow> ('s, string list) eff) \<Rightarrow> nat \<Rightarrow> string \<Rightarrow> string list \<Rightarrow> ('s, string list) eff" where
  "tags_pages fetch 0 continue found = returnE found"
| "tags_pages fetch (Suc n) continue found =
     bindE (fetch continue) (\<lambda>tags.
     if tags = [] then returnE found
     else if length tags < pageSize then returnE (found @ tags)
     else tags_pages fetch n (last tags) (found @ tags))"

definition client_Tags :: "'s http \<Rightarrow> string \<Rightarrow> string \<Rightarrow> ('s, string list) eff" where
  "client_Tags ht registry repo =
     bindE (tokenFor ht registry repo) (\<lambda>token.
     bindE (tags_pages (tags_page ht (registryHost registry) repo token) maxPages [] []) (\<lambda>found.
     if found = [] then throwE (Errorf ''lists no tags'') else returnE found))"

definition client_Digest :: "'s http \<Rightarrow> string \<Rightarrow> string \<Rightarrow> string \<Rightarrow> ('s, string) eff" where
  "client_Digest ht registry repo tag =
     bindE (tokenFor ht registry repo) (\<lambda>token.
     bindE (ht_Do ht HEAD (''https://'' @ registryHost registry @ ''/v2/'' @ repo @ ''/manifests/'' @ tag) token) (\<lambda>resp.
     if ha_Status resp \<noteq> 200 then throwE (Errorf ''HEAD: unexpected status'')
     else if ha_ContentDigest resp = [] then throwE (Errorf ''HEAD: no Docker-Content-Digest'')
     else returnE (ha_ContentDigest resp)))"

text \<open>The path's elements from the last to the first: the last is dropped at every failure.\<close>

fun latest_walk :: "'s http \<Rightarrow> string list \<Rightarrow> go_error \<Rightarrow> ('s, string) eff" where
  "latest_walk ht (x # y # rest) lastErr =
     tryE (getJSON ht (ht_json_version ht)
         (''https://proxy.golang.org/'' @ Join ''/'' (rev (x # y # rest)) @ ''/@latest'') []) (\<lambda>r. case r of
         Inr v \<Rightarrow> if v = [] then throwE (Errorf ''the module proxy reported no version'') else returnE v
       | Inl e \<Rightarrow> latest_walk ht (y # rest) e)"
| "latest_walk ht _ lastErr = throwE (Wrap ''no module answered the proxy'' lastErr)"

definition client_Latest :: "'s http \<Rightarrow> string \<Rightarrow> ('s, string) eff" where
  "client_Latest ht pkg = latest_walk ht (rev (Split (CHR ''/'') pkg)) (Errorf ''nil'')"

definition http_upstream :: "'s http \<Rightarrow> 's upstream" where
  "http_upstream ht = \<lparr>up_Tags = client_Tags ht, up_Digest = client_Digest ht, up_Latest = client_Latest ht\<rparr>"

section \<open>What the parser reads\<close>

text \<open>The assignments of the file that are not aliases of other pins.\<close>

definition line_pin :: "string \<Rightarrow> (string \<times> string) option" where
  "line_pin raw =
     (let line = TrimRight (\<lambda>c. c = CHR '' '' \<or> c = CHR 0x09) raw in
      if HasPrefix line ''#'' then None
      else case assignment line of None \<Rightarrow> None | Some (name, v) \<Rightarrow> if HasPrefix v ''$'' then None else Some (name, v))"

definition declared :: "string \<Rightarrow> (string \<times> string) list" where
  "declared src = List.map_filter line_pin (Split (CHR 0x0A) src)"

text \<open>The digest is the one assigned, and the comment names the image it belongs to.\<close>

definition pin_of :: "string \<times> string \<Rightarrow> pin \<Rightarrow> bool" where
  "pin_of a p \<longleftrightarrow> pn_Variable p = fst a \<and>
     (if IsModule p then digested (snd a) = None \<and> pn_Version p = snd a \<and> pn_Ref p = pn_Module p
      else \<exists>img. digested (snd a) = Some (img, pn_Digest p) \<and> pn_Ref p = img @ '':'' @ pn_Tag p \<and>
        valid_tag (pn_Tag p) \<and> (pn_Registry p, pn_Repo p) = splitImage img)"

lemma pinFrom_Inr: "pinFrom name v block = Inr p \<Longrightarrow> pin_of (name, v) p"
  by (auto simp: pinFrom_def pin_of_def IsModule_def Let_def Contains_iff dest!: Cut_found
      split: list.splits option.splits if_splits prod.splits)

lemma assignment_not_blank: "assignment [] = None"
  by (simp add: assignment_def)

lemma parse_lines_Inr:
  "parse_lines block lines = Inr pins \<Longrightarrow> list_all2 pin_of (List.map_filter line_pin lines) pins"
proof (induction block lines arbitrary: pins rule: parse_lines.induct)
  case (2 block raw lines)
  let ?line = "TrimRight (\<lambda>c. c = CHR '' '' \<or> c = CHR 0x09) raw"
  show ?case
  proof (cases "line_pin raw")
    case None
    with 2 show ?thesis
      by (auto simp: Let_def line_pin_def List.map_filter_simps assignment_not_blank split: if_splits option.splits)
  next
    case (Some a)
    obtain name v where a: "a = (name, v)" by (cases a)
    with "2.prems" Some obtain p rest where "pinFrom name v block = Inr p" and rest: "parse_lines [] lines = Inr rest"
      and "pins = p # rest" and line: "?line \<noteq> []" "\<not> HasPrefix ?line ''#''" "assignment ?line = Some (name, v)"
        "\<not> HasPrefix v ''$''"
      by (auto simp: Let_def line_pin_def assignment_not_blank res_simps split: if_splits option.splits)
    moreover have "list_all2 pin_of (List.map_filter line_pin lines) rest"
      using line rest by (intro "2.IH") simp_all
    ultimately show ?thesis
      using Some a pinFrom_Inr by (simp add: List.map_filter_simps)
  qed
qed (simp add: List.map_filter_simps)

lemma ParsePins_Inr: "ParsePins src = Inr pins \<Longrightarrow> list_all2 pin_of (declared src) pins"
  unfolding ParsePins_def declared_def by (rule parse_lines_Inr)

section \<open>Versions and the newest of them\<close>

definition version_key :: "version \<Rightarrow> int \<times> int \<times> int" where
  "version_key v = (vr_maj v, vr_min v, vr_patc v)"

lemma version_less_iff: "version_less v w \<longleftrightarrow> version_key v < version_key w"
  by (auto simp: version_less_def version_key_def)

text \<open>The tags that are releases under the pin's convention.\<close>

definition releases :: "string list \<Rightarrow> version \<Rightarrow> version set" where
  "releases tags want = {v. \<exists>t \<in> set tags. parseVersion t = Some v \<and> vr_prefix v = vr_prefix want}"

lemma newest_loop_spec:
  "(newest_loop want best tags = None \<longleftrightarrow> best = None \<and> releases tags want = {}) \<and>
   (\<forall>b. newest_loop want best tags = Some b \<longrightarrow>
      (best = Some b \<or> b \<in> releases tags want) \<and>
      (\<forall>v \<in> releases tags want \<union> set_option best. version_key v \<le> version_key b))"
proof (induction tags arbitrary: best)
  case (Cons t ts)
  have releases: "releases (t # ts) want = (case parseVersion t of None \<Rightarrow> {}
      | Some v \<Rightarrow> if vr_prefix v = vr_prefix want then {v} else {}) \<union> releases ts want"
    by (auto simp: releases_def split: option.splits)
  show ?case
  proof (cases "parseVersion t")
    case (Some v)
    show ?thesis
      using Cons.IH [of best] Cons.IH [of "Some v"] Some
      by (cases best) (auto simp: releases version_less_iff not_less intro: order_trans less_imp_le)
  qed (use Cons.IH [of best] in \<open>auto simp: releases\<close>)
qed (auto simp: releases_def)

lemma newest_spec:
  "newest tags want = None \<longleftrightarrow> releases tags want = {}"
  "newest tags want = Some b \<Longrightarrow> b \<in> releases tags want \<and> (\<forall>v \<in> releases tags want. version_key v \<le> version_key b)"
  using newest_loop_spec [of want None tags] by (auto simp: newest_def)

section \<open>What a green run means\<close>

text \<open>Upstream, when it was asked, offered nothing newer than the pin.\<close>

definition up_to_date :: "'s upstream \<Rightarrow> pin \<Rightarrow> bool" where
  "up_to_date up p \<longleftrightarrow>
     (if IsModule p then
        (\<exists>t t' l have_v want. up_Latest up (pn_Module p) t = (Inr l, t') \<and> parseVersion (pn_Version p) = Some have_v \<and>
           parseVersion l = Some want \<and> version_key want \<le> version_key have_v)
      else case parseVersion (pn_Tag p) of
          Some have_v \<Rightarrow> (\<exists>t t' tags. up_Tags up (pn_Registry p) (pn_Repo p) t = (Inr tags, t') \<and>
             releases tags have_v \<noteq> {} \<and> (\<forall>v \<in> releases tags have_v. version_key v \<le> version_key have_v))
        | None \<Rightarrow> (\<exists>t t'. up_Digest up (pn_Registry p) (pn_Repo p) (pn_Tag p) t = (Inr (pn_Digest p), t')))"

lemma Check_up_to_date:
  assumes "Check up p t = (Inr r, t')" "\<not> rs_Behind r"
  shows "up_to_date up p"
proof (cases "IsModule p")
  case True
  with assms(1) obtain l have_v want where l: "up_Latest up (pn_Module p) t = (Inr l, t')"
    and v: "parseVersion (pn_Version p) = Some have_v" "parseVersion l = Some want" and "r = version_result p have_v want"
    by (auto simp: Check_def bindE_eq_Inr wrapE_eq_Inr split: option.split_asm)
  with assms(2) have "version_key want \<le> version_key have_v" by (simp add: version_result_def version_less_iff not_less)
  then show ?thesis using True l v by (auto simp: up_to_date_def)
next
  case module: False
  show ?thesis
  proof (cases "parseVersion (pn_Tag p)")
    case None
    with module assms have "up_Digest up (pn_Registry p) (pn_Repo p) (pn_Tag p) t = (Inr (pn_Digest p), t')"
      by (auto simp: Check_def bindE_eq_Inr wrapE_eq_Inr)
    then show ?thesis using module None unfolding up_to_date_def by (simp only: if_False option.case) blast
  next
    case (Some have_v)
    with module assms(1) obtain tags want where tags: "up_Tags up (pn_Registry p) (pn_Repo p) t = (Inr tags, t')"
      and want: "newest tags have_v = Some want" and "r = version_result p have_v want"
      by (auto simp: Check_def bindE_eq_Inr wrapE_eq_Inr split: option.split_asm)
    with assms(2) have "version_key want \<le> version_key have_v" by (simp add: version_result_def version_less_iff not_less)
    then have "\<forall>v \<in> releases tags have_v. version_key v \<le> version_key have_v" "releases tags have_v \<noteq> {}"
      using newest_spec(2) [OF want] by (auto intro: order_trans)
    with tags show ?thesis using module Some unfolding up_to_date_def by (simp only: if_False option.case) blast
  qed
qed

lemma check_all_Inr:
  "check_all up ps s = (Inr (rs, []), s') \<Longrightarrow> p \<in> set ps \<Longrightarrow> \<exists>t t' r. Check up p t = (Inr r, t') \<and> r \<in> set rs"
proof (induction ps arbitrary: s rs)
  case (Cons q ps)
  obtain x u where x: "Check up q s = (x, u)" by fastforce
  with Cons.prems(1) obtain r rs' where "x = Inr r" "rs = r # rs'" "check_all up ps u = (Inr (rs', []), s')"
    by (cases x) (auto simp: tryE_def bindE_eq_Inr)
  then show ?case using Cons.IH [of u rs'] Cons.prems(2) x by auto
qed simp

text \<open>
  C35: A green run of the freshness check (without \<^verbatim>\<open>-report-only\<close>) means that every pin of
  the file is current. The file was read and declares at least one pin; there is one pin
  for each assignment that is not an alias, in order, with the digest assigned and the
  image of its comment; and for each of them upstream, when asked during the run, offered
  nothing newer: no release tag under the pin's prefix convention with a greater version,
  the same digest for a floating tag, no later version of a module.
\<close>
theorem green_run_is_current:
  assumes "check_pin_freshness ReadFile up f s = (Inr (), s')" "\<not> ff_ReportOnly f"
  shows "\<exists>src pins t t'. ReadFile (ff_Pins f) t = (Inr src, t') \<and> ParsePins src = Inr pins \<and> declared src \<noteq> [] \<and>
     list_all2 pin_of (declared src) pins \<and> (\<forall>p \<in> set pins. up_to_date up p)"
proof -
  from assms obtain src pins t u v results where run: "ReadFile (ff_Pins f) t = (Inr src, u)" "ParsePins src = Inr pins"
      "pins \<noteq> []" "check_all up pins v = (Inr (results, []), s')" "filter rs_Behind results = []"
    by (auto simp: check_pin_freshness_def bindE_eq_Inr split: if_splits)
  have "up_to_date up p" if "p \<in> set pins" for p
    using check_all_Inr [OF run(4) that] run(5) by (auto simp: filter_empty_conv intro: Check_up_to_date)
  moreover have "list_all2 pin_of (declared src) pins" by (rule ParsePins_Inr [OF run(2)])
  ultimately show ?thesis using run(1-3) by (intro exI [of _ src] exI [of _ pins] exI [of _ t] exI [of _ u]) auto
qed

text \<open>A file with a floating tag, a release and a module, and an upstream that offers the same.\<close>

definition sample_digest :: string where
  "sample_digest = ''sha256:'' @ replicate 64 (CHR ''a'')"

definition sample_pins :: string where
  "sample_pins = Join [CHR 0x0A]
     [''# alpine:3'', ''ALPINE=\"alpine@'' @ sample_digest @ [CHR 0x22], [], ''# g.io/t/s:v1.10.0 the scanner'',
      ''SCAN=\"g.io/t/s@'' @ sample_digest @ [CHR 0x22], ''OTHER=\"$SCAN\"'', ''# g.org/x/vuln/cmd'', ''VULN=\"v1.2.3\"'']"

definition sample_upstream :: "unit upstream" where
  "sample_upstream = \<lparr>up_Tags = (\<lambda>_ _. returnE [''v1.9.9'', ''v1.10.0'', ''2.0.0'', ''v2.0.0-rc1'']),
     up_Digest = (\<lambda>_ _ _. returnE sample_digest), up_Latest = (\<lambda>_. returnE ''v1.2.3'')\<rparr>"

definition sample_run :: "unit upstream \<Rightarrow> unit res \<times> unit" where
  "sample_run up = check_pin_freshness (\<lambda>_. returnE sample_pins) up \<lparr>ff_Pins = [], ff_ReportOnly = False\<rparr> ()"

lemma sample_runs:
  "sample_run sample_upstream = (Inr (), ())"
  "sample_run (sample_upstream\<lparr>up_Latest := (\<lambda>_. returnE ''v1.3.0'')\<rparr>) =
     (Inl (Errorf ''pinned references have fallen behind''), ())"
  by code_simp+

theorem green_run_is_current_witness:
  "\<exists>pins. ParsePins sample_pins = Inr pins \<and> list_all2 pin_of (declared sample_pins) pins \<and>
     list_all (up_to_date sample_upstream) pins"
  using green_run_is_current [OF sample_runs(1) [unfolded sample_run_def]] by (auto simp: list_all_iff)

text \<open>An assignment whose comment starts with an empty line is not refused: the program stops.\<close>

lemma blank_comment_panics: "is_blank first \<Longrightarrow> pinFrom name v (first # block) = Inl panic"
  by (simp add: pinFrom_def Fields_Nil [symmetric])

text \<open>A pin in single quotes, or followed by a comment, is not seen at all.\<close>

lemma differently_quoted_pin_is_skipped:
  "ParsePins (Join [CHR 0x0A] [''# a/b:1'', ''A='' @ [CHR 0x27] @ ''a/b@'' @ sample_digest @ [CHR 0x27],
      ''# a/c:1'', ''C=\"a/c@'' @ sample_digest @ [CHR 0x22] @ '' # note'']) = Inr []"
  by code_simp

section \<open>Pagination\<close>

text \<open>What a registry that honours \<^verbatim>\<open>last=\<close> still has to list after a tag.\<close>

definition after_tag :: "string \<Rightarrow> string list \<Rightarrow> string list" where
  "after_tag continue tags = (if continue = [] then tags else drop 1 (dropWhile (\<lambda>t. t \<noteq> continue) tags))"

lemma after_tag_append:
  assumes "distinct (found @ rest)" "[] \<notin> set found"
  shows "after_tag (if found = [] then [] else last found) (found @ rest) = rest"
proof (cases found rule: rev_cases)
  case (snoc init l)
  have "dropWhile (\<lambda>t. t \<noteq> l) (init @ l # rest) = l # rest"
    using assms snoc by (subst dropWhile_append2) auto
  then show ?thesis using assms snoc by (auto simp: after_tag_def)
qed (simp add: after_tag_def)

lemma tags_pages_complete:
  assumes pages: "\<And>continue t. \<exists>t'. fetch continue t = (Inr (take pageSize (after_tag continue (found @ rest))), t')"
    and "distinct (found @ rest)" "[] \<notin> set (found @ rest)" "length rest < n * pageSize"
  shows "\<exists>t'. tags_pages fetch n (if found = [] then [] else last found) found t = (Inr (found @ rest), t')"
  using assms
proof (induction n arbitrary: found rest t)
  case (Suc n)
  let ?c = "if found = [] then [] else last found"
  have after: "after_tag ?c (found @ rest) = rest" using Suc.prems(2,3) by (intro after_tag_append) auto
  obtain t' where page: "fetch ?c t = (Inr (take pageSize rest), t')" using Suc.prems(1) [of ?c t] after by auto
  have pos: "0 < pageSize" by (simp add: pageSize_def)
  show ?case
  proof (cases "length rest < pageSize")
    case True
    then show ?thesis using page by (auto simp: bindE_def)
  next
    case False
    let ?found = "found @ take pageSize rest" and ?rest = "drop pageSize rest"
    have rest: "rest \<noteq> []" "take pageSize rest \<noteq> []" "\<not> length (take pageSize rest) < pageSize"
      using False pos by auto
    have "\<exists>t''. tags_pages fetch n (if ?found = [] then [] else last ?found) ?found t' = (Inr (?found @ ?rest), t'')"
    proof (rule Suc.IH)
      show "length ?rest < n * pageSize" using Suc.prems(4) False by simp
    qed (use Suc.prems in \<open>simp_all add: append_assoc\<close>)
    then show ?thesis using page rest by (auto simp: bindE_def)
  qed
qed simp

text \<open>
  C36: A registry's tags are listed completely. Whatever page size it caps at 1000 it
  serves, a registry that continues after the tag it is given has all its tags returned,
  in order, as long as they are fewer than the 50 pages the client reads; the walk ends
  in any case, because the number of pages is bounded.
\<close>
theorem client_Tags_complete:
  assumes "tokenFor ht registry repo t = (Inr token, u)"
    and "\<And>continue v. \<exists>v'. tags_page ht (registryHost registry) repo token continue v =
          (Inr (take pageSize (after_tag continue tags)), v')"
    and "distinct tags" "[] \<notin> set tags" "tags \<noteq> []" "length tags < maxPages * pageSize"
  shows "\<exists>t'. client_Tags ht registry repo t = (Inr tags, t')"
proof -
  obtain t' where "tags_pages (tags_page ht (registryHost registry) repo token) maxPages [] [] u = (Inr tags, t')"
    using tags_pages_complete [of "tags_page ht (registryHost registry) repo token" "[]" tags maxPages u] assms by auto
  then show ?thesis using assms(1,5) by (simp add: client_Tags_def bindE_def)
qed

definition sample_http :: "unit http" where
  "sample_http = \<lparr>ht_Do = (\<lambda>_ url _. returnE \<lparr>ha_Status = 200, ha_ContentDigest = [],
       ha_Body = (if Contains url ''&last='' then ''-'' else [])\<rparr>),
     ht_json_token = (\<lambda>_. Inr ''tok''), ht_json_tags = (\<lambda>b. Inr (if b = [] then [''v1.0.0''] else [])),
     ht_json_version = (\<lambda>_. Inr [])\<rparr>"

theorem client_Tags_complete_witness: "fst (client_Tags sample_http ''g.io'' ''p'' ()) = Inr [''v1.0.0'']"
proof -
  have "tags_page sample_http (registryHost ''g.io'') ''p'' ''tok'' continue () =
      (Inr (take pageSize (after_tag continue [''v1.0.0''])), ())" for continue
  proof (cases "continue = []")
    case True
    have "\<not> Contains (''https://'' @ registryHost ''g.io'' @ ''/v2/'' @ ''p'' @ ''/tags/list?n=1000'') ''&last=''"
      by (simp add: registryHost_def HasPrefix_def)
    with True show ?thesis
      by (simp add: tags_page_def getJSON_def sample_http_def bodyLimit_def bindE_def liftE_def after_tag_def pageSize_def)
  next
    case False
    have "Contains (''https://'' @ registryHost ''g.io'' @ ''/v2/'' @ ''p'' @ ''/tags/list?n=1000'' @ ''&last='' @
        escape_spaces continue) ''&last=''"
      unfolding Contains_iff
      by (intro exI [of _ "''https://'' @ registryHost ''g.io'' @ ''/v2/'' @ ''p'' @ ''/tags/list?n=1000''"]
          exI [of _ "escape_spaces continue"]) (simp only: append_assoc)
    with False show ?thesis
      by (simp add: tags_page_def getJSON_def sample_http_def bodyLimit_def bindE_def liftE_def after_tag_def)
  qed
  then have "\<exists>t'. client_Tags sample_http ''g.io'' ''p'' () = (Inr [''v1.0.0''], t')"
    by (intro client_Tags_complete [where token = "''tok''" and u = "()"])
      (simp_all add: tokenFor_def getJSON_def sample_http_def bindE_def liftE_def maxPages_def pageSize_def)
  then show ?thesis by auto
qed

end
