(* ===== verification/Vulngate.thy ===== *)
theory Vulngate
  imports Strings X509
begin

text \<open>
  \<^verbatim>\<open>ci/vuln-gate\<close>: whether a dependency scan blocks the build, and the reviewed list of
  exceptions. The state of a judgement is the list with the entries that suppressed
  something so far. YAML and JSON, the calendar (\<^verbatim>\<open>time.Parse\<close>, \<^verbatim>\<open>AddDate\<close>) and the file
  system are parameters; a stream of JSON values is the list of what each \<^verbatim>\<open>Decode\<close> returns.
\<close>

section \<open>The allowlist\<close>

record allow_entry =
  ae_ID :: string
  ae_Statement :: string
  ae_ExpiredAt :: string
  ae_expiry :: time

definition entry_expired :: "allow_entry \<Rightarrow> time \<Rightarrow> bool" where
  "entry_expired e now \<longleftrightarrow> \<not> now < ae_expiry e"

record allowlist =
  vl_entries :: "allow_entry list"
  vl_byID :: "string \<Rightarrow> allow_entry option"
  vl_hits :: "string list"

definition activeCount :: "allowlist \<Rightarrow> time \<Rightarrow> nat" where
  "activeCount a now = length (filter (\<lambda>e. \<not> entry_expired e now) (vl_entries a))"

text \<open>The first of the identifiers that is listed and in force, and it is marked.\<close>

fun covers :: "time \<Rightarrow> string list \<Rightarrow> allowlist \<Rightarrow> allow_entry option \<times> allowlist" where
  "covers now [] a = (None, a)"
| "covers now (i # ids) a =
     (case vl_byID a i of
        None \<Rightarrow> covers now ids a
      | Some e \<Rightarrow> if entry_expired e now then covers now ids a
                  else (Some e, a\<lparr>vl_hits := List.insert (ae_ID e) (vl_hits a)\<rparr>))"

definition matched :: "allowlist \<Rightarrow> string list" where
  "matched a = sort (vl_hits a)"

text \<open>What trivy's report says of one finding its ignorefile changed.\<close>

record modified_finding =
  mf_Status :: string
  mf_VulnerabilityID :: string

text \<open>The library: dates, YAML, which errors are which, and the JSON of a hits file.\<close>

record vuln_lib =
  vg_ParseDate :: "string \<Rightarrow> time res"
  vg_AddDays :: "time \<Rightarrow> int \<Rightarrow> time"
  vg_yaml :: "bytes \<Rightarrow> allow_entry list res"
  vg_is_EOF :: "go_error \<Rightarrow> bool"
  vg_is_NotExist :: "go_error \<Rightarrow> bool"
  vg_parse_report :: "bytes \<Rightarrow> modified_finding list list res"
  vg_write_hits :: "string \<Rightarrow> string list \<Rightarrow> bytes res"
  vg_parse_hits :: "bytes \<Rightarrow> (string \<times> string list) res"

datatype problem = NoID | NoStatement | NoExpiry | BadDate | BeyondHorizon | ListedTwice

text \<open>The date of one entry, and what is wrong with it.\<close>

definition entry_expiry :: "vuln_lib \<Rightarrow> time \<Rightarrow> allow_entry \<Rightarrow> problem list \<times> allow_entry" where
  "entry_expiry lib horizon e =
     (if ae_ExpiredAt e = [] then ([NoExpiry], e)
      else case vg_ParseDate lib (ae_ExpiredAt e) of
        Inl _ \<Rightarrow> ([BadDate], e)
      | Inr expiry \<Rightarrow> (if expiry > horizon then [BeyondHorizon] else [], e\<lparr>ae_expiry := expiry\<rparr>))"

fun check_entries ::
    "vuln_lib \<Rightarrow> time \<Rightarrow> allow_entry list \<Rightarrow> allowlist \<Rightarrow> problem list \<times> allowlist" where
  "check_entries lib horizon [] a = ([], a)"
| "check_entries lib horizon (e # es) a =
     (if ae_ID e = [] then (case check_entries lib horizon es a of (ps, a') \<Rightarrow> (NoID # ps, a'))
      else
       (let statement = (if is_blank (ae_Statement e) then [NoStatement] else []);
            dated = entry_expiry lib horizon e;
            dup = vl_byID a (ae_ID e) \<noteq> None;
            next = (if dup then a
                    else a\<lparr>vl_byID := (vl_byID a)(ae_ID e \<mapsto> snd dated), vl_entries := vl_entries a @ [snd dated]\<rparr>)
        in case check_entries lib horizon es next of
             (ps, a') \<Rightarrow> (statement @ fst dated @ (if dup then [ListedTwice] else []) @ ps, a')))"

definition no_entries :: allowlist where
  "no_entries = \<lparr>vl_entries = [], vl_byID = Map.empty, vl_hits = []\<rparr>"

definition loadAllowlist :: "vuln_lib \<Rightarrow> (string \<Rightarrow> bytes res) \<Rightarrow> string \<Rightarrow> time \<Rightarrow> int \<Rightarrow> allowlist res" where
  "loadAllowlist lib ReadFile path now maxHorizonDays =
     (case ReadFile path of
        Inl err \<Rightarrow> if vg_is_NotExist lib err then Inr no_entries else Inl (Wrap ''reading allowlist'' err)
      | Inr data \<Rightarrow>
          bindR (case vg_yaml lib data of
                   Inl err \<Rightarrow> if vg_is_EOF lib err then Inr [] else Inl (Wrap ''parsing allowlist'' err)
                 | Inr parsed \<Rightarrow> Inr parsed) (\<lambda>parsed.
          case check_entries lib (vg_AddDays lib now maxHorizonDays) parsed no_entries of
            (problems, a) \<Rightarrow> if problems \<noteq> [] then Inl (Errorf ''allowlist is not usable'') else Inr a))"

section \<open>trivy\<close>

text \<open>A report is the lists of modified findings of its results.\<close>

fun count_suppressions :: "time \<Rightarrow> modified_finding list \<Rightarrow> allowlist \<Rightarrow> nat \<times> allowlist" where
  "count_suppressions now [] a = (0, a)"
| "count_suppressions now (m # ms) a =
     (if mf_Status m \<noteq> ''ignored'' then count_suppressions now ms a
      else case covers now [mf_VulnerabilityID m] a of (e, a1) \<Rightarrow>
        (case count_suppressions now ms a1 of (n, a2) \<Rightarrow> (if e = None then n else Suc n, a2)))"

definition recordTrivySuppressions ::
    "vuln_lib \<Rightarrow> (string \<Rightarrow> bytes res) \<Rightarrow> string \<Rightarrow> time \<Rightarrow> (allowlist, nat) eff" where
  "recordTrivySuppressions lib ReadFile path now =
     bindE (liftE (wrapR ''reading trivy report'' (ReadFile path))) (\<lambda>data.
     bindE (liftE (wrapR ''parsing trivy report'' (vg_parse_report lib data))) (\<lambda>report.
     (\<lambda>a. case count_suppressions now (concat report) a of (n, a') \<Rightarrow> (Inr n, a'))))"

section \<open>govulncheck\<close>

record gvc_osv =
  go_ID :: string
  go_Aliases :: "string list"

record gvc_frame =
  gr_Package :: string
  gr_Function :: string

record gvc_finding =
  gf_OSV :: string
  gf_Trace :: "gvc_frame list"

record gvc_message =
  gm_Config :: bool
  gm_OSV :: "gvc_osv option"
  gm_Finding :: "gvc_finding option"

definition called :: "gvc_finding \<Rightarrow> bool" where
  "called f \<longleftrightarrow> gf_Trace f \<noteq> [] \<and> gr_Function (hd (gf_Trace f)) \<noteq> []"

record gvc_scan =
  gs_Config :: bool
  gs_osvs :: "string \<Rightarrow> gvc_osv option"
  gs_findings :: "gvc_finding list"

definition empty_scan :: gvc_scan where
  "empty_scan = \<lparr>gs_Config = False, gs_osvs = Map.empty, gs_findings = []\<rparr>"

definition scan_message :: "gvc_message \<Rightarrow> gvc_scan \<Rightarrow> gvc_scan" where
  "scan_message msg s =
     (if gm_Config msg then s\<lparr>gs_Config := True\<rparr>
      else case gm_OSV msg of
        Some osv \<Rightarrow> s\<lparr>gs_osvs := (gs_osvs s)(go_ID osv \<mapsto> osv)\<rparr>
      | None \<Rightarrow> (case gm_Finding msg of None \<Rightarrow> s | Some f \<Rightarrow> s\<lparr>gs_findings := gs_findings s @ [f]\<rparr>))"

fun read_scan :: "gvc_message res list \<Rightarrow> gvc_scan \<Rightarrow> gvc_scan res" where
  "read_scan [] s = Inr s"
| "read_scan (Inl err # _) s = Inl (Wrap ''parsing govulncheck output'' err)"
| "read_scan (Inr msg # ms) s = read_scan ms (scan_message msg s)"

definition osv_ids :: "gvc_scan \<Rightarrow> gvc_finding \<Rightarrow> string list" where
  "osv_ids s f = gf_OSV f # (case gs_osvs s (gf_OSV f) of None \<Rightarrow> [] | Some osv \<Rightarrow> go_Aliases osv)"

text \<open>
  The findings with no accepted exception. One that is not called is only counted by the
  level its first frame names, so an empty trace is indexed out of range.
\<close>

fun judge_findings :: "gvc_scan \<Rightarrow> time \<Rightarrow> gvc_finding list \<Rightarrow> (allowlist, gvc_finding list) eff" where
  "judge_findings s now [] = returnE []"
| "judge_findings s now (f # fs) =
     (if \<not> called f then
        if gf_Trace f = [] then throwE panic else judge_findings s now fs
      else (\<lambda>a. case covers now (osv_ids s f) a of
          (Some _, a') \<Rightarrow> judge_findings s now fs a'
        | (None, a') \<Rightarrow> bindE (judge_findings s now fs) (\<lambda>blocking. returnE (f # blocking)) a'))"

definition judgeGovulncheck :: "gvc_message res list \<Rightarrow> time \<Rightarrow> (allowlist, unit) eff" where
  "judgeGovulncheck messages now =
     bindE (liftE (read_scan messages empty_scan)) (\<lambda>s.
     if \<not> gs_Config s then throwE (Errorf ''govulncheck output carries no config record'')
     else bindE (judge_findings s now (gs_findings s)) (\<lambda>blocking.
     if blocking = [] then returnE () else throwE (Errorf ''reachable vulnerabilities with no accepted exception'')))"

section \<open>The run\<close>

record gate_flags =
  vf_allowlist :: string
  vf_govulncheck :: string
  vf_maxHorizonDays :: int
  vf_trivy :: "string list"
  vf_writeHits :: string
  vf_scanner :: string
  vf_requireUsed :: "string list"
  vf_expectScanner :: "string list"

record 's gate_io =
  gi_ReadFile :: "string \<Rightarrow> bytes res"
  gi_Stdin :: "gvc_message res list"
  gi_Open :: "string \<Rightarrow> gvc_message res list res"
  gi_WriteFile :: "string \<Rightarrow> bytes \<Rightarrow> ('s, unit) eff"

definition writeHitsFile :: "vuln_lib \<Rightarrow> 's gate_io \<Rightarrow> string \<Rightarrow> string \<Rightarrow> allowlist \<Rightarrow> ('s, unit) eff" where
  "writeHitsFile lib io path scanner a =
     bindE (liftE (wrapR ''encoding hits''
       (vg_write_hits lib (if scanner = [] then ''unnamed'' else scanner) (matched a)))) (\<lambda>data.
     wrapE ''writing hits'' (gi_WriteFile io path (data @ [CHR 0x0A])))"

definition read_hits :: "vuln_lib \<Rightarrow> (string \<Rightarrow> bytes res) \<Rightarrow> string \<Rightarrow> (string \<times> string list) res" where
  "read_hits lib ReadFile path =
     bindR (wrapR ''reading hits file'' (ReadFile path)) (\<lambda>data.
     bindR (wrapR ''parsing hits file'' (vg_parse_hits lib data)) (\<lambda>(scanner, ids).
     if scanner = [] then Inl (Errorf ''hits file names no scanner'') else Inr (scanner, ids)))"

definition requireEveryEntryUsed ::
    "vuln_lib \<Rightarrow> (string \<Rightarrow> bytes res) \<Rightarrow> allowlist \<Rightarrow> time \<Rightarrow> string list \<Rightarrow> string list \<Rightarrow> unit res" where
  "requireEveryEntryUsed lib ReadFile a now paths expect =
     bindR (mapR (read_hits lib ReadFile) paths) (\<lambda>hits.
     if filter (\<lambda>want. want \<notin> fst ` set hits) expect \<noteq> [] then Inl (Errorf ''expected scanner reports absent'')
     else if filter (\<lambda>e. \<not> entry_expired e now \<and> ae_ID e \<notin> set (concat (map snd hits))) (vl_entries a) \<noteq> []
     then Inl (Errorf ''allowlist entries matched nothing'')
     else Inr ())"

definition judge_source :: "'s gate_io \<Rightarrow> string \<Rightarrow> gvc_message res list res" where
  "judge_source io path =
     (if path = ''-'' then Inr (gi_Stdin io) else wrapR ''reading govulncheck output'' (gi_Open io path))"

text \<open>
  The verdict is returned after the hits are written, whatever it is; a panic ends the
  program where it is.
\<close>

definition vuln_gate :: "vuln_lib \<Rightarrow> 's gate_io \<Rightarrow> time \<Rightarrow> gate_flags \<Rightarrow> ('s, unit) eff" where
  "vuln_gate lib io now f =
     bindE (liftE (loadAllowlist lib (gi_ReadFile io) (vf_allowlist f) now (vf_maxHorizonDays f))) (\<lambda>a.
     if vf_requireUsed f \<noteq> []
     then liftE (requireEveryEntryUsed lib (gi_ReadFile io) a now (vf_requireUsed f) (vf_expectScanner f))
     else case mapE (\<lambda>path. recordTrivySuppressions lib (gi_ReadFile io) path now) (vf_trivy f) a of
       (Inl err, _) \<Rightarrow> throwE err
     | (Inr _, a1) \<Rightarrow>
         bindE (liftE (if vf_govulncheck f = [] then Inr (Inr (), a1)
                       else bindR (judge_source io (vf_govulncheck f)) (\<lambda>messages. Inr (judgeGovulncheck messages now a1)))) (\<lambda>(judged, a2).
         if judged = Inl panic then throwE panic
         else bindE (if vf_writeHits f = [] then returnE () else writeHitsFile lib io (vf_writeHits f) (vf_scanner f) a2) (\<lambda>_.
         liftE judged)))"

section \<open>What a green gate means\<close>

text \<open>An exception somebody may rely on at a time: reviewed, dated within the horizon, not over.\<close>

definition in_force :: "vuln_lib \<Rightarrow> time \<Rightarrow> int \<Rightarrow> string \<Rightarrow> allow_entry \<Rightarrow> bool" where
  "in_force lib now days i e \<longleftrightarrow> ae_ID e = i \<and> \<not> is_blank (ae_Statement e) \<and>
     vg_ParseDate lib (ae_ExpiredAt e) = Inr (ae_expiry e) \<and> now < ae_expiry e \<and> ae_expiry e \<le> vg_AddDays lib now days"

lemma covers_byID [simp]: "vl_byID (snd (covers now ids a)) = vl_byID a"
  by (induction ids) (auto split: option.split)

lemma covers_entries [simp]: "vl_entries (snd (covers now ids a)) = vl_entries a"
  by (induction ids) (auto split: option.split)

lemma covers_Some:
  "covers now ids a = (Some e, a') \<Longrightarrow> \<exists>i \<in> set ids. vl_byID a i = Some e \<and> \<not> entry_expired e now"
  by (induction ids) (auto split: option.splits if_splits)

lemma count_suppressions_byID [simp]: "vl_byID (snd (count_suppressions now ms a)) = vl_byID a"
proof (induction ms arbitrary: a)
  case (Cons m ms)
  obtain e b where c: "covers now [mf_VulnerabilityID m] a = (e, b)" by fastforce
  have "vl_byID b = vl_byID a" using covers_byID [of now "[mf_VulnerabilityID m]" a] c by simp
  with Cons [of b] Cons [of a] c show ?case by (simp add: case_prod_unfold del: covers.simps)
qed simp

lemma trivy_byID:
  assumes "mapE (\<lambda>path. recordTrivySuppressions lib RF path now) ps a = (r, a')"
  shows "vl_byID a' = vl_byID a"
proof -
  have "preserves (\<lambda>b. vl_byID b = vl_byID a) (recordTrivySuppressions lib RF p now)" for p
    by (rule preservesI) (auto simp: recordTrivySuppressions_def bindE_def case_prod_unfold split: sum.split)
  then have "preserves (\<lambda>b. vl_byID b = vl_byID a) (mapE (\<lambda>path. recordTrivySuppressions lib RF path now) ps)"
    by (rule preserves_mapE)
  from preservesD [OF this] assms show ?thesis by blast
qed

lemma entry_expiry_Nil:
  "entry_expiry lib h e = ([], y) \<Longrightarrow>
    ae_ID y = ae_ID e \<and> ae_Statement y = ae_Statement e \<and> vg_ParseDate lib (ae_ExpiredAt y) = Inr (ae_expiry y) \<and> ae_expiry y \<le> h"
  by (auto simp: entry_expiry_def split: if_splits sum.splits)

lemma check_entries_Cons:
  "check_entries lib h (e # es) a = ([], a') \<longleftrightarrow>
     ae_ID e \<noteq> [] \<and> \<not> is_blank (ae_Statement e) \<and> vl_byID a (ae_ID e) = None \<and>
     (\<exists>y. entry_expiry lib h e = ([], y) \<and>
        check_entries lib h es (a\<lparr>vl_byID := (vl_byID a)(ae_ID e \<mapsto> y), vl_entries := vl_entries a @ [y]\<rparr>) = ([], a'))"
  by (cases "entry_expiry lib h e") (auto simp: Let_def case_prod_unfold prod_eq_iff)

lemma check_entries_listed:
  assumes "check_entries lib horizon es a = ([], a')" "vl_byID a' i = Some e"
  shows "vl_byID a i = Some e \<or> (ae_ID e = i \<and> \<not> is_blank (ae_Statement e) \<and>
    vg_ParseDate lib (ae_ExpiredAt e) = Inr (ae_expiry e) \<and> ae_expiry e \<le> horizon)"
  using assms
proof (induction es arbitrary: a)
  case (Cons x es)
  from Cons.prems(1) obtain y where x: "\<not> is_blank (ae_Statement x)" "entry_expiry lib horizon x = ([], y)"
    and rest: "check_entries lib horizon es (a\<lparr>vl_byID := (vl_byID a)(ae_ID x \<mapsto> y), vl_entries := vl_entries a @ [y]\<rparr>) = ([], a')"
    unfolding check_entries_Cons by blast
  from Cons.IH [OF rest Cons.prems(2)] entry_expiry_Nil [OF x(2)] x(1) show ?case by (auto split: if_splits)
qed simp

lemma loadAllowlist_listed:
  assumes "loadAllowlist lib RF path now days = Inr a" "vl_byID a i = Some e" "\<not> entry_expired e now"
  shows "in_force lib now days i e"
  using assms check_entries_listed [of lib "vg_AddDays lib now days" _ no_entries a i e]
  by (auto simp: loadAllowlist_def in_force_def entry_expired_def no_entries_def res_simps
      split: sum.splits if_splits prod.splits)

lemma scan_message_sel:
  "gs_Config (scan_message x s) \<longleftrightarrow> gs_Config s \<or> gm_Config x"
  "set (gs_findings (scan_message x s)) =
     set (gs_findings s) \<union> {f. \<not> gm_Config x \<and> gm_OSV x = None \<and> gm_Finding x = Some f}"
  "gs_osvs (scan_message x s) i = Some osv \<Longrightarrow> gs_osvs s i = Some osv \<or> go_ID osv = i \<and> gm_OSV x = Some osv"
  by (auto simp: scan_message_def split: option.splits if_splits)

lemma read_scan_ok: "read_scan ms s = Inr s' \<Longrightarrow> \<exists>xs. ms = map Inr xs \<and> s' = fold scan_message xs s"
proof (induction ms s rule: read_scan.induct)
  case (3 msg ms s)
  then obtain xs where "ms = map Inr xs" "s' = fold scan_message xs (scan_message msg s)" by auto
  then show ?case by (intro exI [of _ "msg # xs"]) simp
qed simp_all

lemma scan_fold:
  "gs_Config (fold scan_message xs s) \<longleftrightarrow> gs_Config s \<or> (\<exists>x \<in> set xs. gm_Config x)"
  "set (gs_findings (fold scan_message xs s)) =
     set (gs_findings s) \<union> {f. \<exists>x \<in> set xs. \<not> gm_Config x \<and> gm_OSV x = None \<and> gm_Finding x = Some f}"
  "gs_osvs (fold scan_message xs s) i = Some osv \<Longrightarrow>
     gs_osvs s i = Some osv \<or> go_ID osv = i \<and> (\<exists>x \<in> set xs. gm_OSV x = Some osv)"
proof -
  show "gs_Config (fold scan_message xs s) \<longleftrightarrow> gs_Config s \<or> (\<exists>x \<in> set xs. gm_Config x)"
    by (induction xs arbitrary: s) (auto simp: scan_message_sel(1))
  show "set (gs_findings (fold scan_message xs s)) =
     set (gs_findings s) \<union> {f. \<exists>x \<in> set xs. \<not> gm_Config x \<and> gm_OSV x = None \<and> gm_Finding x = Some f}"
    by (induction xs arbitrary: s) (auto simp: scan_message_sel(2))
  show "gs_osvs (fold scan_message xs s) i = Some osv \<Longrightarrow>
     gs_osvs s i = Some osv \<or> go_ID osv = i \<and> (\<exists>x \<in> set xs. gm_OSV x = Some osv)"
    by (induction xs arbitrary: s) (auto dest: scan_message_sel(3))
qed

lemma judge_findings_Nil:
  assumes "judge_findings s now fs a = (Inr [], a')" "f \<in> set fs" "called f"
  shows "\<exists>i \<in> set (osv_ids s f). \<exists>e. vl_byID a i = Some e \<and> \<not> entry_expired e now"
  using assms
proof (induction fs arbitrary: a)
  case (Cons g fs)
  show ?case
  proof (cases "called g")
    case False
    with Cons show ?thesis by (auto split: if_splits)
  next
    case True
    obtain r b where c: "covers now (osv_ids s g) a = (r, b)" by fastforce
    with True Cons.prems(1) obtain e where r: "r = Some e" and rest: "judge_findings s now fs b = (Inr [], a')"
      by (cases r) (auto simp: bindE_eq_Inr)
    have byID: "vl_byID b = vl_byID a" using covers_byID [of now "osv_ids s g" a] c by simp
    show ?thesis
    proof (cases "f = g")
      case True
      with covers_Some c r show ?thesis by blast
    next
      case False
      with Cons.IH [OF rest] Cons.prems byID show ?thesis by auto
    qed
  qed
qed simp

lemma judgeGovulncheck_Inr:
  assumes "judgeGovulncheck ms now a = (Inr (), a')"
  shows "\<exists>xs. ms = map Inr xs \<and> (\<exists>x \<in> set xs. gm_Config x) \<and>
    (\<forall>x \<in> set xs. \<not> gm_Config x \<and> gm_OSV x = None \<longrightarrow> (\<forall>f. gm_Finding x = Some f \<and> called f \<longrightarrow>
       (\<exists>i e. (i = gf_OSV f \<or> (\<exists>y \<in> set xs. \<exists>osv. gm_OSV y = Some osv \<and> go_ID osv = gf_OSV f \<and> i \<in> set (go_Aliases osv))) \<and>
          vl_byID a i = Some e \<and> \<not> entry_expired e now)))"
proof -
  from assms obtain s where s: "read_scan ms empty_scan = Inr s" "gs_Config s"
    and judged: "judge_findings s now (gs_findings s) a = (Inr [], a')"
    by (auto simp: judgeGovulncheck_def bindE_eq_Inr split: if_splits)
  from read_scan_ok [OF s(1)] obtain xs where ms: "ms = map Inr xs" and fold: "s = fold scan_message xs empty_scan" by blast
  have "\<exists>i e. (i = gf_OSV f \<or> (\<exists>y \<in> set xs. \<exists>osv. gm_OSV y = Some osv \<and> go_ID osv = gf_OSV f \<and> i \<in> set (go_Aliases osv))) \<and>
      vl_byID a i = Some e \<and> \<not> entry_expired e now"
    if f: "x \<in> set xs" "\<not> gm_Config x" "gm_OSV x = None" "gm_Finding x = Some f" "called f" for x f
  proof -
    from f have "f \<in> set (gs_findings s)" unfolding fold scan_fold(2) by blast
    from judge_findings_Nil [OF judged this f(5)] obtain i e where i: "i \<in> set (osv_ids s f)"
      "vl_byID a i = Some e" "\<not> entry_expired e now" by blast
    from i(1) have "i = gf_OSV f \<or> (\<exists>osv. gs_osvs s (gf_OSV f) = Some osv \<and> i \<in> set (go_Aliases osv))"
      by (auto simp: osv_ids_def split: option.splits)
    moreover have "\<exists>y \<in> set xs. \<exists>osv. gm_OSV y = Some osv \<and> go_ID osv = gf_OSV f \<and> i \<in> set (go_Aliases osv)"
      if "gs_osvs s (gf_OSV f) = Some osv" "i \<in> set (go_Aliases osv)" for osv
      using scan_fold(3) [of xs empty_scan "gf_OSV f" osv] that unfolding fold by (auto simp: empty_scan_def)
    ultimately show ?thesis using i(2,3) by blast
  qed
  moreover from s(2) have "\<exists>x \<in> set xs. gm_Config x" unfolding fold scan_fold(1) by (simp add: empty_scan_def)
  ultimately show ?thesis using ms by blast
qed

lemma vuln_gate_Inr:
  assumes "vuln_gate lib io now f s = (Inr (), s')" "vf_requireUsed f = []" "vf_govulncheck f \<noteq> []"
  shows "\<exists>a b b' ms. loadAllowlist lib (gi_ReadFile io) (vf_allowlist f) now (vf_maxHorizonDays f) = Inr a \<and>
    judge_source io (vf_govulncheck f) = Inr ms \<and> vl_byID b = vl_byID a \<and> judgeGovulncheck ms now b = (Inr (), b')"
proof -
  from assms obtain a where a: "loadAllowlist lib (gi_ReadFile io) (vf_allowlist f) now (vf_maxHorizonDays f) = Inr a"
    and rest: "(case mapE (\<lambda>path. recordTrivySuppressions lib (gi_ReadFile io) path now) (vf_trivy f) a of
       (Inl err, _) \<Rightarrow> throwE err
     | (Inr _, a1) \<Rightarrow>
         bindE (liftE (if vf_govulncheck f = [] then Inr (Inr (), a1)
                       else bindR (judge_source io (vf_govulncheck f)) (\<lambda>messages. Inr (judgeGovulncheck messages now a1)))) (\<lambda>(judged, a2).
         if judged = Inl panic then throwE panic
         else bindE (if vf_writeHits f = [] then returnE () else writeHitsFile lib io (vf_writeHits f) (vf_scanner f) a2) (\<lambda>_.
         liftE judged))) s = (Inr (), s')"
    by (auto simp: vuln_gate_def bindE_eq_Inr)
  obtain r b where trivy: "mapE (\<lambda>path. recordTrivySuppressions lib (gi_ReadFile io) path now) (vf_trivy f) a = (r, b)" by fastforce
  from rest trivy assms(3) obtain ms b' where "judge_source io (vf_govulncheck f) = Inr ms" "judgeGovulncheck ms now b = (Inr (), b')"
    by (cases r) (auto simp: bindE_eq_Inr bindR_eq_Inr split: if_splits prod.splits)
  with a trivy_byID [OF trivy] show ?thesis by blast
qed

text \<open>
  C39: A green vulnerability gate found no reachable vulnerability without an accepted
  exception. The scan it judged was read to its end and says it ran; each finding in it that
  calls a vulnerable symbol is covered, under its own identifier or an alias the scan gives
  for it, by an entry of the allowlist that has a written reason and whose expiry lies
  ahead, within the configured horizon.
\<close>
theorem green_gate_has_no_open_vulnerability:
  assumes "vuln_gate lib io now f s = (Inr (), s')" "vf_requireUsed f = []" "vf_govulncheck f \<noteq> []"
  shows "\<exists>a xs. loadAllowlist lib (gi_ReadFile io) (vf_allowlist f) now (vf_maxHorizonDays f) = Inr a \<and>
    judge_source io (vf_govulncheck f) = Inr (map Inr xs) \<and> (\<exists>x \<in> set xs. gm_Config x) \<and>
    (\<forall>x \<in> set xs. \<not> gm_Config x \<and> gm_OSV x = None \<longrightarrow> (\<forall>fd. gm_Finding x = Some fd \<and> called fd \<longrightarrow>
       (\<exists>i e. (i = gf_OSV fd \<or> (\<exists>y \<in> set xs. \<exists>osv. gm_OSV y = Some osv \<and> go_ID osv = gf_OSV fd \<and> i \<in> set (go_Aliases osv))) \<and>
          vl_byID a i = Some e \<and> in_force lib now (vf_maxHorizonDays f) i e)))"
proof -
  from vuln_gate_Inr [OF assms] obtain a b b' ms where a: "loadAllowlist lib (gi_ReadFile io) (vf_allowlist f) now (vf_maxHorizonDays f) = Inr a"
    and ms: "judge_source io (vf_govulncheck f) = Inr ms" "vl_byID b = vl_byID a" and j: "judgeGovulncheck ms now b = (Inr (), b')"
    by blast
  note listed = loadAllowlist_listed [OF a]
  from judgeGovulncheck_Inr [OF j] ms obtain xs where "ms = map Inr xs" "\<exists>x \<in> set xs. gm_Config x"
    "\<forall>x \<in> set xs. \<not> gm_Config x \<and> gm_OSV x = None \<longrightarrow> (\<forall>fd. gm_Finding x = Some fd \<and> called fd \<longrightarrow>
       (\<exists>i e. (i = gf_OSV fd \<or> (\<exists>y \<in> set xs. \<exists>osv. gm_OSV y = Some osv \<and> go_ID osv = gf_OSV fd \<and> i \<in> set (go_Aliases osv))) \<and>
          vl_byID a i = Some e \<and> \<not> entry_expired e now))"
    by auto
  with a ms(1) listed show ?thesis by (intro exI [of _ a] exI [of _ xs]) meson
qed

text \<open>One finding, allowed by its CVE for a while.\<close>

definition sample_vuln_lib :: vuln_lib where
  "sample_vuln_lib = \<lparr>vg_ParseDate = (\<lambda>_. Inr 50), vg_AddDays = (\<lambda>t d. t + d),
     vg_yaml = (\<lambda>_. Inr [\<lparr>ae_ID = ''CVE-1'', ae_Statement = ''tests only'', ae_ExpiredAt = ''d'', ae_expiry = 0\<rparr>]),
     vg_is_EOF = (\<lambda>_. False), vg_is_NotExist = (\<lambda>_. False), vg_parse_report = (\<lambda>_. Inr []),
     vg_write_hits = (\<lambda>sc ids. Inr (sc @ concat ids)), vg_parse_hits = (\<lambda>_. Inr (''govulncheck'', [''CVE-1'']))\<rparr>"

definition sample_scan :: "gvc_message list" where
  "sample_scan = [\<lparr>gm_Config = True, gm_OSV = None, gm_Finding = None\<rparr>,
     \<lparr>gm_Config = False, gm_OSV = Some \<lparr>go_ID = ''GO-1'', go_Aliases = [''CVE-1'']\<rparr>, gm_Finding = None\<rparr>,
     \<lparr>gm_Config = False, gm_OSV = None, gm_Finding = Some \<lparr>gf_OSV = ''GO-1'',
        gf_Trace = [\<lparr>gr_Package = ''p'', gr_Function = ''F''\<rparr>]\<rparr>\<rparr>]"

definition sample_gate_io :: "string gate_io" where
  "sample_gate_io = \<lparr>gi_ReadFile = (\<lambda>_. Inr []), gi_Stdin = map Inr sample_scan, gi_Open = (\<lambda>_. Inl (Errorf ''open'')),
     gi_WriteFile = (\<lambda>_ d _. (Inr (), d))\<rparr>"

definition sample_gate_flags :: gate_flags where
  "sample_gate_flags = \<lparr>vf_allowlist = ''a'', vf_govulncheck = ''-'', vf_maxHorizonDays = 180, vf_trivy = [],
     vf_writeHits = ''h'', vf_scanner = [], vf_requireUsed = [], vf_expectScanner = []\<rparr>"

lemma gate_runs:
  "vuln_gate sample_vuln_lib sample_gate_io 10 sample_gate_flags [] = (Inr (), ''unnamedCVE-1'' @ [CHR 0x0A])"
  "fst (vuln_gate sample_vuln_lib sample_gate_io 60 sample_gate_flags []) \<noteq> Inr ()"
  by code_simp+

theorem green_gate_has_no_open_vulnerability_witness:
  "\<exists>a e. loadAllowlist sample_vuln_lib (\<lambda>_. Inr []) ''a'' 10 180 = Inr a \<and>
     (vl_byID a ''GO-1'' = Some e \<or> vl_byID a ''CVE-1'' = Some e) \<and> \<not> is_blank (ae_Statement e) \<and> 10 < ae_expiry e"
proof -
  have flags: "vf_requireUsed sample_gate_flags = []" "vf_govulncheck sample_gate_flags \<noteq> []" by (simp_all add: sample_gate_flags_def)
  from green_gate_has_no_open_vulnerability [OF gate_runs(1) flags] obtain a xs where
    a: "loadAllowlist sample_vuln_lib (\<lambda>_. Inr []) ''a'' 10 180 = Inr a" and xs: "map Inr sample_scan = map Inr xs"
    and all: "\<forall>x \<in> set xs. \<not> gm_Config x \<and> gm_OSV x = None \<longrightarrow> (\<forall>fd. gm_Finding x = Some fd \<and> called fd \<longrightarrow>
       (\<exists>i e. (i = gf_OSV fd \<or> (\<exists>y \<in> set xs. \<exists>osv. gm_OSV y = Some osv \<and> go_ID osv = gf_OSV fd \<and> i \<in> set (go_Aliases osv))) \<and>
          vl_byID a i = Some e \<and> in_force sample_vuln_lib 10 180 i e))"
    by (auto simp: sample_gate_io_def sample_gate_flags_def judge_source_def)
  have "xs = sample_scan" using xs by (simp add: inj_map_eq_map)
  with all a show ?thesis by (fastforce simp: sample_scan_def called_def in_force_def)
qed

section \<open>The union over the scanners\<close>

lemma requireEveryEntryUsed_iff:
  "requireEveryEntryUsed lib RF a now paths expect = Inr u \<longleftrightarrow>
     (\<exists>hits. mapR (read_hits lib RF) paths = Inr hits \<and> set expect \<subseteq> fst ` set hits \<and>
        (\<forall>e \<in> set (vl_entries a). entry_expired e now \<or> (\<exists>h \<in> set hits. ae_ID e \<in> set (snd h))))"
  by (cases "mapR (read_hits lib RF) paths") (auto simp: requireEveryEntryUsed_def filter_empty_conv)

text \<open>A finding without a trace is no error of the scan: the gate indexes it and stops.\<close>

lemma empty_trace_panics:
  assumes "read_scan ms empty_scan = Inr s" "gs_Config s" "gs_findings s = f # fs" "gf_Trace f = []"
  shows "judgeGovulncheck ms now a = (Inl panic, a)"
  using assms by (simp add: judgeGovulncheck_def called_def bindE_def)

end
