(* ===== verification/Imagepolicy.thy ===== *)
theory Imagepolicy
  imports Inventory Strings Decimal
begin

text \<open>
  \<^verbatim>\<open>ci/generate-image-policy\<close>: the admission policy rendered from the signed key inventory.
  The template is translated line by line, so what a rendering contains is a function of
  the policy's data. Files are read from the environment (\<open>policy_os\<close>), which also holds the
  path arithmetic and the formatting of a time; what is written is an effect.
\<close>

section \<open>The template\<close>

record attestor =
  at_Name :: string
  at_Label :: string
  at_Status :: string
  at_PEM :: string

record policy_data =
  pd_Source :: string
  pd_InventoryVer :: int
  pd_Anchor :: string
  pd_ValidUntil :: string
  pd_Attestors :: "attestor list"
  pd_ExcludedNS :: "string list"
  pd_Insecure :: bool
  pd_Lists :: "string list"

abbreviation newline :: char where
  "newline \<equiv> CHR 0x0A"

definition spaces :: "nat \<Rightarrow> string" where
  "spaces n = replicate n (CHR '' '')"

definition indentPEM :: "string \<Rightarrow> string" where
  "indentPEM pem = Join [newline] (map (\<lambda>line. spaces 12 @ line) (Split newline (TrimRight (\<lambda>c. c = newline) pem)))"

definition singular :: "string \<Rightarrow> string" where
  "singular l =
     (if l = ''containers'' then ''container''
      else if l = ''initContainers'' then ''init container''
      else if l = ''ephemeralContainers'' then ''ephemeral container''
      else l)"

definition pad28 :: "string \<Rightarrow> string" where
  "pad28 l = l @ spaces (28 - length l)"

definition version_header :: "policy_data \<Rightarrow> string" where
  "version_header d = ''# Rendered from '' @ pd_Source d @ '' (version '' @ show_int (pd_InventoryVer d) @ '') by''"

definition banner :: "string list" where
  "banner =
     [''# GENERATED FILE -- do not edit.'',
      ''#'',
      ''#   go run ./ci/generate-image-policy -out deploy/k8s/policy/image-signature.yaml'',
      ''#'']"

definition provenance :: "policy_data \<Rightarrow> string list" where
  "provenance d =
     [''# ci/generate-image-policy. Edit the inventory and regenerate. A key pasted'',
      ''# in here by hand is a hard-coded verifier, and it would make the next'',
      ''# rotation a breaking change to the cluster.'',
      ''#'',
      ''# The inventory's signature was verified against'',
      ''#   '' @ pd_Anchor d,
      ''# before this was rendered, and the document was inside its stated validity'',
      ''# window (valid_until '' @ pd_ValidUntil d @ ''). A rendering the generator refuses'',
      ''# to produce, for a bad signature, an expired document or a version'',
      ''# rollback, never reaches this file.'',
      ''#'',
      ''# Trusted image keys in this rendering:'']
     @ map (\<lambda>a. ''#   '' @ pad28 (at_Label a) @ at_Status a) (pd_Attestors d) @ [''#'']
     @ (if pd_Insecure d then [''# WARNING: rendered with -allow-insecure-registry. See the credentials block.''] else [])"

definition excluded_namespaces :: "policy_data \<Rightarrow> string list" where
  "excluded_namespaces d = map (\<lambda>n. ''            - '' @ n) (pd_ExcludedNS d)"

definition attestor_lines :: "attestor \<Rightarrow> string list" where
  "attestor_lines a =
     [''    # '' @ at_Label a @ '' ('' @ at_Status a @ '')'',
      ''    - name: '' @ at_Name a,
      ''      cosign:'',
      ''        # The durable signature is made with a long-lived key published in'',
      ''        # a signed inventory, with no transparency-log entry. Kyverno'',
      ''        # checks the log by default, so it has to be told. \"insecure\" is'',
      ''        # Kyverno's word for the flag; here trust comes from a pinned'',
      ''        # public key, not from a log.'',
      ''        ctlog:'',
      ''          insecureIgnoreTlog: true'',
      ''          insecureIgnoreSCT: true'',
      ''        key:'',
      ''          data: |'',
      indentPEM (at_PEM a)]"

definition validation_lines :: "policy_data \<Rightarrow> string \<Rightarrow> string list" where
  "validation_lines d l =
     [''    - expression: >-'',
      ''        images.'' @ l @ ''.map(image, verifyImageSignatures(image,'',
      ''          ['' @ Join '', '' (map (\<lambda>a. ''attestors.'' @ at_Name a) (pd_Attestors d)) @ ''])).all(e, e > 0)'',
      ''      message: >-'',
      ''        every '' @ singular l @ '' image must carry a signature by a key the'',
      ''        published inventory vouches for. Sign it with'',
      ''        ci/sign-image.sh, or check docs/keys/key-inventory.json for which'',
      ''        keys are trusted.'']"

definition signature_policy :: "policy_data \<Rightarrow> string list" where
  "signature_policy d =
     [''#'',
      ''# Both statuses are listed. \"active\" signs new images; \"verify-only\" signs'',
      ''# nothing but still verifies what it signed before it was rolled. A policy'',
      ''# that can hold only one key cannot express a transition window.'',
      ''---'',
      ''apiVersion: policies.kyverno.io/v1'',
      ''kind: ImageValidatingPolicy'',
      ''metadata:'',
      ''  name: require-signed-images'',
      ''spec:'',
      ''  # Fail, not Ignore: an image whose signature could not be checked must'',
      ''  # not run.'',
      ''  failurePolicy: Fail'',
      ''  validationActions:'',
      ''    - Deny'',
      ''  evaluation:'',
      ''    mode: Kubernetes'']
     @ (if pd_Insecure d
        then [''  credentials:'',
            ''    # DEVELOPMENT ONLY. Over plaintext there is no way to tell the registry'',
            ''    # from anyone able to answer on its address. The local k3d registry'',
            ''    # speaks HTTP; a real one must not.'',
            ''    allowInsecureRegistry: true'']
        else [])
     @ [''  matchConstraints:'',
      ''    resourceRules:'',
      ''      # kubectl debug attaches a container to a running pod through the'',
      ''      # pods/ephemeralcontainers subresource. A policy matching only pods'',
      ''      # never sees that request.'',
      ''      - apiGroups: [\"\"]'',
      ''        apiVersions: [\"v1\"]'',
      ''        operations: [\"CREATE\", \"UPDATE\"]'',
      ''        resources: [\"pods\", \"pods/ephemeralcontainers\"]'',
      ''    namespaceSelector:'',
      ''      matchExpressions:'',
      ''        - key: kubernetes.io/metadata.name'',
      ''          operator: NotIn'',
      ''          values:'']
     @ excluded_namespaces d @ [''  attestors:''] @ concat (map attestor_lines (pd_Attestors d))
     @ [''  validations:''] @ concat (map (validation_lines d) (pd_Lists d))"

definition digest_policy :: "policy_data \<Rightarrow> string list" where
  "digest_policy d =
     [''---'',
      ''apiVersion: policies.kyverno.io/v1'',
      ''kind: ValidatingPolicy'',
      ''metadata:'',
      ''  name: require-image-digest'',
      ''spec:'',
      ''  failurePolicy: Fail'',
      ''  validationActions:'',
      ''    - Deny'',
      ''  matchConstraints:'',
      ''    resourceRules:'',
      ''      - apiGroups: [\"\"]'',
      ''        apiVersions: [\"v1\"]'',
      ''        operations: [\"CREATE\", \"UPDATE\"]'',
      ''        resources: [\"pods\", \"pods/ephemeralcontainers\"]'',
      ''    namespaceSelector:'',
      ''      matchExpressions:'',
      ''        - key: kubernetes.io/metadata.name'',
      ''          operator: NotIn'',
      ''          values:'']
     @ excluded_namespaces d @
     [''  variables:'',
      ''    - name: allContainers'',
      ''      expression: >-'',
      ''        object.spec.containers +'',
      ''        (has(object.spec.initContainers) ? object.spec.initContainers : []) +'',
      ''        (has(object.spec.ephemeralContainers) ? object.spec.ephemeralContainers : [])'',
      ''  validations:'',
      ''    # A signature is made over a digest. A tag can be repointed after'',
      ''    # admission approved what it resolved to.'',
      ''    #'',
      ''    # A plain contains('@sha256:') is not enough. When the image policy'',
      ''    # verifies a tag-named image, Kyverno rewrites the pod to'',
      ''    # repo:tag@sha256:<digest> before this policy runs, so a substring test'',
      ''    # passes on a manifest whose author wrote a tag. This requires the last'',
      ''    # path segment before the digest to carry no tag, which is the shape an'',
      ''    # author writes.'',
      ''    - expression: >-'',
      ''        variables.allContainers.all(c,'',
      ''          c.image.matches('^(.+/)?[^/:@]+@sha256:[a-f0-9]{64}$'))'',
      ''      message: >-'',
      ''        every image must be written by digest alone (repo@sha256:...), with'',
      ''        no tag. A tag is a pointer somebody can move; a digest is the'',
      ''        content. repo:tag@sha256:... is what Kyverno rewrites a tag-named'',
      ''        image to, so seeing that here means the manifest named a tag.'']"

definition render :: "policy_data \<Rightarrow> string" where
  "render d = Join [newline]
     (banner @ [version_header d] @ provenance d @ signature_policy d @ digest_policy d) @ [newline]"

section \<open>The rollback floor\<close>

text \<open>
  \<^verbatim>\<open>Rendered from .+ \(version ([0-9]+)\)\<close>, leftmost and greedy: after the words, the last
  place on the line where the version follows at least one character.
\<close>

definition rendered_from :: string where "rendered_from = ''Rendered from ''"

definition version_tail :: "string \<Rightarrow> string option" where
  "version_tail s =
     (if HasPrefix s '' (version '' then
        (let rest = TrimPrefix s '' (version ''; ds = takeWhile (\<lambda>c. char_digit c \<noteq> None) rest in
         if ds \<noteq> [] \<and> HasPrefix (drop (length ds) rest) '')'' then Some ds else None)
      else None)"

fun greedy_version :: "string \<Rightarrow> string option" where
  "greedy_version [] = None"
| "greedy_version (c # cs) =
     (if c = newline then None
      else case greedy_version cs of Some ds \<Rightarrow> Some ds | None \<Rightarrow> version_tail cs)"

fun FindVersion :: "string \<Rightarrow> string option" where
  "FindVersion [] = None"
| "FindVersion (c # cs) =
     (case (if HasPrefix (c # cs) rendered_from then greedy_version (TrimPrefix (c # cs) rendered_from) else None) of
        Some ds \<Rightarrow> Some ds
      | None \<Rightarrow> FindVersion cs)"

text \<open>\<^verbatim>\<open>strconv.Atoi\<close> on digits: what does not fit 64 bits is an error.\<close>

definition max_int :: int where "max_int = 2 ^ 63 - 1"

definition Atoi :: "string \<Rightarrow> int res" where
  "Atoi ds = (case parse_nat ds of
     None \<Rightarrow> Inl (Errorf ''invalid syntax'')
   | Some n \<Rightarrow> if int n \<le> max_int then Inr (int n) else Inl (Errorf ''value out of range''))"

record 's policy_os =
  po_ReadFile :: "string \<Rightarrow> bytes res"
  po_is_NotExist :: "go_error \<Rightarrow> bool"
  po_sibling :: "string \<Rightarrow> string \<Rightarrow> string"
  po_Format :: "time \<Rightarrow> string"
  po_ToSlash :: "string \<Rightarrow> string"
  po_WriteFile :: "string \<Rightarrow> bytes \<Rightarrow> ('s, unit) eff"
  po_Stdout :: "bytes \<Rightarrow> ('s, unit) eff"

definition previousRenderedVersion :: "'s policy_os \<Rightarrow> string \<Rightarrow> int res" where
  "previousRenderedVersion os path =
     (case po_ReadFile os path of
        Inl err \<Rightarrow> if po_is_NotExist os err then Inr 0 else Inl (Wrap ''reading the rendering being replaced'' err)
      | Inr data \<Rightarrow> (case FindVersion data of
            None \<Rightarrow> Inl (Errorf ''carries no version header'')
          | Some ds \<Rightarrow> wrapR ''parsing the version'' (Atoi ds)))"

section \<open>The run\<close>

definition celIdentifier :: "string \<Rightarrow> string" where
  "celIdentifier label = filter (\<lambda>c. let n = of_char c :: nat in
     97 \<le> n \<and> n \<le> 122 \<or> 65 \<le> n \<and> n \<le> 90 \<or> 48 \<le> n \<and> n \<le> 57) label"

record policy_flags =
  pf_Inventory :: string
  pf_Out :: string
  pf_Insecure :: bool
  pf_Signature :: string
  pf_Anchor :: string

definition attestor_of :: "inv_entry \<Rightarrow> attestor" where
  "attestor_of e = \<lparr>at_Name = celIdentifier (ie_Label e), at_Label = ie_Label e, at_Status = ie_Status e,
     at_PEM = TrimRight (\<lambda>c. c = newline) (ie_PublicKeyPEM e)\<rparr>"

fun make_attestors :: "(string \<Rightarrow> bool) \<Rightarrow> inv_entry list \<Rightarrow> attestor list res" where
  "make_attestors seen [] = Inr []"
| "make_attestors seen (e # es) =
     (let name = celIdentifier (ie_Label e) in
      if name = [] then Inl (Errorf ''key label has no characters CEL can carry'')
      else if seen name then Inl (Errorf ''key labels become the same CEL identifier'')
      else bindR (make_attestors (seen(name := True)) es) (\<lambda>as. Inr (attestor_of e # as)))"

definition pem_entry :: "string \<Rightarrow> inv_entry" where
  "pem_entry pem = \<lparr>ie_Label = [], ie_Purpose = [], ie_Curve = [], ie_PublicKeyPEM = pem, ie_ValidFrom = 0,
     ie_RetiredAt = None, ie_Status = []\<rparr>"

definition verified_inventory ::
    "inventory_lib \<Rightarrow> 's policy_os \<Rightarrow> policy_flags \<Rightarrow> (key_inventory \<times> string) res" where
  "verified_inventory lib os f =
     (let sig_path = (if pf_Signature f = [] then pf_Inventory f @ ''.sig'' else pf_Signature f);
          anchor_path = (if pf_Anchor f = [] then po_sibling os (pf_Inventory f) ''inventory-signing-key-v1.pub''
                         else pf_Anchor f) in
      bindR (wrapR ''reading the inventory'' (po_ReadFile os (pf_Inventory f))) (\<lambda>raw.
      bindR (wrapR ''reading the inventory's signature'' (po_ReadFile os sig_path)) (\<lambda>signature.
      bindR (wrapR ''reading the inventory signing anchor'' (po_ReadFile os anchor_path)) (\<lambda>pem.
      bindR (wrapR ''parsing the anchor'' (entry_PublicKey lib (pem_entry pem))) (\<lambda>anchor.
      bindR (wrapR ''the signature does not verify'' (inventory_Verify lib raw signature (Some anchor))) (\<lambda>_.
      bindR (wrapR ''parsing the inventory'' (inventory_Parse lib raw)) (\<lambda>doc.
      Inr (doc, anchor_path))))))))"

definition check_rollback :: "'s policy_os \<Rightarrow> policy_flags \<Rightarrow> key_inventory \<Rightarrow> unit res" where
  "check_rollback os f doc =
     (if pf_Out f = [] then Inr ()
      else bindR (previousRenderedVersion os (pf_Out f)) (\<lambda>prev.
           if prev > 0 \<and> inv_Version doc < prev then Inl (Errorf ''refusing the rollback'') else Inr ()))"

definition policy_of :: "'s policy_os \<Rightarrow> policy_flags \<Rightarrow> key_inventory \<Rightarrow> string \<Rightarrow> attestor list \<Rightarrow> policy_data" where
  "policy_of os f doc anchor_path as =
     \<lparr>pd_Source = pf_Inventory f, pd_InventoryVer = inv_Version doc, pd_Anchor = po_ToSlash os anchor_path,
      pd_ValidUntil = po_Format os (inv_ValidUntil doc), pd_Attestors = as,
      pd_ExcludedNS = [''kube-system'', ''kube-public'', ''kube-node-lease'', ''kyverno''], pd_Insecure = pf_Insecure f,
      pd_Lists = [''containers'', ''initContainers'', ''ephemeralContainers'']\<rparr>"

definition generate_policy :: "inventory_lib \<Rightarrow> 's policy_os \<Rightarrow> time \<Rightarrow> policy_flags \<Rightarrow> ('s, unit) eff" where
  "generate_policy lib os now f =
     bindE (liftE (bindR (verified_inventory lib os f) (\<lambda>(doc, anchor_path).
       bindR (VerifiableAt doc PurposeImage now) (\<lambda>verifiable.
       bindR (check_rollback os f doc) (\<lambda>_.
       if verifiable = [] then Inl (Errorf ''the inventory lists no key for the image purpose'')
       else bindR (make_attestors (\<lambda>_. False) verifiable) (\<lambda>as.
       Inr (render (policy_of os f doc anchor_path as)))))))) (\<lambda>out.
     if pf_Out f = [] then po_Stdout os out
     else wrapE ''writing the policy'' (po_WriteFile os (pf_Out f) out))"

section \<open>The header is read back\<close>

lemma Join_append: "xs \<noteq> [] \<Longrightarrow> ys \<noteq> [] \<Longrightarrow> Join sep (xs @ ys) = Join sep xs @ sep @ Join sep ys"
proof (induction xs)
  case (Cons x xs)
  then show ?case by (cases "xs = []") (simp_all add: Join_Cons)
qed simp

lemma show_nat_digits: "c \<in> set (show_nat n) \<Longrightarrow> char_digit c \<noteq> None"
proof (induction n rule: show_nat.induct)
  case (1 n)
  then show ?case by (subst (asm) (2) show_nat.simps) (auto split: if_splits)
qed

lemma show_int_digits: "0 \<le> v \<Longrightarrow> c \<in> set (show_int v) \<Longrightarrow> char_digit c \<noteq> None"
  by (auto simp: show_int_def dest: show_nat_digits)

lemma Atoi_show: "0 \<le> v \<Longrightarrow> v \<le> max_int \<Longrightarrow> Atoi (show_int v) = Inr v"
  by (simp add: Atoi_def show_int_def)

lemma version_tail_header:
  assumes "ds \<noteq> []" "\<forall>c \<in> set ds. char_digit c \<noteq> None"
  shows "version_tail ('' (version '' @ ds @ '')'' @ rest) = Some ds"
proof -
  have "takeWhile (\<lambda>c. char_digit c \<noteq> None) (ds @ '')'' @ rest) = ds"
    using assms(2) by (subst takeWhile_append2) (auto simp: char_digit_def)
  with assms show ?thesis by (simp add: version_tail_def HasPrefix_def TrimPrefix_def)
qed

lemma version_tail_paren: "version_tail (c # d # s) = Some y \<Longrightarrow> c = CHR '' '' \<and> d = CHR ''(''"
  by (auto simp: version_tail_def HasPrefix_def split: if_splits)

lemma version_tail_short: "version_tail [] = None" "version_tail [c] = None"
  by (simp_all add: version_tail_def HasPrefix_def)

text \<open>Without an opening parenthesis on the line there is no version on it.\<close>

lemma no_version_tail:
  assumes "CHR ''('' \<notin> set u"
  shows "version_tail (u @ newline # rest) = None"
proof (rule ccontr)
  assume "version_tail (u @ newline # rest) \<noteq> None"
  then obtain y where v: "version_tail (u @ newline # rest) = Some y" by auto
  show False
  proof (cases u)
    case Nil
    with v show False by (cases rest) (auto simp: version_tail_short dest: version_tail_paren)
  next
    case (Cons c w)
    with v assms show False by (cases w) (auto dest: version_tail_paren)
  qed
qed

lemma no_greedy_version: "CHR ''('' \<notin> set u \<Longrightarrow> greedy_version (u @ newline # rest) = None"
  by (induction u) (auto simp: no_version_tail split: option.split)

lemma greedy_version_header:
  assumes "ds \<noteq> []" "\<forall>c \<in> set ds. char_digit c \<noteq> None" "src \<noteq> []" "newline \<notin> set src"
  shows "greedy_version (src @ '' (version '' @ ds @ '') by'' @ newline # rest) = Some ds"
proof -
  let ?u = "''version '' @ ds @ '') by''"
  let ?T = "'' (version '' @ ds @ '') by'' @ newline # rest"
  have paren: "CHR ''('' \<notin> set ?u" using assms(2) by (auto simp: char_digit_def)
  have T: "?T = CHR '' '' # CHR ''('' # ?u @ newline # rest" by simp
  have "version_tail (CHR ''('' # ?u @ newline # rest) = None"
    using version_tail_paren [of "CHR ''(''" "CHR ''v''"] by fastforce
  then have end_of_line: "greedy_version ?T = None"
    unfolding T using no_greedy_version [OF paren] no_version_tail [OF paren] by simp
  have "version_tail ?T = Some ds"
    using version_tail_header [OF assms(1,2), of "'' by'' @ newline # rest"] by simp
  then show ?thesis
    using assms(3,4) end_of_line
  proof (induction src)
    case (Cons c src)
    then show ?case by (cases "src = []") auto
  qed simp
qed

lemma FindVersion_skip: "c \<noteq> CHR ''R'' \<Longrightarrow> FindVersion (c # cs) = FindVersion cs"
  by (simp add: HasPrefix_def rendered_from_def)

lemma FindVersion_skip2: "d \<noteq> CHR ''e'' \<Longrightarrow> FindVersion (CHR ''R'' # d # cs) = FindVersion (d # cs)"
  by (subst FindVersion.simps) (simp add: HasPrefix_def rendered_from_def del: FindVersion.simps)

lemma FindVersion_found:
  "greedy_version cs = Some ds \<Longrightarrow> FindVersion (rendered_from @ cs) = Some ds"
  by (simp add: rendered_from_def HasPrefix_def TrimPrefix_def)

lemma FindVersion_banner: "FindVersion (Join [newline] banner @ newline # ''# '' @ s) = FindVersion s"
  by (simp add: banner_def FindVersion_skip FindVersion_skip2 del: FindVersion.simps)

lemma FindVersion_render:
  assumes "pd_Source d \<noteq> []" "newline \<notin> set (pd_Source d)" "0 \<le> pd_InventoryVer d"
  shows "FindVersion (render d) = Some (show_int (pd_InventoryVer d))"
proof -
  let ?rest = "Join [newline] (provenance d @ signature_policy d @ digest_policy d) @ [newline]"
  have nonempty: "banner \<noteq> []" "provenance d @ signature_policy d @ digest_policy d \<noteq> []"
    by (simp_all add: banner_def provenance_def)
  have "render d = Join [newline] banner @ newline # ''# '' @ rendered_from @ pd_Source d @ '' (version '' @
      show_int (pd_InventoryVer d) @ '') by'' @ newline # ?rest"
    using nonempty by (simp add: render_def Join_append Join_Cons version_header_def rendered_from_def)
  moreover have "greedy_version (pd_Source d @ '' (version '' @ show_int (pd_InventoryVer d) @ '') by'' @ newline # ?rest) =
      Some (show_int (pd_InventoryVer d))"
    using assms show_int_digits [OF assms(3)] by (intro greedy_version_header) (auto simp: show_int_def)
  ultimately show ?thesis by (simp only: FindVersion_banner FindVersion_found)
qed

text \<open>What the generator wrote is what it reads back as the floor.\<close>

lemma previousRenderedVersion_render:
  assumes "po_ReadFile os path = Inr (render d)" "pd_Source d \<noteq> []" "newline \<notin> set (pd_Source d)"
    "0 \<le> pd_InventoryVer d" "pd_InventoryVer d \<le> max_int"
  shows "previousRenderedVersion os path = Inr (pd_InventoryVer d)"
  using assms by (simp add: previousRenderedVersion_def FindVersion_render Atoi_show)

section \<open>What a generated policy trusts\<close>

lemma make_attestors_Inr:
  "make_attestors seen es = Inr as \<longleftrightarrow>
     as = map attestor_of es \<and> distinct (map (\<lambda>e. celIdentifier (ie_Label e)) es) \<and>
     (\<forall>e \<in> set es. celIdentifier (ie_Label e) \<noteq> [] \<and> \<not> seen (celIdentifier (ie_Label e)))"
proof (induction es arbitrary: seen as)
  case (Cons e es)
  then show ?case by (simp add: Let_def bindR_eq_Inr) (fastforce simp: image_iff)
qed auto

lemma verified_inventory_Inr:
  "verified_inventory lib os f = Inr (doc, anchor_path) \<Longrightarrow>
     \<exists>raw signature pem anchor. po_ReadFile os (pf_Inventory f) = Inr raw \<and>
       po_ReadFile os (if pf_Signature f = [] then pf_Inventory f @ ''.sig'' else pf_Signature f) = Inr signature \<and>
       po_ReadFile os anchor_path = Inr pem \<and> entry_PublicKey lib (pem_entry pem) = Inr anchor \<and>
       inventory_Verify lib raw signature (Some anchor) = Inr () \<and> inventory_Parse lib raw = Inr doc"
  by (auto simp: verified_inventory_def Let_def res_simps)

lemma check_rollback_Inr:
  assumes "check_rollback os f doc = Inr ()" "pf_Out f \<noteq> []" "po_ReadFile os (pf_Out f) = Inr (render p)"
    "pd_Source p \<noteq> []" "newline \<notin> set (pd_Source p)" "0 < pd_InventoryVer p" "pd_InventoryVer p \<le> max_int"
  shows "pd_InventoryVer p \<le> inv_Version doc"
  using assms previousRenderedVersion_render [OF assms(3-5) _ assms(7)]
  by (simp add: check_rollback_def split: if_splits)

lemma VerifiableAt_Inr:
  "VerifiableAt doc PurposeImage now = Inr keys \<longleftrightarrow> now \<le> inv_ValidUntil doc \<and>
     keys = filter (\<lambda>e. ie_Purpose e = PurposeImage \<and> (ie_Status e = StatusActive \<or> ie_Status e = StatusVerifyOnly) \<and>
       ie_ValidFrom e \<le> now) (inv_Keys doc)"
  by (auto simp: VerifiableAt_def checkFresh_def Verifiable_def res_simps not_less conj_ac intro!: filter_cong)

text \<open>
  C40: A policy that was written trusts exactly the image keys of a verified inventory. The
  inventory's signature verifies under the anchor that was read, the document parses, is
  not past its end, and the policy's attestors are its active and verify-only image keys
  that are already valid, in their order, at least one, each under a name of its own; a
  retired key is never among them. The text written is the rendering of that policy, and
  when it replaces an earlier rendering, the inventory is no older than the one that
  rendering came from.
\<close>
theorem policy_trusts_the_signed_inventory:
  assumes "generate_policy lib os now f s = (Inr (), s')"
  shows "\<exists>raw signature pem anchor doc keys d. po_ReadFile os (pf_Inventory f) = Inr raw \<and>
    po_ReadFile os (if pf_Signature f = [] then pf_Inventory f @ ''.sig'' else pf_Signature f) = Inr signature \<and>
    entry_PublicKey lib (pem_entry pem) = Inr anchor \<and> inventory_Verify lib raw signature (Some anchor) = Inr () \<and>
    inventory_Parse lib raw = Inr doc \<and> now \<le> inv_ValidUntil doc \<and>
    keys = filter (\<lambda>e. ie_Purpose e = PurposeImage \<and> (ie_Status e = StatusActive \<or> ie_Status e = StatusVerifyOnly) \<and>
      ie_ValidFrom e \<le> now) (inv_Keys doc) \<and>
    keys \<noteq> [] \<and> distinct (map at_Name (pd_Attestors d)) \<and> pd_Attestors d = map attestor_of keys \<and>
    pd_InventoryVer d = inv_Version doc \<and> pd_Insecure d = pf_Insecure f \<and>
    (if pf_Out f = [] then po_Stdout os (render d) s = (Inr (), s')
     else po_WriteFile os (pf_Out f) (render d) s = (Inr (), s')) \<and>
    (\<forall>p. pf_Out f \<noteq> [] \<and> po_ReadFile os (pf_Out f) = Inr (render p) \<and> pd_Source p \<noteq> [] \<and> newline \<notin> set (pd_Source p) \<and>
       0 < pd_InventoryVer p \<and> pd_InventoryVer p \<le> max_int \<longrightarrow> pd_InventoryVer p \<le> inv_Version doc)"
proof -
  from assms obtain doc anchor_path keys as where v: "verified_inventory lib os f = Inr (doc, anchor_path)"
    and k: "VerifiableAt doc PurposeImage now = Inr keys" and r: "check_rollback os f doc = Inr ()" and "keys \<noteq> []"
    and as: "make_attestors (\<lambda>_. False) keys = Inr as"
    and out: "if pf_Out f = [] then po_Stdout os (render (policy_of os f doc anchor_path as)) s = (Inr (), s')
      else po_WriteFile os (pf_Out f) (render (policy_of os f doc anchor_path as)) s = (Inr (), s')"
    by (auto simp: generate_policy_def res_simps split: if_splits)
  from verified_inventory_Inr [OF v] obtain raw signature pem anchor where files:
    "po_ReadFile os (pf_Inventory f) = Inr raw"
    "po_ReadFile os (if pf_Signature f = [] then pf_Inventory f @ ''.sig'' else pf_Signature f) = Inr signature"
    "entry_PublicKey lib (pem_entry pem) = Inr anchor" "inventory_Verify lib raw signature (Some anchor) = Inr ()"
    "inventory_Parse lib raw = Inr doc" by blast
  note keys = VerifiableAt_Inr [THEN iffD1, OF k]
  have names: "as = map attestor_of keys" "distinct (map at_Name as)"
    using as [unfolded make_attestors_Inr] by (auto simp: comp_def attestor_of_def)
  show ?thesis
    using files keys names out \<open>keys \<noteq> []\<close> check_rollback_Inr [OF r]
    by (intro exI [of _ raw] exI [of _ signature] exI [of _ pem] exI [of _ anchor] exI [of _ doc] exI [of _ keys]
        exI [of _ "policy_of os f doc anchor_path as"] conjI) (simp_all add: policy_of_def)
qed

text \<open>An inventory over a rendering of its own version.\<close>

definition policy_lib :: inventory_lib where
  "policy_lib = toy_inventory_lib\<lparr>il_json_decode := (\<lambda>_. Inr (toy_inventory, []))\<rparr>"

definition policy_files :: "policy_data \<Rightarrow> string policy_os" where
  "policy_files p = \<lparr>po_ReadFile = (\<lambda>path. if path = ''out'' then Inr (render p) else Inr ''k''),
     po_is_NotExist = (\<lambda>_. False), po_sibling = (\<lambda>_ name. name), po_Format = (\<lambda>_. ''t''), po_ToSlash = id,
     po_WriteFile = (\<lambda>_ c _. (Inr (), c)), po_Stdout = (\<lambda>_ _. (Inl (Errorf ''closed''), []))\<rparr>"

definition policy_run :: policy_flags where
  "policy_run = \<lparr>pf_Inventory = ''i'', pf_Out = ''out'', pf_Insecure = False, pf_Signature = [], pf_Anchor = []\<rparr>"

lemma policy_runs:
  assumes "pd_Source p = ''i''" "pd_InventoryVer p = 1"
  shows "\<exists>d. generate_policy policy_lib (policy_files p) 5 policy_run [] = (Inr (), render d)"
proof -
  let ?os = "policy_files p" and ?keys = "[toy_entry ''k-v2'' ''ab'' StatusVerifyOnly, toy_entry ''k-v3'' ''abc'' StatusActive]"
  have "verified_inventory policy_lib ?os policy_run = Inr (toy_inventory, ''inventory-signing-key-v1.pub'')"
    by (simp add: verified_inventory_def policy_files_def policy_run_def policy_lib_def pem_entry_def inventory_Verify_def
        entry_PublicKey_def toy_inventory_lib_def inventory_Parse_def) code_simp
  moreover have "VerifiableAt toy_inventory PurposeImage 5 = Inr ?keys" by code_simp
  moreover have "make_attestors (\<lambda>_. False) ?keys = Inr (map attestor_of ?keys)" by code_simp
  moreover have "previousRenderedVersion ?os ''out'' = Inr 1"
    using assms previousRenderedVersion_render [of ?os "''out''" p]
    by (simp add: policy_files_def max_int_def)
  then have "check_rollback ?os policy_run toy_inventory = Inr ()"
    by (simp add: check_rollback_def policy_run_def toy_inventory_def)
  ultimately show ?thesis
    by (simp add: generate_policy_def) (auto simp: policy_files_def policy_run_def)
qed

theorem policy_trusts_the_signed_inventory_witness:
  "\<exists>p. \<exists>(d :: policy_data) s'. generate_policy policy_lib (policy_files p) 5 policy_run [] = (Inr (), s') \<and>
     map at_Name (pd_Attestors d) = [''kv2'', ''kv3''] \<and> pd_InventoryVer p \<le> 1"
proof -
  let ?p = "\<lparr>pd_Source = ''i'', pd_InventoryVer = 1, pd_Anchor = [], pd_ValidUntil = [], pd_Attestors = [],
    pd_ExcludedNS = [], pd_Insecure = False, pd_Lists = []\<rparr>"
  from policy_runs [of ?p] obtain s' where run: "generate_policy policy_lib (policy_files ?p) 5 policy_run [] = (Inr (), s')"
    by auto
  have doc: "inventory_Parse policy_lib raw = Inr doc \<Longrightarrow> doc = toy_inventory" for raw doc
    by (auto simp: inventory_Parse_def policy_lib_def bindR_eq_Inr)
  have keys: "filter (\<lambda>e. ie_Purpose e = PurposeImage \<and> (ie_Status e = StatusActive \<or> ie_Status e = StatusVerifyOnly) \<and>
      ie_ValidFrom e \<le> 5) (inv_Keys toy_inventory) =
    [toy_entry ''k-v2'' ''ab'' StatusVerifyOnly, toy_entry ''k-v3'' ''abc'' StatusActive]" by code_simp
  have names: "map at_Name (map attestor_of [toy_entry ''k-v2'' ''ab'' StatusVerifyOnly, toy_entry ''k-v3'' ''abc'' StatusActive]) =
      [''kv2'', ''kv3'']" by code_simp
  from policy_trusts_the_signed_inventory [OF run] obtain raw doc ks and d :: policy_data where
    parsed: "inventory_Parse policy_lib raw = Inr doc"
    and ks: "ks = filter (\<lambda>e. ie_Purpose e = PurposeImage \<and> (ie_Status e = StatusActive \<or> ie_Status e = StatusVerifyOnly) \<and>
      ie_ValidFrom e \<le> 5) (inv_Keys doc)"
    and d: "pd_Attestors d = map attestor_of ks"
    by (elim exE conjE) (rule that, assumption+)
  have "map at_Name (pd_Attestors d) = [''kv2'', ''kv3'']"
    by (simp only: d ks doc [OF parsed] keys names)
  with run show ?thesis by (intro exI [of _ ?p] exI [of _ d] exI [of _ s']) simp
qed

end
