(* ===== verification/Modthread.thy ===== *)
theory Modthread
  imports Adapter
begin

text \<open>
  \<^verbatim>\<open>internal/pkcs11/modthread.go\<close> and the callers of it in \<^verbatim>\<open>base.go\<close>: the goroutine that
  owns the OS thread of a module that must be driven from one, the unbuffered channel into
  it, and the adapter's lock helpers and \<^verbatim>\<open>Close\<close>, which hand it their functions. A step
  is what one goroutine does between two points where another may run. The lock is Go's
  \<^verbatim>\<open>sync.RWMutex\<close>: a writer that has announced itself holds back new readers and waits for
  those inside. What a function does to the module, and whether it panics, is a parameter.
  The calls \<^verbatim>\<open>Close\<close> makes before it takes the lock, to log out, are calls of a helper like any other.
\<close>

section \<open>Callers and the thread\<close>

datatype fn_end = Returned "unit res" | Panicked string

text \<open>\<open>ReadLock\<close> and \<open>StateLock\<close> are the two helpers, \<open>CloseCall\<close> is \<^verbatim>\<open>Close\<close>.\<close>

datatype lock_kind = ReadLock | StateLock | CloseCall

datatype phase =
    Begin
  | Claimed
  | Announced
  | Locked
  | Sending
  | Sent
  | Ran fn_end
  | Closing
  | Stopping
  | Stopped
  | Ended fn_end

datatype thread_phase = Receiving | Running nat | Exited

record 's callers =
  cl_count :: nat
  cl_kind :: "nat \<Rightarrow> lock_kind"
  cl_fn :: "nat \<Rightarrow> 's \<Rightarrow> fn_end \<times> 's"

text \<open>
  \<open>mt_finished\<close> holds what \<^verbatim>\<open>recover\<close> and the function left behind once the closure has
  closed its \<^verbatim>\<open>finished\<close> channel. \<open>mt_order\<close> is the order in which the functions ran; the
  code keeps no such record.
\<close>

record 's mt_state =
  mt_phase :: "nat \<Rightarrow> phase"
  mt_thread :: thread_phase
  mt_calls_closed :: bool
  mt_finished :: "nat \<Rightarrow> fn_end option"
  mt_closed :: bool
  mt_once :: "nat option"
  mt_module :: 's
  mt_order :: "nat list"

definition newModuleThread :: "'s \<Rightarrow> 's mt_state" where
  "newModuleThread m = \<lparr>mt_phase = (\<lambda>_. Begin), mt_thread = Receiving, mt_calls_closed = False,
     mt_finished = (\<lambda>_. None), mt_closed = False, mt_once = None, mt_module = m, mt_order = []\<rparr>"

definition goto :: "nat \<Rightarrow> phase \<Rightarrow> 's mt_state \<Rightarrow> 's mt_state" where
  "goto i p c = c\<lparr>mt_phase := (mt_phase c)(i := p)\<rparr>"

section \<open>The thread\<close>

text \<open>
  \<^verbatim>\<open>run\<close> and \<^verbatim>\<open>stop\<close> on the caller's side, the loop over the channel on the thread's. The
  channel has no buffer: a send completes when the thread receives, and a send that is
  still waiting when the channel is closed panics.
\<close>

inductive thread_step ::
    "'s callers \<Rightarrow> 's mt_state \<Rightarrow> 's mt_state \<Rightarrow> bool" for cs where
  handoff: "i < cl_count cs \<Longrightarrow> mt_phase c i = Sending \<Longrightarrow> mt_thread c = Receiving \<Longrightarrow> \<not> mt_calls_closed c \<Longrightarrow>
      thread_step cs c (goto i Sent (c\<lparr>mt_thread := Running i\<rparr>))"
| send_on_closed: "i < cl_count cs \<Longrightarrow> mt_phase c i = Sending \<Longrightarrow> mt_calls_closed c \<Longrightarrow>
      thread_step cs c (goto i (Ran (Panicked ''send on closed channel'')) c)"
| execute: "mt_thread c = Running i \<Longrightarrow> cl_fn cs i (mt_module c) = (r, m) \<Longrightarrow>
      thread_step cs c (c\<lparr>mt_thread := Receiving, mt_finished := (mt_finished c)(i := Some r), mt_module := m,
        mt_order := mt_order c @ [i]\<rparr>)"
| run_returns: "i < cl_count cs \<Longrightarrow> mt_phase c i = Sent \<Longrightarrow> mt_finished c i = Some r \<Longrightarrow>
      thread_step cs c (goto i (Ran r) c)"
| stop: "i < cl_count cs \<Longrightarrow> mt_phase c i = Closing \<Longrightarrow>
      thread_step cs c (goto i Stopping (c\<lparr>mt_calls_closed := True\<rparr>))"
| thread_exits: "mt_thread c = Receiving \<Longrightarrow> mt_calls_closed c \<Longrightarrow>
      thread_step cs c (c\<lparr>mt_thread := Exited\<rparr>)"
| stop_returns: "i < cl_count cs \<Longrightarrow> mt_phase c i = Stopping \<Longrightarrow> mt_thread c = Exited \<Longrightarrow>
      thread_step cs c (goto i Stopped c)"

section \<open>The adapter around it\<close>

definition inside :: "phase \<Rightarrow> bool" where
  "inside p \<longleftrightarrow> (case p of Begin \<Rightarrow> False | Claimed \<Rightarrow> False | Announced \<Rightarrow> False | Ended _ \<Rightarrow> False | _ \<Rightarrow> True)"

definition reading :: "'s callers \<Rightarrow> 's mt_state \<Rightarrow> nat \<Rightarrow> bool" where
  "reading cs c i \<longleftrightarrow> i < cl_count cs \<and> cl_kind cs i = ReadLock \<and> inside (mt_phase c i)"

definition writing :: "'s callers \<Rightarrow> 's mt_state \<Rightarrow> nat \<Rightarrow> bool" where
  "writing cs c i \<longleftrightarrow> i < cl_count cs \<and> cl_kind cs i \<noteq> ReadLock \<and> (mt_phase c i = Announced \<or> inside (mt_phase c i))"

definition adapter_closed :: fn_end where
  "adapter_closed = Returned (Inl (Sentinel (Pkcs11 ErrAdapterClosed)))"

inductive call_step ::
    "'s callers \<Rightarrow> 's mt_state \<Rightarrow> 's mt_state \<Rightarrow> bool" for cs where
  rlock: "i < cl_count cs \<Longrightarrow> cl_kind cs i = ReadLock \<Longrightarrow> mt_phase c i = Begin \<Longrightarrow> (\<And>j. \<not> writing cs c j) \<Longrightarrow>
      call_step cs c (goto i Locked c)"
| announce: "i < cl_count cs \<Longrightarrow> cl_kind cs i = StateLock \<and> mt_phase c i = Begin \<or> mt_phase c i = Claimed \<Longrightarrow>
      (\<And>j. \<not> writing cs c j) \<Longrightarrow> call_step cs c (goto i Announced c)"
| lock: "i < cl_count cs \<Longrightarrow> mt_phase c i = Announced \<Longrightarrow> (\<And>j. \<not> reading cs c j) \<Longrightarrow>
      call_step cs c (goto i Locked c)"
| refuse: "i < cl_count cs \<Longrightarrow> mt_phase c i = Locked \<Longrightarrow> cl_kind cs i \<noteq> CloseCall \<Longrightarrow> mt_closed c \<Longrightarrow>
      call_step cs c (goto i (Ended adapter_closed) c)"
| send: "i < cl_count cs \<Longrightarrow> mt_phase c i = Locked \<Longrightarrow> cl_kind cs i = CloseCall \<or> \<not> mt_closed c \<Longrightarrow>
      call_step cs c (goto i Sending c)"
| on_thread: "thread_step cs c c' \<Longrightarrow> call_step cs c c'"
| unlock: "i < cl_count cs \<Longrightarrow> mt_phase c i = Ran r \<Longrightarrow> cl_kind cs i \<noteq> CloseCall \<Longrightarrow>
      call_step cs c (goto i (Ended r) c)"
| once: "i < cl_count cs \<Longrightarrow> cl_kind cs i = CloseCall \<Longrightarrow> mt_phase c i = Begin \<Longrightarrow> mt_once c = None \<Longrightarrow>
      call_step cs c (goto i Claimed (c\<lparr>mt_once := Some i\<rparr>))"
| close_again: "i < cl_count cs \<Longrightarrow> cl_kind cs i = CloseCall \<Longrightarrow> mt_phase c i = Begin \<Longrightarrow> mt_once c = Some j \<Longrightarrow>
      mt_phase c j = Ended r \<Longrightarrow> call_step cs c (goto i (Ended (Returned (Inr ()))) c)"
| close_panics: "i < cl_count cs \<Longrightarrow> mt_phase c i = Ran (Panicked v) \<Longrightarrow> cl_kind cs i = CloseCall \<Longrightarrow>
      call_step cs c (goto i (Ended (Panicked v)) c)"
| finalized: "i < cl_count cs \<Longrightarrow> mt_phase c i = Ran (Returned r) \<Longrightarrow> cl_kind cs i = CloseCall \<Longrightarrow>
      call_step cs c (goto i Closing (c\<lparr>mt_closed := True\<rparr>))"
| closed: "i < cl_count cs \<Longrightarrow> mt_phase c i = Stopped \<Longrightarrow>
      call_step cs c (goto i (Ended (Returned (Inr ()))) c)"

section \<open>What every state keeps\<close>

definition caller_ok :: "'s callers \<Rightarrow> 's mt_state \<Rightarrow> nat \<Rightarrow> bool" where
  "caller_ok cs c i \<longleftrightarrow>
     (case mt_phase c i of
        Begin \<Rightarrow> mt_finished c i = None
      | Claimed \<Rightarrow> mt_finished c i = None \<and> cl_kind cs i = CloseCall
      | Announced \<Rightarrow> mt_finished c i = None \<and> cl_kind cs i \<noteq> ReadLock
      | Locked \<Rightarrow> mt_finished c i = None
      | Sending \<Rightarrow> mt_finished c i = None \<and> \<not> mt_closed c
      | Sent \<Rightarrow> \<not> mt_closed c \<and> (mt_finished c i = None \<longleftrightarrow> mt_thread c = Running i)
      | Ran r \<Rightarrow> \<not> mt_closed c \<and> mt_finished c i = Some r
      | Closing \<Rightarrow> cl_kind cs i = CloseCall \<and> mt_closed c \<and> \<not> mt_calls_closed c \<and> mt_finished c i \<noteq> None
      | Stopping \<Rightarrow> cl_kind cs i = CloseCall \<and> mt_calls_closed c \<and> mt_finished c i \<noteq> None
      | Stopped \<Rightarrow> cl_kind cs i = CloseCall \<and> mt_calls_closed c \<and> mt_finished c i \<noteq> None
      | Ended r \<Rightarrow>
          if cl_kind cs i = CloseCall then r = Returned (Inr ()) \<or> mt_finished c i = Some r
          else mt_finished c i = Some r \<or> r = adapter_closed \<and> mt_finished c i = None \<and> mt_closed c)"

definition wound_up :: "phase \<Rightarrow> bool" where
  "wound_up p \<longleftrightarrow> (case p of Closing \<Rightarrow> True | Stopping \<Rightarrow> True | Stopped \<Rightarrow> True | Ended _ \<Rightarrow> True | _ \<Rightarrow> False)"

definition acting :: "phase \<Rightarrow> bool" where
  "acting p \<longleftrightarrow> (case p of Begin \<Rightarrow> False | Ended _ \<Rightarrow> False | _ \<Rightarrow> True)"

definition once_ok :: "'s callers \<Rightarrow> 's mt_state \<Rightarrow> bool" where
  "once_ok cs c \<longleftrightarrow>
     (case mt_once c of
        None \<Rightarrow> \<not> mt_closed c \<and> (\<forall>i < cl_count cs. cl_kind cs i = CloseCall \<longrightarrow> mt_phase c i = Begin)
      | Some j \<Rightarrow> j < cl_count cs \<and> cl_kind cs j = CloseCall \<and> mt_phase c j \<noteq> Begin \<and>
          (mt_closed c \<longrightarrow> wound_up (mt_phase c j)) \<and>
          (\<forall>i < cl_count cs. cl_kind cs i = CloseCall \<and> i \<noteq> j \<longrightarrow> \<not> acting (mt_phase c i)))"

definition lock_ok :: "'s callers \<Rightarrow> 's mt_state \<Rightarrow> bool" where
  "lock_ok cs c \<longleftrightarrow> (\<forall>i j. writing cs c i \<longrightarrow> (writing cs c j \<longrightarrow> i = j) \<and> (mt_phase c i \<noteq> Announced \<longrightarrow> \<not> reading cs c j))"

definition thread_ok :: "'s callers \<Rightarrow> 's mt_state \<Rightarrow> bool" where
  "thread_ok cs c \<longleftrightarrow> (mt_calls_closed c \<longrightarrow> mt_closed c) \<and>
     (\<forall>i. mt_thread c = Running i \<longrightarrow> i < cl_count cs \<and> mt_phase c i = Sent \<and> mt_finished c i = None) \<and>
     (mt_thread c = Exited \<longrightarrow> mt_calls_closed c)"

lemma inside_simps [simp]:
  "\<not> inside Begin" "\<not> inside Claimed" "\<not> inside Announced" "inside Locked" "inside Sending" "inside Sent"
  "inside (Ran r)" "inside Closing" "inside Stopping" "inside Stopped" "\<not> inside (Ended r)"
  by (simp_all add: inside_def)

lemma wound_up_simps [simp]:
  "\<not> wound_up Begin" "\<not> wound_up Claimed" "\<not> wound_up Announced" "\<not> wound_up Locked" "\<not> wound_up Sending"
  "\<not> wound_up Sent" "\<not> wound_up (Ran r)" "wound_up Closing" "wound_up Stopping" "wound_up Stopped" "wound_up (Ended r)"
  by (simp_all add: wound_up_def)

lemma acting_simps [simp]:
  "\<not> acting Begin" "acting Claimed" "acting Announced" "acting Locked" "acting Sending" "acting Sent" "acting (Ran r)"
  "acting Closing" "acting Stopping" "acting Stopped" "\<not> acting (Ended r)"
  by (simp_all add: acting_def)

lemma goto_simps [simp]:
  "mt_phase (goto i p c) = (mt_phase c)(i := p)" "mt_thread (goto i p c) = mt_thread c"
  "mt_calls_closed (goto i p c) = mt_calls_closed c" "mt_finished (goto i p c) = mt_finished c"
  "mt_closed (goto i p c) = mt_closed c" "mt_once (goto i p c) = mt_once c" "mt_module (goto i p c) = mt_module c"
  "mt_order (goto i p c) = mt_order c"
  by (simp_all add: goto_def)


definition orderly :: "'s callers \<Rightarrow> 's mt_state \<Rightarrow> bool" where
  "orderly cs c \<longleftrightarrow> (\<forall>i < cl_count cs. caller_ok cs c i) \<and> once_ok cs c \<and> lock_ok cs c \<and> thread_ok cs c"

lemma lock_ok_mono:
  assumes "lock_ok cs c" and "\<And>j. reading cs c' j \<Longrightarrow> reading cs c j"
    and "\<And>j. writing cs c' j \<Longrightarrow> writing cs c j \<and> (mt_phase c' j \<noteq> Announced \<longrightarrow> mt_phase c j \<noteq> Announced)"
  shows "lock_ok cs c'"
  using assms unfolding lock_ok_def by blast

lemma lock_ok_thread_step: "thread_step cs c c' \<Longrightarrow> lock_ok cs c \<Longrightarrow> lock_ok cs c'"
  by (induction rule: thread_step.induct)
    (erule lock_ok_mono; simp add: reading_def writing_def split: if_splits)+

lemma lock_ok_step: "call_step cs c c' \<Longrightarrow> (\<And>i. i < cl_count cs \<Longrightarrow> caller_ok cs c i) \<Longrightarrow> lock_ok cs c \<Longrightarrow> lock_ok cs c'"
proof (induction rule: call_step.induct)
  case (rlock i c)
  have "\<not> writing cs (goto i Locked c) j" for j
    using rlock by (auto simp: writing_def split: if_splits)
  then show ?case by (simp add: lock_ok_def)
next
  case (announce i c)
  have "writing cs (goto i Announced c) j \<Longrightarrow> j = i" for j
    using announce(3) [of j] by (auto simp: writing_def split: if_splits)
  then show ?case unfolding lock_ok_def by (auto simp del: fun_upd_apply) (auto dest!: spec)
next
  case (lock i c)
  from lock(4) [OF lock(1)] lock(2) have "cl_kind cs i \<noteq> ReadLock" by (simp add: caller_ok_def)
  with lock have "\<not> reading cs (goto i Locked c) j" "writing cs (goto i Locked c) j = writing cs c j" for j
    by (auto simp: reading_def writing_def)
  with lock(5) show ?case by (simp add: lock_ok_def)
qed (rule lock_ok_thread_step, assumption+ | erule lock_ok_mono; simp add: reading_def writing_def split: if_splits)+


text \<open>What the thread does and who may close.\<close>

lemma caller_okD:
  "caller_ok cs c i \<Longrightarrow> mt_phase c i = Sending \<Longrightarrow> mt_finished c i = None \<and> \<not> mt_closed c"
  "caller_ok cs c i \<Longrightarrow> mt_phase c i = Sent \<Longrightarrow> \<not> mt_closed c \<and> (mt_finished c i = None \<longleftrightarrow> mt_thread c = Running i)"
  "caller_ok cs c i \<Longrightarrow> mt_phase c i = Ran r \<Longrightarrow> \<not> mt_closed c \<and> mt_finished c i = Some r"
  "caller_ok cs c i \<Longrightarrow> mt_phase c i = Closing \<Longrightarrow> mt_closed c \<and> \<not> mt_calls_closed c \<and> cl_kind cs i = CloseCall"
  "caller_ok cs c i \<Longrightarrow> mt_phase c i = Claimed \<Longrightarrow> cl_kind cs i = CloseCall"
  by (simp_all add: caller_ok_def)

lemma thread_ok_step:
  assumes "call_step cs c c'" "\<And>i. i < cl_count cs \<Longrightarrow> caller_ok cs c i" "thread_ok cs c"
  shows "thread_ok cs c'"
  using assms(1)
proof cases
  case on_thread
  then show ?thesis
    by cases (use assms(2,3) in \<open>auto simp: thread_ok_def dest: caller_okD\<close>)
qed (use assms(2,3) in \<open>auto simp: thread_ok_def dest: caller_okD\<close>)

lemma once_owner:
  "once_ok cs c \<Longrightarrow> i < cl_count cs \<Longrightarrow> cl_kind cs i = CloseCall \<Longrightarrow> acting (mt_phase c i) \<Longrightarrow>
     mt_once c = Some i \<and> (mt_closed c \<longrightarrow> wound_up (mt_phase c i))"
  by (cases "mt_once c") (auto simp: once_ok_def)

lemma once_ok_goto:
  assumes "once_ok cs c" "i < cl_count cs" "acting (mt_phase c i)" "p \<noteq> Begin" "wound_up (mt_phase c i) \<longrightarrow> wound_up p"
  shows "once_ok cs (goto i p c)"
  using assms by (cases "mt_once c") (auto simp: once_ok_def)

lemma once_ok_other:
  assumes "once_ok cs c" "i < cl_count cs" "cl_kind cs i \<noteq> CloseCall \<or> mt_phase c i = Begin \<and> mt_once c \<noteq> None \<and> \<not> acting p"
  shows "once_ok cs (goto i p c)"
  using assms by (cases "mt_once c") (auto simp: once_ok_def)

lemma once_ok_updates [simp]:
  "once_ok cs (c\<lparr>mt_thread := t\<rparr>) = once_ok cs c" "once_ok cs (c\<lparr>mt_calls_closed := b\<rparr>) = once_ok cs c"
  "once_ok cs (c\<lparr>mt_finished := f\<rparr>) = once_ok cs c" "once_ok cs (c\<lparr>mt_module := m\<rparr>) = once_ok cs c"
  "once_ok cs (c\<lparr>mt_order := h\<rparr>) = once_ok cs c"
  by (simp_all add: once_ok_def cong: option.case_cong)

lemma once_ok_step:
  assumes step: "call_step cs c c'" and "once_ok cs c"
  shows "once_ok cs c'"
  using step
proof cases
  case on_thread
  then show ?thesis by cases (use assms(2) in \<open>auto intro!: once_ok_goto\<close>)
next
  case (announce i)
  with assms(2) show ?thesis by (auto intro: once_ok_goto once_ok_other)
next
  case (once i)
  then show ?thesis using assms(2) by (auto simp: once_ok_def)
next
  case (finalized i r)
  with once_owner [OF assms(2), of i] assms(2) show ?thesis by (auto simp: once_ok_def)
qed (use assms(2) in \<open>auto intro: once_ok_goto once_ok_other\<close>)

text \<open>Nobody else is inside while the closer finalizes.\<close>

lemma closer_alone:
  assumes "lock_ok cs c" "i < cl_count cs" "cl_kind cs i = CloseCall" "inside (mt_phase c i)" "j < cl_count cs" "j \<noteq> i"
  shows "\<not> inside (mt_phase c j)"
proof -
  have "writing cs c i" "mt_phase c i \<noteq> Announced" using assms(2-4) by (auto simp: writing_def)
  with assms(1) have "\<not> writing cs c j" "\<not> reading cs c j" using assms(6) unfolding lock_ok_def by blast+
  with assms(5) show ?thesis by (auto simp: writing_def reading_def)
qed


lemma caller_ok_thread_step:
  assumes "thread_step cs c c'" "orderly cs c" "j < cl_count cs"
  shows "caller_ok cs c' j"
proof -
  from assms(2,3) have ok: "caller_ok cs c i" if "i < cl_count cs" for i using that by (simp add: orderly_def)
  have t: "thread_ok cs c" and l: "lock_ok cs c" and o: "once_ok cs c" using assms(2) by (simp_all add: orderly_def)
  show ?thesis
    using assms(1)
  proof cases
    case (handoff i)
    then show ?thesis using ok [OF assms(3)] ok [of i] by (auto simp: caller_ok_def split: phase.splits)
  next
    case (execute i r m)
    then show ?thesis using ok [OF assms(3)] t by (auto simp: caller_ok_def thread_ok_def split: phase.splits)
  next
    case (stop i)
    then show ?thesis
      using ok [OF assms(3)] ok [of i] closer_alone [OF l, of i j] assms(3) by (auto simp: caller_ok_def split: phase.splits)
  next
    case (stop_returns i)
    then show ?thesis using ok [OF assms(3)] by (auto simp: caller_ok_def split: phase.splits)
  next
    case (send_on_closed i)
    then show ?thesis using ok [of i] t by (auto simp: caller_ok_def thread_ok_def)
  next
    case (run_returns i r)
    then show ?thesis using ok [OF assms(3)] by (auto simp: caller_ok_def split: phase.splits)
  next
    case thread_exits
    then show ?thesis using ok [OF assms(3)] by (auto simp: caller_ok_def split: phase.splits)
  qed
qed


lemma caller_ok_step:
  assumes "call_step cs c c'" "orderly cs c" "j < cl_count cs"
  shows "caller_ok cs c' j"
proof -
  from assms(2,3) have ok: "caller_ok cs c i" if "i < cl_count cs" for i using that by (simp add: orderly_def)
  have l: "lock_ok cs c" and o: "once_ok cs c" and t: "mt_calls_closed c \<longrightarrow> mt_closed c"
    using assms(2) by (simp_all add: orderly_def thread_ok_def)
  show ?thesis
    using assms(1)
  proof cases
    case on_thread
    then show ?thesis using assms(2,3) by (rule caller_ok_thread_step)
  next
    case (send i)
    then have "\<not> mt_closed c" using once_owner [OF o, of i] by auto
    with send show ?thesis using ok [OF assms(3)] by (auto simp: caller_ok_def split: phase.splits)
  next
    case (finalized i r)
    then have "\<not> inside (mt_phase c j)" if "j \<noteq> i" using closer_alone [OF l, of i j] assms(3) that by simp
    with finalized t show ?thesis using ok [OF assms(3)] ok [of i]
      by (auto simp: caller_ok_def inside_def split: phase.splits)
  qed (use ok [OF assms(3)] in \<open>auto simp: caller_ok_def split: phase.splits\<close>)
qed

lemma orderly_step: "call_step cs c c' \<Longrightarrow> orderly cs c \<Longrightarrow> orderly cs c'"
  using caller_ok_step [of cs c c'] once_ok_step [of cs c c'] lock_ok_step [of cs c c'] thread_ok_step [of cs c c']
  by (simp add: orderly_def)

lemma orderly_start: "orderly cs (newModuleThread m)"
  by (simp add: orderly_def newModuleThread_def caller_ok_def once_ok_def lock_ok_def thread_ok_def writing_def reading_def)

lemma orderly_steps: "(call_step cs)\<^sup>*\<^sup>* (newModuleThread m) c \<Longrightarrow> orderly cs c"
  by (induction rule: rtranclp_induct) (auto intro: orderly_start orderly_step)

section \<open>No state is stuck\<close>

lemma call_stepI: "call_step cs c c' \<Longrightarrow> \<exists>c'. call_step cs c c'" by blast

lemma thread_stepI: "thread_step cs c c' \<Longrightarrow> \<exists>c'. call_step cs c c'" by (blast intro: on_thread)

text \<open>A caller that holds the lock can go on, or the thread can go on for it.\<close>

lemma thread_moves:
  assumes "mt_thread c = Running j"
  shows "\<exists>c'. call_step cs c c'"
  using execute [of c j cs] assms by (metis on_thread surj_pair)

lemma inside_moves:
  assumes "orderly cs c" "i < cl_count cs" "inside (mt_phase c i)"
  shows "\<exists>c'. call_step cs c c'"
proof -
  have ok: "caller_ok cs c i" and t: "thread_ok cs c" using assms(1,2) by (simp_all add: orderly_def)
  have exits: "\<exists>c'. call_step cs c c'" if "mt_calls_closed c" "mt_thread c \<noteq> Exited"
    using that thread_moves thread_exits [THEN on_thread] by (cases "mt_thread c") blast+
  show ?thesis
  proof (cases "mt_phase c i")
    case Locked
    then show ?thesis using assms(2) by (blast intro: refuse send)
  next
    case Sending
    then show ?thesis
    proof (cases "mt_thread c")
      case Receiving
      with Sending assms(2) show ?thesis using handoff [THEN on_thread] send_on_closed [THEN on_thread] by blast
    next
      case Exited
      with Sending assms(2) t show ?thesis using send_on_closed [THEN on_thread] by (auto simp: thread_ok_def)
    qed (rule thread_moves)
  next
    case Sent
    then show ?thesis
    proof (cases "mt_finished c i")
      case None
      with Sent ok show ?thesis by (intro thread_moves [of c i]) (simp add: caller_ok_def)
    next
      case (Some r)
      with Sent assms(2) show ?thesis using run_returns [THEN on_thread] by blast
    qed
  next
    case (Ran r)
    then show ?thesis using assms(2) unlock close_panics finalized by (cases "cl_kind cs i = CloseCall"; cases r) blast+
  next
    case Closing
    then show ?thesis using assms(2) stop [THEN on_thread] by blast
  next
    case Stopping
    then show ?thesis
      using assms(2) stop_returns [THEN on_thread] exits ok by (cases "mt_thread c = Exited") (auto simp: caller_ok_def)
  next
    case Stopped
    then show ?thesis using assms(2) closed by blast
  qed (use assms(3) in simp_all)
qed

lemma waiting_moves:
  assumes "orderly cs c" "i < cl_count cs" "\<forall>r. mt_phase c i \<noteq> Ended r" "\<And>j. j < cl_count cs \<Longrightarrow> \<not> inside (mt_phase c j)"
  shows "\<exists>c'. call_step cs c c'"
proof -
  have none: "\<not> reading cs c j" for j using assms(4) by (auto simp: reading_def)
  show ?thesis
  proof (cases "\<exists>j. writing cs c j")
    case True
    then obtain j where "j < cl_count cs" "mt_phase c j = Announced" using assms(4) by (auto simp: writing_def)
    with none show ?thesis using lock by blast
  next
    case False
    then have free: "\<And>j. \<not> writing cs c j" by blast
    have ok: "caller_ok cs c i" and o: "once_ok cs c" using assms(1,2) by (simp_all add: orderly_def)
    consider "mt_phase c i = Begin" | "mt_phase c i = Claimed" | "mt_phase c i = Announced"
      using assms(3) assms(4) [OF assms(2)] by (cases "mt_phase c i") auto
    then show ?thesis
    proof cases
      case 1
      show ?thesis
      proof (cases "cl_kind cs i")
        case ReadLock
        with 1 free assms(2) show ?thesis using rlock by blast
      next
        case StateLock
        with 1 free assms(2) show ?thesis using announce by blast
      next
        case CloseCall
        show ?thesis
        proof (cases "mt_once c")
          case None
          with 1 CloseCall assms(2) show ?thesis using once by blast
        next
          case (Some j)
          then have j: "j < cl_count cs" "cl_kind cs j = CloseCall" "mt_phase c j \<noteq> Begin" using o by (auto simp: once_ok_def)
          then consider r where "mt_phase c j = Ended r" | "mt_phase c j = Claimed" | "mt_phase c j = Announced"
            using assms(4) [OF j(1)] by (cases "mt_phase c j") auto
          then show ?thesis
          proof cases
            case (1 r)
            with \<open>mt_phase c i = Begin\<close> CloseCall assms(2) Some show ?thesis using close_again by blast
          next
            case 2
            with j free show ?thesis using announce by blast
          next
            case 3
            with j none show ?thesis using lock by blast
          qed
        qed
      qed
    next
      case 2
      with free assms(2) show ?thesis using announce by blast
    next
      case 3
      with none assms(2) show ?thesis using lock by blast
    qed
  qed
qed

lemma no_deadlock:
  assumes "orderly cs c" "i < cl_count cs" "\<forall>r. mt_phase c i \<noteq> Ended r"
  shows "\<exists>c'. call_step cs c c'"
  using assms inside_moves waiting_moves by blast


text \<open>Every step brings the end nearer.\<close>

definition rank :: "phase \<Rightarrow> nat" where
  "rank p = (case p of Begin \<Rightarrow> 11 | Claimed \<Rightarrow> 10 | Announced \<Rightarrow> 9 | Locked \<Rightarrow> 8 | Sending \<Rightarrow> 7 | Sent \<Rightarrow> 6 | Ran _ \<Rightarrow> 5
     | Closing \<Rightarrow> 4 | Stopping \<Rightarrow> 3 | Stopped \<Rightarrow> 2 | Ended _ \<Rightarrow> 0)"

definition remaining :: "'s callers \<Rightarrow> 's mt_state \<Rightarrow> nat" where
  "remaining cs c = (\<Sum>i<cl_count cs. rank (mt_phase c i)) + (\<Sum>i<cl_count cs. if mt_finished c i = None then 1 else 0) +
     (if mt_thread c = Exited then 0 else 1)"

lemma sum_fun_upd:
  fixes f :: "'b \<Rightarrow> nat" assumes "i < (n::nat)"
  shows "(\<Sum>j<n. f ((g(i := x)) j)) + f (g i) = (\<Sum>j<n. f (g j)) + f x"
  using assms by (simp add: sum.remove [of _ i] sum.cong [of "{..<n} - {i}" _ "\<lambda>j. f ((g(i := x)) j)" "\<lambda>j. f (g j)"])

lemma rank_goto:
  assumes "i < cl_count cs"
  shows "(\<Sum>j<cl_count cs. rank (mt_phase (goto i p c) j)) + rank (mt_phase c i) = (\<Sum>j<cl_count cs. rank (mt_phase c j)) + rank p"
  using sum_fun_upd [OF assms, of rank "mt_phase c" p] by simp

lemma remaining_goto:
  assumes "i < cl_count cs" "rank p < rank (mt_phase c i)" "mt_phase c' = mt_phase c" "mt_finished c' = mt_finished c"
    "mt_thread c' = Exited \<longleftrightarrow> mt_thread c = Exited"
  shows "remaining cs (goto i p c') < remaining cs c"
proof -
  have "(\<Sum>j<cl_count cs. rank (((mt_phase c)(i := p)) j)) < (\<Sum>j<cl_count cs. rank (mt_phase c j))"
    using sum_fun_upd [OF assms(1), of rank "mt_phase c" p] assms(2) by simp
  then show ?thesis by (simp only: remaining_def goto_simps assms)
qed

lemma remaining_step:
  assumes "call_step cs c c'" "orderly cs c"
  shows "remaining cs c' < remaining cs c"
  using assms(1)
proof cases
  case on_thread
  then show ?thesis
  proof cases
    case (execute i r m)
    then have "i < cl_count cs" "mt_finished c i = None" using assms(2) by (simp_all add: orderly_def thread_ok_def)
    then have "(\<Sum>j<cl_count cs. if ((mt_finished c)(i \<mapsto> r)) j = None then 1 else 0) <
        (\<Sum>j<cl_count cs. if mt_finished c j = None then 1 else (0::nat))"
      using sum_fun_upd [of i "cl_count cs" "\<lambda>q. if q = None then 1 else 0" "mt_finished c" "Some r"] by simp
    then show ?thesis using execute by (simp add: remaining_def del: fun_upd_apply)
  next
    case thread_exits
    then show ?thesis by (simp add: remaining_def)
  qed (simp_all, (rule remaining_goto; simp add: rank_def)+)
next
  case (announce i)
  then show ?thesis by (auto intro!: remaining_goto simp: rank_def)
qed (simp_all, (rule remaining_goto; simp add: rank_def)+)

text \<open>A function's result is its own, in the order of execution.\<close>

definition run_order :: "'s callers \<Rightarrow> nat list \<Rightarrow> 's \<Rightarrow> 's" where
  "run_order cs is m = foldl (\<lambda>m i. snd (cl_fn cs i m)) m is"

definition result_of :: "'s callers \<Rightarrow> nat list \<Rightarrow> 's \<Rightarrow> nat \<Rightarrow> fn_end" where
  "result_of cs is m i = fst (cl_fn cs i (run_order cs (takeWhile (\<lambda>j. j \<noteq> i) is) m))"

definition ran_ok :: "'s callers \<Rightarrow> 's \<Rightarrow> 's mt_state \<Rightarrow> bool" where
  "ran_ok cs m c \<longleftrightarrow> mt_module c = run_order cs (mt_order c) m \<and> distinct (mt_order c) \<and>
     (\<forall>i. mt_finished c i = (if i \<in> set (mt_order c) then Some (result_of cs (mt_order c) m i) else None))"

lemma result_of_snoc:
  "i \<in> set is \<Longrightarrow> result_of cs (is @ js) m i = result_of cs is m i"
  "i \<notin> set is \<Longrightarrow> result_of cs (is @ [i]) m i = fst (cl_fn cs i (run_order cs is m))"
proof -
  assume "i \<notin> set is"
  then have "takeWhile (\<lambda>j. j \<noteq> i) (is @ [i]) = is @ takeWhile (\<lambda>j. j \<noteq> i) [i]" by (intro takeWhile_append2) auto
  then show "result_of cs (is @ [i]) m i = fst (cl_fn cs i (run_order cs is m))" by (simp add: result_of_def)
qed (simp add: result_of_def takeWhile_append1)

lemma ran_ok_step:
  assumes "call_step cs c c'" "orderly cs c" "ran_ok cs m c"
  shows "ran_ok cs m c'"
  using assms(1)
proof cases
  case on_thread
  then show ?thesis
  proof cases
    case (execute i r m')
    then have "i \<notin> set (mt_order c)" using assms(2,3) by (auto simp: orderly_def thread_ok_def ran_ok_def split: if_splits)
    with execute assms(3) show ?thesis by (auto simp: ran_ok_def run_order_def result_of_snoc)
  qed (use assms(3) in \<open>auto simp: ran_ok_def\<close>)
qed (use assms(3) in \<open>auto simp: ran_ok_def\<close>)


definition stop_ok :: "'s callers \<Rightarrow> 's mt_state \<Rightarrow> bool" where
  "stop_ok cs c \<longleftrightarrow> (mt_closed c \<longrightarrow> mt_calls_closed c \<or> (\<exists>i < cl_count cs. mt_phase c i = Closing))"

lemma stop_ok_mono:
  assumes "stop_ok cs c" "mt_closed c' \<longrightarrow> mt_closed c" "mt_calls_closed c \<longrightarrow> mt_calls_closed c'"
    "\<And>j. mt_phase c j = Closing \<Longrightarrow> mt_calls_closed c' \<or> mt_phase c' j = Closing"
  shows "stop_ok cs c'"
  using assms unfolding stop_ok_def by blast

lemma stop_ok_step: "call_step cs c c' \<Longrightarrow> stop_ok cs c \<Longrightarrow> stop_ok cs c'"
proof (induction rule: call_step.induct)
  case (on_thread c c')
  then show ?case by (induction rule: thread_step.induct) (erule stop_ok_mono; auto)+
next
  case (finalized i c r)
  then show ?case by (auto simp: stop_ok_def)
qed (erule stop_ok_mono; auto)+

lemma started_state:
  assumes "(call_step cs ^^ k) (newModuleThread m) c"
  shows "orderly cs c \<and> ran_ok cs m c \<and> stop_ok cs c \<and> remaining cs c + k \<le> 12 * cl_count cs + 1"
  using assms
proof (induction k arbitrary: c)
  case 0
  then have "c = newModuleThread m" by simp
  then show ?case
    using orderly_start [of cs m]
    by (simp add: ran_ok_def run_order_def stop_ok_def newModuleThread_def remaining_def rank_def)
next
  case (Suc k)
  then obtain b where b: "(call_step cs ^^ k) (newModuleThread m) b" "call_step cs b c" by auto
  from Suc.IH [OF b(1)] b(2) orderly_step [OF b(2)] ran_ok_step [OF b(2)] stop_ok_step [OF b(2)] remaining_step [OF b(2)]
  show ?case by auto
qed



text \<open>One reader, from the lock to its result.\<close>

definition one_reader :: "nat callers" where
  "one_reader = \<lparr>cl_count = 1, cl_kind = (\<lambda>_. ReadLock), cl_fn = (\<lambda>_ m. (Returned (Inr ()), Suc m))\<rparr>"

definition reader_done :: "nat mt_state" where
  "reader_done = (newModuleThread 4)\<lparr>mt_phase := (\<lambda>_. Begin)(0 := Ended (Returned (Inr ()))), mt_module := 5,
     mt_finished := [0 \<mapsto> Returned (Inr ())], mt_order := [0]\<rparr>"

lemma six_steps:
  assumes "r s0 s1" "r s1 s2" "r s2 s3" "r s3 s4" "r s4 s5" "r s5 s6"
  shows "(r ^^ 6) s0 s6"
proof -
  have six: "(6::nat) = Suc (Suc (Suc (Suc (Suc (Suc 0)))))" by simp
  show ?thesis unfolding six relpowp.simps using assms by (intro relcomppI) (assumption | simp)+
qed

lemma no_writer_yet: "\<not> writing one_reader (newModuleThread 4) j"
  by (simp add: writing_def one_reader_def)

lemma reader_runs: "(call_step one_reader ^^ 6) (newModuleThread 4) reader_done"
proof -
  let ?s0 = "newModuleThread 4 :: nat mt_state"
  let ?s1 = "goto 0 Locked ?s0" let ?s2 = "goto 0 Sending ?s1"
  let ?s3 = "goto 0 Sent (?s2\<lparr>mt_thread := Running 0\<rparr>)"
  let ?s4 = "?s3\<lparr>mt_thread := Receiving, mt_finished := (mt_finished ?s3)(0 \<mapsto> Returned (Inr ())), mt_module := 5,
    mt_order := mt_order ?s3 @ [0]\<rparr>"
  let ?s5 = "goto 0 (Ran (Returned (Inr ()))) ?s4"
  have 1: "call_step one_reader ?s0 ?s1" by (rule rlock [OF _ _ _ no_writer_yet]) (simp_all add: one_reader_def newModuleThread_def)
  have 2: "call_step one_reader ?s1 ?s2" by (rule send) (simp_all add: one_reader_def newModuleThread_def)
  have 3: "call_step one_reader ?s2 ?s3"
    by (rule handoff [THEN on_thread]) (simp_all add: one_reader_def newModuleThread_def)
  have 4: "call_step one_reader ?s3 ?s4"
    by (rule execute [THEN on_thread]) (simp_all add: one_reader_def newModuleThread_def)
  have 5: "call_step one_reader ?s4 ?s5" by (rule run_returns [THEN on_thread]) (simp_all add: one_reader_def)
  have 6: "call_step one_reader ?s5 (goto 0 (Ended (Returned (Inr ()))) ?s5)"
    by (rule unlock) (simp_all add: one_reader_def)
  have end_state: "goto 0 (Ended (Returned (Inr ()))) ?s5 = reader_done"
    by (simp add: reader_done_def goto_def newModuleThread_def)
  from six_steps [of "call_step one_reader", OF 1 2 3 4 5 6] show ?thesis by (simp only: end_state)
qed

lemma reader_done_final: "\<not> call_step one_reader reader_done c"
proof
  assume "call_step one_reader reader_done c"
  then show False
    by cases (auto simp: one_reader_def reader_done_def newModuleThread_def elim: thread_step.cases)
qed


text \<open>
  The channel holds nothing, so a call that waits to be taken when \<^verbatim>\<open>stop\<close> closes it is not
  run first, as the comment on \<^verbatim>\<open>stop\<close> says of queued calls: it panics in its caller. Only
  the adapter's exclusive lock keeps \<^verbatim>\<open>Close\<close> from meeting one.
\<close>

lemma queued_call_panics:
  assumes "i < cl_count cs" "j < cl_count cs" "i \<noteq> j" "mt_phase c i = Sending" "mt_phase c j = Closing"
    "mt_thread c = Receiving" "i \<notin> set (mt_order c)"
  shows "\<exists>c'. (thread_step cs)\<^sup>*\<^sup>* c c' \<and> mt_phase c' j = Stopped \<and>
    mt_phase c' i = Ran (Panicked ''send on closed channel'') \<and> i \<notin> set (mt_order c')"
proof -
  let ?c1 = "goto j Stopping (c\<lparr>mt_calls_closed := True\<rparr>)"
  let ?c2 = "goto i (Ran (Panicked ''send on closed channel'')) ?c1"
  let ?c3 = "?c2\<lparr>mt_thread := Exited\<rparr>"
  have 1: "thread_step cs c ?c1" using assms by (intro stop) simp_all
  have 2: "thread_step cs ?c1 ?c2" using assms by (intro send_on_closed) simp_all
  have 3: "thread_step cs ?c2 ?c3" using assms by (intro thread_exits) simp_all
  have 4: "thread_step cs ?c3 (goto j Stopped ?c3)" using assms by (intro stop_returns) simp_all
  have "(thread_step cs)\<^sup>*\<^sup>* c (goto j Stopped ?c3)"
    by (rule converse_rtranclp_into_rtranclp [of "thread_step cs", OF 1 converse_rtranclp_into_rtranclp
          [of "thread_step cs", OF 2 converse_rtranclp_into_rtranclp [of "thread_step cs", OF 3 r_into_rtranclp [of "thread_step cs", OF 4]]]])
  then show ?thesis using assms by (intro exI [of _ "goto j Stopped ?c3"]) simp
qed

end
