(* ===== verification/Middleware.thy ===== *)
theory Middleware
  imports Decimal X509 "HOL-Library.Word"
begin

text \<open>
  \<^verbatim>\<open>internal/api/middleware.go\<close>: the wrapper that gives every request an identifier and logs
  its status. A handler is the calls it makes on its \<^verbatim>\<open>http.ResponseWriter\<close>; the writer of
  \<^verbatim>\<open>net/http\<close> is modelled with the two rules the wrapper meets: the first final status counts,
  and a status below 200 (other than 101) is sent at once and is not final. Its refusals (a
  status out of range, a body where none is allowed) are left out.
\<close>

section \<open>Request identifiers\<close>

definition hex_char :: "nat \<Rightarrow> char" where
  "hex_char d = (if d < 10 then char_of (48 + d) else char_of (87 + d))"

definition EncodeToString :: "bytes \<Rightarrow> string" where
  "EncodeToString b = concat (map (\<lambda>c. let n = of_char c in [hex_char (n div 16), hex_char (n mod 16)]) b)"

definition hex016 :: "64 word \<Rightarrow> string" where
  "hex016 w = map (\<lambda>i. hex_char (unat w div 16 ^ i mod 16)) (rev [0..<16])"

text \<open>The random source answers, or the counter is advanced; it wraps at 64 bits.\<close>

definition newRequestID :: "bytes res \<Rightarrow> 64 word \<Rightarrow> string \<times> 64 word" where
  "newRequestID rand counter =
     (case rand of
        Inr b \<Rightarrow> (EncodeToString b, counter)
      | Inl _ \<Rightarrow> (''seq-'' @ hex016 (counter + 1), counter + 1))"

section \<open>The status recorder\<close>

datatype write_call = HeaderCall int | BodyCall bytes

record response =
  re_wroteHeader :: bool
  re_status :: int
  re_informational :: "int list"
  re_body :: bytes

definition fresh_response :: response where
  "fresh_response = \<lparr>re_wroteHeader = False, re_status = 0, re_informational = [], re_body = []\<rparr>"

definition informational :: "int \<Rightarrow> bool" where
  "informational code \<longleftrightarrow> 100 \<le> code \<and> code \<le> 199 \<and> code \<noteq> 101"

definition http_WriteHeader :: "int \<Rightarrow> response \<Rightarrow> response" where
  "http_WriteHeader code w =
     (if re_wroteHeader w then w
      else if informational code then w\<lparr>re_informational := re_informational w @ [code]\<rparr>
      else w\<lparr>re_wroteHeader := True, re_status := code\<rparr>)"

definition http_Write :: "bytes \<Rightarrow> response \<Rightarrow> response" where
  "http_Write b w = (let w1 = http_WriteHeader 200 w in w1\<lparr>re_body := re_body w1 @ b\<rparr>)"

record status_recorder =
  rc_status :: int
  rc_wroteHeader :: bool

definition recorder_WriteHeader :: "int \<Rightarrow> status_recorder \<times> response \<Rightarrow> status_recorder \<times> response" where
  "recorder_WriteHeader code = (\<lambda>(r, w).
     if rc_wroteHeader r then (r, w)
     else (r\<lparr>rc_wroteHeader := True, rc_status := code\<rparr>, http_WriteHeader code w))"

definition recorder_Write :: "bytes \<Rightarrow> status_recorder \<times> response \<Rightarrow> status_recorder \<times> response" where
  "recorder_Write b = (\<lambda>(r, w). (r\<lparr>rc_wroteHeader := True\<rparr>, http_Write b w))"

fun http_call :: "write_call \<Rightarrow> response \<Rightarrow> response" where
  "http_call (HeaderCall code) = http_WriteHeader code"
| "http_call (BodyCall b) = http_Write b"

fun recorder_call :: "write_call \<Rightarrow> status_recorder \<times> response \<Rightarrow> status_recorder \<times> response" where
  "recorder_call (HeaderCall code) = recorder_WriteHeader code"
| "recorder_call (BodyCall b) = recorder_Write b"

text \<open>The server writes 200 when a handler returned without a status.\<close>

definition finish_request :: "response \<Rightarrow> response" where
  "finish_request = http_WriteHeader 200"

record log_entry =
  le_request_id :: string
  le_method :: string
  le_path :: string
  le_status :: int

text \<open>The answer the client gets, the line that is logged, and the counter afterwards.\<close>

definition withRequestLogging ::
    "write_call list \<Rightarrow> bytes res \<Rightarrow> string \<Rightarrow> string \<Rightarrow> 64 word \<Rightarrow> response \<times> log_entry \<times> 64 word" where
  "withRequestLogging next rand method path counter =
     (let (i, counter') = newRequestID rand counter;
          (rec, w) = fold recorder_call next (\<lparr>rc_status = 200, rc_wroteHeader = False\<rparr>, fresh_response)
      in (finish_request w, \<lparr>le_request_id = i, le_method = method, le_path = path, le_status = rc_status rec\<rparr>, counter'))"

definition withoutLogging :: "write_call list \<Rightarrow> response" where
  "withoutLogging next = finish_request (fold http_call next fresh_response)"

section \<open>What the wrapper changes\<close>

text \<open>While no informational status is written, recorder and response agree on the status.\<close>

definition in_step :: "status_recorder \<Rightarrow> response \<Rightarrow> bool" where
  "in_step r w \<longleftrightarrow> rc_wroteHeader r = re_wroteHeader w \<and> rc_status r = (if re_wroteHeader w then re_status w else 200)"

fun final_call :: "write_call \<Rightarrow> bool" where
  "final_call (HeaderCall code) \<longleftrightarrow> \<not> informational code"
| "final_call (BodyCall b) \<longleftrightarrow> True"

lemma recorder_call_in_step:
  "final_call x \<Longrightarrow> in_step r w \<Longrightarrow> recorder_call x (r, w) = (r', w') \<Longrightarrow> w' = http_call x w \<and> in_step r' w'"
  by (cases x) (auto simp: recorder_WriteHeader_def recorder_Write_def http_WriteHeader_def http_Write_def in_step_def
      informational_def Let_def)

lemma recorder_calls_in_step:
  "list_all final_call xs \<Longrightarrow> in_step r w \<Longrightarrow> fold recorder_call xs (r, w) = (r', w') \<Longrightarrow>
     w' = fold http_call xs w \<and> in_step r' w'"
proof (induction xs arbitrary: r w)
  case (Cons x xs)
  obtain r1 w1 where x: "recorder_call x (r, w) = (r1, w1)" by fastforce
  with recorder_call_in_step [OF _ Cons.prems(2) x] Cons.prems Cons.IH [of r1 w1] show ?case by auto
qed simp

text \<open>
  A handler that writes no informational status is answered as it would be without the
  wrapper, and the status in the log is the one the client got.
\<close>

lemma logged_status_is_sent:
  assumes "list_all final_call next" "withRequestLogging next rand method path counter = (w, entry, counter')"
  shows "w = withoutLogging next \<and> le_status entry = re_status w"
proof -
  obtain r w1 where run: "fold recorder_call next (\<lparr>rc_status = 200, rc_wroteHeader = False\<rparr>, fresh_response) = (r, w1)"
    by fastforce
  have "in_step \<lparr>rc_status = 200, rc_wroteHeader = False\<rparr> fresh_response" by (simp add: in_step_def fresh_response_def)
  from recorder_calls_in_step [OF assms(1) this run] assms(2) run show ?thesis
    by (auto simp: withRequestLogging_def withoutLogging_def finish_request_def http_WriteHeader_def in_step_def
        informational_def split: prod.splits)
qed

text \<open>
  The comment on \<^verbatim>\<open>WriteHeader\<close> says it ignores later statuses as \<^verbatim>\<open>net/http\<close> does, but there
  an informational status does not count as the first: behind the wrapper, a refusal written
  after one never reaches the client, who is answered 200.
\<close>

lemma informational_hides_status:
  assumes "informational code" "\<not> informational refusal"
  shows "re_status (withoutLogging [HeaderCall code, HeaderCall refusal, BodyCall b]) = refusal"
    and "re_status (fst (withRequestLogging [HeaderCall code, HeaderCall refusal, BodyCall b] rand method path counter)) = 200"
  using assms
  by (simp_all add: withoutLogging_def withRequestLogging_def finish_request_def recorder_WriteHeader_def
      recorder_Write_def http_WriteHeader_def http_Write_def fresh_response_def informational_def Let_def split: prod.split)

section \<open>Identifiers without a random source\<close>

lemma hex_char_inject: "a < 16 \<Longrightarrow> b < 16 \<Longrightarrow> hex_char a = hex_char b \<Longrightarrow> a = b"
  by (simp add: hex_char_def split: if_splits)

lemma digits_inject:
  "(m::nat) < 16 ^ k \<Longrightarrow> n < 16 ^ k \<Longrightarrow> (\<And>i. i < k \<Longrightarrow> m div 16 ^ i mod 16 = n div 16 ^ i mod 16) \<Longrightarrow> m = n"
proof (induction k arbitrary: m n)
  case (Suc k)
  have "m div 16 = n div 16"
  proof (rule Suc.IH)
    show "m div 16 div 16 ^ i mod 16 = n div 16 div 16 ^ i mod 16" if "i < k" for i
      using Suc.prems(3) [of "Suc i"] that by (simp add: div_mult2_eq)
  qed (use Suc.prems in \<open>auto simp: less_mult_imp_div_less mult.commute\<close>)
  moreover have "m mod 16 = n mod 16" using Suc.prems(3) [of 0] by simp
  ultimately show ?case by (metis div_mod_decomp)
qed simp

lemma hex016_inject: "hex016 a = hex016 b \<Longrightarrow> a = b"
proof -
  assume eq: "hex016 a = hex016 b"
  have "unat a div 16 ^ i mod 16 = unat b div 16 ^ i mod 16" if "i < 16" for i
    using eq that by (intro hex_char_inject) (auto simp: hex016_def)
  moreover have "unat a < 16 ^ 16" "unat b < 16 ^ 16" using unsigned_less [of a, where ?'a = nat] unsigned_less [of b, where ?'a = nat] by simp_all
  ultimately have "unat a = unat b" using digits_inject [of "unat a" 16 "unat b"] by blast
  then show "a = b" by (rule unsigned_word_eqI)
qed

lemma fallback_ids_distinct:
  assumes "fst (newRequestID (Inl e) a) = fst (newRequestID (Inl e') b)"
  shows "a = b"
  using assms hex016_inject [of "a + 1" "b + 1"] by (simp add: newRequestID_def)

lemma fallback_id_is_not_random:
  assumes "fst (newRequestID (Inr r) a) = fst (newRequestID (Inl e) b)"
  shows False
proof -
  have "hex_char d \<noteq> CHR ''s''" if "d < 16" for d using that by (auto simp: hex_char_def dest!: arg_cong [of _ _ "of_char :: char \<Rightarrow> nat"])
  moreover have "of_char c div (16::nat) < 16" for c :: char using nat_of_char_less_256 [of c] by linarith
  ultimately show False using assms by (cases r) (auto simp: newRequestID_def EncodeToString_def Let_def)
qed

end
