(* ===== verification/Hsmtest.thy ===== *)
theory Hsmtest
  imports CI_Tools
begin

text \<open>
  \<^verbatim>\<open>internal/hsmtest\<close>: the backends every token-touching test runs against. A helper ends a
  test by skipping it or by failing it (\<^verbatim>\<open>t.Skip\<close>, \<^verbatim>\<open>t.Fatal\<close>); both are errors here, told
  apart by \<open>Skipped\<close>. The environment is a function, what the harness calls outside
  (files, \<^verbatim>\<open>softhsm2-util\<close>, the modules) a parameter.
\<close>

section \<open>Tests and their environment\<close>

abbreviation Skipped :: go_error where
  "Skipped \<equiv> Errorf ''skip''"

definition t_Fatal :: "string \<Rightarrow> ('s, 'a) eff" where
  "t_Fatal msg = throwE (Wrap ''fatal'' (Errorf msg))"

definition must :: "('s, 'a) eff \<Rightarrow> ('s, 'a) eff" where
  "must f = wrapE ''fatal'' f"

record 's test_env =
  te_Getenv :: "string \<Rightarrow> string"
  te_exists :: "string \<Rightarrow> bool"
  te_Join :: "string \<Rightarrow> string \<Rightarrow> string"
  te_TempDir :: "('s, string) eff"
  te_MkdirAll :: "string \<Rightarrow> ('s, unit) eff"
  te_WriteFile :: "string \<Rightarrow> bytes \<Rightarrow> ('s, unit) eff"
  te_Setenv :: "string \<Rightarrow> string \<Rightarrow> ('s, unit) eff"
  te_InitToken :: "string \<Rightarrow> string \<Rightarrow> ('s, unit) eff"
  te_NewAdapter :: "string \<Rightarrow> string \<Rightarrow> ('s, 's vendor_adapter) eff"
  te_bytes :: "string \<Rightarrow> ('s, buffer) eff"
  te_UnixNano :: "'s \<Rightarrow> int \<times> 's"

record 's backend =
  b_Name :: string
  b_Adapter :: "'s vendor_adapter"
  b_Primary :: workspace
  b_Secondary :: workspace
  b_PrimaryPIN :: string
  b_SecondaryPIN :: string
  b_Role :: login_role
  b_ModulePath :: string
  b_AdapterName :: string
  b_RunID :: string

section \<open>Cleaning up\<close>

definition labelPrefix :: "'s backend \<Rightarrow> string" where
  "labelPrefix b = ''t-'' @ b_RunID b @ ''-''"

definition Label :: "'s backend \<Rightarrow> string \<Rightarrow> string" where
  "Label b suffix = ''t-'' @ b_RunID b @ ''-'' @ suffix"

definition destroy_prefixed :: "'s vendor_adapter \<Rightarrow> session_ref \<Rightarrow> string \<Rightarrow> object_handle \<Rightarrow> ('s, unit) eff" where
  "destroy_prefixed ad s prefix h =
     tryE (va_GetAttributes ad s h [AttrLabel]) (\<lambda>r. case r of
         Inr (a # _) \<Rightarrow> if HasPrefix (attr_Value a) prefix then wrapE ''destroy'' (va_DestroyObject ad s h) else returnE ()
       | _ \<Rightarrow> returnE ())"

definition destroyRunObjects :: "'s test_env \<Rightarrow> 's backend \<Rightarrow> 's vendor_adapter \<Rightarrow> workspace \<Rightarrow> ('s, unit) eff" where
  "destroyRunObjects te b ad ws =
     tryE (va_LogoutToken ad) (\<lambda>_.
     bindE (te_bytes te (if ws_Serial ws = ws_Serial (b_Secondary b) then b_SecondaryPIN b else b_PrimaryPIN b)) (\<lambda>pin.
     tryE (va_LoginToken ad ws pin (role_Role (b_Role b))) (\<lambda>r. case r of
         Inl err \<Rightarrow> throwE (Wrap ''login'' (role_Explain (b_Role b) err))
       | Inr _ \<Rightarrow>
         finallyE (va_LogoutToken ad)
           (bindE (wrapE ''open session'' (va_OpenSession ad ws \<lparr>so_IdleTimeout = 0, so_MaxTTL = 0\<rparr>)) (\<lambda>s.
            finallyE (va_CloseSession ad s)
              (bindE (wrapE ''find objects'' (va_FindObjects ad s [])) (\<lambda>objs.
               forE (destroy_prefixed ad s (labelPrefix b)) objs)))))))"

definition destroyAllRunObjects :: "'s test_env \<Rightarrow> 's backend \<Rightarrow> 's vendor_adapter \<Rightarrow> ('s, unit) eff" where
  "destroyAllRunObjects te b ad =
     forE (\<lambda>ws. wrapE ''token'' (destroyRunObjects te b ad ws)) [b_Primary b, b_Secondary b]"

text \<open>\<open>released\<close> is the backend's flag; the answer is its new value.\<close>

definition Release :: "'s backend \<Rightarrow> bool \<Rightarrow> ('s, bool) eff" where
  "Release b released = (if released then returnE True else tryE (va_Close (b_Adapter b)) (\<lambda>_. returnE True))"

definition cleanup_afresh :: "'s test_env \<Rightarrow> 's backend \<Rightarrow> ('s, unit) eff" where
  "cleanup_afresh te b =
     tryE (te_NewAdapter te (b_AdapterName b) (b_ModulePath b)) (\<lambda>r. case r of
         Inl _ \<Rightarrow> returnE ()
       | Inr fresh \<Rightarrow> finallyE (va_Close fresh) (tryE (destroyAllRunObjects te b fresh) (\<lambda>_. returnE ())))"

definition backend_Cleanup :: "'s test_env \<Rightarrow> 's backend \<Rightarrow> bool \<Rightarrow> ('s, bool) eff" where
  "backend_Cleanup te b released =
     (if released then bindE (cleanup_afresh te b) (\<lambda>_. returnE released)
      else tryE (destroyAllRunObjects te b (b_Adapter b)) (\<lambda>r. case r of
          Inr _ \<Rightarrow> returnE released
        | Inl _ \<Rightarrow> bindE (Release b released) (\<lambda>released'. bindE (cleanup_afresh te b) (\<lambda>_. returnE released'))))"

definition PrimaryPINFunc :: "'s test_env \<Rightarrow> 's backend \<Rightarrow> ('s, buffer) eff" where
  "PrimaryPINFunc te b = te_bytes te (b_PrimaryPIN b)"

definition SecondaryPINFunc :: "'s test_env \<Rightarrow> 's backend \<Rightarrow> ('s, buffer) eff" where
  "SecondaryPINFunc te b = te_bytes te (b_SecondaryPIN b)"

section \<open>Setting up\<close>

definition MustFindWorkspace :: "'s vendor_adapter \<Rightarrow> string \<Rightarrow> ('s, workspace) eff" where
  "MustFindWorkspace ad label =
     bindE (must (va_Workspaces ad)) (\<lambda>wss.
     case find (\<lambda>w. ws_Label w = label) wss of
       None \<Rightarrow> t_Fatal ''workspace not found''
     | Some w \<Rightarrow> if ws_Serial w = [] then t_Fatal ''workspace carries no token serial'' else returnE w)"

definition runID :: "'s test_env \<Rightarrow> ('s, string) eff" where
  "runID te s = (case te_UnixNano te s of (n, s') \<Rightarrow> (Inr (show_int n), s'))"

definition RequireSoftHSM2 :: "'s test_env \<Rightarrow> string res" where
  "RequireSoftHSM2 te =
     (let modulePath = (if te_Getenv te ''SOFTHSM2_MODULE'' = [] then ''/usr/lib/softhsm/libsofthsm2.so''
                        else te_Getenv te ''SOFTHSM2_MODULE'')
      in if te_exists te modulePath then Inr modulePath else Inl Skipped)"

definition pad06 :: "nat \<Rightarrow> string" where
  "pad06 n = replicate (6 - length (show_nat n)) (CHR ''0'') @ show_nat n"

fun init_tokens :: "'s test_env \<Rightarrow> nat \<Rightarrow> string list \<Rightarrow> ('s, string list) eff" where
  "init_tokens te i [] = returnE []"
| "init_tokens te i (label # labels) =
     (let pin = pad06 (111111 * (i + 1)) in
      bindE (must (te_InitToken te label pin)) (\<lambda>_.
      bindE (init_tokens te (Suc i) labels) (\<lambda>pins. returnE (pin # pins))))"

definition NewSoftHSM2Tokens :: "'s test_env \<Rightarrow> string list \<Rightarrow> ('s, string list) eff" where
  "NewSoftHSM2Tokens te labels =
     bindE (liftE (RequireSoftHSM2 te)) (\<lambda>_.
     bindE (must (te_TempDir te)) (\<lambda>dir.
     let tokenDir = te_Join te dir ''tokens''; confPath = te_Join te dir ''softhsm2.conf'' in
     bindE (must (te_MkdirAll te tokenDir)) (\<lambda>_.
     bindE (must (te_WriteFile te confPath (''directories.tokendir = '' @ tokenDir @ [CHR 0x0A] @
       ''objectstore.backend = file'' @ [CHR 0x0A] @ ''log.level = ERROR'' @ [CHR 0x0A]))) (\<lambda>_.
     bindE (must (te_Setenv te ''SOFTHSM2_CONF'' confPath)) (\<lambda>_.
     init_tokens te 0 labels)))))"

text \<open>The tail every two-token set-up shares, from the adapter to the backend.\<close>

definition two_token_backend ::
    "'s test_env \<Rightarrow> string \<Rightarrow> string \<Rightarrow> login_role \<Rightarrow> string \<Rightarrow> string \<times> string \<Rightarrow> string \<times> string \<Rightarrow> ('s, 's backend) eff" where
  "two_token_backend te name adapterName role modulePath = (\<lambda>(primaryLabel, primaryPIN) (secondaryLabel, secondaryPIN).
     bindE (must (te_NewAdapter te adapterName modulePath)) (\<lambda>ad.
     bindE (MustFindWorkspace ad primaryLabel) (\<lambda>primary.
     bindE (MustFindWorkspace ad secondaryLabel) (\<lambda>secondary.
     bindE (runID te) (\<lambda>i.
     returnE \<lparr>b_Name = name, b_Adapter = ad, b_Primary = primary, b_Secondary = secondary,
       b_PrimaryPIN = primaryPIN, b_SecondaryPIN = secondaryPIN, b_Role = role, b_ModulePath = modulePath,
       b_AdapterName = adapterName, b_RunID = i\<rparr>)))))"

definition setupSoftHSM2 :: "'s test_env \<Rightarrow> ('s, 's backend) eff" where
  "setupSoftHSM2 te =
     bindE (liftE (RequireSoftHSM2 te)) (\<lambda>modulePath.
     bindE (NewSoftHSM2Tokens te [''hsmtest-primary'', ''hsmtest-secondary'']) (\<lambda>pins.
     two_token_backend te ''SoftHSM2'' AdapterSoftHSM2 CryptoOfficer modulePath
       (''hsmtest-primary'', pins ! 0) (''hsmtest-secondary'', pins ! 1)))"

text \<open>A vendor's own tokens: both labels and both PINs, and two different labels.\<close>

definition vendor_tokens ::
    "'s test_env \<Rightarrow> string \<Rightarrow> string \<Rightarrow> string \<Rightarrow> string \<Rightarrow> ('s, (string \<times> string) \<times> string \<times> string) eff" where
  "vendor_tokens te primaryVar secondaryVar primaryPINVar secondaryPINVar =
     (let primaryLabel = te_Getenv te primaryVar; secondaryLabel = te_Getenv te secondaryVar;
          primaryPIN = te_Getenv te primaryPINVar; secondaryPIN = te_Getenv te secondaryPINVar in
      if primaryLabel = [] \<or> secondaryLabel = [] \<or> primaryPIN = [] \<or> secondaryPIN = []
      then t_Fatal ''module set but another variable is not''
      else if primaryLabel = secondaryLabel then t_Fatal ''both variables name the same token''
      else returnE ((primaryLabel, primaryPIN), secondaryLabel, secondaryPIN))"

definition setupProtectServer :: "'s test_env \<Rightarrow> ('s, 's backend) eff" where
  "setupProtectServer te =
     (let modulePath = te_Getenv te ''PROTECTSERVER_MODULE'' in
      if modulePath = [] then throwE Skipped
      else bindE (vendor_tokens te ''PROTECTSERVER_INTERMEDIATE_WORKSPACE'' ''PROTECTSERVER_ROOT_WORKSPACE''
             ''PROTECTSERVER_INTERMEDIATE_PIN'' ''PROTECTSERVER_ROOT_PIN'') (\<lambda>(primary, secondary).
           two_token_backend te ''ProtectServer'' AdapterProtectServer CryptoOfficer modulePath primary secondary))"

definition setupLuna :: "'s test_env \<Rightarrow> ('s, 's backend) eff" where
  "setupLuna te =
     (let modulePath = te_Getenv te ''LUNA_MODULE'' in
      if modulePath = [] then throwE Skipped
      else if te_Getenv te ''ChrystokiConfigurationPath'' = [] then t_Fatal ''ChrystokiConfigurationPath is not set''
      else bindE (vendor_tokens te ''LUNA_INTERMEDIATE_WORKSPACE'' ''LUNA_ROOT_WORKSPACE''
             ''LUNA_INTERMEDIATE_PIN'' ''LUNA_ROOT_PIN'') (\<lambda>(primary, secondary).
           two_token_backend te ''Luna'' AdapterLuna CryptoOfficer modulePath primary secondary))"

definition mustLunaRole :: "string \<Rightarrow> ('s, login_role) eff" where
  "mustLunaRole name = must (liftE (RoleByName AdapterLuna name))"

definition setupLunaLCO :: "'s test_env \<Rightarrow> ('s, 's backend) eff" where
  "setupLunaLCO te =
     (let modulePath = te_Getenv te ''LUNA_MODULE'' in
      if modulePath = [] then throwE Skipped
      else if te_Getenv te ''ChrystokiConfigurationPath'' = [] then t_Fatal ''ChrystokiConfigurationPath is not set''
      else bindE (vendor_tokens te ''LUNA_INTERMEDIATE_WORKSPACE'' ''LUNA_LCO_ROOT_WORKSPACE''
             ''LUNA_LCO_INTERMEDIATE_PIN'' ''LUNA_LCO_ROOT_PIN'') (\<lambda>(primary, secondary).
           bindE (mustLunaRole ''lco'') (\<lambda>role.
           two_token_backend te ''LunaLCO'' AdapterLuna role modulePath primary secondary)))"

section \<open>One token\<close>

record 's single =
  sg_Name :: string
  sg_Adapter :: "'s vendor_adapter"
  sg_Workspace :: workspace
  sg_PIN :: string
  sg_WrongPIN :: string
  sg_Role :: login_role
  sg_ModulePath :: string
  sg_AdapterName :: string
  sg_RunID :: string

text \<open>The adapter, and what closes it when the test ends: \<^verbatim>\<open>t.Cleanup\<close> is registered before the token is looked up.\<close>

definition single_token ::
    "'s test_env \<Rightarrow> string \<Rightarrow> string \<Rightarrow> login_role \<Rightarrow> string \<Rightarrow> string \<Rightarrow> string \<Rightarrow> string \<Rightarrow> ('s, string) eff \<Rightarrow> ('s, 's single) eff" where
  "single_token te name adapterName role modulePath label pin wrong newID =
     bindE (must (te_NewAdapter te adapterName modulePath)) (\<lambda>ad s.
     case bindE (MustFindWorkspace ad label) (\<lambda>ws. bindE newID (\<lambda>i.
       returnE \<lparr>sg_Name = name, sg_Adapter = ad, sg_Workspace = ws, sg_PIN = pin, sg_WrongPIN = wrong, sg_Role = role,
         sg_ModulePath = modulePath, sg_AdapterName = adapterName, sg_RunID = i\<rparr>)) s of
       (Inr x, s') \<Rightarrow> (Inr x, s')
     | (Inl err, s') \<Rightarrow> (Inl err, snd (va_Close ad s')))"

definition singleSoftHSM2 :: "'s test_env \<Rightarrow> ('s, 's single) eff" where
  "singleSoftHSM2 te =
     bindE (liftE (RequireSoftHSM2 te)) (\<lambda>modulePath.
     bindE (runID te) (\<lambda>i.
     bindE (NewSoftHSM2Tokens te [''conformance-'' @ i]) (\<lambda>pins.
     single_token te ''SoftHSM2'' AdapterSoftHSM2 CryptoOfficer modulePath (''conformance-'' @ i) (pins ! 0)
       (if pins ! 0 = ''00000000'' then ''00000001'' else ''00000000'') (returnE i))))"

definition singleProtectServer :: "'s test_env \<Rightarrow> ('s, 's single) eff" where
  "singleProtectServer te =
     (let modulePath = te_Getenv te ''PROTECTSERVER_MODULE''; label = te_Getenv te ''PROTECTSERVER_WORKSPACE'';
          pin = te_Getenv te ''PROTECTSERVER_PIN'' in
      if modulePath = [] then throwE Skipped
      else if label = [] \<or> pin = [] then t_Fatal ''module set but another variable is not''
      else single_token te ''ProtectServer'' AdapterProtectServer CryptoOfficer modulePath label pin ''00000000'' (runID te))"

definition singleLunaAs :: "'s test_env \<Rightarrow> string \<Rightarrow> login_role \<Rightarrow> string \<Rightarrow> ('s, 's single) eff" where
  "singleLunaAs te name role pinVar =
     (let modulePath = te_Getenv te ''LUNA_MODULE''; label = te_Getenv te ''LUNA_WORKSPACE''; pin = te_Getenv te pinVar in
      if modulePath = [] then throwE Skipped
      else if te_Getenv te ''ChrystokiConfigurationPath'' = [] then t_Fatal ''ChrystokiConfigurationPath is not set''
      else if label = [] \<or> pin = [] then t_Fatal ''module set but another variable is not''
      else single_token te name AdapterLuna role modulePath label pin ''00000000'' (runID te))"

definition singleLuna :: "'s test_env \<Rightarrow> ('s, 's single) eff" where
  "singleLuna te = singleLunaAs te ''Luna'' CryptoOfficer ''LUNA_PIN''"

definition singleLunaLCO :: "'s test_env \<Rightarrow> ('s, 's single) eff" where
  "singleLunaLCO te =
     (if te_Getenv te ''LUNA_MODULE'' = [] then throwE Skipped
      else bindE (mustLunaRole ''lco'') (\<lambda>role. singleLunaAs te ''LunaLCO'' role ''LUNA_LCO_PIN''))"

definition single_Reopen :: "'s test_env \<Rightarrow> 's single \<Rightarrow> ('s, 's vendor_adapter) eff" where
  "single_Reopen te sg = te_NewAdapter te (sg_AdapterName sg) (sg_ModulePath sg)"

section \<open>The registry\<close>

record 's descriptor =
  ds_name :: string
  ds_setup :: "'s test_env \<Rightarrow> ('s, 's backend) eff"
  ds_single :: "'s test_env \<Rightarrow> ('s, 's single) eff"

definition registry :: "'s descriptor list" where
  "registry =
     [\<lparr>ds_name = ''SoftHSM2'', ds_setup = setupSoftHSM2, ds_single = singleSoftHSM2\<rparr>,
      \<lparr>ds_name = ''ProtectServer'', ds_setup = setupProtectServer, ds_single = singleProtectServer\<rparr>,
      \<lparr>ds_name = ''Luna'', ds_setup = setupLuna, ds_single = singleLuna\<rparr>,
      \<lparr>ds_name = ''LunaLCO'', ds_setup = setupLunaLCO, ds_single = singleLunaLCO\<rparr>]"

definition Vendors :: "string list" where
  "Vendors = map ds_name (registry :: unit descriptor list)"

text \<open>
  A subtest: the set-up, the test, then what the set-up registered, last in first out. The
  test answers with its result and whether it released the backend.
\<close>

definition subtest ::
    "'s test_env \<Rightarrow> ('s, 's backend) eff \<Rightarrow> ('s backend \<Rightarrow> 's \<Rightarrow> (unit res \<times> bool) \<times> 's) \<Rightarrow> ('s, unit) eff" where
  "subtest te setup fn =
     bindE setup (\<lambda>b s.
     let ((r, released), s1) = fn b s;
         (c, s2) = backend_Cleanup te b released s1;
         (_, s3) = Release b (case c of Inr released' \<Rightarrow> released' | Inl _ \<Rightarrow> released) s2
     in (r, s3))"

fun run_subtests ::
    "'s test_env \<Rightarrow> 's descriptor list \<Rightarrow> ('s backend \<Rightarrow> 's \<Rightarrow> (unit res \<times> bool) \<times> 's) \<Rightarrow> 's \<Rightarrow> (string \<times> unit res) list \<times> 's" where
  "run_subtests te [] fn s = ([], s)"
| "run_subtests te (d # ds) fn s =
     (let (r, s1) = subtest te (ds_setup d te) fn s; (rs, s2) = run_subtests te ds fn s1 in ((ds_name d, r) # rs, s2))"

definition ForEach ::
    "'s test_env \<Rightarrow> ('s backend \<Rightarrow> 's \<Rightarrow> (unit res \<times> bool) \<times> 's) \<Rightarrow> 's \<Rightarrow> (string \<times> unit res) list \<times> 's" where
  "ForEach te fn = run_subtests te registry fn"


text \<open>The single-token subtests end by closing the adapter they were given.\<close>

definition subtest_single ::
    "'s test_env \<Rightarrow> ('s, 's single) eff \<Rightarrow> ('s single \<Rightarrow> ('s, unit) eff) \<Rightarrow> ('s, unit) eff" where
  "subtest_single te single fn =
     bindE single (\<lambda>sg s. case fn sg s of (r, s1) \<Rightarrow> (r, snd (va_Close (sg_Adapter sg) s1)))"

fun ForEachSingle ::
    "'s test_env \<Rightarrow> 's descriptor list \<Rightarrow> ('s single \<Rightarrow> ('s, unit) eff) \<Rightarrow> 's \<Rightarrow> (string \<times> unit res) list \<times> 's" where
  "ForEachSingle te [] fn s = ([], s)"
| "ForEachSingle te (d # ds) fn s =
     (let (r, s1) = subtest_single te (ds_single d te) fn s; (rs, s2) = ForEachSingle te ds fn s1 in ((ds_name d, r) # rs, s2))"

section \<open>A vendor is never dropped silently\<close>

text \<open>What fails is never taken for what is skipped.\<close>

definition never_skips :: "('s, 'a) eff \<Rightarrow> bool" where
  "never_skips f \<longleftrightarrow> (\<forall>s. fst (f s) \<noteq> Inl Skipped)"

named_theorems never_skips_intros

lemma never_skips_basic [never_skips_intros]:
  "never_skips (returnE x)" "never_skips (must f)" "never_skips (t_Fatal msg)" "never_skips (runID te)"
  by (auto simp: never_skips_def returnE_def must_def wrapE_def wrapR_def t_Fatal_def throwE_def runID_def
      split: prod.splits sum.splits)

lemma never_skips_bindE [never_skips_intros]:
  "never_skips f \<Longrightarrow> (\<And>x. never_skips (g x)) \<Longrightarrow> never_skips (bindE f g)"
  by (auto simp: never_skips_def bindE_def split: prod.splits sum.splits) (metis fst_conv)+

lemma never_skips_init_tokens [never_skips_intros]: "never_skips (init_tokens te i labels)"
  by (induction labels arbitrary: i) (auto simp: Let_def intro!: never_skips_intros)

lemma never_skips_MustFindWorkspace [never_skips_intros]: "never_skips (MustFindWorkspace ad label)"
  unfolding MustFindWorkspace_def
  by (intro never_skips_intros) (auto intro: never_skips_intros split: option.split)

lemma never_skips_two_token_backend [never_skips_intros]: "never_skips (two_token_backend te name a role path p q)"
  by (cases p; cases q) (auto simp: two_token_backend_def intro!: never_skips_intros)

lemma never_skips_vendor_tokens [never_skips_intros]: "never_skips (vendor_tokens te v w x y)"
  by (auto simp: vendor_tokens_def Let_def intro: never_skips_intros)

lemma never_skips_mustLunaRole [never_skips_intros]: "never_skips (mustLunaRole name)"
  by (simp add: mustLunaRole_def never_skips_intros)

text \<open>A vendor's subtest is skipped exactly when its module variable is unset.\<close>

lemma setup_skips_iff:
  "fst (setupProtectServer te s) = Inl Skipped \<longleftrightarrow> te_Getenv te ''PROTECTSERVER_MODULE'' = []"
  "fst (setupLuna te s) = Inl Skipped \<longleftrightarrow> te_Getenv te ''LUNA_MODULE'' = []"
  "fst (setupLunaLCO te s) = Inl Skipped \<longleftrightarrow> te_Getenv te ''LUNA_MODULE'' = []"
proof -
  have nsD: "never_skips f \<Longrightarrow> fst (f s) \<noteq> Inl Skipped" for f :: "('a, 'a backend) eff" by (simp add: never_skips_def)
  have ns: "never_skips (bindE (vendor_tokens te v w x y) (\<lambda>(p, q). two_token_backend te name a role path p q))"
    "never_skips (bindE (vendor_tokens te v w x y) (\<lambda>(p, q). bindE (mustLunaRole l) (\<lambda>role. two_token_backend te name a role path p q)))"
    for v w x y name a role path l
    by (intro never_skips_intros; auto intro: never_skips_intros)+
  show "fst (setupProtectServer te s) = Inl Skipped \<longleftrightarrow> te_Getenv te ''PROTECTSERVER_MODULE'' = []"
    using nsD [OF ns(1)] by (auto simp: setupProtectServer_def Let_def throwE_def)
  show "fst (setupLuna te s) = Inl Skipped \<longleftrightarrow> te_Getenv te ''LUNA_MODULE'' = []"
    using nsD [OF ns(1)] by (auto simp: setupLuna_def Let_def throwE_def t_Fatal_def)
  show "fst (setupLunaLCO te s) = Inl Skipped \<longleftrightarrow> te_Getenv te ''LUNA_MODULE'' = []"
    using nsD [OF ns(2)] by (auto simp: setupLunaLCO_def Let_def throwE_def t_Fatal_def)
qed

text \<open>A backend stands on two tokens with the labels asked for, both with a serial number.\<close>

lemma MustFindWorkspace_Inr:
  assumes "MustFindWorkspace ad label s = (Inr w, s')"
  shows "ws_Label w = label \<and> ws_Serial w \<noteq> []"
proof -
  from assms obtain wss s1 where found: "(case find (\<lambda>w. ws_Label w = label) wss of None \<Rightarrow> t_Fatal ''workspace not found''
     | Some w \<Rightarrow> if ws_Serial w = [] then t_Fatal ''workspace carries no token serial'' else returnE w) s1 = (Inr w, s')"
    by (auto simp: MustFindWorkspace_def bindE_eq_Inr)
  then show ?thesis
    by (cases "find (\<lambda>w. ws_Label w = label) wss") (auto simp: t_Fatal_def find_Some_iff split: if_splits)
qed

lemma two_token_backend_Inr:
  "two_token_backend te name a role path (l1, p1) (l2, p2) s = (Inr b, s') \<Longrightarrow>
     ws_Label (b_Primary b) = l1 \<and> ws_Label (b_Secondary b) = l2 \<and> ws_Serial (b_Primary b) \<noteq> [] \<and>
     ws_Serial (b_Secondary b) \<noteq> [] \<and> b_PrimaryPIN b = p1 \<and> b_SecondaryPIN b = p2 \<and> b_Role b = role"
  by (auto simp: two_token_backend_def bindE_eq_Inr dest: MustFindWorkspace_Inr)

lemma vendor_tokens_Inr:
  "vendor_tokens te v w x y s = (Inr ((l1, p1), l2, p2), s') \<Longrightarrow> l1 \<noteq> l2 \<and> p1 \<noteq> [] \<and> p2 \<noteq> []"
  by (auto simp: vendor_tokens_def Let_def t_Fatal_def split: if_splits)

text \<open>
  A two-token set-up that does not find its second token returns with the module still
  initialised: the close is registered only on a complete backend. The single-token set-up
  registers it first.
\<close>

lemma failed_setup_leaves_adapter_open:
  assumes "te_NewAdapter te a path s = (Inr ad, s1)" "MustFindWorkspace ad l1 s1 = (Inr w, s2)"
    "MustFindWorkspace ad l2 s2 = (Inl e, s3)"
  shows "two_token_backend te name a role path (l1, p1) (l2, p2) s = (Inl e, s3)"
    and "MustFindWorkspace ad l s1 = (Inl e', s4) \<Longrightarrow>
      single_token te name a role path l p q newID s = (Inl e', snd (va_Close ad s4))"
  using assms by (simp_all add: two_token_backend_def single_token_def must_def bindE_def wrapE_def)

lemma single_token_Inr:
  assumes "single_token te name a role path label pin wrong newID s = (Inr sg, s')"
  shows "sg_PIN sg = pin \<and> sg_WrongPIN sg = wrong"
proof -
  let ?token = "\<lambda>ad. bindE (MustFindWorkspace ad label) (\<lambda>ws. bindE newID (\<lambda>i.
       returnE \<lparr>sg_Name = name, sg_Adapter = ad, sg_Workspace = ws, sg_PIN = pin, sg_WrongPIN = wrong, sg_Role = role,
         sg_ModulePath = path, sg_AdapterName = a, sg_RunID = i\<rparr>))"
  from assms obtain ad s1 where run: "(case ?token ad s1 of
       (Inr x, s') \<Rightarrow> (Inr x, s') | (Inl err, s') \<Rightarrow> (Inl err, snd (va_Close ad s'))) = (Inr sg, s')"
    unfolding single_token_def bindE_eq_Inr by blast
  then have "?token ad s1 = (Inr sg, s')" by (cases "?token ad s1"; cases "fst (?token ad s1)") auto
  then show ?thesis by (auto simp: bindE_eq_Inr)
qed

text \<open>
  The wrong PIN is documented to be wrong for the token. It is compared with the PIN for
  SoftHSM2 only: a vendor token whose PIN is eight zeros is offered its own PIN as the wrong one.
\<close>

lemma wrong_pin_may_be_right:
  assumes "te_Getenv te ''PROTECTSERVER_PIN'' = ''00000000''" "singleProtectServer te s = (Inr sg, s')"
  shows "sg_WrongPIN sg = sg_PIN sg"
  using assms by (auto simp: singleProtectServer_def Let_def t_Fatal_def dest!: single_token_Inr split: if_splits)

lemma softhsm_wrong_pin_is_wrong:
  assumes "singleSoftHSM2 te s = (Inr sg, s')"
  shows "sg_WrongPIN sg \<noteq> sg_PIN sg"
proof -
  from assms obtain pins i path s1 where "single_token te ''SoftHSM2'' AdapterSoftHSM2 CryptoOfficer path (''conformance-'' @ i)
      (pins ! 0) (if pins ! 0 = ''00000000'' then ''00000001'' else ''00000000'') (returnE i) s1 = (Inr sg, s')"
    unfolding singleSoftHSM2_def bindE_eq_Inr by blast
  from single_token_Inr [OF this] show ?thesis by (cases "pins ! 0 = ''00000000''") auto
qed

section \<open>A cleanup destroys only what its run created\<close>

lemma Label_has_prefix: "HasPrefix (Label b suffix) (labelPrefix b)"
  by (simp add: Label_def labelPrefix_def HasPrefix_iff)

lemma preserves_tryE_when:
  "preserves P f \<Longrightarrow> (\<And>s r s'. P s \<Longrightarrow> f s = (r, s') \<Longrightarrow> preserves P (g r)) \<Longrightarrow> preserves P (tryE f g)"
  by (fastforce simp: preserves_def tryE_def split: prod.splits)

context vendor_adapter
begin

lemma frame_destroy_prefixed:
  assumes "\<And>attrs a t t'. frame t \<Longrightarrow> va_GetAttributes ad s h [AttrLabel] t = (Inr attrs, t') \<Longrightarrow> attrs \<noteq> [] \<Longrightarrow>
     HasPrefix (attr_Value (hd attrs)) prefix \<Longrightarrow> preserves frame (va_DestroyObject ad s h)"
  shows "preserves frame (destroy_prefixed ad s prefix h)"
  unfolding destroy_prefixed_def
proof (rule preserves_tryE_when [OF frame_GetAttributes])
  fix t r t'
  assume t: "frame t" "va_GetAttributes ad s h [AttrLabel] t = (r, t')"
  have "preserves frame (va_DestroyObject ad s h)" if "r = Inr (a # as)" "HasPrefix (attr_Value a) prefix" for a as
    using assms [OF t(1), of "a # as" t'] t(2) that by simp
  then show "preserves frame (case r of
      Inr (a # _) \<Rightarrow> if HasPrefix (attr_Value a) prefix then wrapE ''destroy'' (va_DestroyObject ad s h) else returnE ()
    | _ \<Rightarrow> returnE ())"
    by (auto intro!: pres_intros split: sum.split list.split)
qed

lemma frame_destroyRunObjects:
  assumes "\<And>p. preserves frame (te_bytes te p)"
    and "\<And>s h attrs t t'. frame t \<Longrightarrow> va_GetAttributes ad s h [AttrLabel] t = (Inr attrs, t') \<Longrightarrow> attrs \<noteq> [] \<Longrightarrow>
     HasPrefix (attr_Value (hd attrs)) (labelPrefix b) \<Longrightarrow> preserves frame (va_DestroyObject ad s h)"
  shows "preserves frame (destroyRunObjects te b ad ws)"
  unfolding destroyRunObjects_def
  by (intro pres_intros frame_ops assms(1) frame_destroy_prefixed assms(2))

end

text \<open>
  Whatever an observer of the tokens can see that reading, logging in, opening and closing
  the module keep, and that destroying an object keeps when the token names it with this
  run's prefix, is the same after a cleanup, through the harness's adapter or a fresh one.
\<close>

lemma cleanup_destroys_only_this_run:
  assumes adapter: "\<And>ad. ad = b_Adapter b \<or> (\<exists>s s'. te_NewAdapter te (b_AdapterName b) (b_ModulePath b) s = (Inr ad, s')) \<Longrightarrow>
      vendor_adapter ad host frame \<and> preserves frame (va_Close ad) \<and>
      (\<forall>s h attrs t t'. frame t \<and> va_GetAttributes ad s h [AttrLabel] t = (Inr attrs, t') \<and> attrs \<noteq> [] \<and>
         HasPrefix (attr_Value (hd attrs)) (labelPrefix b) \<longrightarrow> preserves frame (va_DestroyObject ad s h))"
    and "preserves frame (te_NewAdapter te (b_AdapterName b) (b_ModulePath b))" "\<And>p. preserves frame (te_bytes te p)"
  shows "preserves frame (backend_Cleanup te b released)"
proof -
  have all: "preserves frame (destroyAllRunObjects te b ad)"
    if "ad = b_Adapter b \<or> (\<exists>s s'. te_NewAdapter te (b_AdapterName b) (b_ModulePath b) s = (Inr ad, s'))" for ad
    unfolding destroyAllRunObjects_def using adapter [OF that] assms(3)
    by (intro pres_intros vendor_adapter.frame_destroyRunObjects [where host = host]) blast+
  have fresh: "preserves frame (cleanup_afresh te b)"
    unfolding cleanup_afresh_def
  proof (rule preserves_tryE_when [OF assms(2)])
    fix s r s'
    assume "te_NewAdapter te (b_AdapterName b) (b_ModulePath b) s = (r, s')"
    then have "preserves frame (destroyAllRunObjects te b ad)" "preserves frame (va_Close ad)" if "r = Inr ad" for ad
      using that adapter [of ad] all [of ad] by blast+
    then show "preserves frame (case r of Inl _ \<Rightarrow> returnE ()
       | Inr fresh \<Rightarrow> finallyE (va_Close fresh) (tryE (destroyAllRunObjects te b fresh) (\<lambda>_. returnE ())))"
      by (cases r) (auto intro!: pres_intros)
  qed
  have close: "preserves frame (va_Close (b_Adapter b))" using adapter by blast
  show ?thesis
    unfolding backend_Cleanup_def Release_def by (intro pres_intros all fresh close) simp
qed

end
